(* ===== verification/Prelude.thy ===== *)
theory Prelude
  imports Main "HOL-Library.Signed_Division"
begin

text \<open>
  Shared vocabulary of the development.

  \<^item> \<open>Result\<close> values: a fallible Rust function returns \<open>'e + 'a\<close>; \<open>Err\<close> and \<open>Ok\<close> name the
    two injections and \<open>try_bind\<close> is the question-mark operator.
  \<^item> 64-bit integers: \<open>i64\<close> values are \<open>int\<close>s, with the bounds of the type and the saturating,
    checked and truncating operations written out.
  \<^item> Strings: a Rust \<open>str\<close> is its UTF-8 byte sequence, a \<open>char list\<close> (a HOL \<open>char\<close> is exactly one
    byte), so \<open>length\<close> is \<open>str::len\<close>. The \<open>core::str\<close> functions the program calls are defined
    here: \<open>strip_prefix\<close>, \<open>strip_suffix\<close>, \<open>split\<close>, \<open>split_once\<close>, \<open>trim\<close>, ASCII case folding and
    decimal formatting.
  \<^item> Self-delimiting encodings, the interface \<open>self_delimiting\<close>: the lemma library for every
    length-prefixed key and preimage of the program.
\<close>

named_theorems try_simps \<open>rules that unfold the question-mark operator\<close>
named_theorems i64_defs \<open>definitions of the 64-bit operations\<close>

type_synonym bytes = "char list"

section \<open>Results and the question-mark operator\<close>

abbreviation Ok :: "'a \<Rightarrow> 'e + 'a" where
  "Ok \<equiv> Inr"

abbreviation Err :: "'e \<Rightarrow> 'e + 'a" where
  "Err \<equiv> Inl"

text \<open>\<open>try_bind r f\<close> is \<open>f(r?)\<close>; \<open>require c e\<close> is \<open>if !c { return Err(e) }\<close>; \<open>ok_or\<close> and
  \<open>map_err\<close> are the methods of \<open>Option\<close> and \<open>Result\<close> with these names.\<close>

definition try_bind :: "'e + 'a \<Rightarrow> ('a \<Rightarrow> 'e + 'b) \<Rightarrow> 'e + 'b" where
  "try_bind r f = (case r of Inl e \<Rightarrow> Inl e | Inr a \<Rightarrow> f a)"

definition require :: "bool \<Rightarrow> 'e \<Rightarrow> 'e + unit" where
  "require c e = (if c then Inr () else Inl e)"

definition ok_or :: "'a option \<Rightarrow> 'e \<Rightarrow> 'e + 'a" where
  "ok_or x e = (case x of None \<Rightarrow> Inl e | Some a \<Rightarrow> Inr a)"

definition map_err :: "('e \<Rightarrow> 'f) \<Rightarrow> 'e + 'a \<Rightarrow> 'f + 'a" where
  "map_err f r = (case r of Inl e \<Rightarrow> Inl (f e) | Inr a \<Rightarrow> Inr a)"

lemma try_bind_simps [simp, try_simps]:
  "try_bind (Inl e) f = Inl e" "try_bind (Inr a) f = f a"
  by (simp_all add: try_bind_def)

lemma try_bind_Ok_iff [try_simps]:
  "try_bind r f = Inr b \<longleftrightarrow> (\<exists>a. r = Inr a \<and> f a = Inr b)"
  by (cases r) auto

lemma try_bind_Err_iff:
  "try_bind r f = Inl e \<longleftrightarrow> r = Inl e \<or> (\<exists>a. r = Inr a \<and> f a = Inl e)"
  by (cases r) auto

lemma require_Ok_iff [simp, try_simps]: "require c e = Inr u \<longleftrightarrow> c"
  by (simp add: require_def)

lemma require_Err_iff [simp]: "require c e = Inl e' \<longleftrightarrow> \<not> c \<and> e' = e"
  by (auto simp: require_def)

lemma require_simps [simp]: "require True e = Inr ()" "require False e = Inl e"
  by (simp_all add: require_def)

lemma ok_or_Ok_iff [simp, try_simps]: "ok_or x e = Inr a \<longleftrightarrow> x = Some a"
  by (simp add: ok_or_def split: option.splits)

lemma ok_or_simps [simp]: "ok_or None e = Inl e" "ok_or (Some a) e = Inr a"
  by (simp_all add: ok_or_def)

lemma map_err_Ok_iff [simp, try_simps]: "map_err f r = Inr a \<longleftrightarrow> r = Inr a"
  by (cases r) (simp_all add: map_err_def)

lemma map_err_simps [simp]: "map_err f (Inl e) = Inl (f e)" "map_err f (Inr a) = Inr a"
  by (simp_all add: map_err_def)

section \<open>Signed 64-bit integers\<close>

type_synonym i64 = int

definition i64_min :: int where [i64_defs]: "i64_min = - 9223372036854775808"
definition i64_max :: int where [i64_defs]: "i64_max = 9223372036854775807"

definition is_i64 :: "int \<Rightarrow> bool" where [i64_defs]:
  "is_i64 x \<longleftrightarrow> i64_min \<le> x \<and> x \<le> i64_max"

definition saturate :: "int \<Rightarrow> int" where [i64_defs]:
  "saturate x = max i64_min (min i64_max x)"

definition saturating_add :: "int \<Rightarrow> int \<Rightarrow> int" where [i64_defs]:
  "saturating_add a b = saturate (a + b)"

definition saturating_sub :: "int \<Rightarrow> int \<Rightarrow> int" where [i64_defs]:
  "saturating_sub a b = saturate (a - b)"

definition checked_i64 :: "int \<Rightarrow> int option" where
  "checked_i64 x = (if is_i64 x then Some x else None)"

definition checked_add :: "int \<Rightarrow> int \<Rightarrow> int option" where
  "checked_add a b = checked_i64 (a + b)"

definition checked_sub :: "int \<Rightarrow> int \<Rightarrow> int option" where
  "checked_sub a b = checked_i64 (a - b)"

definition checked_mul :: "int \<Rightarrow> int \<Rightarrow> int option" where
  "checked_mul a b = checked_i64 (a * b)"

lemma is_i64_saturate [simp]: "is_i64 (saturate x)"
  by (simp add: i64_defs)

lemma saturate_id: "is_i64 x \<Longrightarrow> saturate x = x"
  by (simp add: i64_defs)

lemma checked_i64_Some [simp]: "checked_i64 x = Some y \<longleftrightarrow> is_i64 x \<and> y = x"
  by (auto simp: checked_i64_def)

lemma checked_add_Some [simp]: "checked_add a b = Some y \<longleftrightarrow> is_i64 (a + b) \<and> y = a + b"
  by (simp add: checked_add_def)

lemma checked_sub_Some [simp]: "checked_sub a b = Some y \<longleftrightarrow> is_i64 (a - b) \<and> y = a - b"
  by (simp add: checked_sub_def)

lemma checked_mul_Some [simp]: "checked_mul a b = Some y \<longleftrightarrow> is_i64 (a * b) \<and> y = a * b"
  by (simp add: checked_mul_def)

text \<open>Saturation never moves a window bound past the observed instant.\<close>

lemma saturating_sub_le: "saturating_sub a b \<le> c \<Longrightarrow> is_i64 c \<Longrightarrow> c < i64_max \<Longrightarrow> a - b \<le> c"
  by (auto simp: i64_defs min_def max_def split: if_splits)

lemma less_saturating_add: "c < saturating_add a b \<Longrightarrow> is_i64 c \<Longrightarrow> c < a + b"
  by (auto simp: i64_defs min_def max_def split: if_splits)

section \<open>Strings\<close>

definition strip_prefix :: "string \<Rightarrow> string \<Rightarrow> string option" where
  "strip_prefix p s = (if take (length p) s = p then Some (drop (length p) s) else None)"

definition strip_suffix :: "string \<Rightarrow> string \<Rightarrow> string option" where
  "strip_suffix p s =
     (if length p \<le> length s \<and> drop (length s - length p) s = p
      then Some (take (length s - length p) s) else None)"

definition starts_with :: "string \<Rightarrow> string \<Rightarrow> bool" where
  "starts_with s p \<longleftrightarrow> take (length p) s = p"

definition ends_with :: "string \<Rightarrow> string \<Rightarrow> bool" where
  "ends_with s p \<longleftrightarrow> length p \<le> length s \<and> drop (length s - length p) s = p"

lemma strip_prefix_Some_iff: "strip_prefix p s = Some r \<longleftrightarrow> s = p @ r"
proof
  assume "strip_prefix p s = Some r"
  then have "take (length p) s = p" "drop (length p) s = r"
    by (auto simp: strip_prefix_def split: if_splits)
  then show "s = p @ r"
    by (metis append_take_drop_id)
qed (simp add: strip_prefix_def)

lemma strip_prefix_append [simp]: "strip_prefix p (p @ r) = Some r"
  by (simp add: strip_prefix_Some_iff)

lemma strip_suffix_Some_iff: "strip_suffix p s = Some r \<longleftrightarrow> s = r @ p"
proof
  assume "strip_suffix p s = Some r"
  then have "drop (length s - length p) s = p" "take (length s - length p) s = r"
    by (auto simp: strip_suffix_def split: if_splits)
  then show "s = r @ p"
    by (metis append_take_drop_id)
qed (simp add: strip_suffix_def)

lemma strip_suffix_append [simp]: "strip_suffix p (r @ p) = Some r"
  by (simp add: strip_suffix_Some_iff)

lemma starts_with_iff: "starts_with s p \<longleftrightarrow> (\<exists>r. s = p @ r)"
proof
  assume "starts_with s p"
  then have "strip_prefix p s = Some (drop (length p) s)"
    by (simp add: starts_with_def strip_prefix_def)
  then show "\<exists>r. s = p @ r" by (auto simp only: strip_prefix_Some_iff)
qed (auto simp: starts_with_def)

lemma ends_with_iff: "ends_with s p \<longleftrightarrow> (\<exists>r. s = r @ p)"
proof
  assume "ends_with s p"
  then have "strip_suffix p s = Some (take (length s - length p) s)"
    by (simp add: ends_with_def strip_suffix_def)
  then show "\<exists>r. s = r @ p" by (auto simp only: strip_suffix_Some_iff)
qed (auto simp: ends_with_def)

text \<open>\<open>str::split\<close> on one ASCII character: always at least one piece, empty pieces kept.\<close>

fun split_on :: "char \<Rightarrow> string \<Rightarrow> string list" where
  "split_on c [] = [[]]"
| "split_on c (x # xs) =
     (if x = c then [] # split_on c xs
      else (case split_on c xs of [] \<Rightarrow> [[x]] | p # ps \<Rightarrow> (x # p) # ps))"

fun join_with :: "string \<Rightarrow> string list \<Rightarrow> string" where
  "join_with sep [] = []"
| "join_with sep [x] = x"
| "join_with sep (x # y # ys) = x @ sep @ join_with sep (y # ys)"

lemma split_on_ne [simp]: "split_on c s \<noteq> []"
  by (induction s) (auto split: list.splits)

lemma split_on_no_sep: "c \<notin> set s \<Longrightarrow> split_on c s = [s]"
  by (induction s) auto

lemma split_on_append_sep:
  "c \<notin> set p \<Longrightarrow> split_on c (p @ c # s) = p # split_on c s"
  by (induction p) auto

lemma split_on_join:
  "ps \<noteq> [] \<Longrightarrow> (\<And>p. p \<in> set ps \<Longrightarrow> c \<notin> set p) \<Longrightarrow> split_on c (join_with [c] ps) = ps"
proof (induction ps rule: induct_list012)
  case (3 x y zs)
  then show ?case by (simp add: split_on_append_sep)
qed (auto simp: split_on_no_sep)

lemma join_split_on [simp]: "join_with [c] (split_on c s) = s"
proof (induction s)
  case (Cons x xs)
  obtain p ps where "split_on c xs = p # ps"
    by (meson neq_Nil_conv split_on_ne)
  with Cons.IH show ?case
    by (cases ps) auto
qed simp

lemma split_on_pieces: "p \<in> set (split_on c s) \<Longrightarrow> c \<notin> set p"
proof (induction s arbitrary: p)
  case (Cons x xs)
  then show ?case
    by (cases "split_on c xs") (auto split: if_splits)
qed simp

lemma join_with_inj:
  assumes "ps \<noteq> []" "qs \<noteq> []" "\<And>p. p \<in> set ps \<Longrightarrow> c \<notin> set p" "\<And>q. q \<in> set qs \<Longrightarrow> c \<notin> set q"
    and "join_with [c] ps = join_with [c] qs"
  shows "ps = qs"
proof -
  have "ps = split_on c (join_with [c] ps)" by (rule split_on_join [OF assms(1,3), symmetric])
  also have "\<dots> = split_on c (join_with [c] qs)" by (simp only: assms(5))
  also have "\<dots> = qs" by (rule split_on_join [OF assms(2,4)])
  finally show ?thesis .
qed

text \<open>\<open>str::split_once\<close> on one ASCII character.\<close>

fun split_once :: "char \<Rightarrow> string \<Rightarrow> (string \<times> string) option" where
  "split_once c [] = None"
| "split_once c (x # xs) =
     (if x = c then Some ([], xs)
      else (case split_once c xs of None \<Rightarrow> None | Some (a, b) \<Rightarrow> Some (x # a, b)))"

lemma split_once_SomeD:
  "split_once c s = Some (a, b) \<Longrightarrow> s = a @ c # b \<and> c \<notin> set a"
proof (induction s arbitrary: a)
  case (Cons x xs)
  show ?case
  proof (cases "split_once c xs")
    case None
    with Cons.prems show ?thesis by (auto split: if_splits)
  next
    case (Some r)
    with Cons.prems Cons.IH show ?thesis by (cases r) (auto split: if_splits)
  qed
qed simp

lemma split_once_append [simp]: "c \<notin> set a \<Longrightarrow> split_once c (a @ c # b) = Some (a, b)"
  by (induction a) auto

lemma split_once_Some_iff:
  "split_once c s = Some (a, b) \<longleftrightarrow> s = a @ c # b \<and> c \<notin> set a"
  using split_once_SomeD split_once_append by blast

lemma split_once_None_iff: "split_once c s = None \<longleftrightarrow> c \<notin> set s"
  by (induction s) (auto split: option.splits)

subsection \<open>Whitespace\<close>

abbreviation ord :: "char \<Rightarrow> nat" where
  "ord c \<equiv> of_char c"

text \<open>The UTF-8 encodings of the code points with the \<open>White_Space\<close> property, which is what
  \<open>str::trim\<close> removes.\<close>

definition ws_seqs :: "string list" where
  "ws_seqs =
     [[CHR 0x09], [CHR 0x0A], [CHR 0x0B], [CHR 0x0C], [CHR 0x0D], [CHR 0x20],
      [CHR 0xC2, CHR 0x85], [CHR 0xC2, CHR 0xA0], [CHR 0xE1, CHR 0x9A, CHR 0x80],
      [CHR 0xE2, CHR 0x80, CHR 0x80], [CHR 0xE2, CHR 0x80, CHR 0x81],
      [CHR 0xE2, CHR 0x80, CHR 0x82], [CHR 0xE2, CHR 0x80, CHR 0x83],
      [CHR 0xE2, CHR 0x80, CHR 0x84], [CHR 0xE2, CHR 0x80, CHR 0x85],
      [CHR 0xE2, CHR 0x80, CHR 0x86], [CHR 0xE2, CHR 0x80, CHR 0x87],
      [CHR 0xE2, CHR 0x80, CHR 0x88], [CHR 0xE2, CHR 0x80, CHR 0x89],
      [CHR 0xE2, CHR 0x80, CHR 0x8A], [CHR 0xE2, CHR 0x80, CHR 0xA8],
      [CHR 0xE2, CHR 0x80, CHR 0xA9], [CHR 0xE2, CHR 0x80, CHR 0xAF],
      [CHR 0xE2, CHR 0x81, CHR 0x9F], [CHR 0xE3, CHR 0x80, CHR 0x80]]"

function strip_while :: "string list \<Rightarrow> string \<Rightarrow> string" where
  "strip_while ws s =
     (case find (\<lambda>w. w \<noteq> [] \<and> starts_with s w) ws of
        None \<Rightarrow> s
      | Some w \<Rightarrow> strip_while ws (drop (length w) s))"
  by pat_completeness auto
termination
proof (relation "measure (\<lambda>(ws, s). length s)", simp)
  fix ws s w
  assume "find (\<lambda>w. w \<noteq> [] \<and> starts_with s w) ws = Some w"
  then have "w \<noteq> []" "starts_with s w" by (auto simp: find_Some_iff)
  then show "((ws, drop (length w) s), (ws, s)) \<in> measure (\<lambda>(ws, s). length s)"
    by (auto simp: starts_with_iff)
qed

declare strip_while.simps [simp del]

definition trim_start :: "string \<Rightarrow> string" where
  "trim_start s = strip_while ws_seqs s"

definition trim_end :: "string \<Rightarrow> string" where
  "trim_end s = rev (strip_while (map rev ws_seqs) (rev s))"

definition trim :: "string \<Rightarrow> string" where
  "trim s = trim_end (trim_start s)"

lemma strip_while_id:
  "(\<And>w. w \<in> set ws \<Longrightarrow> w \<noteq> [] \<Longrightarrow> \<not> starts_with s w) \<Longrightarrow> strip_while ws s = s"
proof -
  assume "\<And>w. w \<in> set ws \<Longrightarrow> w \<noteq> [] \<Longrightarrow> \<not> starts_with s w"
  then have "find (\<lambda>w. w \<noteq> [] \<and> starts_with s w) ws = None"
    by (auto simp: find_None_iff)
  then show ?thesis by (simp add: strip_while.simps [of ws s])
qed

lemma strip_while_idem [simp]: "strip_while ws (strip_while ws s) = strip_while ws s"
proof (induction ws s rule: strip_while.induct)
  case (1 ws s)
  then show ?case
    by (cases "find (\<lambda>w. w \<noteq> [] \<and> starts_with s w) ws")
       (simp_all add: strip_while.simps [of ws s])
qed

text \<open>Visible ASCII: no byte of it can begin or end a whitespace sequence.\<close>

definition visible :: "char \<Rightarrow> bool" where
  "visible c \<longleftrightarrow> 33 \<le> ord c \<and> ord c \<le> 126"

lemma visible_not_ws_head: "w \<in> set ws_seqs \<Longrightarrow> w \<noteq> [] \<and> \<not> visible (hd w) \<and> \<not> visible (last w)"
  by (auto simp: ws_seqs_def visible_def)

lemma trim_visible:
  assumes "s \<noteq> []" "visible (hd s)" "visible (last s)"
  shows "trim s = s"
proof -
  have "\<not> starts_with s w" if "w \<in> set ws_seqs" for w
    using visible_not_ws_head [OF that] assms(2) by (auto simp: starts_with_iff)
  then have "trim_start s = s" by (simp add: trim_start_def strip_while_id)
  moreover have nend: "\<not> starts_with (rev s) w" if "w \<in> set (map rev ws_seqs)" for w
  proof
    assume "starts_with (rev s) w"
    then obtain r where r: "rev s = w @ r" by (auto simp: starts_with_iff)
    from that obtain v where v: "v \<in> set ws_seqs" "w = rev v" by auto
    from r v have "s = rev r @ v" by (metis rev_append rev_rev_ident)
    with visible_not_ws_head [OF v(1)] assms(3) show False by simp
  qed
  have "trim_end s = s" by (subst trim_end_def, subst strip_while_id) (use nend in auto)
  ultimately show ?thesis by (simp add: trim_def)
qed

lemma trim_Nil [simp]: "trim [] = []"
  by (simp add: trim_def trim_start_def trim_end_def strip_while.simps ws_seqs_def starts_with_def)

subsection \<open>ASCII case folding\<close>

definition to_ascii_lower :: "char \<Rightarrow> char" where
  "to_ascii_lower c = (if 65 \<le> ord c \<and> ord c \<le> 90 then char_of (ord c + 32) else c)"

definition to_ascii_lowercase :: "string \<Rightarrow> string" where
  "to_ascii_lowercase s = map to_ascii_lower s"

definition eq_ignore_ascii_case :: "string \<Rightarrow> string \<Rightarrow> bool" where
  "eq_ignore_ascii_case a b \<longleftrightarrow> to_ascii_lowercase a = to_ascii_lowercase b"

subsection \<open>Decimal numbers\<close>

definition is_ascii_digit :: "char \<Rightarrow> bool" where
  "is_ascii_digit c \<longleftrightarrow> 48 \<le> ord c \<and> ord c \<le> 57"

definition digit_char :: "nat \<Rightarrow> char" where
  "digit_char n = char_of (48 + n)"

definition digit_val :: "char \<Rightarrow> nat" where
  "digit_val c = ord c - 48"

fun show_nat :: "nat \<Rightarrow> string" where
  "show_nat n = (if n < 10 then [digit_char n] else show_nat (n div 10) @ [digit_char (n mod 10)])"

declare show_nat.simps [simp del]

definition show_int :: "int \<Rightarrow> string" where
  "show_int i = (if i < 0 then CHR ''-'' # show_nat (nat (- i)) else show_nat (nat i))"

definition read_nat :: "string \<Rightarrow> nat" where
  "read_nat s = foldl (\<lambda>acc c. acc * 10 + digit_val c) 0 s"

lemma digit_char_numeral [simp]:
  "digit_char 0 = CHR ''0''" "digit_char (Suc 0) = CHR ''1''" "digit_char 2 = CHR ''2''"
  "digit_char 3 = CHR ''3''" "digit_char 4 = CHR ''4''" "digit_char 5 = CHR ''5''"
  "digit_char 6 = CHR ''6''" "digit_char 7 = CHR ''7''" "digit_char 8 = CHR ''8''"
  "digit_char 9 = CHR ''9''"
  by code_simp+

lemma ord_digit_char: "n < 10 \<Longrightarrow> ord (digit_char n) = 48 + n"
  by (simp add: digit_char_def)

lemma digit_char [simp]:
  "n < 10 \<Longrightarrow> is_ascii_digit (digit_char n)" "n < 10 \<Longrightarrow> digit_val (digit_char n) = n"
  by (simp_all add: is_ascii_digit_def digit_val_def ord_digit_char)

lemma digit_char_val [simp]: "is_ascii_digit c \<Longrightarrow> digit_char (digit_val c) = c"
  by (simp add: is_ascii_digit_def digit_val_def digit_char_def)

lemma digit_val_less [simp]: "is_ascii_digit c \<Longrightarrow> digit_val c < 10"
  unfolding is_ascii_digit_def digit_val_def by linarith

lemma read_nat_snoc [simp]: "read_nat (s @ [c]) = read_nat s * 10 + digit_val c"
  by (simp add: read_nat_def)

lemma read_nat_Nil [simp]: "read_nat [] = 0"
  by (simp add: read_nat_def)

lemma show_nat_ne [simp]: "show_nat n \<noteq> []"
  by (subst show_nat.simps) simp

lemma show_nat_digits: "c \<in> set (show_nat n) \<Longrightarrow> is_ascii_digit c"
proof (induction n rule: show_nat.induct)
  case (1 n)
  then show ?case by (subst (asm) show_nat.simps) (auto split: if_splits)
qed

lemma read_show_nat [simp]: "read_nat (show_nat n) = n"
proof (induction n rule: show_nat.induct)
  case (1 n)
  show ?case
  proof (cases "n < 10")
    case True
    then have "show_nat n = [] @ [digit_char n]" by (simp add: show_nat.simps)
    with True show ?thesis by (simp only: read_nat_snoc) simp
  next
    case False
    with 1 show ?thesis by (subst show_nat.simps) simp
  qed
qed

lemma show_nat_inj [simp]: "show_nat m = show_nat n \<longleftrightarrow> m = n"
  by (metis read_show_nat)

lemma digit_val_zero_iff:
  assumes "is_ascii_digit c"
  shows "digit_val c = 0 \<longleftrightarrow> c = CHR ''0''"
proof
  assume "digit_val c = 0"
  with digit_char_val [OF assms] have "c = digit_char 0" by simp
  then show "c = CHR ''0''" by simp
qed (simp add: digit_val_def)

lemma read_nat_single [simp]: "read_nat [c] = digit_val c"
  by (simp add: read_nat_def)

lemma read_nat_pos:
  "s \<noteq> [] \<Longrightarrow> list_all is_ascii_digit s \<Longrightarrow> hd s \<noteq> CHR ''0'' \<Longrightarrow> 0 < read_nat s"
proof (induction s rule: rev_induct)
  case (snoc c t)
  show ?case
  proof (cases "t = []")
    case True
    with snoc.prems have "digit_val c \<noteq> 0" by (simp add: digit_val_zero_iff)
    then show ?thesis by simp
  next
    case False
    with snoc show ?thesis by simp
  qed
qed simp

text \<open>Canonical decimal spellings: digits without a superfluous leading zero. Printing and reading
  are inverse to each other on them.\<close>

definition canonical_nat :: "string \<Rightarrow> bool" where
  "canonical_nat s \<longleftrightarrow> s \<noteq> [] \<and> list_all is_ascii_digit s \<and> (hd s = CHR ''0'' \<longrightarrow> length s = 1)"

lemma show_read_nat: "canonical_nat s \<Longrightarrow> show_nat (read_nat s) = s"
proof (induction s rule: rev_induct)
  case (snoc c t)
  then have c: "is_ascii_digit c" and t: "list_all is_ascii_digit t"
    by (auto simp: canonical_nat_def)
  show ?case
  proof (cases "t = []")
    case True
    with c show ?thesis by (simp add: show_nat.simps)
  next
    case False
    with snoc.prems have ct: "canonical_nat t" and hd: "hd t \<noteq> CHR ''0''"
      by (auto simp: canonical_nat_def)
    have "0 < read_nat t" using False t hd by (rule read_nat_pos)
    moreover have "show_nat (read_nat t) = t" using ct by (rule snoc.IH)
    moreover have "(read_nat t * 10 + digit_val c) div 10 = read_nat t"
      "(read_nat t * 10 + digit_val c) mod 10 = digit_val c"
      using digit_val_less [OF c] by simp_all
    ultimately show ?thesis
      using c by (simp add: show_nat.simps [of "read_nat t * 10 + digit_val c"])
  qed
qed (simp add: canonical_nat_def)

lemma canonical_show_nat: "canonical_nat (show_nat n)"
proof (induction n rule: show_nat.induct)
  case (1 n)
  show ?case
  proof (cases "n < 10")
    case True
    then show ?thesis by (subst show_nat.simps) (simp add: canonical_nat_def)
  next
    case False
    have "hd (show_nat (n div 10)) \<noteq> CHR ''0''"
    proof
      assume h: "hd (show_nat (n div 10)) = CHR ''0''"
      with 1 False have "length (show_nat (n div 10)) = 1" by (simp add: canonical_nat_def)
      with h have "show_nat (n div 10) = [CHR ''0'']" by (cases "show_nat (n div 10)") auto
      then have "n div 10 = read_nat [CHR ''0'']" by (metis read_show_nat)
      with False show False by (simp add: read_nat_def digit_val_def)
    qed
    with 1 False show ?thesis
      by (subst show_nat.simps) (auto simp: canonical_nat_def)
  qed
qed

section \<open>Self-delimiting encodings\<close>

text \<open>
  An encoding is self-delimiting on the values \<open>wf\<close> when a concatenation determines both the value
  at its head and the rest. Concatenations of self-delimiting encodings then determine every
  component: this is what makes length-prefixed keys and hash preimages injective.
\<close>

locale self_delimiting =
  fixes enc :: "'a \<Rightarrow> string" and wf :: "'a \<Rightarrow> bool"
  assumes enc_append: "wf a \<Longrightarrow> wf b \<Longrightarrow> enc a @ r = enc b @ s \<Longrightarrow> a = b \<and> r = s"
begin

lemma enc_inj: "wf a \<Longrightarrow> wf b \<Longrightarrow> enc a = enc b \<Longrightarrow> a = b"
  using enc_append [of a b "[]" "[]"] by simp

lemma enc_concat_append:
  "length xs = length ys \<Longrightarrow> list_all wf xs \<Longrightarrow> list_all wf ys \<Longrightarrow>
   concat (map enc xs) @ r = concat (map enc ys) @ s \<Longrightarrow> xs = ys \<and> r = s"
proof (induction xs ys rule: list_induct2)
  case (Cons x xs y ys)
  from Cons.prems have "x = y \<and> concat (map enc xs) @ r = concat (map enc ys) @ s"
    by (intro enc_append) simp_all
  with Cons show ?case by simp
qed simp

end

text \<open>The decimal length-prefixed field \<open>"{}:{}"\<close> of a string and its byte length.\<close>

definition dec_field :: "string \<Rightarrow> string" where
  "dec_field s = show_nat (length s) @ '':'' @ s"

lemma colon_not_in_show_nat [simp]: "CHR '':'' \<notin> set (show_nat n)"
  using show_nat_digits [of "CHR '':''" n] by (auto simp: is_ascii_digit_def)

lemma dec_field_append:
  assumes "dec_field a @ r = dec_field b @ s"
  shows "a = b \<and> r = s"
proof -
  have "split_once CHR '':'' (dec_field a @ r) = Some (show_nat (length a), a @ r)"
    "split_once CHR '':'' (dec_field b @ s) = Some (show_nat (length b), b @ s)"
    by (simp_all add: dec_field_def)
  with assms have "length a = length b" "a @ r = b @ s" by simp_all
  then show ?thesis by simp
qed

interpretation dec: self_delimiting dec_field "\<lambda>_. True"
  by unfold_locales (rule dec_field_append)

end
