(* ===== verification/Core_Error.thy ===== *)
theory Core_Error
  imports Prelude
begin

text \<open>
  The frozen error taxonomy of \<open>mcp-re-core/src/error.rs\<close> and the audit vocabulary of
  \<open>mcp-re-core/src/audit.rs\<close>, \<open>audit/half.rs\<close> and \<open>audit/reason_label.rs\<close>. The lemmas show that
  \<open>ALL_ERRORS\<close> lists every variant exactly once, that \<open>wire_code\<close> is injective (an audit reason
  determines the verdict), that every token has the prefix \<open>mcp-re.\<close>, and that an audit event
  carries a reason exactly when Core rejected.
\<close>

section \<open>The taxonomy\<close>

datatype mcp_re_error =
    MissingEnvelope | UnsupportedVersion
  | InvalidSignature | SerializationFailed
  | ExpiredRequest | ReplayDetected
  | InvalidAudience | ActorBindingFailed
  | TransportBindingFailed | AuthorizationHashMissing
  | OnBehalfOfMissing | OnBehalfOfInvalidFormat
  | ResponseSigInvalid | ResponseHashMismatch
  | DowngradeForbidden | BatchForbidden
  | NotificationForbidden | UnknownEnvelopeField
  | TrustResolverUnavailable | ReplayCacheUnavailable
  | EvidenceRetentionUnavailable | EvidenceRetentionIndeterminate
  | ExchangeInvariantViolation | AuthorizationBindingMissing
  | AuthorizationBindingTypeUnsupported | AuthorizationBindingMalformed
  | AuthorizationBindingProfileRequired | AuthorizationBindingAmbiguousBytes
  | ContinuationTypeUnsupported | ContinuationMalformed
  | MalformedEnvelope | DigestMismatch
  | ArtifactBindingFailed | RequestBindingMismatch
  | ContinuationBindingFailed | ContinuationConflict
  | DelegationCredentialMissing | DelegationCredentialInvalid
  | DelegationCredentialExpired | DelegationIssuerUntrusted
  | DelegationProfileMismatch | DelegationAudienceMismatch
  | DelegationKeyUseInvalid | DelegationTrustEpochStale
  | DelegationKeyMismatch | DelegationRevoked
  | DelegatedSigningUnavailable | UpstreamResponseInvalid
  | InnerDispatchIndeterminate | InnerPlaneUnavailable

primrec wire_code :: "mcp_re_error \<Rightarrow> string" where
  "wire_code MissingEnvelope = ''mcp-re.missing_envelope''"
| "wire_code UnsupportedVersion = ''mcp-re.unsupported_version''"
| "wire_code InvalidSignature = ''mcp-re.invalid_signature''"
| "wire_code SerializationFailed = ''mcp-re.serialization_failed''"
| "wire_code ExpiredRequest = ''mcp-re.expired_request''"
| "wire_code ReplayDetected = ''mcp-re.replay_detected''"
| "wire_code InvalidAudience = ''mcp-re.invalid_audience''"
| "wire_code ActorBindingFailed = ''mcp-re.actor_binding_failed''"
| "wire_code TransportBindingFailed = ''mcp-re.transport_binding_failed''"
| "wire_code AuthorizationHashMissing = ''mcp-re.authorization_hash_missing''"
| "wire_code OnBehalfOfMissing = ''mcp-re.on_behalf_of_missing''"
| "wire_code OnBehalfOfInvalidFormat = ''mcp-re.on_behalf_of_invalid_format''"
| "wire_code ResponseSigInvalid = ''mcp-re.response_sig_invalid''"
| "wire_code ResponseHashMismatch = ''mcp-re.response_hash_mismatch''"
| "wire_code DowngradeForbidden = ''mcp-re.downgrade_forbidden''"
| "wire_code BatchForbidden = ''mcp-re.batch_forbidden''"
| "wire_code NotificationForbidden = ''mcp-re.notification_forbidden''"
| "wire_code UnknownEnvelopeField = ''mcp-re.unknown_envelope_field''"
| "wire_code TrustResolverUnavailable = ''mcp-re.trust_resolver_unavailable''"
| "wire_code ReplayCacheUnavailable = ''mcp-re.replay_cache_unavailable''"
| "wire_code EvidenceRetentionUnavailable = ''mcp-re.evidence_retention_unavailable''"
| "wire_code EvidenceRetentionIndeterminate = ''mcp-re.evidence_retention_indeterminate''"
| "wire_code ExchangeInvariantViolation = ''mcp-re.exchange_invariant_violation''"
| "wire_code AuthorizationBindingMissing = ''mcp-re.authorization_binding_missing''"
| "wire_code AuthorizationBindingTypeUnsupported = ''mcp-re.authorization_binding_type_unsupported''"
| "wire_code AuthorizationBindingMalformed = ''mcp-re.authorization_binding_malformed''"
| "wire_code AuthorizationBindingProfileRequired = ''mcp-re.authorization_binding_profile_required''"
| "wire_code AuthorizationBindingAmbiguousBytes = ''mcp-re.authorization_binding_ambiguous_bytes''"
| "wire_code ContinuationTypeUnsupported = ''mcp-re.continuation_type_unsupported''"
| "wire_code ContinuationMalformed = ''mcp-re.continuation_malformed''"
| "wire_code MalformedEnvelope = ''mcp-re.malformed_envelope''"
| "wire_code DigestMismatch = ''mcp-re.digest_mismatch''"
| "wire_code ArtifactBindingFailed = ''mcp-re.artifact_binding_failed''"
| "wire_code RequestBindingMismatch = ''mcp-re.request_binding_mismatch''"
| "wire_code ContinuationBindingFailed = ''mcp-re.continuation_binding_failed''"
| "wire_code ContinuationConflict = ''mcp-re.continuation_conflict''"
| "wire_code DelegationCredentialMissing = ''mcp-re.delegation_credential_missing''"
| "wire_code DelegationCredentialInvalid = ''mcp-re.delegation_credential_invalid''"
| "wire_code DelegationCredentialExpired = ''mcp-re.delegation_credential_expired''"
| "wire_code DelegationIssuerUntrusted = ''mcp-re.delegation_issuer_untrusted''"
| "wire_code DelegationProfileMismatch = ''mcp-re.delegation_profile_mismatch''"
| "wire_code DelegationAudienceMismatch = ''mcp-re.delegation_audience_mismatch''"
| "wire_code DelegationKeyUseInvalid = ''mcp-re.delegation_key_use_invalid''"
| "wire_code DelegationTrustEpochStale = ''mcp-re.delegation_trust_epoch_stale''"
| "wire_code DelegationKeyMismatch = ''mcp-re.delegation_key_mismatch''"
| "wire_code DelegationRevoked = ''mcp-re.delegation_revoked''"
| "wire_code DelegatedSigningUnavailable = ''mcp-re.delegated_signing_unavailable''"
| "wire_code UpstreamResponseInvalid = ''mcp-re.upstream_response_invalid''"
| "wire_code InnerDispatchIndeterminate = ''mcp-re.inner_dispatch_indeterminate''"
| "wire_code InnerPlaneUnavailable = ''mcp-re.inner_plane_unavailable''"

definition ALL_ERRORS :: "mcp_re_error list" where
  "ALL_ERRORS =
     [MissingEnvelope, UnsupportedVersion, InvalidSignature, SerializationFailed,
      ExpiredRequest, ReplayDetected, InvalidAudience, ActorBindingFailed,
      TransportBindingFailed, AuthorizationHashMissing, OnBehalfOfMissing,
      OnBehalfOfInvalidFormat, ResponseSigInvalid, ResponseHashMismatch, DowngradeForbidden,
      BatchForbidden, NotificationForbidden, UnknownEnvelopeField, TrustResolverUnavailable,
      ReplayCacheUnavailable, EvidenceRetentionUnavailable, EvidenceRetentionIndeterminate,
      ExchangeInvariantViolation, AuthorizationBindingMissing,
      AuthorizationBindingTypeUnsupported, AuthorizationBindingMalformed,
      AuthorizationBindingProfileRequired, AuthorizationBindingAmbiguousBytes,
      ContinuationTypeUnsupported, ContinuationMalformed, UpstreamResponseInvalid,
      InnerDispatchIndeterminate, InnerPlaneUnavailable, MalformedEnvelope, DigestMismatch,
      ArtifactBindingFailed, RequestBindingMismatch, ContinuationBindingFailed,
      ContinuationConflict, DelegationCredentialMissing, DelegationCredentialInvalid,
      DelegationCredentialExpired, DelegationIssuerUntrusted, DelegationProfileMismatch,
      DelegationAudienceMismatch, DelegationKeyUseInvalid, DelegationTrustEpochStale,
      DelegationKeyMismatch, DelegationRevoked, DelegatedSigningUnavailable]"

primrec reason_label :: "mcp_re_error \<Rightarrow> string" where
  "reason_label MissingEnvelope = ''Missing MCP-RE envelope''"
| "reason_label UnsupportedVersion = ''Unsupported envelope version''"
| "reason_label InvalidSignature = ''Invalid signature''"
| "reason_label SerializationFailed = ''Serialization failed''"
| "reason_label ExpiredRequest = ''Expired request''"
| "reason_label ReplayDetected = ''Replay detected''"
| "reason_label InvalidAudience = ''Invalid audience''"
| "reason_label ActorBindingFailed = ''Signer trust binding failed''"
| "reason_label TransportBindingFailed = ''Transport binding failed''"
| "reason_label AuthorizationHashMissing = ''Authorization hash missing''"
| "reason_label OnBehalfOfMissing = ''on_behalf_of missing''"
| "reason_label OnBehalfOfInvalidFormat = ''on_behalf_of malformed''"
| "reason_label ResponseSigInvalid = ''Invalid response signature''"
| "reason_label ResponseHashMismatch = ''Response/request hash mismatch''"
| "reason_label DowngradeForbidden = ''Security downgrade forbidden''"
| "reason_label BatchForbidden = ''JSON-RPC batch forbidden''"
| "reason_label NotificationForbidden = ''Security notification forbidden''"
| "reason_label UnknownEnvelopeField = ''Unknown envelope field''"
| "reason_label TrustResolverUnavailable = ''Trust resolver unavailable''"
| "reason_label ReplayCacheUnavailable = ''Replay cache unavailable''"
| "reason_label EvidenceRetentionUnavailable = ''Retained-evidence store unavailable''"
| "reason_label EvidenceRetentionIndeterminate = ''Retained-evidence write failed after the call had already executed''"
| "reason_label ExchangeInvariantViolation = ''Exchange invariant violation''"
| "reason_label AuthorizationBindingMissing = ''authorization_binding missing''"
| "reason_label AuthorizationBindingTypeUnsupported = ''authorization_binding type unsupported''"
| "reason_label AuthorizationBindingMalformed = ''authorization_binding malformed''"
| "reason_label AuthorizationBindingProfileRequired = ''authorization_binding profile required''"
| "reason_label AuthorizationBindingAmbiguousBytes = ''authorization_binding ambiguous bytes''"
| "reason_label ContinuationTypeUnsupported = ''continuation type unsupported''"
| "reason_label ContinuationMalformed = ''continuation malformed''"
| "reason_label MalformedEnvelope = ''Malformed evidence structure''"
| "reason_label DigestMismatch = ''Content-Digest mismatch''"
| "reason_label ArtifactBindingFailed = ''Artifact binding failed''"
| "reason_label RequestBindingMismatch = ''Response/request binding mismatch''"
| "reason_label ContinuationBindingFailed = ''Continuation binding failed''"
| "reason_label ContinuationConflict = ''Continuation already open for this request state''"
| "reason_label DelegationCredentialMissing = ''Delegation credential missing''"
| "reason_label DelegationCredentialInvalid = ''Delegation credential invalid''"
| "reason_label DelegationCredentialExpired = ''Delegation credential expired''"
| "reason_label DelegationIssuerUntrusted = ''Delegation issuer untrusted''"
| "reason_label DelegationProfileMismatch = ''Delegation profile mismatch''"
| "reason_label DelegationAudienceMismatch = ''Delegation audience/scope mismatch''"
| "reason_label DelegationKeyUseInvalid = ''Delegation key-use invalid''"
| "reason_label DelegationTrustEpochStale = ''Delegation trust epoch stale''"
| "reason_label DelegationKeyMismatch = ''Delegation key mismatch''"
| "reason_label DelegationRevoked = ''Delegation revoked''"
| "reason_label DelegatedSigningUnavailable = ''Delegated signing unavailable''"
| "reason_label UpstreamResponseInvalid = ''Upstream response is not a legal MCP response''"
| "reason_label InnerDispatchIndeterminate = ''Inner transport failed after the request was transmitted; execution unknown''"
| "reason_label InnerPlaneUnavailable = ''Inner plane could not begin a dispatch''"

lemma ALL_ERRORS_complete: "e \<in> set ALL_ERRORS"
  by (cases e) (simp_all add: ALL_ERRORS_def)

lemma distinct_ALL_ERRORS: "distinct ALL_ERRORS"
  by (simp add: ALL_ERRORS_def)

lemma distinct_wire_codes: "distinct (map wire_code ALL_ERRORS)"
  by (simp add: ALL_ERRORS_def)

lemma wire_code_inj: "wire_code a = wire_code b \<Longrightarrow> a = b"
  using distinct_wire_codes ALL_ERRORS_complete
  by (auto simp: distinct_map inj_on_def)

lemma wire_code_prefix: "starts_with (wire_code e) ''mcp-re.''"
  by (cases e) (simp_all add: starts_with_def)

lemma distinct_reason_labels: "distinct (map reason_label ALL_ERRORS)"
  by (simp add: ALL_ERRORS_def)

section \<open>Audit events\<close>

text \<open>The module \<open>event_type\<close> and its three allowlists.\<close>

definition REQUEST_ACCEPTED :: string where "REQUEST_ACCEPTED = ''mcp-re.request.accepted''"
definition RESPONSE_SIGNED :: string where "RESPONSE_SIGNED = ''mcp-re.response.signed''"
definition REQUEST_REJECTED :: string where "REQUEST_REJECTED = ''mcp-re.request.rejected''"
definition RESPONSE_REJECTED :: string where "RESPONSE_REJECTED = ''mcp-re.response.rejected''"
definition DELEGATED_KEY_ISSUED :: string where
  "DELEGATED_KEY_ISSUED = ''mcp-re.delegated_key.issued''"
definition DELEGATED_KEY_ROTATED :: string where
  "DELEGATED_KEY_ROTATED = ''mcp-re.delegated_key.rotated''"
definition DELEGATED_KEY_RETIRED :: string where
  "DELEGATED_KEY_RETIRED = ''mcp-re.delegated_key.retired''"

lemmas event_type_defs =
  REQUEST_ACCEPTED_def RESPONSE_SIGNED_def REQUEST_REJECTED_def RESPONSE_REJECTED_def
  DELEGATED_KEY_ISSUED_def DELEGATED_KEY_ROTATED_def DELEGATED_KEY_RETIRED_def

definition SUCCESS_EVENT_TYPES :: "string list" where
  "SUCCESS_EVENT_TYPES = [REQUEST_ACCEPTED, RESPONSE_SIGNED]"

definition REJECTION_EVENT_TYPES :: "string list" where
  "REJECTION_EVENT_TYPES = [REQUEST_REJECTED, RESPONSE_REJECTED]"

definition KEY_LIFECYCLE_EVENT_TYPES :: "string list" where
  "KEY_LIFECYCLE_EVENT_TYPES =
     [DELEGATED_KEY_ISSUED, DELEGATED_KEY_ROTATED, DELEGATED_KEY_RETIRED]"

definition rejection_reason :: "mcp_re_error \<Rightarrow> string" where
  "rejection_reason error = wire_code error"

datatype decision = Accepted | Signed | Rejected

record audit_event =
  ev_type :: string
  ev_decision :: decision
  ev_reason :: "string option"
  ev_reason_label :: "string option"

definition request_accepted :: audit_event where
  "request_accepted =
     \<lparr>ev_type = REQUEST_ACCEPTED, ev_decision = Accepted, ev_reason = None,
      ev_reason_label = None\<rparr>"

definition response_signed :: audit_event where
  "response_signed =
     \<lparr>ev_type = RESPONSE_SIGNED, ev_decision = Signed, ev_reason = None,
      ev_reason_label = None\<rparr>"

definition request_rejected :: "mcp_re_error \<Rightarrow> audit_event" where
  "request_rejected error =
     \<lparr>ev_type = REQUEST_REJECTED, ev_decision = Rejected,
      ev_reason = Some (rejection_reason error), ev_reason_label = Some (reason_label error)\<rparr>"

definition response_rejected :: "mcp_re_error \<Rightarrow> audit_event" where
  "response_rejected error =
     \<lparr>ev_type = RESPONSE_REJECTED, ev_decision = Rejected,
      ev_reason = Some (rejection_reason error), ev_reason_label = Some (reason_label error)\<rparr>"

definition request_rejected_elsewhere :: audit_event where
  "request_rejected_elsewhere =
     \<lparr>ev_type = REQUEST_REJECTED, ev_decision = Rejected, ev_reason = None,
      ev_reason_label = None\<rparr>"

definition response_rejected_elsewhere :: audit_event where
  "response_rejected_elsewhere =
     \<lparr>ev_type = RESPONSE_REJECTED, ev_decision = Rejected, ev_reason = None,
      ev_reason_label = None\<rparr>"

datatype audit_half = HalfRequest | HalfResponse | NonExchange

definition half :: "audit_event \<Rightarrow> audit_half" where
  "half ev =
     (if ev_type ev = REQUEST_ACCEPTED \<or> ev_type ev = REQUEST_REJECTED then HalfRequest
      else if ev_type ev = RESPONSE_SIGNED \<or> ev_type ev = RESPONSE_REJECTED then HalfResponse
      else NonExchange)"

text \<open>The events the constructors of \<open>AuditEvent\<close> can build.\<close>

inductive core_event :: "audit_event \<Rightarrow> bool" where
  "core_event request_accepted"
| "core_event response_signed"
| "core_event (request_rejected e)"
| "core_event (response_rejected e)"
| "core_event request_rejected_elsewhere"
| "core_event response_rejected_elsewhere"

lemmas audit_event_defs =
  request_accepted_def response_signed_def request_rejected_def response_rejected_def
  request_rejected_elsewhere_def response_rejected_elsewhere_def rejection_reason_def

lemma core_event_vocabulary:
  assumes "core_event ev"
  shows "ev_type ev \<in> set SUCCESS_EVENT_TYPES \<and> ev_decision ev \<noteq> Rejected \<and> ev_reason ev = None
         \<or> ev_type ev \<in> set REJECTION_EVENT_TYPES \<and> ev_decision ev = Rejected
           \<and> (\<forall>r. ev_reason ev = Some r \<longrightarrow> (\<exists>e. r = wire_code e))"
  using assms
  by (cases rule: core_event.cases)
     (auto simp: audit_event_defs SUCCESS_EVENT_TYPES_def REJECTION_EVENT_TYPES_def)

lemma pinned_event_has_half:
  "ev_type ev \<in> set SUCCESS_EVENT_TYPES \<union> set REJECTION_EVENT_TYPES \<Longrightarrow> half ev \<noteq> NonExchange"
  "ev_type ev \<in> set KEY_LIFECYCLE_EVENT_TYPES \<Longrightarrow> half ev = NonExchange"
  by (auto simp: half_def SUCCESS_EVENT_TYPES_def REJECTION_EVENT_TYPES_def
      KEY_LIFECYCLE_EVENT_TYPES_def event_type_defs)

end
