(* ===== verification/Core_Calendar.thy ===== *)
theory Core_Calendar
  imports Prelude
begin

text \<open>
  The calendar arithmetic of \<open>mcp-re-core/src/time/mod.rs\<close> and \<open>mcp-re-core/src/time/format.rs\<close>:
  leap years, days since the epoch from a civil date and back. Integers are unbounded here; the
  bounds lemmas show that every admitted value fits \<open>i64\<close> with room to spare, as the source argues.
  Division is Rust's, which truncates towards zero (\<open>sdiv\<close>, \<open>smod\<close>). The lemmas relate both
  conversions to a closed form over floor division, show that \<open>days_from_civil\<close> inverts
  \<open>civil_from_days\<close> and that the latter only yields valid dates, and fix the range of the
  four-digit years.
\<close>

section \<open>Definitions\<close>

definition DAYS_IN_MONTH :: "int list" where
  "DAYS_IN_MONTH = [31, 28, 31, 30, 31, 30, 31, 31, 30, 31, 30, 31]"

definition is_leap_year :: "int \<Rightarrow> bool" where
  "is_leap_year year \<longleftrightarrow> year smod 4 = 0 \<and> year smod 100 \<noteq> 0 \<or> year smod 400 = 0"

definition days_from_civil :: "int \<Rightarrow> int \<Rightarrow> int \<Rightarrow> int" where
  "days_from_civil year month day =
     (let y = (if month \<le> 2 then year - 1 else year);
          era = (if y \<ge> 0 then y else y - 399) sdiv 400;
          yoe = y - era * 400;
          doy = (153 * (if month > 2 then month - 3 else month + 9) + 2) sdiv 5 + day - 1;
          doe = yoe * 365 + yoe sdiv 4 - yoe sdiv 100 + doy
      in era * 146097 + doe - 719468)"

definition max_day :: "int \<Rightarrow> int \<Rightarrow> int" where
  "max_day year month =
     (if month = 2 \<and> is_leap_year year then 29 else DAYS_IN_MONTH ! nat (month - 1))"

definition civil_from_days :: "int \<Rightarrow> int \<times> int \<times> int" where
  "civil_from_days z0 =
     (let z = z0 + 719468;
          era = (if z \<ge> 0 then z else z - 146096) sdiv 146097;
          doe = z - era * 146097;
          yoe = (doe - doe sdiv 1460 + doe sdiv 36524 - doe sdiv 146096) sdiv 365;
          y = yoe + era * 400;
          doy = doe - (365 * yoe + yoe sdiv 4 - yoe sdiv 100);
          mp = (5 * doy + 2) sdiv 153;
          d = doy - (153 * mp + 2) sdiv 5 + 1;
          m = (if mp < 10 then mp + 3 else mp - 9)
      in (if m \<le> 2 then y + 1 else y, m, d))"

section \<open>Civil dates\<close>

text \<open>The Gregorian year-start function in closed form, over floor division.\<close>

definition year_days :: "int \<Rightarrow> int" where
  "year_days y = 365 * y + y div 4 - y div 100 + y div 400"

definition month_days :: "int \<Rightarrow> int" where
  "month_days month = (153 * (if month > 2 then month - 3 else month + 9) + 2) div 5"

lemma sdiv_nonneg: "0 \<le> a \<Longrightarrow> 0 < b \<Longrightarrow> a sdiv b = a div (b :: int)"
  by (cases "a = 0") (simp_all add: signed_divide_int_def)

lemma floor_sdiv:
  assumes "0 < (b :: int)"
  shows "(if y \<ge> 0 then y else y - (b - 1)) sdiv b = y div b"
proof (cases "y \<ge> 0")
  case True
  then show ?thesis using assms by (simp add: sdiv_nonneg)
next
  case False
  have "b - 1 - y = b * (- (y div b)) + (b - 1 - y mod b)"
    using mult_div_mod_eq [of b y] by (simp add: algebra_simps)
  then have "(b - 1 - y) div b = - (y div b)"
    by (rule int_div_pos_eq) (use assms pos_mod_bound [of b y] pos_mod_sign [of b y] in linarith)+
  moreover have "(y - (b - 1)) sdiv b = - ((b - 1 - y) div b)"
    using False assms by (simp add: signed_divide_int_def abs_if sgn_if algebra_simps)
  ultimately show ?thesis using False by simp
qed

lemma floor_sdiv_400: "(if y \<ge> 0 then y else y - 399) sdiv 400 = y div (400 :: int)"
  using floor_sdiv [of 400 y] by (simp split: if_splits)

lemma floor_sdiv_146097: "(if y \<ge> 0 then y else y - 146096) sdiv 146097 = y div (146097 :: int)"
  using floor_sdiv [of 146097 y] by (simp split: if_splits)

lemma year_days_era: "0 \<le> yoe \<Longrightarrow> yoe < 400 \<Longrightarrow>
    year_days (400 * era + yoe) = era * 146097 + 365 * yoe + yoe div 4 - yoe div 100"
proof -
  assume yoe: "0 \<le> yoe" "yoe < 400"
  have "400 * era + yoe = yoe + 100 * era * 4" "400 * era + yoe = yoe + 4 * era * 100"
    "400 * era + yoe = yoe + era * 400" by simp_all
  then have "(400 * era + yoe) div 4 = yoe div 4 + 100 * era"
    "(400 * era + yoe) div 100 = yoe div 100 + 4 * era"
    "(400 * era + yoe) div 400 = yoe div 400 + era"
    by (metis div_mult_self1 add.commute zero_neq_numeral)+
  with yoe show ?thesis by (simp add: year_days_def)
qed

lemma days_from_civil_eq:
  assumes "1 \<le> month" "month \<le> 12"
  shows "days_from_civil year month day =
    year_days (if month \<le> 2 then year - 1 else year) + month_days month + day - 1 - 719468"
proof -
  define y where "y = (if month \<le> 2 then year - 1 else year)"
  have mod: "y - y div 400 * 400 = y mod 400"
    by (simp add: minus_div_mult_eq_mod)
  have yd: "year_days y = y div 400 * 146097 + 365 * (y mod 400) + y mod 400 div 4 - y mod 400 div 100"
    using year_days_era [of "y mod 400" "y div 400"] by simp
  have "(153 * (if month > 2 then month - 3 else month + 9) + 2) sdiv 5 = month_days month"
    using assms by (simp add: month_days_def sdiv_nonneg)
  moreover have "(y mod 400) sdiv 4 = y mod 400 div 4" "(y mod 400) sdiv 100 = y mod 400 div 100"
    by (simp_all add: sdiv_nonneg)
  ultimately show ?thesis
    unfolding days_from_civil_def Let_def y_def [symmetric] floor_sdiv_400 mod
    by (simp add: yd)
qed

text \<open>Every day of a 400-year era is \<open>d\<close> days into year \<open>r\<close> of the four-year cycle \<open>p\<close> of century
  \<open>q\<close>; the formula of the source recovers the year from the day.\<close>

lemma era_day_split:
  assumes "0 \<le> (doe :: int)" "doe < 146097"
  obtains q p r d where "0 \<le> q" "q \<le> 3" "0 \<le> p" "p \<le> 24" "0 \<le> r" "r \<le> 3" "0 \<le> d" "d \<le> 365"
    "d = 365 \<longrightarrow> r = 3 \<and> (p = 24 \<longrightarrow> q = 3)" "doe = 36524 * q + 1461 * p + 365 * r + d"
proof -
  define q where "q = min 3 (doe div 36524)"
  define e where "e = doe - 36524 * q"
  define p where "p = e div 1461"
  define f where "f = e - 1461 * p"
  define r where "r = min 3 (f div 365)"
  have q: "0 \<le> q" "q \<le> 3" "0 \<le> e" "e \<le> 36524" "q < 3 \<longrightarrow> e < 36524"
    using assms unfolding q_def e_def by (auto simp: min_def)
  then have p: "0 \<le> p" "p \<le> 24" "0 \<le> f" "f \<le> 1460" "p = 24 \<longrightarrow> f = 1460 \<longrightarrow> e = 36524"
    unfolding p_def f_def by auto
  then have "0 \<le> r" "r \<le> 3" "0 \<le> f - 365 * r" "f - 365 * r \<le> 365"
    "f - 365 * r = 365 \<longrightarrow> r = 3 \<and> f = 1460"
    unfolding r_def by (auto simp: min_def)
  with q p show ?thesis
    by (intro that [of q p r "f - 365 * r"]) (auto simp: e_def f_def)
qed

lemma year_of_era:
  assumes "0 \<le> q" "q \<le> 3" "0 \<le> p" "p \<le> 24" "0 \<le> r" "r \<le> 3" "0 \<le> d" "(d :: int) \<le> 365"
    "d = 365 \<longrightarrow> r = 3 \<and> (p = 24 \<longrightarrow> q = 3)" and doe: "doe = 36524 * q + 1461 * p + 365 * r + d"
  shows "(doe - doe div 1460 + doe div 36524 - doe div 146096) div 365 = 100 * q + 4 * p + r"
proof -
  have a: "doe div 1460 = 25 * q + p + (24 * q + p + 365 * r + d) div 1460"
  proof -
    have "doe = (24 * q + p + 365 * r + d) + (25 * q + p) * 1460" using doe by simp
    then show ?thesis by (simp only: div_mult_self1)
  qed
  have b: "doe div 36524 - doe div 146096 = q"
    using assms by (cases "q = 3 \<and> p = 24 \<and> r = 3 \<and> d = 365") auto
  define w where "w = 24 * q + p + 365 * r + d"
  have w: "0 \<le> w" "w < 2920" "d = 0 \<longrightarrow> w < 1460" "d = 365 \<longrightarrow> 1460 \<le> w"
    using assms unfolding w_def by auto
  then have "w div 1460 = (if w < 1460 then 0 else 1)" by auto
  with w assms(7,8) have c: "0 \<le> d - w div 1460" "d - w div 1460 < 365"
    by (auto split: if_splits)
  have "doe - doe div 1460 + doe div 36524 - doe div 146096
      = 365 * (100 * q + 4 * p + r) + (d - w div 1460)"
    using a b doe by (simp add: w_def)
  then show ?thesis
    by (rule int_div_pos_eq) (use c in auto)
qed

text \<open>A date is valid when the parser's range checks accept it.\<close>

definition valid_date :: "int \<Rightarrow> int \<Rightarrow> int \<Rightarrow> bool" where
  "valid_date year month day \<longleftrightarrow> 1 \<le> month \<and> month \<le> 12 \<and> 1 \<le> day \<and> day \<le> max_day year month"

lemma smod_eq_0_iff: "a smod b = 0 \<longleftrightarrow> a mod b = (0 :: int)"
proof -
  have "\<bar>a\<bar> mod \<bar>b\<bar> = 0 \<longleftrightarrow> a mod b = 0"
    by (simp add: dvd_eq_mod_eq_0 [symmetric])
  then show ?thesis by (auto simp: smod_int_alt_def sgn_if)
qed

lemma is_leap_year_mod:
  "is_leap_year year \<longleftrightarrow> year mod 4 = 0 \<and> year mod 100 \<noteq> 0 \<or> year mod 400 = 0"
  by (simp add: is_leap_year_def smod_eq_0_iff)

lemma month_cases:
  "1 \<le> month \<Longrightarrow> month \<le> (12 :: int) \<Longrightarrow>
   month = 1 \<or> month = 2 \<or> month = 3 \<or> month = 4 \<or> month = 5 \<or> month = 6 \<or> month = 7 \<or>
   month = 8 \<or> month = 9 \<or> month = 10 \<or> month = 11 \<or> month = 12"
  by presburger

lemma max_day_le: "1 \<le> month \<Longrightarrow> month \<le> 12 \<Longrightarrow> max_day year month \<le> 31"
  using month_cases [of month] by (auto simp: max_day_def DAYS_IN_MONTH_def)

text \<open>The day-of-year split of \<open>civil_from_days\<close> yields a month and a day of that month.\<close>

lemma month_of_day:
  assumes "0 \<le> (doy :: int)" "doy \<le> 365"
  defines "mp \<equiv> (5 * doy + 2) div 153"
  defines "m \<equiv> (if mp < 10 then mp + 3 else mp - 9)"
  defines "d \<equiv> doy - (153 * mp + 2) div 5 + 1"
  shows "1 \<le> m" "m \<le> 12" "1 \<le> d" "month_days m + d - 1 = doy"
    "m \<noteq> 2 \<longrightarrow> d \<le> DAYS_IN_MONTH ! nat (m - 1)" "m = 2 \<longrightarrow> d \<le> 29" "m = 2 \<and> d = 29 \<longrightarrow> doy = 365"
proof -
  have mp: "0 \<le> mp" "mp \<le> 11" "153 * mp \<le> 5 * doy + 2" "5 * doy + 2 < 153 * mp + 153"
    using assms(1,2) unfolding mp_def by auto
  from month_cases [of "mp + 1"] mp(1,2)
  have "mp = 0 \<or> mp = 1 \<or> mp = 2 \<or> mp = 3 \<or> mp = 4 \<or> mp = 5 \<or> mp = 6 \<or> mp = 7 \<or> mp = 8 \<or>
      mp = 9 \<or> mp = 10 \<or> mp = 11"
    by simp
  then show "1 \<le> m" "m \<le> 12" "1 \<le> d" "month_days m + d - 1 = doy"
    "m \<noteq> 2 \<longrightarrow> d \<le> DAYS_IN_MONTH ! nat (m - 1)" "m = 2 \<longrightarrow> d \<le> 29" "m = 2 \<and> d = 29 \<longrightarrow> doy = 365"
    using mp assms(1,2) unfolding m_def d_def
    by (auto simp: month_days_def DAYS_IN_MONTH_def)
qed

lemma civil_from_days_props:
  assumes "civil_from_days z = (y, m, d)"
  shows "days_from_civil y m d = z" "valid_date y m d"
proof -
  define era where "era = (z + 719468) div 146097"
  define doe where "doe = z + 719468 - era * 146097"
  have doe: "0 \<le> doe" "doe < 146097"
    unfolding doe_def era_def by (simp_all add: minus_div_mult_eq_mod)
  from era_day_split [OF this] obtain q p r dd where s:
    "0 \<le> q" "q \<le> 3" "0 \<le> p" "p \<le> 24" "0 \<le> r" "r \<le> 3" "0 \<le> dd" "dd \<le> 365"
    "dd = 365 \<longrightarrow> r = 3 \<and> (p = 24 \<longrightarrow> q = 3)" "doe = 36524 * q + 1461 * p + 365 * r + dd"
    by metis
  define yoe where "yoe = 100 * q + 4 * p + r"
  have yoe: "(doe - doe sdiv 1460 + doe sdiv 36524 - doe sdiv 146096) sdiv 365 = yoe"
  proof -
    have "(doe - doe div 1460 + doe div 36524 - doe div 146096) div 365 = yoe"
      unfolding yoe_def by (rule year_of_era [OF s])
    moreover have "0 \<le> doe - doe div 1460 + doe div 36524 - doe div 146096"
      using doe by simp
    ultimately show ?thesis using doe by (simp add: sdiv_nonneg)
  qed
  have yb: "0 \<le> yoe" "yoe < 400" using s by (auto simp: yoe_def)
  have doy: "doe - (365 * yoe + yoe sdiv 4 - yoe sdiv 100) = dd"
  proof -
    have "yoe div 4 = 25 * q + p" "yoe div 100 = q" using s by (auto simp: yoe_def)
    with yb s(10) show ?thesis by (simp add: sdiv_nonneg yoe_def)
  qed
  define mp where "mp = (5 * dd + 2) div 153"
  note month = month_of_day [OF s(7,8), folded mp_def]
  have mp: "(5 * dd + 2) sdiv 153 = mp" "(153 * mp + 2) sdiv 5 = (153 * mp + 2) div 5"
    using s(7) by (simp_all add: sdiv_nonneg mp_def)
  define Y where "Y = yoe + era * 400"
  have civil: "m = (if mp < 10 then mp + 3 else mp - 9)" "d = dd - (153 * mp + 2) div 5 + 1"
    "y = (if m \<le> 2 then Y + 1 else Y)"
    using assms unfolding civil_from_days_def Let_def floor_sdiv_146097 era_def [symmetric]
      doe_def [symmetric] yoe doy mp Y_def by auto
  have md: "1 \<le> m" "m \<le> 12" "1 \<le> d" "month_days m + d - 1 = dd"
    using month(1-4) civil(1,2) by simp_all
  have "year_days Y = era * 146097 + 365 * yoe + yoe div 4 - yoe div 100"
    using year_days_era [OF yb, of era] by (simp add: Y_def algebra_simps)
  moreover have "(if m \<le> 2 then y - 1 else y) = Y" using civil(3) by simp
  ultimately show "days_from_civil y m d = z"
    using days_from_civil_eq [OF md(1,2), of y d] md(4) doy yb
    by (simp add: doe_def sdiv_nonneg)
  have "is_leap_year y" if "m = 2" "d = 29"
  proof -
    from month(7) civil that have "dd = 365" by simp
    with s(9) have r: "r = 3" "p = 24 \<longrightarrow> q = 3" by simp_all
    have y: "y = 400 * era + (100 * q + 4 * p + 4)"
      using civil(3) that r by (simp add: Y_def yoe_def)
    show ?thesis
    proof (cases "p = 24")
      case True
      with r y have "y = 400 * (era + 1)" by simp
      then show ?thesis by (simp add: is_leap_year_mod)
    next
      case False
      from y have "y = 4 * (100 * era + 25 * q + p + 1)" by simp
      then have "y mod 4 = 0" by (simp only: mod_mult_self1_is_0)
      moreover from y have "y = (4 * p + 4) + (4 * era + q) * 100" by simp
      then have "y mod 100 = (4 * p + 4) mod 100" by (simp only: mod_mult_self1)
      ultimately show ?thesis using False s(3,4) by (simp add: is_leap_year_mod)
    qed
  qed
  moreover have "m \<noteq> 2 \<longrightarrow> d \<le> DAYS_IN_MONTH ! nat (m - 1)" "m = 2 \<longrightarrow> d \<le> 29"
    using month(5,6) unfolding civil(1,2) .
  moreover have "DAYS_IN_MONTH ! nat (2 - 1) = 28" by (simp add: DAYS_IN_MONTH_def)
  ultimately have "d \<le> max_day y m"
    by (cases "m = 2"; cases "d = 29") (simp_all add: max_day_def)
  with md show "valid_date y m d" by (simp add: valid_date_def)
qed

text \<open>The admitted era: years 0 to 9999 are the days -719528 to 2932896.\<close>

lemma month_days_bounds:
  assumes "valid_date year month day"
  shows "0 \<le> month_days month + day - 1" "month_days month + day - 1 \<le> 365"
    "2 < month \<Longrightarrow> month_days month + day - 1 \<le> 305" "month \<le> 2 \<Longrightarrow> 306 \<le> month_days month + day - 1"
proof -
  from assms have m: "1 \<le> month" "month \<le> 12" "1 \<le> day" "day \<le> max_day year month"
    by (simp_all add: valid_date_def)
  then show "0 \<le> month_days month + day - 1" "month_days month + day - 1 \<le> 365"
    "2 < month \<Longrightarrow> month_days month + day - 1 \<le> 305" "month \<le> 2 \<Longrightarrow> 306 \<le> month_days month + day - 1"
    using month_cases [OF m(1,2)]
    by (auto simp: month_days_def max_day_def DAYS_IN_MONTH_def split: if_splits)
qed

lemma days_from_civil_era:
  assumes "valid_date year month day"
  shows "-719528 \<le> days_from_civil year month day \<and> days_from_civil year month day \<le> 2932896
         \<longleftrightarrow> 0 \<le> year \<and> year \<le> 9999"
proof -
  define Y where "Y = (if month \<le> 2 then year - 1 else year)"
  define D where "D = month_days month + day - 1"
  note b = month_days_bounds [OF assms, folded D_def]
  have days: "days_from_civil year month day = year_days Y + D - 719468"
    using assms by (simp add: valid_date_def days_from_civil_eq Y_def D_def)
  have yd: "year_days Y = 365 * Y + Y div 4 - Y div 4 div 25 + Y div 400"
    by (simp add: year_days_def zdiv_zmult2_eq [symmetric])
  have lower: "year_days Y \<le> 365 * Y - 1" if "Y < 0"
  proof -
    have "Y div 4 < 0" "Y div 400 < 0" using that by auto
    then show ?thesis unfolding yd by linarith
  qed
  have lower0: "0 \<le> year_days Y" if "0 \<le> Y"
  proof -
    have "0 \<le> Y div 4" "0 \<le> Y div 400" using that by auto
    then show ?thesis using that unfolding yd by linarith
  qed
  have upper: "365 * Y + 2424 \<le> year_days Y" if "9999 \<le> Y"
  proof -
    have "2499 \<le> Y div 4" "24 \<le> Y div 400" using that by linarith+
    then show ?thesis unfolding yd by linarith
  qed
  have upper0: "year_days Y \<le> 365 * Y + 2425" if "Y \<le> 9998"
  proof -
    have "Y div 4 \<le> 2499" "Y div 400 \<le> 24" using that by linarith+
    then show ?thesis unfolding yd by linarith
  qed
  have special: "year_days 9999 = 3652059" "year_days (-1) = -366"
    by (simp_all add: year_days_def)
  have split: "Y = (if month \<le> 2 then year - 1 else year)" "month \<le> 2 \<Longrightarrow> 306 \<le> D"
    "\<not> month \<le> 2 \<Longrightarrow> D \<le> 305"
    using b by (simp_all add: Y_def)
  consider "Y < -1" | "Y = -1" | "0 \<le> Y" "Y \<le> 9998" | "Y = 9999" | "9999 < Y" by linarith
  then show ?thesis
  proof cases
    case 1
    with lower split(1) days b(2) show ?thesis by (cases "month \<le> 2") simp_all
  next
    case 2
    with special(2) split days b show ?thesis by (cases "month \<le> 2") auto
  next
    case 3
    with lower0 upper0 split(1) days b(1,2) show ?thesis by (cases "month \<le> 2") simp_all
  next
    case 4
    with special(1) split days b show ?thesis by (cases "month \<le> 2") auto
  next
    case 5
    with upper split(1) days b(1) show ?thesis by (cases "month \<le> 2") simp_all
  qed
qed

end
