(* ===== verification/Core_Time.thy ===== *)
theory Core_Time
  imports Core_Error Core_Calendar
begin

text \<open>
  RFC 3339 timestamps: the parser of \<open>mcp-re-core/src/time/mod.rs\<close> and the formatter of
  \<open>mcp-re-core/src/time/format.rs\<close>, over the calendar arithmetic of \<open>Core_Calendar\<close>.
  \<open>div_euclid\<close> by a positive constant is \<open>div\<close>. The lemmas show the range of admitted instants
  and that parsing inverts formatting over the whole admitted era.
\<close>

section \<open>The parser\<close>

text \<open>\<open>to_digit\<close> is \<open>char::to_digit(10)\<close> on one byte.\<close>

definition to_digit :: "char \<Rightarrow> nat option" where
  "to_digit c = (if is_ascii_digit c then Some (digit_val c) else None)"

fun accumulate_digits :: "int \<Rightarrow> bytes \<Rightarrow> int option" where
  "accumulate_digits value [] = Some value"
| "accumulate_digits value (b # bs) =
     Option.bind (to_digit b) (\<lambda>digit.
     Option.bind (checked_mul value 10) (\<lambda>v.
     Option.bind (checked_add v (int digit)) (\<lambda>v'. accumulate_digits v' bs)))"

definition parse_fixed_digits :: "bytes \<Rightarrow> nat \<Rightarrow> nat \<Rightarrow> int option" where
  "parse_fixed_digits bytes start n =
     (if length bytes < start then None
      else if length (drop start bytes) < n then None
      else accumulate_digits 0 (take n (drop start bytes)))"

definition fraction_ok :: "bytes \<Rightarrow> bool" where
  "fraction_ok tail \<longleftrightarrow>
     (if tail = ''Z'' then True
      else case tail of
        [] \<Rightarrow> False
      | c # frac \<Rightarrow>
          c = CHR ''.'' \<and> frac \<noteq> [] \<and> last frac = CHR ''Z'' \<and> butlast frac \<noteq> []
          \<and> list_all is_ascii_digit (butlast frac))"

definition parse_rfc3339_utc :: "string \<Rightarrow> mcp_re_error + int" where
  "parse_rfc3339_utc bytes =
     (if length bytes < 20 then Err ExpiredRequest
      else if bytes ! 4 \<noteq> CHR ''-'' \<or> bytes ! 7 \<noteq> CHR ''-'' \<or> bytes ! 10 \<noteq> CHR ''T''
              \<or> bytes ! 13 \<noteq> CHR '':'' \<or> bytes ! 16 \<noteq> CHR '':''
      then Err ExpiredRequest
      else case (parse_fixed_digits bytes 0 4, parse_fixed_digits bytes 5 2,
                 parse_fixed_digits bytes 8 2, parse_fixed_digits bytes 11 2,
                 parse_fixed_digits bytes 14 2, parse_fixed_digits bytes 17 2) of
        (Some year, Some month, Some day, Some hour, Some minute, Some second) \<Rightarrow>
          if \<not> fraction_ok (drop 19 bytes) then Err ExpiredRequest
          else if \<not> (1 \<le> month \<and> month \<le> 12) then Err ExpiredRequest
          else if day < 1 \<or> day > max_day year month then Err ExpiredRequest
          else if hour > 23 \<or> minute > 59 \<or> second > 59 then Err ExpiredRequest
          else Ok (days_from_civil year month day * 86400 + hour * 3600 + minute * 60 + second)
      | _ \<Rightarrow> Err ExpiredRequest)"

section \<open>The formatter\<close>

text \<open>\<open>pad0 w i\<close> is the format specification \<open>{i:0w}\<close>: the width counts the sign.\<close>

definition pad0 :: "nat \<Rightarrow> int \<Rightarrow> string" where
  "pad0 w i =
     (let ds = show_nat (nat \<bar>i\<bar>); sign = (if i < 0 then ''-'' else [])
      in sign @ replicate (w - length sign - length ds) CHR ''0'' @ ds)"

definition unix_to_rfc3339_utc :: "int \<Rightarrow> string" where
  "unix_to_rfc3339_utc unix =
     (let days = unix div 86400;
          secs = unix mod 86400
      in case civil_from_days days of (year, month, day) \<Rightarrow>
         let hh = secs sdiv 3600;
             mm = (secs smod 3600) sdiv 60;
             ss = secs smod 60
         in pad0 4 year @ ''-'' @ pad0 2 month @ ''-'' @ pad0 2 day @ ''T'' @
            pad0 2 hh @ '':'' @ pad0 2 mm @ '':'' @ pad0 2 ss @ ''Z'')"

section \<open>Digit fields\<close>

lemma accumulate_digits_bounds:
  "accumulate_digits v bs = Some r \<Longrightarrow> 0 \<le> v \<Longrightarrow> 0 \<le> r \<and> r < (v + 1) * 10 ^ length bs"
proof (induction bs arbitrary: v)
  case (Cons b bs)
  from Cons.prems(1) obtain digit where d: "to_digit b = Some digit"
    and "checked_mul v 10 = Some (v * 10)" "checked_add (v * 10) (int digit) = Some (v * 10 + int digit)"
    and r: "accumulate_digits (v * 10 + int digit) bs = Some r"
    by (auto simp: bind_eq_Some_conv i64_defs split: if_splits)
  from d have "digit < 10"
    unfolding to_digit_def is_ascii_digit_def digit_val_def by (auto split: if_splits)
  from Cons.IH [OF r] Cons.prems(2)
  have "0 \<le> r" "r < (v * 10 + int digit + 1) * 10 ^ length bs" by simp_all
  moreover have "(v * 10 + int digit + 1) * 10 ^ length bs \<le> ((v + 1) * 10) * 10 ^ length bs"
    using \<open>digit < 10\<close> by (intro mult_right_mono) simp_all
  ultimately have "r < (v + 1) * 10 * 10 ^ length bs" by (elim less_le_trans)
  with \<open>0 \<le> r\<close> show ?case by (simp add: algebra_simps)
qed simp

lemma parse_fixed_digits_bounds:
  "parse_fixed_digits bytes start n = Some r \<Longrightarrow> 0 \<le> r \<and> r < 10 ^ n"
  using accumulate_digits_bounds [of 0 "take n (drop start bytes)" r]
  by (auto simp: parse_fixed_digits_def min_def split: if_splits)

lemma accumulate_digits_append:
  "accumulate_digits v (xs @ ys) = Option.bind (accumulate_digits v xs) (\<lambda>v'. accumulate_digits v' ys)"
  by (induction xs arbitrary: v) simp_all

lemma to_digit_char: "n < 10 \<Longrightarrow> to_digit (digit_char n) = Some n"
  using read_show_nat [of n] by (simp add: to_digit_def is_ascii_digit_def digit_char_def digit_val_def)

lemma accumulate_show_nat: "int n \<le> i64_max \<Longrightarrow> accumulate_digits 0 (show_nat n) = Some (int n)"
proof (induction n rule: show_nat.induct)
  case (1 n)
  show ?case
  proof (cases "n < 10")
    case True
    then show ?thesis by (simp add: show_nat.simps [of n] to_digit_char bind_eq_Some_conv i64_defs)
  next
    case False
    have "int (n div 10) \<le> i64_max" using 1(2) by linarith
    moreover have "int (n div 10) * 10 + int (n mod 10) = int n"
      using div_mult_mod_eq [of n 10] by (metis of_nat_add of_nat_mult of_nat_numeral)
    ultimately show ?thesis
      using False 1 by (simp add: show_nat.simps [of n] accumulate_digits_append to_digit_char bind_eq_Some_conv i64_defs)
  qed
qed

lemma length_show_nat: "n < 10 ^ w \<Longrightarrow> 0 < w \<Longrightarrow> length (show_nat n) \<le> w"
proof (induction n arbitrary: w rule: show_nat.induct)
  case (1 n)
  show ?case
  proof (cases "n < 10")
    case False
    with 1(2) have "1 < w" by (cases w; cases "w - 1") auto
    moreover from this have "n div 10 < 10 ^ (w - 1)"
      using 1(2) by (cases w) auto
    ultimately show ?thesis using 1(1) [OF False, of "w - 1"] False by (simp add: show_nat.simps [of n])
  qed (use 1(3) in \<open>simp add: show_nat.simps [of n]\<close>)
qed

lemma length_pad0: "0 \<le> i \<Longrightarrow> i < 10 ^ w \<Longrightarrow> 0 < w \<Longrightarrow> length (pad0 w i) = w"
  using length_show_nat [of "nat i" w] by (simp add: pad0_def Let_def nat_less_iff)

lemma accumulate_replicate_zero: "accumulate_digits 0 (replicate k CHR ''0'') = Some 0"
  by (induction k) (simp_all add: to_digit_def is_ascii_digit_def digit_val_def bind_eq_Some_conv i64_defs)

lemma accumulate_pad0: "0 \<le> i \<Longrightarrow> i \<le> i64_max \<Longrightarrow> accumulate_digits 0 (pad0 w i) = Some i"
  by (simp add: pad0_def Let_def accumulate_digits_append accumulate_replicate_zero accumulate_show_nat)

lemma parse_pad0:
  assumes "0 \<le> i" "i < 10 ^ w" "i \<le> i64_max" "0 < w" "length xs = start"
  shows "parse_fixed_digits (xs @ pad0 w i @ ys) start w = Some i"
  using assms by (simp add: parse_fixed_digits_def length_pad0 accumulate_pad0)

section \<open>The parser's range and the round trip\<close>

lemma parse_rfc3339_utc_fields:
  assumes "parse_rfc3339_utc s = Ok v"
  obtains year month day hour minute second where
    "valid_date year month day" "0 \<le> year" "year \<le> 9999"
    "0 \<le> hour" "hour \<le> 23" "0 \<le> minute" "minute \<le> 59" "0 \<le> second" "second \<le> 59"
    "v = days_from_civil year month day * 86400 + hour * 3600 + minute * 60 + second"
proof -
  from assms obtain year month day hour minute second where f:
    "parse_fixed_digits s 0 4 = Some year" "parse_fixed_digits s 5 2 = Some month"
    "parse_fixed_digits s 8 2 = Some day" "parse_fixed_digits s 11 2 = Some hour"
    "parse_fixed_digits s 14 2 = Some minute" "parse_fixed_digits s 17 2 = Some second"
    and g: "1 \<le> month" "month \<le> 12" "\<not> day < 1" "\<not> day > max_day year month"
      "\<not> hour > 23" "\<not> minute > 59" "\<not> second > 59"
      "v = days_from_civil year month day * 86400 + hour * 3600 + minute * 60 + second"
    by (auto simp: parse_rfc3339_utc_def split: if_splits option.splits)
  note parse_fixed_digits_bounds [OF f(1)] parse_fixed_digits_bounds [OF f(4)]
    parse_fixed_digits_bounds [OF f(5)] parse_fixed_digits_bounds [OF f(6)]
  with g show thesis by (intro that [of year month day hour minute second]) (simp_all add: valid_date_def)
qed

text \<open>
  Every accepted timestamp denotes an instant of the years 0000 to 9999, so downstream
  arithmetic on it stays far from the ends of \<open>i64\<close>.
\<close>

theorem parse_rfc3339_utc_range:
  assumes "parse_rfc3339_utc s = Ok v"
  shows "-62167219200 \<le> v \<and> v \<le> 253402300799"
  using assms
proof (rule parse_rfc3339_utc_fields)
  fix year month day hour minute second
  assume "valid_date year month day" "0 \<le> year" "year \<le> 9999"
    and time: "0 \<le> hour" "hour \<le> 23" "0 \<le> minute" "minute \<le> 59" "0 \<le> second" "second \<le> 59"
      "v = days_from_civil year month day * 86400 + hour * 3600 + minute * 60 + second"
  with days_from_civil_era [of year month day]
  have "-719528 \<le> days_from_civil year month day" "days_from_civil year month day \<le> 2932896" by auto
  with time show ?thesis by linarith
qed

theorem parse_rfc3339_utc_range_witness:
  "parse_rfc3339_utc ''2024-02-29T23:59:59.75Z'' = Ok 1709251199
   \<and> (-62167219200 :: int) \<le> 1709251199 \<and> (1709251199 :: int) \<le> 253402300799"
proof -
  have "parse_rfc3339_utc ''2024-02-29T23:59:59.75Z'' = Ok 1709251199" by code_simp
  with parse_rfc3339_utc_range [OF this] show ?thesis by simp
qed

lemma parse_formatted:
  assumes "valid_date year month day" "0 \<le> year" "year \<le> 9999"
    and "0 \<le> hh" "hh \<le> 23" "0 \<le> mm" "mm \<le> 59" "0 \<le> ss" "ss \<le> 59"
  shows "parse_rfc3339_utc (pad0 4 year @ ''-'' @ pad0 2 month @ ''-'' @ pad0 2 day @ ''T'' @
           pad0 2 hh @ '':'' @ pad0 2 mm @ '':'' @ pad0 2 ss @ ''Z'')
         = Ok (days_from_civil year month day * 86400 + hh * 3600 + mm * 60 + ss)"
    (is "parse_rfc3339_utc ?s = _")
proof -
  have md: "1 \<le> month" "month \<le> 12" "1 \<le> day" "day \<le> max_day year month"
    using assms(1) by (simp_all add: valid_date_def)
  then have "day \<le> 31" using max_day_le [of month year] by simp
  then have len [simp]: "length (pad0 4 year) = 4" "length (pad0 2 month) = 2" "length (pad0 2 day) = 2"
    "length (pad0 2 hh) = 2" "length (pad0 2 mm) = 2" "length (pad0 2 ss) = 2"
    using assms md by (simp_all add: length_pad0)
  have fields: "parse_fixed_digits ?s 0 4 = Some year" "parse_fixed_digits ?s 5 2 = Some month"
    "parse_fixed_digits ?s 8 2 = Some day" "parse_fixed_digits ?s 11 2 = Some hh"
    "parse_fixed_digits ?s 14 2 = Some mm" "parse_fixed_digits ?s 17 2 = Some ss"
    using assms md \<open>day \<le> 31\<close> by (simp_all add: parse_fixed_digits_def accumulate_pad0 i64_max_def)
  have seps: "?s ! 4 = CHR ''-''" "?s ! 7 = CHR ''-''" "?s ! 10 = CHR ''T''"
    "?s ! 13 = CHR '':''" "?s ! 16 = CHR '':''" "length ?s = 20" "drop 19 ?s = ''Z''"
    by (simp_all add: nth_append)
  have "fraction_ok ''Z''" by (simp add: fraction_ok_def)
  with assms md show ?thesis
    unfolding parse_rfc3339_utc_def seps fields by (simp add: seps fields)
qed

text \<open>
  C40. Parsing inverts formatting: for every instant of the years 0000 to 9999, the rendered
  timestamp is accepted and denotes the instant it was rendered from.
\<close>

theorem parse_unix_to_rfc3339_utc:
  assumes "-62167219200 \<le> unix" "unix \<le> 253402300799"
  shows "parse_rfc3339_utc (unix_to_rfc3339_utc unix) = Ok unix"
proof -
  define days secs where "days = unix div 86400" and "secs = unix mod 86400"
  obtain year month day where c: "civil_from_days days = (year, month, day)"
    by (cases "civil_from_days days") auto
  note p = civil_from_days_props [OF c]
  have "-719528 \<le> days" "days \<le> 2932896" using assms by (simp_all add: days_def)
  with days_from_civil_era [OF p(2)] p(1) have y: "0 \<le> year" "year \<le> 9999" by auto
  have s: "0 \<le> secs" "secs < 86400" by (simp_all add: secs_def)
  define hh mm ss where "hh = secs div 3600" and "mm = secs mod 3600 div 60" and "ss = secs mod 60"
  have m: "0 \<le> secs mod 3600" "secs mod 3600 < 3600" "secs mod 60 = secs mod 3600 mod 60"
    by (simp_all add: mod_mod_cancel)
  have t: "0 \<le> hh" "hh \<le> 23" "0 \<le> mm" "mm \<le> 59" "0 \<le> ss" "ss \<le> 59"
    using s m by (simp_all add: hh_def mm_def ss_def)
  have sum: "hh * 3600 + mm * 60 + ss = secs"
    using mult_div_mod_eq [of 3600 secs] mult_div_mod_eq [of 60 "secs mod 3600"]
    by (simp add: hh_def mm_def ss_def m(3))
  have "secs smod 3600 = secs mod 3600" "secs smod 60 = secs mod 60"
    using s by (cases "secs = 0"; simp add: signed_modulo_int_def)+
  then have "unix_to_rfc3339_utc unix = pad0 4 year @ ''-'' @ pad0 2 month @ ''-'' @ pad0 2 day @ ''T'' @
           pad0 2 hh @ '':'' @ pad0 2 mm @ '':'' @ pad0 2 ss @ ''Z''"
    using s c by (simp add: unix_to_rfc3339_utc_def Let_def days_def [symmetric] secs_def [symmetric]
        hh_def mm_def ss_def sdiv_nonneg)
  also have "parse_rfc3339_utc \<dots> = Ok (days * 86400 + hh * 3600 + mm * 60 + ss)"
    using parse_formatted [OF p(2) y t] p(1) by simp
  also have "days * 86400 + hh * 3600 + mm * 60 + ss = unix"
    using sum mult_div_mod_eq [of 86400 unix] unfolding days_def secs_def by linarith
  finally show ?thesis .
qed

theorem parse_unix_to_rfc3339_utc_witness:
  "unix_to_rfc3339_utc (-1) = ''1969-12-31T23:59:59Z''
   \<and> parse_rfc3339_utc (unix_to_rfc3339_utc (-1)) = Ok (-1)"
  using parse_unix_to_rfc3339_utc [of "-1"] by (simp; code_simp)

end
