(* ===== verification/Core_Crypto.thy ===== *)
theory Core_Crypto
  imports Core_Error
begin

text \<open>
  Encoding, hashing and signatures: \<open>mcp-re-core/src/encoding.rs\<close>, \<open>hash.rs\<close> and \<open>crypto.rs\<close>.
  The algorithms themselves are the crates \<open>base64\<close>, \<open>sha2\<close> and \<open>ed25519-dalek\<close>; they are the
  fields of the record \<open>crypto_lib\<close>, an argument of every definition that calls them. What the code
  relies on of their documented behaviour is stated by the predicates \<open>b64_ok\<close>, \<open>sha256_ok\<close> and
  \<open>ed25519_ok\<close>. The lemmas show that signing and verifying agree, that key and hash identifiers
  round-trip, and that every malformed signature is reported with the caller's error.
\<close>

section \<open>The libraries\<close>

record crypto_lib =
  sha256 :: "bytes \<Rightarrow> bytes"
  url_encode :: "bytes \<Rightarrow> string"
  url_decode :: "string \<Rightarrow> bytes option"
  std_encode :: "bytes \<Rightarrow> string"
  std_decode :: "string \<Rightarrow> bytes option"
  point_valid :: "bytes \<Rightarrow> bool"
  verify_strict :: "bytes \<Rightarrow> bytes \<Rightarrow> bytes \<Rightarrow> bool"
  seed_public :: "bytes \<Rightarrow> bytes"
  seed_sign :: "bytes \<Rightarrow> bytes \<Rightarrow> bytes"

definition b64_ok :: "crypto_lib \<Rightarrow> bool" where
  "b64_ok L \<longleftrightarrow> (\<forall>b. url_decode L (url_encode L b) = Some b) \<and> (\<forall>b. std_decode L (std_encode L b) = Some b)"

definition sha256_ok :: "crypto_lib \<Rightarrow> bool" where
  "sha256_ok L \<longleftrightarrow> (\<forall>b. length (sha256 L b) = 32)"

definition ed25519_ok :: "crypto_lib \<Rightarrow> bool" where
  "ed25519_ok L \<longleftrightarrow>
     (\<forall>seed. length seed = 32 \<longrightarrow> length (seed_public L seed) = 32 \<and> point_valid L (seed_public L seed))
     \<and> (\<forall>seed m. length seed = 32 \<longrightarrow>
          length (seed_sign L seed m) = 64 \<and> verify_strict L (seed_public L seed) m (seed_sign L seed m))"

section \<open>Encoding and hashing\<close>

definition b64url_encode :: "crypto_lib \<Rightarrow> bytes \<Rightarrow> string" where
  "b64url_encode L b = url_encode L b"

definition b64url_decode :: "crypto_lib \<Rightarrow> string \<Rightarrow> mcp_re_error + bytes" where
  "b64url_decode L s = ok_or (url_decode L s) SerializationFailed"

definition SHA256_PREFIX :: string where
  "SHA256_PREFIX = ''sha256:''"

definition SHA256_LEN :: nat where
  "SHA256_LEN = 32"

definition sha256_hash_id :: "crypto_lib \<Rightarrow> bytes \<Rightarrow> string" where
  "sha256_hash_id L b = SHA256_PREFIX @ b64url_encode L (sha256 L b)"

definition parse_hash_id :: "crypto_lib \<Rightarrow> string \<Rightarrow> mcp_re_error + bytes" where
  "parse_hash_id L s =
     try_bind (ok_or (strip_prefix SHA256_PREFIX s) SerializationFailed) (\<lambda>body.
     try_bind (b64url_decode L body) (\<lambda>b.
     if length b = SHA256_LEN then Ok b else Err SerializationFailed))"

section \<open>Keys and signatures\<close>

datatype VerificationKey = VerificationKey (vk_inner: bytes)
datatype SigningKey = SigningKey (sk_inner: bytes)

definition SIGNATURE_LEN :: nat where
  "SIGNATURE_LEN = 64"

definition vk_from_bytes :: "crypto_lib \<Rightarrow> bytes \<Rightarrow> mcp_re_error + VerificationKey" where
  "vk_from_bytes L b = (if point_valid L b then Ok (VerificationKey b) else Err ActorBindingFailed)"

definition vk_from_b64url :: "crypto_lib \<Rightarrow> string \<Rightarrow> mcp_re_error + VerificationKey" where
  "vk_from_b64url L s =
     try_bind (map_err (\<lambda>_. ActorBindingFailed) (b64url_decode L s)) (\<lambda>decoded.
     if length decoded = 32 then vk_from_bytes L decoded else Err ActorBindingFailed)"

definition vk_to_b64url :: "crypto_lib \<Rightarrow> VerificationKey \<Rightarrow> string" where
  "vk_to_b64url L key = b64url_encode L (vk_inner key)"

definition from_seed_bytes :: "bytes \<Rightarrow> SigningKey" where
  "from_seed_bytes seed = SigningKey seed"

definition public_key :: "crypto_lib \<Rightarrow> SigningKey \<Rightarrow> VerificationKey" where
  "public_key L sk = VerificationKey (seed_public L (sk_inner sk))"

definition sign_b64url :: "crypto_lib \<Rightarrow> SigningKey \<Rightarrow> bytes \<Rightarrow> string" where
  "sign_b64url L sk preimage = b64url_encode L (seed_sign L (sk_inner sk) preimage)"

definition verify_ed25519_with ::
  "crypto_lib \<Rightarrow> bytes \<Rightarrow> string \<Rightarrow> VerificationKey \<Rightarrow> mcp_re_error \<Rightarrow> mcp_re_error + unit" where
  "verify_ed25519_with L preimage signature_b64url key on_error =
     (case b64url_decode L signature_b64url of
        Inl _ \<Rightarrow> Err on_error
      | Inr b \<Rightarrow>
          if length b \<noteq> SIGNATURE_LEN then Err on_error
          else if verify_strict L (vk_inner key) preimage b then Ok ()
          else Err on_error)"

definition verify_ed25519 ::
  "crypto_lib \<Rightarrow> bytes \<Rightarrow> string \<Rightarrow> VerificationKey \<Rightarrow> mcp_re_error + unit" where
  "verify_ed25519 L preimage signature_b64url key =
     verify_ed25519_with L preimage signature_b64url key InvalidSignature"

section \<open>Lemmas\<close>

lemma b64url_decode_encode [simp]: "b64_ok L \<Longrightarrow> b64url_decode L (b64url_encode L b) = Ok b"
  by (simp add: b64url_decode_def b64url_encode_def b64_ok_def ok_or_def)

lemma b64url_encode_inj: "b64_ok L \<Longrightarrow> b64url_encode L a = b64url_encode L b \<longleftrightarrow> a = b"
  by (metis b64url_decode_encode sum.inject(2))

lemma std_encode_inj: "b64_ok L \<Longrightarrow> std_encode L a = std_encode L b \<longleftrightarrow> a = b"
  by (metis b64_ok_def option.inject)

lemma sha256_hash_id_eq_iff:
  "b64_ok L \<Longrightarrow> sha256_hash_id L a = sha256_hash_id L b \<longleftrightarrow> sha256 L a = sha256 L b"
  by (simp add: sha256_hash_id_def b64url_encode_inj)

lemma parse_sha256_hash_id:
  "b64_ok L \<Longrightarrow> sha256_ok L \<Longrightarrow> parse_hash_id L (sha256_hash_id L b) = Ok (sha256 L b)"
  by (simp add: parse_hash_id_def sha256_hash_id_def strip_prefix_def sha256_ok_def SHA256_LEN_def ok_or_def)

lemma vk_b64url_roundtrip:
  "b64_ok L \<Longrightarrow> length k = 32 \<Longrightarrow> point_valid L k
   \<Longrightarrow> vk_from_b64url L (vk_to_b64url L (VerificationKey k)) = Ok (VerificationKey k)"
  by (simp add: vk_from_b64url_def vk_to_b64url_def vk_from_bytes_def map_err_def)

lemma verify_ed25519_with_Ok_iff:
  "verify_ed25519_with L m s key e = Ok () \<longleftrightarrow>
     (\<exists>b. url_decode L s = Some b \<and> length b = 64 \<and> verify_strict L (vk_inner key) m b)"
  by (auto simp: verify_ed25519_with_def b64url_decode_def ok_or_def SIGNATURE_LEN_def
      split: option.splits sum.splits)

lemma verify_ed25519_with_cases:
  "verify_ed25519_with L m s key e = Ok () \<or> verify_ed25519_with L m s key e = Err e"
  by (auto simp: verify_ed25519_with_def split: sum.splits)

lemma verify_ed25519_sign:
  "b64_ok L \<Longrightarrow> ed25519_ok L \<Longrightarrow> length (sk_inner sk) = 32
   \<Longrightarrow> verify_ed25519 L m (sign_b64url L sk m) (public_key L sk) = Ok ()"
  by (simp add: verify_ed25519_def verify_ed25519_with_def sign_b64url_def public_key_def
      ed25519_ok_def SIGNATURE_LEN_def)

text \<open>
  A concrete library that satisfies the three predicates: the codecs are the identity, the digest
  pads or truncates to 32 bytes, and a signature is the public key followed by a 32-byte digest of
  the message. It stands in for the crates when a property is evaluated on a concrete input.
\<close>

definition pad32 :: "bytes \<Rightarrow> bytes" where
  "pad32 b = take 32 b @ replicate (32 - length b) CHR ''0''"

definition demo_lib :: crypto_lib where
  "demo_lib = \<lparr> sha256 = pad32, url_encode = (\<lambda>b. b), url_decode = Some, std_encode = (\<lambda>b. b),
     std_decode = Some, point_valid = (\<lambda>b. length b = 32),
     verify_strict = (\<lambda>k m s. s = k @ pad32 m), seed_public = pad32,
     seed_sign = (\<lambda>k m. pad32 k @ pad32 m) \<rparr>"

lemma length_pad32 [simp]: "length (pad32 b) = 32"
  by (simp add: pad32_def)

lemma demo_lib_ok: "b64_ok demo_lib" "sha256_ok demo_lib" "ed25519_ok demo_lib"
  by (simp_all add: demo_lib_def b64_ok_def sha256_ok_def ed25519_ok_def)

end
