(* ===== verification/Core_Trust.thy ===== *)
theory Core_Trust
  imports Core_Crypto "HOL-Library.AList"
begin

text \<open>
  Trust resolution: \<open>mcp-re-core/src/resolver.rs\<close>. The ordered map of the in-memory resolver is an
  association list with update semantics. The locale \<open>trust_resolver\<close> is the contract a verifier
  relies on: after an insertion or a revocation a lookup of the same (signer, key id) pair returns
  exactly that, and no other pair is affected. The in-memory resolver meets it because its composed
  map key is injective, and it refines a map keyed by the pair itself.
\<close>

section \<open>Definitions\<close>

datatype TrustResolverError =
    NotFound
  | RevokedBinding
  | MalformedKey
  | ResolverUnavailable string

primrec trust_to_mcp_re_error :: "TrustResolverError \<Rightarrow> mcp_re_error" where
  "trust_to_mcp_re_error NotFound = ActorBindingFailed"
| "trust_to_mcp_re_error RevokedBinding = ActorBindingFailed"
| "trust_to_mcp_re_error MalformedKey = ActorBindingFailed"
| "trust_to_mcp_re_error (ResolverUnavailable details) = TrustResolverUnavailable"

datatype Binding = Active VerificationKey | Revoked

record InMemoryTrustResolver =
  bindings :: "(string \<times> Binding) list"

definition resolver_new :: InMemoryTrustResolver where
  "resolver_new = \<lparr> bindings = [] \<rparr>"

definition compose_key :: "string \<Rightarrow> string \<Rightarrow> string" where
  "compose_key signer key_id =
     show_nat (length signer) @ '':'' @ signer @ ''|'' @ show_nat (length key_id) @ '':'' @ key_id"

definition resolver_insert ::
  "InMemoryTrustResolver \<Rightarrow> string \<Rightarrow> string \<Rightarrow> VerificationKey \<Rightarrow> InMemoryTrustResolver" where
  "resolver_insert r signer key_id key =
     r\<lparr>bindings := AList.update (compose_key signer key_id) (Active key) (bindings r)\<rparr>"

definition resolver_revoke :: "InMemoryTrustResolver \<Rightarrow> string \<Rightarrow> string \<Rightarrow> InMemoryTrustResolver" where
  "resolver_revoke r signer key_id =
     r\<lparr>bindings := AList.update (compose_key signer key_id) Revoked (bindings r)\<rparr>"

definition resolve ::
  "InMemoryTrustResolver \<Rightarrow> string \<Rightarrow> string \<Rightarrow> TrustResolverError + VerificationKey" where
  "resolve r signer key_id =
     (case map_of (bindings r) (compose_key signer key_id) of
        Some (Active key) \<Rightarrow> Ok key
      | Some Revoked \<Rightarrow> Err RevokedBinding
      | None \<Rightarrow> Err NotFound)"

section \<open>The contract\<close>

text \<open>An operation of the registration phase, and the abstract registry it acts on.\<close>

datatype trust_op = TrustInsert string string VerificationKey | TrustRevoke string string

primrec registry_apply :: "trust_op \<Rightarrow> (string \<times> string \<rightharpoonup> Binding) \<Rightarrow> (string \<times> string \<rightharpoonup> Binding)" where
  "registry_apply (TrustInsert s k key) m = m((s, k) \<mapsto> Active key)"
| "registry_apply (TrustRevoke s k) m = m((s, k) \<mapsto> Revoked)"

definition binding_result :: "Binding option \<Rightarrow> TrustResolverError + VerificationKey" where
  "binding_result b =
     (case b of Some (Active key) \<Rightarrow> Ok key | Some Revoked \<Rightarrow> Err RevokedBinding | None \<Rightarrow> Err NotFound)"

primrec resolver_apply :: "trust_op \<Rightarrow> InMemoryTrustResolver \<Rightarrow> InMemoryTrustResolver" where
  "resolver_apply (TrustInsert s k key) r = resolver_insert r s k key"
| "resolver_apply (TrustRevoke s k) r = resolver_revoke r s k"

locale trust_resolver =
  fixes empty :: 'r
    and ins :: "'r \<Rightarrow> string \<Rightarrow> string \<Rightarrow> VerificationKey \<Rightarrow> 'r"
    and rev :: "'r \<Rightarrow> string \<Rightarrow> string \<Rightarrow> 'r"
    and res :: "'r \<Rightarrow> string \<Rightarrow> string \<Rightarrow> TrustResolverError + VerificationKey"
  assumes res_empty: "res empty s k = Err NotFound"
    and res_ins: "res (ins r s k key) s' k' = (if s' = s \<and> k' = k then Ok key else res r s' k')"
    and res_rev: "res (rev r s k) s' k' = (if s' = s \<and> k' = k then Err RevokedBinding else res r s' k')"
begin

primrec app :: "trust_op \<Rightarrow> 'r \<Rightarrow> 'r" where
  "app (TrustInsert s k key) r = ins r s k key"
| "app (TrustRevoke s k) r = rev r s k"

lemma app_refines:
  "(\<And>s k. res r s k = binding_result (m (s, k)))
   \<Longrightarrow> res (fold app ops r) s k = binding_result (fold registry_apply ops m (s, k))"
proof (induction ops arbitrary: r m)
  case (Cons op ops)
  have "res (app op r) s k = binding_result (registry_apply op m (s, k))" for s k
    using Cons.prems by (cases op) (auto simp: res_ins res_rev binding_result_def)
  then show ?case by (simp add: Cons.IH)
qed simp

lemma history_refines:
  "res (fold app ops empty) s k = binding_result (fold registry_apply ops (\<lambda>_. None) (s, k))"
  by (rule app_refines) (simp add: res_empty binding_result_def)

end

section \<open>The in-memory resolver meets the contract\<close>

lemma compose_key_fields: "compose_key s k = dec_field s @ ''|'' @ dec_field k"
  by (simp add: compose_key_def dec_field_def)

lemma compose_key_inj: "compose_key s k = compose_key s' k' \<longleftrightarrow> s = s' \<and> k = k'"
  unfolding compose_key_fields
  by (auto dest!: dec_field_append dec.enc_inj [simplified])

interpretation mem: trust_resolver resolver_new resolver_insert resolver_revoke resolve
  by unfold_locales
    (simp_all add: resolve_def resolver_new_def resolver_insert_def resolver_revoke_def
      update_conv compose_key_inj)

lemma mem_app: "mem.app = resolver_apply"
proof (intro ext)
  fix op r
  show "mem.app op r = resolver_apply op r" by (cases op) simp_all
qed

text \<open>
  C39. After any history of insertions and revocations the resolver answers exactly what a registry
  keyed by the (signer, key id) pair answers: no two pairs share a slot, the last write to a pair
  wins, a revocation is never answered with a key, and an unknown pair is not found.
\<close>

theorem resolve_refines_registry:
  "resolve (fold resolver_apply ops resolver_new) signer key_id
   = binding_result (fold registry_apply ops (\<lambda>_. None) (signer, key_id))"
  using mem.history_refines unfolding mem_app .

end
