(* ===== verification/Replay.thy ===== *)
theory Replay
  imports Core_Crypto "HOL-Library.AList"
begin

text \<open>
  Replay protection: the in-memory cache of \<open>mcp-re-core/src/replay.rs\<close>, the shared cache and its
  reference store of \<open>mcp-re-proxy/src/shared_replay.rs\<close>, and the key a request of the HTTP profile
  occupies (\<open>mcp-re-http-profile/src/replay.rs\<close>). An ordered map is an association list with
  distinct keys, \<open>retain\<close> is \<open>filter\<close>, a mutex is a poison flag beside the data it guards. The clock
  of the store is read from the operation that triggers it. The locale \<open>replay_cache\<close> is the
  contract of a cache: an accepted key is recorded until its retention deadline, whatever else
  happens. Its consequence, that no key is accepted twice before its deadline, is proved once and
  instantiated at both caches.
\<close>

section \<open>Decisions and keys\<close>

datatype ReplayDurabilityClass = SingleProcessReference | Durable

datatype ReplayDecision = Fresh | Replay

record ReplayKey =
  rk_signer :: string
  rk_principal :: string
  rk_audience :: string
  rk_nonce :: string
  rk_expires_at_unix :: int

datatype ReplayCacheError = CacheUnavailable string

primrec cache_to_mcp_re_error :: "ReplayCacheError \<Rightarrow> mcp_re_error" where
  "cache_to_mcp_re_error (CacheUnavailable details) = ReplayCacheUnavailable"

section \<open>The in-memory cache\<close>

definition POISONED :: string where
  "POISONED = ''poisoned lock: another task failed inside''"

record InMemoryReplayCache =
  max_clock_skew_secs :: int
  max_entries :: nat
  seen :: "((string \<times> string \<times> string) \<times> int) list"
  seen_poisoned :: bool

definition MAX_ENTRIES :: nat where
  "MAX_ENTRIES = 1000000"

definition cache_clone :: "InMemoryReplayCache \<Rightarrow> InMemoryReplayCache" where
  "cache_clone c =
     (if seen_poisoned c
      then \<lparr>max_clock_skew_secs = max_clock_skew_secs c, max_entries = 0, seen = [], seen_poisoned = False\<rparr>
      else \<lparr>max_clock_skew_secs = max_clock_skew_secs c, max_entries = max_entries c, seen = seen c,
            seen_poisoned = False\<rparr>)"

definition cache_new :: "int \<Rightarrow> InMemoryReplayCache" where
  "cache_new skew =
     \<lparr>max_clock_skew_secs = skew, max_entries = MAX_ENTRIES, seen = [], seen_poisoned = False\<rparr>"

definition with_max_entries :: "InMemoryReplayCache \<Rightarrow> nat \<Rightarrow> InMemoryReplayCache" where
  "with_max_entries c n = c\<lparr>max_entries := min (max_entries c) n\<rparr>"

definition cache_len :: "InMemoryReplayCache \<Rightarrow> nat" where
  "cache_len c = (if seen_poisoned c then 0 else length (seen c))"

definition cache_is_empty :: "InMemoryReplayCache \<Rightarrow> bool" where
  "cache_is_empty c \<longleftrightarrow> cache_len c = 0"

definition prune :: "InMemoryReplayCache \<Rightarrow> int \<Rightarrow> InMemoryReplayCache" where
  "prune c now = (if seen_poisoned c then c else c\<lparr>seen := filter (\<lambda>(_, until). until \<ge> now) (seen c)\<rparr>)"

definition check_and_insert ::
  "InMemoryReplayCache \<Rightarrow> string \<Rightarrow> string \<Rightarrow> string \<Rightarrow> int
   \<Rightarrow> InMemoryReplayCache \<times> (ReplayCacheError + ReplayDecision)" where
  "check_and_insert c signer audience nonce expires_at_unix =
     (let key = (signer, audience, nonce) in
      if seen_poisoned c
      then (c, Err (CacheUnavailable (''in-memory replay cache mutex poisoned: '' @ POISONED)))
      else if map_of (seen c) key \<noteq> None then (c, Ok Replay)
      else if length (seen c) \<ge> max_entries c
      then (c, Err (CacheUnavailable (''in-memory replay cache is at its '' @ show_nat (max_entries c) @
              '' entry ceiling; call prune(now) to evict entries past their retain-until'')))
      else let retain_until = saturating_add expires_at_unix (max_clock_skew_secs c)
           in (c\<lparr>seen := (key, retain_until) # seen c\<rparr>, Ok Fresh))"

definition cache_durability_class :: "InMemoryReplayCache \<Rightarrow> ReplayDurabilityClass" where
  "cache_durability_class c = SingleProcessReference"

section \<open>The shared cache and its reference store\<close>

datatype ReplayStoreError = StoreUnavailable string

primrec store_to_cache_error :: "ReplayStoreError \<Rightarrow> ReplayCacheError" where
  "store_to_cache_error (StoreUnavailable details) = CacheUnavailable details"

definition is_stale_pre_store :: "int \<Rightarrow> int \<Rightarrow> bool" where
  "is_stale_pre_store retain_until_unix now_unix \<longleftrightarrow> saturating_sub retain_until_unix now_unix \<le> 0"

definition composite_preimage :: "string \<Rightarrow> string \<Rightarrow> string \<Rightarrow> string" where
  "composite_preimage signer audience nonce =
     show_nat (length signer) @ '':'' @ signer @ ''|'' @
     show_nat (length audience) @ '':'' @ audience @ ''|'' @
     show_nat (length nonce) @ '':'' @ nonce"

definition composite_replay_key :: "crypto_lib \<Rightarrow> string \<Rightarrow> string \<Rightarrow> string \<Rightarrow> string" where
  "composite_replay_key L signer audience nonce =
     sha256_hash_id L (composite_preimage signer audience nonce)"

definition skew_folded_retain_until :: "int \<Rightarrow> int \<Rightarrow> int" where
  "skew_folded_retain_until expires_at_unix skew = saturating_add expires_at_unix skew"

definition MAX_ATOMIC_STORE_ENTRIES :: nat where
  "MAX_ATOMIC_STORE_ENTRIES = 1000000"

definition PRUNE_EVERY_N_INSERTS :: nat where
  "PRUNE_EVERY_N_INSERTS = 64"

record InMemoryAtomicReplayStore =
  st_seen :: "(string \<times> int) list"
  st_seen_poisoned :: bool
  inserts_since_prune :: nat
  counter_poisoned :: bool
  st_max_entries :: nat

definition store_new :: InMemoryAtomicReplayStore where
  "store_new = \<lparr>st_seen = [], st_seen_poisoned = False, inserts_since_prune = 0, counter_poisoned = False,
     st_max_entries = MAX_ATOMIC_STORE_ENTRIES\<rparr>"

definition store_prune :: "InMemoryAtomicReplayStore \<Rightarrow> int \<Rightarrow> InMemoryAtomicReplayStore" where
  "store_prune st now =
     (if st_seen_poisoned st then st else st\<lparr>st_seen := filter (\<lambda>(_, until). until \<ge> now) (st_seen st)\<rparr>)"

definition store_len :: "InMemoryAtomicReplayStore \<Rightarrow> nat" where
  "store_len st = (if st_seen_poisoned st then 0 else length (st_seen st))"

text \<open>The counter of inserts, and the sweep it triggers at the reading \<open>clock\<close> of the store's clock.\<close>

definition sweep :: "int \<Rightarrow> InMemoryAtomicReplayStore \<Rightarrow> InMemoryAtomicReplayStore" where
  "sweep clock st =
     (if counter_poisoned st then st
      else let since = inserts_since_prune st + 1 in
        if since \<ge> PRUNE_EVERY_N_INSERTS
        then st\<lparr>inserts_since_prune := 0, st_seen := filter (\<lambda>(_, until). until \<ge> clock) (st_seen st)\<rparr>
        else st\<lparr>inserts_since_prune := since\<rparr>)"

definition EM_DASH :: string where
  "EM_DASH = [CHR 0xE2, CHR 0x80, CHR 0x94]"

definition insert_if_absent ::
  "int \<Rightarrow> InMemoryAtomicReplayStore \<Rightarrow> string \<Rightarrow> int \<Rightarrow> int
   \<Rightarrow> InMemoryAtomicReplayStore \<times> (ReplayStoreError + ReplayDecision)" where
  "insert_if_absent clock st key expires_at_unix now_unix =
     (if is_stale_pre_store expires_at_unix now_unix
      then (st, Err (StoreUnavailable (''replay request already stale: retain_until ('' @
              show_int expires_at_unix @ '') is at or before now ('' @ show_int now_unix @ '') '' @ EM_DASH @
              '' rejected pre-store (MCPS-08, fail closed) rather than recorded as Fresh'')))
      else if st_seen_poisoned st
      then (st, Err (StoreUnavailable (''shared store mutex poisoned: '' @ POISONED)))
      else if map_of (st_seen st) key \<noteq> None then (st, Ok Replay)
      else let st' = sweep clock st in
        if length (st_seen st') \<ge> st_max_entries st'
        then (st', Err (StoreUnavailable (''in-memory shared replay store at capacity ('' @
                show_nat (st_max_entries st') @
                '' entries); refusing further nonces until expired entries are pruned'')))
        else (st'\<lparr>st_seen := (key, expires_at_unix) # st_seen st'\<rparr>, Ok Fresh))"

record SharedReplayCache =
  sh_store :: InMemoryAtomicReplayStore
  sh_max_clock_skew_secs :: int

definition shared_new :: "InMemoryAtomicReplayStore \<Rightarrow> int \<Rightarrow> SharedReplayCache" where
  "shared_new store skew = \<lparr>sh_store = store, sh_max_clock_skew_secs = skew\<rparr>"

definition shared_check_and_insert ::
  "crypto_lib \<Rightarrow> int \<Rightarrow> SharedReplayCache \<Rightarrow> string \<Rightarrow> string \<Rightarrow> string \<Rightarrow> int
   \<Rightarrow> SharedReplayCache \<times> (ReplayCacheError + ReplayDecision)" where
  "shared_check_and_insert L clock c signer audience nonce expires_at_unix =
     (let key = composite_replay_key L signer audience nonce;
          retain_until = skew_folded_retain_until expires_at_unix (sh_max_clock_skew_secs c)
      in case insert_if_absent clock (sh_store c) key retain_until 0 of
           (st, r) \<Rightarrow> (c\<lparr>sh_store := st\<rparr>, map_err store_to_cache_error r))"

section \<open>The key of an HTTP request\<close>

definition SEP :: char where
  "SEP = CHR 0x1F"

record HttpReplayKey =
  profile_id :: string
  signature_label :: string
  actor_id :: string
  audience_hash :: string
  http_nonce :: string

definition signer_slot :: "HttpReplayKey \<Rightarrow> string" where
  "signer_slot k = profile_id k @ [SEP] @ signature_label k @ [SEP] @ actor_id k"

text \<open>\<open>rsplit_once\<close> cuts at the last occurrence of the separator.\<close>

definition rsplit_once :: "char \<Rightarrow> string \<Rightarrow> (string \<times> string) option" where
  "rsplit_once c s = map_option (\<lambda>(post, pre). (rev pre, rev post)) (split_once c (rev s))"

definition principal_slot :: "HttpReplayKey \<Rightarrow> string" where
  "principal_slot k =
     (let subject = (case rsplit_once CHR '':'' (actor_id k) of Some (subject, _) \<Rightarrow> subject | None \<Rightarrow> actor_id k)
      in profile_id k @ [SEP] @ signature_label k @ [SEP] @ subject)"

definition audience_slot :: "HttpReplayKey \<Rightarrow> string" where
  "audience_slot k = audience_hash k"

definition http_check_and_insert ::
  "HttpReplayKey \<Rightarrow> (string \<Rightarrow> string \<Rightarrow> string \<Rightarrow> int \<Rightarrow> 'r) \<Rightarrow> int \<Rightarrow> 'r" where
  "http_check_and_insert k cache expires_at_unix =
     cache (signer_slot k) (audience_slot k) (http_nonce k) expires_at_unix"

definition to_core_replay_key :: "HttpReplayKey \<Rightarrow> int \<Rightarrow> ReplayKey" where
  "to_core_replay_key k expires_at_unix =
     \<lparr>rk_signer = signer_slot k, rk_principal = principal_slot k, rk_audience = audience_slot k,
      rk_nonce = http_nonce k, rk_expires_at_unix = expires_at_unix\<rparr>"

section \<open>The contract of a cache\<close>

text \<open>
  \<open>step\<close> runs one operation, \<open>insert_of\<close> tells the key and expiry of an insertion, \<open>reading\<close> the
  instant the operation may evict by, \<open>until\<close> the deadline up to which a key is recorded.
\<close>

locale replay_cache =
  fixes step :: "'s \<Rightarrow> 'o \<Rightarrow> 's \<times> (ReplayCacheError + ReplayDecision) option"
    and insert_of :: "'o \<Rightarrow> ('k \<times> int) option"
    and reading :: "'o \<Rightarrow> int option"
    and until :: "'s \<Rightarrow> 'k \<Rightarrow> int option"
    and retain :: "int \<Rightarrow> int"
    and inv :: "'s \<Rightarrow> bool"
  assumes inv_step: "inv s \<Longrightarrow> inv (fst (step s op))"
    and fresh: "inv s \<Longrightarrow> insert_of op = Some (k, e) \<Longrightarrow> snd (step s op) = Some (Ok Fresh)
      \<Longrightarrow> until s k = None \<and> until (fst (step s op)) k = Some (retain e)"
    and keep: "inv s \<Longrightarrow> until s k = Some r \<Longrightarrow> \<forall>now. reading op = Some now \<longrightarrow> now \<le> r
      \<Longrightarrow> until (fst (step s op)) k = Some r"
begin

lemma inv_run: "inv s \<Longrightarrow> inv (fold (\<lambda>op s. fst (step s op)) ops s)"
  by (induction ops arbitrary: s) (simp_all add: inv_step)

lemma keep_run:
  "inv s \<Longrightarrow> until s k = Some r \<Longrightarrow> \<forall>op\<in>set ops. \<forall>now. reading op = Some now \<longrightarrow> now \<le> r
   \<Longrightarrow> until (fold (\<lambda>op s. fst (step s op)) ops s) k = Some r"
  by (induction ops arbitrary: s) (simp_all add: inv_step keep)

lemma no_second_fresh:
  assumes "inv s" and "insert_of op1 = Some (k, e)" "snd (step s op1) = Some (Ok Fresh)"
    and "\<forall>op\<in>set ops. \<forall>now. reading op = Some now \<longrightarrow> now \<le> retain e"
    and "insert_of op2 = Some (k, e')"
  shows "snd (step (fold (\<lambda>op s. fst (step s op)) ops (fst (step s op1))) op2) \<noteq> Some (Ok Fresh)"
proof
  let ?s1 = "fst (step s op1)" and ?s2 = "fold (\<lambda>op s. fst (step s op)) ops (fst (step s op1))"
  assume "snd (step ?s2 op2) = Some (Ok Fresh)"
  moreover have "inv ?s2" using assms(1) by (intro inv_run inv_step)
  ultimately have "until ?s2 k = None" using fresh assms(5) by blast
  moreover have "until ?s1 k = Some (retain e)" using fresh assms(1-3) by blast
  then have "until ?s2 k = Some (retain e)" using assms(1,4) by (intro keep_run inv_step)
  ultimately show False by simp
qed

end

section \<open>Both caches meet the contract\<close>

datatype cache_op = CacheInsert "string \<times> string \<times> string" int | CachePrune int

fun cache_step ::
  "InMemoryReplayCache \<Rightarrow> cache_op \<Rightarrow> InMemoryReplayCache \<times> (ReplayCacheError + ReplayDecision) option" where
  "cache_step c (CacheInsert (signer, audience, nonce) e) =
     (case check_and_insert c signer audience nonce e of (c', r) \<Rightarrow> (c', Some r))"
| "cache_step c (CachePrune now) = (prune c now, None)"

abbreviation cache_run :: "cache_op list \<Rightarrow> InMemoryReplayCache \<Rightarrow> InMemoryReplayCache" where
  "cache_run \<equiv> fold (\<lambda>op c. fst (cache_step c op))"

fun cache_insert_of :: "cache_op \<Rightarrow> ((string \<times> string \<times> string) \<times> int) option" where
  "cache_insert_of (CacheInsert k e) = Some (k, e)"
| "cache_insert_of (CachePrune now) = None"

fun cache_reading :: "cache_op \<Rightarrow> int option" where
  "cache_reading (CacheInsert k e) = None"
| "cache_reading (CachePrune now) = Some now"

text \<open>A shared operation carries the reading of the store's clock it may sweep by.\<close>

datatype shared_op = SharedInsert "string \<times> string \<times> string" int int | SharedPrune int

fun shared_step ::
  "crypto_lib \<Rightarrow> SharedReplayCache \<Rightarrow> shared_op \<Rightarrow> SharedReplayCache \<times> (ReplayCacheError + ReplayDecision) option" where
  "shared_step L c (SharedInsert (signer, audience, nonce) e clock) =
     (case shared_check_and_insert L clock c signer audience nonce e of (c', r) \<Rightarrow> (c', Some r))"
| "shared_step L c (SharedPrune now) = (c\<lparr>sh_store := store_prune (sh_store c) now\<rparr>, None)"

abbreviation shared_run :: "crypto_lib \<Rightarrow> shared_op list \<Rightarrow> SharedReplayCache \<Rightarrow> SharedReplayCache" where
  "shared_run L \<equiv> fold (\<lambda>op c. fst (shared_step L c op))"

fun shared_insert_of :: "shared_op \<Rightarrow> ((string \<times> string \<times> string) \<times> int) option" where
  "shared_insert_of (SharedInsert k e clock) = Some (k, e)"
| "shared_insert_of (SharedPrune now) = None"

fun shared_reading :: "shared_op \<Rightarrow> int option" where
  "shared_reading (SharedInsert k e clock) = Some clock"
| "shared_reading (SharedPrune now) = Some now"

fun shared_until :: "crypto_lib \<Rightarrow> SharedReplayCache \<Rightarrow> string \<times> string \<times> string \<Rightarrow> int option" where
  "shared_until L c (signer, audience, nonce) =
     map_of (st_seen (sh_store c)) (composite_replay_key L signer audience nonce)"

text \<open>Eviction keeps the entries of a map with distinct keys that are not past their deadline.\<close>

lemma map_of_evict:
  "map_of kvs k = Some r \<Longrightarrow> now \<le> r \<Longrightarrow> map_of (filter (\<lambda>(_, until). until \<ge> now) kvs) k = Some r"
  by (induction kvs) (auto split: if_splits)

interpretation mem_cache: replay_cache cache_step cache_insert_of cache_reading "\<lambda>c. map_of (seen c)"
    "\<lambda>e. saturating_add e skew" "\<lambda>c. max_clock_skew_secs c = skew" for skew
proof (unfold_locales, goal_cases)
  case (1 c op)
  then show ?case by (cases "(c, op)" rule: cache_step.cases) (auto simp: check_and_insert_def prune_def Let_def)
next
  case (2 c op k e)
  then show ?case
    by (cases "(c, op)" rule: cache_step.cases) (auto simp: check_and_insert_def Let_def split: if_splits)
next
  case (3 c k r op)
  then show ?case
    by (cases "(c, op)" rule: cache_step.cases)
      (auto simp: check_and_insert_def prune_def Let_def map_of_evict)
qed

lemma sweep_keeps:
  "map_of (st_seen st) k = Some r \<Longrightarrow> clock \<le> r \<Longrightarrow> map_of (st_seen (sweep clock st)) k = Some r"
  by (auto simp: sweep_def Let_def map_of_evict)

lemma insert_if_absent_keeps:
  "map_of (st_seen st) k = Some r \<Longrightarrow> clock \<le> r
   \<Longrightarrow> map_of (st_seen (fst (insert_if_absent clock st key e now))) k = Some r"
  by (auto simp: insert_if_absent_def Let_def sweep_keeps)

lemma insert_if_absent_fresh:
  "insert_if_absent clock st key e now = (st', Ok Fresh) \<Longrightarrow>
     map_of (st_seen st) key = None \<and> map_of (st_seen st') key = Some e"
  by (auto simp: insert_if_absent_def Let_def split: if_splits)

interpretation shared_cache: replay_cache "shared_step L" shared_insert_of shared_reading "shared_until L"
    "\<lambda>e. saturating_add e skew" "\<lambda>c. sh_max_clock_skew_secs c = skew" for L skew
proof (unfold_locales, goal_cases)
  case (1 c op)
  then show ?case
    by (cases "(L, c, op)" rule: shared_step.cases)
      (auto simp: shared_check_and_insert_def Let_def split: prod.splits)
next
  case (2 c op k e)
  then show ?case
    by (cases "(L, c, op)" rule: shared_step.cases)
      (auto simp: shared_check_and_insert_def skew_folded_retain_until_def Let_def
        dest!: insert_if_absent_fresh split: prod.splits)
next
  case (3 c k r op)
  show ?case
  proof (cases op)
    case (SharedInsert k' e clock)
    with 3 show ?thesis
      using insert_if_absent_keeps [of "sh_store c" _ r clock]
      by (cases k; cases k') (simp add: shared_check_and_insert_def Let_def case_prod_beta)
  next
    case (SharedPrune now)
    with 3 show ?thesis by (cases k) (simp add: store_prune_def map_of_evict)
  qed
qed

text \<open>
  The in-memory cache accepts a (signer, audience, nonce) key at most once: after a \<open>Fresh\<close>
  decision, no later insertion of the same key is \<open>Fresh\<close>, whatever is inserted in between and
  however often the cache is pruned, as long as no prune reads an instant past the expiry plus the
  tolerated clock skew.
\<close>

theorem cache_accepts_once:
  assumes "snd (cache_step c (CacheInsert k e)) = Some (Ok Fresh)"
    and "\<forall>now. CachePrune now \<in> set ops \<longrightarrow> now \<le> saturating_add e (max_clock_skew_secs c)"
  shows "snd (cache_step (cache_run ops (fst (cache_step c (CacheInsert k e)))) (CacheInsert k e'))
         \<noteq> Some (Ok Fresh)"
proof (rule mem_cache.no_second_fresh [OF refl _ assms(1)])
  show "\<forall>op\<in>set ops. \<forall>now. cache_reading op = Some now \<longrightarrow> now \<le> saturating_add e (max_clock_skew_secs c)"
    using assms(2) by (auto elim!: cache_reading.elims)
qed simp_all

theorem cache_accepts_once_witness:
  "let c = cache_new 30; k = (''signer'', ''aud'', ''n1'');
       ops = [CacheInsert (''signer'', ''aud'', ''n2'') 50, CachePrune 130]
   in snd (cache_step c (CacheInsert k 100)) = Some (Ok Fresh)
      \<and> seen (cache_run ops (fst (cache_step c (CacheInsert k 100)))) = [(k, 130)]
      \<and> snd (cache_step (cache_run ops (fst (cache_step c (CacheInsert k 100)))) (CacheInsert k 200))
        \<noteq> Some (Ok Fresh)"
proof -
  define c where "c = cache_new 30"
  define k where "k = (''signer'', ''aud'', ''n1'')"
  define ops where "ops = [CacheInsert (''signer'', ''aud'', ''n2'') 50, CachePrune 130]"
  have "snd (cache_step c (CacheInsert k 100)) = Some (Ok Fresh)"
    "seen (cache_run ops (fst (cache_step c (CacheInsert k 100)))) = [(k, 130)]"
    "saturating_add 100 (max_clock_skew_secs c) = 130"
    by (simp_all add: c_def k_def ops_def cache_new_def MAX_ENTRIES_def check_and_insert_def prune_def
        saturating_add_def saturate_def i64_min_def i64_max_def Let_def)
  with cache_accepts_once [of c k 100 ops 200] show ?thesis
    unfolding Let_def c_def [symmetric] k_def [symmetric] ops_def [symmetric] by (simp add: ops_def)
qed

text \<open>
  C36. The shared cache accepts a key at most once, across every sweep the store triggers on its own
  and every explicit prune, as long as no clock reading used for eviction is past the expiry plus
  the tolerated skew. Nothing is assumed of the hash: a collision can only turn an acceptance into
  a refusal.
\<close>

theorem shared_accepts_once:
  assumes "snd (shared_step L c (SharedInsert k e clock)) = Some (Ok Fresh)"
    and "\<forall>op\<in>set ops. \<forall>now. shared_reading op = Some now \<longrightarrow> now \<le> saturating_add e (sh_max_clock_skew_secs c)"
  shows "snd (shared_step L (shared_run L ops (fst (shared_step L c (SharedInsert k e clock))))
            (SharedInsert k e' clock')) \<noteq> Some (Ok Fresh)"
  by (rule shared_cache.no_second_fresh [OF refl _ assms(1)]) (use assms(2) in simp_all)

theorem shared_accepts_once_witness:
  "let c = shared_new store_new 30; k = (''signer'', ''aud'', ''n1''); ops = [SharedPrune 120]
   in snd (shared_step demo_lib c (SharedInsert k 100 5)) = Some (Ok Fresh)
      \<and> snd (shared_step demo_lib (shared_run demo_lib ops (fst (shared_step demo_lib c (SharedInsert k 100 5))))
          (SharedInsert k 300 200)) \<noteq> Some (Ok Fresh)"
proof -
  define c where "c = shared_new store_new 30"
  define k where "k = (''signer'', ''aud'', ''n1'')"
  have "snd (shared_step demo_lib c (SharedInsert k 100 5)) = Some (Ok Fresh)"
    "saturating_add 100 (sh_max_clock_skew_secs c) = 130"
    by (simp_all add: c_def k_def shared_new_def store_new_def MAX_ATOMIC_STORE_ENTRIES_def
        shared_check_and_insert_def insert_if_absent_def is_stale_pre_store_def sweep_def
        PRUNE_EVERY_N_INSERTS_def skew_folded_retain_until_def saturating_add_def saturating_sub_def
        saturate_def i64_min_def i64_max_def Let_def)
  with shared_accepts_once [of demo_lib c k 100 5 "[SharedPrune 120]" 300 200] show ?thesis
    unfolding Let_def c_def [symmetric] k_def [symmetric] by simp
qed

section \<open>Capacity and fail-closed refusal\<close>

text \<open>A refusal or a duplicate leaves the in-memory cache as it was.\<close>

lemma check_and_insert_changes_only_on_fresh:
  "check_and_insert c s a n e = (c', r) \<Longrightarrow> r \<noteq> Ok Fresh \<Longrightarrow> c' = c"
  by (auto simp: check_and_insert_def Let_def split: if_splits)

definition cache_inv :: "nat \<Rightarrow> InMemoryReplayCache \<Rightarrow> bool" where
  "cache_inv m c \<longleftrightarrow> distinct (map fst (seen c)) \<and> length (seen c) \<le> max_entries c \<and> max_entries c = m
     \<and> \<not> seen_poisoned c"

lemma distinct_evict: "distinct (map fst kvs) \<Longrightarrow> distinct (map fst (filter P kvs))"
  by (rule distinct_map_filter)

lemma cache_inv_step: "cache_inv m c \<Longrightarrow> cache_inv m (fst (cache_step c op))"
  by (cases "(c, op)" rule: cache_step.cases)
    (auto simp: cache_inv_def check_and_insert_def prune_def Let_def distinct_evict map_of_eq_None_iff
      intro: le_trans [OF length_filter_le])

lemma cache_inv_run: "cache_inv m c \<Longrightarrow> cache_inv m (cache_run ops c)"
  by (induction ops arbitrary: c) (simp_all add: cache_inv_step)

text \<open>
  The in-memory cache never holds more entries than its ceiling, which is never above
  \<open>MAX_ENTRIES\<close>, holds each key once, and at the ceiling an unseen key is refused as unavailable and
  the cache is left unchanged: an overload never evicts a recorded nonce.
\<close>

theorem cache_ceiling:
  "let c = cache_run ops (with_max_entries (cache_new skew) n)
   in distinct (map fst (seen c)) \<and> cache_len c \<le> min MAX_ENTRIES n
      \<and> (map_of (seen c) (s, a, nonce) = None \<longrightarrow> cache_len c = min MAX_ENTRIES n
         \<longrightarrow> (\<exists>d. check_and_insert c s a nonce e = (c, Err (CacheUnavailable d))))"
proof -
  have "cache_inv (min MAX_ENTRIES n) (cache_run ops (with_max_entries (cache_new skew) n))"
    by (rule cache_inv_run) (simp add: cache_inv_def with_max_entries_def cache_new_def)
  then show ?thesis
    by (auto simp: cache_inv_def cache_len_def check_and_insert_def Let_def)
qed

theorem cache_ceiling_witness:
  "let c = cache_run [CacheInsert (''s'', ''a'', ''n1'') 100] (with_max_entries (cache_new 30) 1)
   in map_of (seen c) (''s'', ''a'', ''n2'') = None \<and> cache_len c = min MAX_ENTRIES 1
      \<and> (\<exists>d. check_and_insert c ''s'' ''a'' ''n2'' 100 = (c, Err (CacheUnavailable d)))"
proof -
  define c where "c = cache_run [CacheInsert (''s'', ''a'', ''n1'') 100] (with_max_entries (cache_new 30) 1)"
  have "map_of (seen c) (''s'', ''a'', ''n2'') = None" "cache_len c = min MAX_ENTRIES 1"
    by (simp_all add: c_def cache_new_def with_max_entries_def MAX_ENTRIES_def check_and_insert_def
        cache_len_def Let_def)
  with cache_ceiling [of "[CacheInsert (''s'', ''a'', ''n1'') 100]" 30 1 "''s''" "''a''" "''n2''" 100]
  show ?thesis unfolding Let_def c_def [symmetric] by blast
qed

section \<open>Injectivity of the keys\<close>

lemma composite_preimage_fields:
  "composite_preimage s a n = dec_field s @ ''|'' @ dec_field a @ ''|'' @ dec_field n"
  by (simp add: composite_preimage_def dec_field_def)

lemma composite_preimage_inj:
  "composite_preimage s a n = composite_preimage s' a' n' \<longleftrightarrow> s = s' \<and> a = a' \<and> n = n'"
  unfolding composite_preimage_fields
  by (auto dest!: dec_field_append dec.enc_inj [simplified])

lemma signer_slot_inj:
  assumes "signer_slot k = signer_slot k'"
    and "SEP \<notin> set (profile_id k)" "SEP \<notin> set (signature_label k)"
    and "SEP \<notin> set (profile_id k')" "SEP \<notin> set (signature_label k')"
  shows "profile_id k = profile_id k' \<and> signature_label k = signature_label k' \<and> actor_id k = actor_id k'"
proof -
  from assms(2-5) have "split_once SEP (signer_slot k) = Some (profile_id k, signature_label k @ [SEP] @ actor_id k)"
    "split_once SEP (signer_slot k') = Some (profile_id k', signature_label k' @ [SEP] @ actor_id k')"
    by (simp_all add: signer_slot_def)
  with assms(1) have p: "profile_id k = profile_id k'"
    "signature_label k @ SEP # actor_id k = signature_label k' @ SEP # actor_id k'" by simp_all
  have "Some (signature_label k, actor_id k) = split_once SEP (signature_label k @ SEP # actor_id k)"
    using assms(3) by simp
  also note p(2)
  also have "split_once SEP (signature_label k' @ SEP # actor_id k') = Some (signature_label k', actor_id k')"
    using assms(5) by simp
  finally show ?thesis using p(1) by simp
qed

definition store_slot :: "crypto_lib \<Rightarrow> HttpReplayKey \<Rightarrow> string" where
  "store_slot L k = http_check_and_insert k (\<lambda>s a n _. composite_replay_key L s a n) 0"

definition slot_preimage :: "HttpReplayKey \<Rightarrow> string" where
  "slot_preimage k = composite_preimage (signer_slot k) (audience_slot k) (http_nonce k)"

text \<open>
  Two requests of the HTTP profile whose replay keys differ in any of the five parts occupy
  different slots of the shared replay store, provided profile and label are free of the unit
  separator (both are fixed tokens) and SHA-256 does not collide on their two preimages.
\<close>

theorem http_replay_slots_distinct:
  assumes "k \<noteq> k'"
    and "SEP \<notin> set (profile_id k)" "SEP \<notin> set (signature_label k)"
    and "SEP \<notin> set (profile_id k')" "SEP \<notin> set (signature_label k')"
    and "b64_ok L"
    and no_collision: "sha256 L (slot_preimage k) = sha256 L (slot_preimage k') \<Longrightarrow> slot_preimage k = slot_preimage k'"
  shows "store_slot L k \<noteq> store_slot L k'"
proof
  assume "store_slot L k = store_slot L k'"
  then have "slot_preimage k = slot_preimage k'"
    using assms(6) by (intro no_collision)
      (simp add: store_slot_def slot_preimage_def http_check_and_insert_def composite_replay_key_def
        sha256_hash_id_eq_iff)
  then have "signer_slot k = signer_slot k'" "audience_hash k = audience_hash k'" "http_nonce k = http_nonce k'"
    by (simp_all add: slot_preimage_def composite_preimage_inj audience_slot_def)
  with signer_slot_inj [OF _ assms(2-5)] show False using assms(1) by simp
qed

theorem http_replay_slots_distinct_witness:
  "let k = \<lparr>profile_id = ''p'', signature_label = ''sig1'', actor_id = ''a:k'', audience_hash = ''h'', http_nonce = ''n''\<rparr>
   in store_slot demo_lib k \<noteq> store_slot demo_lib (k\<lparr>http_nonce := ''m''\<rparr>)"
proof -
  define k where "k = \<lparr>profile_id = ''p'', signature_label = ''sig1'', actor_id = ''a:k'', audience_hash = ''h'', http_nonce = ''n''\<rparr>"
  define k' where "k' = k\<lparr>http_nonce := ''m''\<rparr>"
  have s: "SEP \<notin> set (profile_id k)" "SEP \<notin> set (signature_label k)"
    "SEP \<notin> set (profile_id k')" "SEP \<notin> set (signature_label k')"
    by (simp_all add: k_def k'_def SEP_def)
  have "k \<noteq> k'" by (simp add: k_def k'_def)
  moreover have "sha256 demo_lib (slot_preimage k) \<noteq> sha256 demo_lib (slot_preimage k')"
    unfolding k_def k'_def by code_simp
  ultimately have "store_slot demo_lib k \<noteq> store_slot demo_lib k'"
    using http_replay_slots_distinct [OF _ s demo_lib_ok(1)] by blast
  then show ?thesis unfolding k_def [symmetric] k'_def [symmetric] Let_def .
qed

end
