(* ===== verification/Http_Message.thy ===== *)
theory Http_Message
  imports Replay
begin

text \<open>
  The outer layer of the HTTP profile: its error taxonomy and projection onto the core one
  (\<open>mcp-re-http-profile/src/error.rs\<close>, \<open>error/core_projection.rs\<close>), the identifiers of \<open>ids.rs\<close>,
  messages and header access (\<open>message.rs\<close>), content digests (\<open>digest.rs\<close>), key thumbprints
  (\<open>keyid.rs\<close>) and evidence digests (\<open>evidence.rs\<close>). Header values and bodies are byte strings.
  The lemmas show that a header is returned only when it occurs exactly once, and that a content
  digest is accepted exactly when its single SHA-256 member is the digest of the body.
\<close>

section \<open>Errors\<close>

datatype HttpProfileError =
    MissingEvidence string
  | MalformedEvidence string
  | DuplicateHeader string
  | ContentEncodingPresent
  | NonJsonMediaType
  | ContentDigestMismatch
  | MissingCoveredComponent string
  | UnknownProfileTag
  | UnsupportedAlgorithm
  | InvalidSignature
  | StaleWindow
  | UnresolvedKeyId
  | TrustResolverUnavailable
  | ActorSlotMismatch
  | ArtifactBindingFailed
  | AudienceMismatch
  | ResponseBindingMismatch
  | ResponseSignatureInvalid
  | ContinuationBindingFailed
  | UnrecognizedResultType
  | UpstreamResponseInvalid string
  | McpMethodDivergence
  | McpTransportHeaderMissing string
  | McpProtocolVersionUnsupported
  | McpTransportDivergence string
  | AdmissionAssertionInvalid
  | AdmissionIssuerUntrusted
  | AdmissionAssertionExpired
  | AdmissionBindingMismatch
  | AdmissionNotCurrent
  | AdmissionStateUnavailable
  | ReceiptInvalid
  | ReceiptInclusionInvalid
  | ReceiptIssuerUntrusted
  | ReceiptPositionUnbound
  | ReceiptPositionMismatch
  | DelegationCredentialMissing
  | DelegationCredentialInvalid
  | DelegationCredentialExpired
  | DelegationIssuerUntrusted
  | DelegationProfileMismatch
  | DelegationAudienceMismatch
  | DelegationKeyUseInvalid
  | DelegationTrustEpochStale
  | DelegationKeyMismatch
  | DelegationRevoked

primrec core_projection :: "HttpProfileError \<Rightarrow> mcp_re_error" where
  "core_projection (MissingEvidence what) = mcp_re_error.MissingEnvelope"
| "core_projection (MalformedEvidence what) = mcp_re_error.MalformedEnvelope"
| "core_projection (DuplicateHeader what) = mcp_re_error.MissingEnvelope"
| "core_projection ContentEncodingPresent = mcp_re_error.SerializationFailed"
| "core_projection NonJsonMediaType = mcp_re_error.SerializationFailed"
| "core_projection ContentDigestMismatch = mcp_re_error.DigestMismatch"
| "core_projection (MissingCoveredComponent what) = mcp_re_error.MissingEnvelope"
| "core_projection UnknownProfileTag = mcp_re_error.UnsupportedVersion"
| "core_projection UnsupportedAlgorithm = mcp_re_error.UnsupportedVersion"
| "core_projection InvalidSignature = mcp_re_error.InvalidSignature"
| "core_projection StaleWindow = mcp_re_error.ExpiredRequest"
| "core_projection UnresolvedKeyId = mcp_re_error.ActorBindingFailed"
| "core_projection TrustResolverUnavailable = mcp_re_error.TrustResolverUnavailable"
| "core_projection ActorSlotMismatch = mcp_re_error.ActorBindingFailed"
| "core_projection ArtifactBindingFailed = mcp_re_error.ArtifactBindingFailed"
| "core_projection AudienceMismatch = mcp_re_error.InvalidAudience"
| "core_projection ResponseBindingMismatch = mcp_re_error.RequestBindingMismatch"
| "core_projection ResponseSignatureInvalid = mcp_re_error.ResponseSigInvalid"
| "core_projection ContinuationBindingFailed = mcp_re_error.ContinuationBindingFailed"
| "core_projection UnrecognizedResultType = mcp_re_error.ContinuationTypeUnsupported"
| "core_projection (UpstreamResponseInvalid what) = mcp_re_error.UpstreamResponseInvalid"
| "core_projection McpMethodDivergence = mcp_re_error.MalformedEnvelope"
| "core_projection (McpTransportHeaderMissing what) = mcp_re_error.MissingEnvelope"
| "core_projection McpProtocolVersionUnsupported = mcp_re_error.UnsupportedVersion"
| "core_projection (McpTransportDivergence what) = mcp_re_error.MalformedEnvelope"
| "core_projection AdmissionAssertionInvalid = mcp_re_error.ActorBindingFailed"
| "core_projection AdmissionIssuerUntrusted = mcp_re_error.ActorBindingFailed"
| "core_projection AdmissionAssertionExpired = mcp_re_error.ExpiredRequest"
| "core_projection AdmissionBindingMismatch = mcp_re_error.RequestBindingMismatch"
| "core_projection AdmissionNotCurrent = mcp_re_error.ActorBindingFailed"
| "core_projection AdmissionStateUnavailable = mcp_re_error.ActorBindingFailed"
| "core_projection ReceiptInvalid = mcp_re_error.InvalidSignature"
| "core_projection ReceiptInclusionInvalid = mcp_re_error.RequestBindingMismatch"
| "core_projection ReceiptIssuerUntrusted = mcp_re_error.ActorBindingFailed"
| "core_projection ReceiptPositionUnbound = mcp_re_error.RequestBindingMismatch"
| "core_projection ReceiptPositionMismatch = mcp_re_error.RequestBindingMismatch"
| "core_projection DelegationCredentialMissing = mcp_re_error.DelegationCredentialMissing"
| "core_projection DelegationCredentialInvalid = mcp_re_error.DelegationCredentialInvalid"
| "core_projection DelegationCredentialExpired = mcp_re_error.DelegationCredentialExpired"
| "core_projection DelegationIssuerUntrusted = mcp_re_error.DelegationIssuerUntrusted"
| "core_projection DelegationProfileMismatch = mcp_re_error.DelegationProfileMismatch"
| "core_projection DelegationAudienceMismatch = mcp_re_error.DelegationAudienceMismatch"
| "core_projection DelegationKeyUseInvalid = mcp_re_error.DelegationKeyUseInvalid"
| "core_projection DelegationTrustEpochStale = mcp_re_error.DelegationTrustEpochStale"
| "core_projection DelegationKeyMismatch = mcp_re_error.DelegationKeyMismatch"
| "core_projection DelegationRevoked = mcp_re_error.DelegationRevoked"

datatype DispatchError = ReplayDetected | ReplayCacheUnavailable | NonSharedReplayTier | Profile HttpProfileError

primrec dispatch_core_projection :: "DispatchError \<Rightarrow> mcp_re_error" where
  "dispatch_core_projection ReplayDetected = mcp_re_error.ReplayDetected"
| "dispatch_core_projection ReplayCacheUnavailable = mcp_re_error.ReplayCacheUnavailable"
| "dispatch_core_projection NonSharedReplayTier = mcp_re_error.ReplayCacheUnavailable"
| "dispatch_core_projection (Profile e) = core_projection e"

definition http_wire_code :: "HttpProfileError \<Rightarrow> string" where
  "http_wire_code e = wire_code (core_projection e)"

section \<open>Identifiers\<close>

definition PROFILE_TAG :: string where "PROFILE_TAG = ''mcp-re-http-v1''"
definition REQUEST_LABEL :: string where "REQUEST_LABEL = ''mcp-re''"
definition RESPONSE_LABEL :: string where "RESPONSE_LABEL = ''mcp-re-response''"
definition ALG_ED25519 :: string where "ALG_ED25519 = ''ed25519''"
definition EVIDENCE_DIGEST_ALG :: string where "EVIDENCE_DIGEST_ALG = ''sha256''"
definition EVIDENCE_LABEL_REQUEST :: string where "EVIDENCE_LABEL_REQUEST = ''mcp-re-http-v1/request-evidence''"
definition EVIDENCE_LABEL_RESPONSE :: string where "EVIDENCE_LABEL_RESPONSE = ''mcp-re-http-v1/response-evidence''"
definition EVIDENCE_LABEL_REQUEST_STATE :: string where
  "EVIDENCE_LABEL_REQUEST_STATE = ''mcp-re-http-v1/request-state''"
definition REQUEST_EVIDENCE_BLOCK_KEY :: string where "REQUEST_EVIDENCE_BLOCK_KEY = ''se.syncom/mcp-re.http.request''"
definition VERIFIED_CONTEXT_BLOCK_KEY :: string where
  "VERIFIED_CONTEXT_BLOCK_KEY = ''se.syncom/mcp-re.verified-context''"
definition RESPONSE_EVIDENCE_BLOCK_KEY :: string where
  "RESPONSE_EVIDENCE_BLOCK_KEY = ''se.syncom/mcp-re.http.response''"

definition REQUIRED_REQUEST_COMPONENTS :: "string list" where
  "REQUIRED_REQUEST_COMPONENTS = [''@method'', ''@target-uri'', ''content-digest'', ''content-type'']"

definition REQUIRED_RESPONSE_COMPONENTS :: "string list" where
  "REQUIRED_RESPONSE_COMPONENTS = [''@status'', ''content-digest'', ''content-type'']"

definition REQUIRED_RESPONSE_REQ_COMPONENTS :: "string list" where
  "REQUIRED_RESPONSE_REQ_COMPONENTS = [''@method'', ''@target-uri'', ''content-digest'', ''content-type'']"

definition MCP_RE_REQUEST_EVIDENCE_HEADER :: string where
  "MCP_RE_REQUEST_EVIDENCE_HEADER = ''mcp-re-request-evidence''"

definition MCP_RE_DELEGATION_HEADER :: string where
  "MCP_RE_DELEGATION_HEADER = ''mcp-re-delegation''"

definition MAX_DELEGATION_HEADER_LEN :: nat where "MAX_DELEGATION_HEADER_LEN = 8192"

section \<open>Messages\<close>

type_synonym headers = "(string \<times> string) list"

record HttpRequest =
  rq_method :: string
  rq_target_uri :: string
  rq_headers :: headers
  rq_body :: bytes

record HttpResponse =
  rsp_status :: nat
  rsp_headers :: headers
  rsp_body :: bytes

text \<open>The loop of \<open>single_header\<close> with its accumulator \<open>found\<close>.\<close>

fun single_header_loop :: "string \<Rightarrow> string option \<Rightarrow> headers \<Rightarrow> HttpProfileError + string option" where
  "single_header_loop name found [] = Ok found"
| "single_header_loop name found ((k, v) # hs) =
     (if eq_ignore_ascii_case k name
      then if found \<noteq> None then Err (DuplicateHeader name) else single_header_loop name (Some v) hs
      else single_header_loop name found hs)"

definition single_header :: "headers \<Rightarrow> string \<Rightarrow> HttpProfileError + string option" where
  "single_header hs name = single_header_loop name None hs"

definition required_header :: "headers \<Rightarrow> string \<Rightarrow> HttpProfileError + string" where
  "required_header hs name = try_bind (single_header hs name) (\<lambda>v. ok_or v (MissingEvidence name))"

definition JSON_MEDIA_TYPE :: string where "JSON_MEDIA_TYPE = ''application/json''"

definition require_json_media_type :: "headers \<Rightarrow> string \<Rightarrow> HttpProfileError + unit" where
  "require_json_media_type hs what =
     try_bind (map_err (\<lambda>_. MissingEvidence what) (required_header hs ''content-type'')) (\<lambda>v.
     let media_type = trim (hd (split_on CHR '';'' v))
     in if eq_ignore_ascii_case media_type JSON_MEDIA_TYPE then Ok () else Err NonJsonMediaType)"

fun reject_content_encoding :: "headers \<Rightarrow> HttpProfileError + unit" where
  "reject_content_encoding [] = Ok ()"
| "reject_content_encoding ((k, v) # hs) =
     (if eq_ignore_ascii_case k ''content-encoding'' \<and> \<not> eq_ignore_ascii_case (trim v) ''identity''
      then Err ContentEncodingPresent
      else reject_content_encoding hs)"

section \<open>Digests\<close>

definition content_digest_sha256 :: "crypto_lib \<Rightarrow> bytes \<Rightarrow> string" where
  "content_digest_sha256 L body = ''sha-256=:'' @ std_encode L (sha256 L body) @ '':''"

fun first_sha256_member :: "string \<Rightarrow> string list \<Rightarrow> HttpProfileError + unit" where
  "first_sha256_member expected [] = Err (MalformedEvidence ''content-digest sha-256 member'')"
| "first_sha256_member expected (m # ms) =
     (let member = trim m in
      if starts_with member ''sha-256=''
      then if member = expected then Ok () else Err ContentDigestMismatch
      else first_sha256_member expected ms)"

definition verify_content_digest_sha256 :: "crypto_lib \<Rightarrow> string \<Rightarrow> bytes \<Rightarrow> HttpProfileError + unit" where
  "verify_content_digest_sha256 L header_value body =
     (let expected = content_digest_sha256 L body;
          members = filter (\<lambda>m. strip_prefix ''sha-256='' (trim m) \<noteq> None) (split_on CHR '','' header_value)
      in if length members > 1
         then Err (MalformedEvidence ''content-digest carries more than one sha-256 member'')
         else first_sha256_member expected (split_on CHR '','' header_value))"

definition canonical_ed25519_jwk :: "string \<Rightarrow> string" where
  "canonical_ed25519_jwk public_key_b64url =
     ''{\"crv\":\"Ed25519\",\"kty\":\"OKP\",\"x\":\"'' @ public_key_b64url @ ''\"}''"

definition jwk_thumbprint_ed25519 :: "crypto_lib \<Rightarrow> string \<Rightarrow> string" where
  "jwk_thumbprint_ed25519 L public_key_b64url =
     b64url_encode L (sha256 L (canonical_ed25519_jwk public_key_b64url))"

definition labeled_preimage :: "string \<Rightarrow> bytes \<Rightarrow> bytes" where
  "labeled_preimage label b = label @ [CHR 0x00] @ b"

definition labeled_digest_value :: "crypto_lib \<Rightarrow> string \<Rightarrow> bytes \<Rightarrow> string" where
  "labeled_digest_value L label b = b64url_encode L (sha256 L (labeled_preimage label b))"

record RequestEvidence =
  digest_alg :: string
  digest_value :: string

definition from_signature_base :: "crypto_lib \<Rightarrow> bytes \<Rightarrow> RequestEvidence" where
  "from_signature_base L base =
     \<lparr>digest_alg = EVIDENCE_DIGEST_ALG, digest_value = labeled_digest_value L EVIDENCE_LABEL_REQUEST base\<rparr>"

definition from_response_signature_base :: "crypto_lib \<Rightarrow> bytes \<Rightarrow> RequestEvidence" where
  "from_response_signature_base L base =
     \<lparr>digest_alg = EVIDENCE_DIGEST_ALG, digest_value = labeled_digest_value L EVIDENCE_LABEL_RESPONSE base\<rparr>"

section \<open>Headers occur once\<close>

definition header_named :: "string \<Rightarrow> string \<times> string \<Rightarrow> bool" where
  "header_named name kv \<longleftrightarrow> eq_ignore_ascii_case (fst kv) name"

lemma single_header_loop_eq:
  "single_header_loop name found hs =
     (case map snd (filter (header_named name) hs) of
        [] \<Rightarrow> Ok found
      | v # vs \<Rightarrow> if found \<noteq> None \<or> vs \<noteq> [] then Err (DuplicateHeader name) else Ok (Some v))"
  by (induction name found hs rule: single_header_loop.induct)
    (auto simp: header_named_def split: list.splits)

lemma single_header_eq:
  "single_header hs name =
     (case map snd (filter (header_named name) hs) of
        [] \<Rightarrow> Ok None
      | [v] \<Rightarrow> Ok (Some v)
      | _ \<Rightarrow> Err (DuplicateHeader name))"
  by (simp add: single_header_def single_header_loop_eq split: list.splits)

lemma required_header_Ok_iff:
  "required_header hs name = Ok v \<longleftrightarrow> map snd (filter (header_named name) hs) = [v]"
  by (auto simp: required_header_def single_header_eq split: list.splits)

lemma reject_content_encoding_Ok_iff:
  "reject_content_encoding hs = Ok () \<longleftrightarrow>
     (\<forall>(k, v)\<in>set hs. eq_ignore_ascii_case k ''content-encoding'' \<longrightarrow> eq_ignore_ascii_case (trim v) ''identity'')"
  by (induction hs rule: reject_content_encoding.induct) auto

section \<open>Content digests\<close>

lemma first_sha256_member_Ok_iff:
  "first_sha256_member expected ms = Ok () \<longleftrightarrow>
     (case filter (\<lambda>m. starts_with m ''sha-256='') (map trim ms) of [] \<Rightarrow> False | m # _ \<Rightarrow> m = expected)"
  by (induction ms) (auto simp: Let_def)

lemma verify_content_digest_Ok_iff:
  "verify_content_digest_sha256 L h body = Ok () \<longleftrightarrow>
     filter (\<lambda>m. starts_with m ''sha-256='') (map trim (split_on CHR '','' h)) = [content_digest_sha256 L body]"
proof -
  let ?ms = "filter (\<lambda>m. starts_with m ''sha-256='') (map trim (split_on CHR '','' h))"
  have "length (filter (\<lambda>m. strip_prefix ''sha-256='' (trim m) \<noteq> None) (split_on CHR '','' h)) = length ?ms"
    by (simp add: filter_map comp_def starts_with_def strip_prefix_def)
  then show ?thesis
    by (cases ?ms) (simp_all add: verify_content_digest_sha256_def Let_def first_sha256_member_Ok_iff)
qed

end
