(* ===== verification/Sf_Fields.thy ===== *)
theory Sf_Fields
  imports Http_Message
begin

text \<open>
  The signed HTTP fields: signature bases (\<open>mcp-re-http-profile/src/sigbase.rs\<close>), structured-field
  dictionaries (\<open>verify/floor/sf_dictionary.rs\<close>), covered components (\<open>covered_components.rs\<close>),
  signature parameters (\<open>signature_parameters.rs\<close>) and the \<open>Signature-Input\<close> member
  (\<open>signature_input.rs\<close>). The two splitters scan characters; over UTF-8 bytes the scan is the same,
  since the delimiters, the quote and the backslash are ASCII. This theory holds the definitions;
  their properties are in \<open>Sf_Properties\<close>.
\<close>

section \<open>Components and parameters\<close>

record CoveredComponent =
  cc_name :: string
  cc_req :: bool

definition cc_new :: "string \<Rightarrow> CoveredComponent" where
  "cc_new name = \<lparr>cc_name = name, cc_req = False\<rparr>"

definition cc_new_req :: "string \<Rightarrow> CoveredComponent" where
  "cc_new_req name = \<lparr>cc_name = name, cc_req = True\<rparr>"

definition cc_identifier :: "CoveredComponent \<Rightarrow> string" where
  "cc_identifier c = (if cc_req c then ''\"'' @ cc_name c @ ''\";req'' else ''\"'' @ cc_name c @ ''\"'')"

record SignatureParams =
  sp_created :: "int option"
  sp_expires :: "int option"
  sp_nonce :: "string option"
  sp_keyid :: "string option"
  sp_alg :: "string option"
  sp_tag :: "string option"

definition params_default :: SignatureParams where
  "params_default = \<lparr>sp_created = None, sp_expires = None, sp_nonce = None, sp_keyid = None,
     sp_alg = None, sp_tag = None\<rparr>"

definition sf_char :: "char \<Rightarrow> bool" where
  "sf_char b \<longleftrightarrow> 32 \<le> ord b \<and> ord b \<le> 126 \<and> b \<noteq> CHR ''\"'' \<and> b \<noteq> CHR 0x5C"

definition validate_sf_string :: "string \<Rightarrow> string \<Rightarrow> HttpProfileError + unit" where
  "validate_sf_string v what = (if list_all sf_char v then Ok () else Err (MalformedEvidence what))"

definition MAX_NONCE_CHARS :: nat where "MAX_NONCE_CHARS = 256"

definition validate_nonce_length :: "string \<Rightarrow> HttpProfileError + unit" where
  "validate_nonce_length nonce =
     (if length nonce > MAX_NONCE_CHARS
      then Err (MalformedEvidence ''nonce signature parameter exceeds the length bound'') else Ok ())"

text \<open>One optional quoted parameter of \<open>serialize_with\<close>: the check, then the text it appends.\<close>

definition push_quoted :: "string \<Rightarrow> string option \<Rightarrow> string \<Rightarrow> HttpProfileError + string" where
  "push_quoted key v out =
     (case v of
        None \<Rightarrow> Ok out
      | Some s \<Rightarrow> try_bind (validate_sf_string s (key @ '' signature parameter'')) (\<lambda>_.
                 Ok (out @ '';'' @ key @ ''=\"'' @ s @ ''\"'')))"

definition push_int :: "string \<Rightarrow> int option \<Rightarrow> string \<Rightarrow> string" where
  "push_int key v out = (case v of None \<Rightarrow> out | Some i \<Rightarrow> out @ '';'' @ key @ ''='' @ show_int i)"

definition serialize_with :: "SignatureParams \<Rightarrow> CoveredComponent list \<Rightarrow> HttpProfileError + string" where
  "serialize_with p components =
     (let out = ''('' @ join_with '' '' (map cc_identifier components) @ '')'';
          out = push_int ''created'' (sp_created p) out;
          out = push_int ''expires'' (sp_expires p) out
      in try_bind
           (case sp_nonce p of
              None \<Rightarrow> Ok out
            | Some nonce \<Rightarrow> try_bind (validate_sf_string nonce ''nonce signature parameter'') (\<lambda>_.
                           try_bind (validate_nonce_length nonce) (\<lambda>_.
                           Ok (out @ '';nonce=\"'' @ nonce @ ''\"'')))) (\<lambda>out.
         try_bind (push_quoted ''keyid'' (sp_keyid p) out) (\<lambda>out.
         try_bind (push_quoted ''alg'' (sp_alg p) out) (\<lambda>out.
         push_quoted ''tag'' (sp_tag p) out))))"

section \<open>Signature bases\<close>

datatype SourceMessage =
    Request HttpRequest
  | Response HttpResponse HttpRequest
  | ResponseOnly HttpResponse

text \<open>\<open>split_once("://")\<close>, keeping the part after the pattern.\<close>

fun after_scheme :: "string \<Rightarrow> string option" where
  "after_scheme [] = None"
| "after_scheme (c # cs) = (if starts_with (c # cs) ''://'' then Some (drop 3 (c # cs)) else after_scheme cs)"

definition authority_end :: "char \<Rightarrow> bool" where
  "authority_end c \<longleftrightarrow> c = CHR ''/'' \<or> c = CHR ''?'' \<or> c = CHR ''#''"

definition authority_of :: "string \<Rightarrow> string option" where
  "authority_of target_uri =
     Option.bind (after_scheme target_uri) (\<lambda>rest.
     let authority = takeWhile (\<lambda>c. \<not> authority_end c) rest
     in if authority = [] then None else Some (to_ascii_lowercase authority))"

definition path_of :: "string \<Rightarrow> string option" where
  "path_of target_uri =
     Option.bind (after_scheme target_uri) (\<lambda>rest.
     case dropWhile (\<lambda>c. \<not> authority_end c) rest of
       [] \<Rightarrow> Some ''/''
     | after_authority \<Rightarrow>
         if starts_with after_authority ''/''
         then Some (takeWhile (\<lambda>c. c \<noteq> CHR ''?'' \<and> c \<noteq> CHR ''#'') after_authority)
         else Some ''/'')"

fun covered_header_loop :: "string \<Rightarrow> string option \<Rightarrow> headers \<Rightarrow> HttpProfileError + string option" where
  "covered_header_loop name found [] = Ok found"
| "covered_header_loop name found ((k, v) # hs) =
     (if eq_ignore_ascii_case k name
      then if found \<noteq> None then Err (MissingCoveredComponent name)
           else covered_header_loop name (Some (trim v)) hs
      else covered_header_loop name found hs)"

definition component_source ::
  "CoveredComponent \<Rightarrow> SourceMessage \<Rightarrow> HttpProfileError + HttpRequest option \<times> HttpResponse option" where
  "component_source c source =
     (case source of
        Request r \<Rightarrow> if cc_req c then Err (MissingCoveredComponent (cc_name c)) else Ok (Some r, None)
      | Response rsp r \<Rightarrow> if cc_req c then Ok (Some r, None) else Ok (None, Some rsp)
      | ResponseOnly rsp \<Rightarrow> if cc_req c then Err (MissingCoveredComponent (cc_name c)) else Ok (None, Some rsp))"

definition resolve_component_value :: "CoveredComponent \<Rightarrow> SourceMessage \<Rightarrow> HttpProfileError + string" where
  "resolve_component_value c source =
     try_bind (component_source c source) (\<lambda>(request, response).
     case strip_prefix ''@'' (cc_name c) of
       Some name \<Rightarrow>
         (case (request, response) of
            (Some r, _) \<Rightarrow>
              if name = ''method'' then Ok (rq_method r)
              else if name = ''target-uri'' then Ok (rq_target_uri r)
              else if name = ''authority''
              then ok_or (authority_of (rq_target_uri r)) (MissingCoveredComponent (cc_name c))
              else if name = ''path''
              then ok_or (path_of (rq_target_uri r)) (MissingCoveredComponent (cc_name c))
              else Err (MissingCoveredComponent (cc_name c))
          | (None, Some rsp) \<Rightarrow>
              if name = ''status'' then Ok (show_nat (rsp_status rsp))
              else Err (MissingCoveredComponent (cc_name c))
          | (None, None) \<Rightarrow> Err (MissingCoveredComponent (cc_name c)))
     | None \<Rightarrow>
         try_bind
           (case (request, response) of
              (Some r, None) \<Rightarrow> Ok (rq_headers r)
            | (None, Some rsp) \<Rightarrow> Ok (rsp_headers rsp)
            | _ \<Rightarrow> Err (MissingCoveredComponent (cc_name c))) (\<lambda>hs.
         try_bind (covered_header_loop (cc_name c) None hs) (\<lambda>found.
         ok_or found (MissingCoveredComponent (cc_name c)))))"

definition component_value :: "CoveredComponent \<Rightarrow> SourceMessage \<Rightarrow> HttpProfileError + string" where
  "component_value c source =
     try_bind (resolve_component_value c source) (\<lambda>v.
     if list_ex (\<lambda>b. b = CHR 0x0D \<or> b = CHR 0x0A) v
     then Err (MalformedEvidence ''covered component value contains CR or LF'')
     else Ok v)"

fun base_lines :: "CoveredComponent list \<Rightarrow> SourceMessage \<Rightarrow> HttpProfileError + string list" where
  "base_lines [] source = Ok []"
| "base_lines (c # cs) source =
     try_bind (component_value c source) (\<lambda>v.
     try_bind (base_lines cs source) (\<lambda>ls.
     Ok ((cc_identifier c @ '': '' @ v) # ls)))"

definition signature_base ::
  "CoveredComponent list \<Rightarrow> SignatureParams \<Rightarrow> SourceMessage \<Rightarrow> HttpProfileError + bytes" where
  "signature_base components params source =
     try_bind (base_lines components source) (\<lambda>lines.
     try_bind (serialize_with params components) (\<lambda>sp.
     Ok (join_with [CHR 0x0A] (lines @ [''\"@signature-params\": '' @ sp]))))"

section \<open>Structured-field dictionaries\<close>

text \<open>
  The scan shared by \<open>split_dictionary\<close> and \<open>split_parameters\<close>: the pieces between the delimiters
  outside quotes, before trimming. The two flags are \<open>in_quotes\<close> and \<open>escaped\<close>.
\<close>

fun cons_hd :: "char \<Rightarrow> string list \<Rightarrow> string list" where
  "cons_hd c [] = [[c]]"
| "cons_hd c (s # ss) = (c # s) # ss"

fun scan_split :: "char \<Rightarrow> bool \<Rightarrow> bool \<Rightarrow> string \<Rightarrow> string list" where
  "scan_split sep in_quotes escaped [] = [[]]"
| "scan_split sep in_quotes escaped (c # cs) =
     (if escaped then cons_hd c (scan_split sep in_quotes False cs)
      else if c = CHR 0x5C \<and> in_quotes then cons_hd c (scan_split sep in_quotes True cs)
      else if c = CHR ''\"'' then cons_hd c (scan_split sep (\<not> in_quotes) False cs)
      else if c = sep \<and> \<not> in_quotes then [] # scan_split sep in_quotes False cs
      else cons_hd c (scan_split sep in_quotes False cs))"

definition split_dictionary :: "string \<Rightarrow> string list" where
  "split_dictionary v = map trim (scan_split CHR '','' False False v)"

definition split_parameters :: "string \<Rightarrow> string list" where
  "split_parameters v = map trim (scan_split CHR '';'' False False v)"

fun member_value_loop :: "string \<Rightarrow> string option \<Rightarrow> string list \<Rightarrow> HttpProfileError + string option" where
  "member_value_loop label found [] = Ok found"
| "member_value_loop label found (member # ms) =
     (if member = [] then Err (MalformedEvidence ''empty dictionary member'')
      else case Option.bind (strip_prefix label member) (strip_prefix ''='') of
        None \<Rightarrow> member_value_loop label found ms
      | Some v \<Rightarrow>
          if found \<noteq> None then Err (MalformedEvidence ''duplicate signature label'')
          else if trim v \<noteq> v then Err (MalformedEvidence ''dictionary member spacing'')
          else member_value_loop label (Some v) ms)"

definition member_value :: "string \<Rightarrow> string \<Rightarrow> HttpProfileError + string" where
  "member_value header_value label =
     try_bind (member_value_loop label None (split_dictionary header_value)) (\<lambda>found.
     ok_or found (MissingEvidence ''signature label''))"

section \<open>Covered components\<close>

definition KNOWN_COMPONENTS :: "string list" where
  "KNOWN_COMPONENTS =
     [''@method'', ''@target-uri'', ''@authority'', ''@path'', ''@status'', ''content-digest'',
      ''content-type'', ''content-length'', ''authorization'', ''dpop'', ''mcp-method'', ''mcp-name'',
      ''mcp-protocol-version'', ''mcp-re-delegation'', ''mcp-re-request-evidence'']"

fun has_double_space :: "string \<Rightarrow> bool" where
  "has_double_space (a # b # s) = (a = CHR '' '' \<and> b = CHR '' '' \<or> has_double_space (b # s))"
| "has_double_space _ = False"

definition parse_component_item :: "string \<Rightarrow> HttpProfileError + CoveredComponent" where
  "parse_component_item item =
     (case (case strip_suffix '';req'' item of Some p \<Rightarrow> (p, True) | None \<Rightarrow> (item, False)) of
        (name_part, req) \<Rightarrow>
          try_bind (ok_or (Option.bind (strip_prefix ''\"'' name_part) (strip_suffix ''\"''))
                      (MalformedEvidence ''component identifier'')) (\<lambda>name.
          if name \<in> set KNOWN_COMPONENTS then Ok (if req then cc_new_req name else cc_new name)
          else Err (MalformedEvidence ''unknown covered component'')))"

fun parse_component_items ::
  "CoveredComponent list \<Rightarrow> string list \<Rightarrow> HttpProfileError + CoveredComponent list" where
  "parse_component_items components [] = Ok components"
| "parse_component_items components (item # items) =
     try_bind (parse_component_item item) (\<lambda>component.
     if list_ex (\<lambda>c. cc_name c = cc_name component \<and> cc_req c = cc_req component) components
     then Err (MalformedEvidence ''duplicate covered component'')
     else parse_component_items (components @ [component]) items)"

definition parse_covered_components :: "string \<Rightarrow> HttpProfileError + CoveredComponent list" where
  "parse_covered_components ls =
     (if starts_with ls '' '' \<or> ends_with ls '' '' \<or> has_double_space ls
      then Err (MalformedEvidence ''inner list spacing'')
      else if list_ex (\<lambda>b. b = CHR 0x09) ls then Err (MalformedEvidence ''inner list spacing'')
      else parse_component_items [] (filter (\<lambda>i. i \<noteq> []) (split_on CHR '' '' ls)))"

section \<open>Signature parameters\<close>

text \<open>The byte loop of \<open>check_tail_spelling\<close>: no space or tab outside quotes.\<close>

fun no_gap :: "bool \<Rightarrow> bool \<Rightarrow> string \<Rightarrow> bool" where
  "no_gap in_quotes escaped [] = True"
| "no_gap in_quotes escaped (b # bs) =
     (if escaped then no_gap in_quotes False bs
      else if b = CHR 0x5C \<and> in_quotes then no_gap in_quotes True bs
      else if b = CHR ''\"'' then no_gap (\<not> in_quotes) False bs
      else if (b = CHR '' '' \<or> b = CHR 0x09) \<and> \<not> in_quotes then False
      else no_gap in_quotes False bs)"

definition check_tail_spelling :: "string \<Rightarrow> HttpProfileError + unit" where
  "check_tail_spelling param_tail =
     (if param_tail = [] then Ok ()
      else if \<not> starts_with param_tail '';'' then Err (MalformedEvidence ''signature parameter spacing'')
      else if list_ex (\<lambda>seg. seg = []) (drop 1 (split_parameters param_tail))
      then Err (MalformedEvidence ''signature parameter spacing'')
      else if no_gap False False param_tail then Ok ()
      else Err (MalformedEvidence ''signature parameter spacing''))"

definition parameter_rank :: "string \<Rightarrow> HttpProfileError + int" where
  "parameter_rank key =
     (if key = ''created'' then Ok 0 else if key = ''expires'' then Ok 1
      else if key = ''nonce'' then Ok 2 else if key = ''keyid'' then Ok 3
      else if key = ''alg'' then Ok 4 else if key = ''tag'' then Ok 5
      else Err (MalformedEvidence ''unknown signature parameter''))"

definition unquote :: "string \<Rightarrow> HttpProfileError + string" where
  "unquote v =
     try_bind (ok_or (Option.bind (strip_prefix ''\"'' v) (strip_suffix ''\"''))
                 (MalformedEvidence ''quoted signature parameter'')) (\<lambda>inner.
     try_bind (validate_sf_string inner ''quoted signature parameter'') (\<lambda>_. Ok inner))"

text \<open>\<open>str::parse::<i64>\<close> on a string of the shape \<open>parse_i64\<close> has established: a sign or none, digits.\<close>

definition std_parse_i64 :: "string \<Rightarrow> int option" where
  "std_parse_i64 s =
     (case strip_prefix ''-'' s of
        Some digits \<Rightarrow> checked_i64 (- int (read_nat digits))
      | None \<Rightarrow> checked_i64 (int (read_nat s)))"

definition parse_i64 :: "string \<Rightarrow> HttpProfileError + int" where
  "parse_i64 s =
     (let malformed = MalformedEvidence ''integer signature parameter'';
          digits = (case strip_prefix ''-'' s of Some d \<Rightarrow> d | None \<Rightarrow> s)
      in if digits = [] \<or> \<not> list_all is_ascii_digit digits then Err malformed
         else if length digits > 1 \<and> starts_with digits ''0'' then Err malformed
         else if starts_with s ''-'' \<and> digits = ''0'' then Err malformed
         else ok_or (std_parse_i64 s) malformed)"

definition assign :: "SignatureParams \<Rightarrow> string \<Rightarrow> string \<Rightarrow> HttpProfileError + SignatureParams" where
  "assign p key v =
     (if key = ''created'' then try_bind (parse_i64 v) (\<lambda>i. Ok (p\<lparr>sp_created := Some i\<rparr>))
      else if key = ''expires'' then try_bind (parse_i64 v) (\<lambda>i. Ok (p\<lparr>sp_expires := Some i\<rparr>))
      else if key = ''nonce''
      then try_bind (unquote v) (\<lambda>nonce. try_bind (validate_nonce_length nonce) (\<lambda>_.
             Ok (p\<lparr>sp_nonce := Some nonce\<rparr>)))
      else if key = ''keyid'' then try_bind (unquote v) (\<lambda>s. Ok (p\<lparr>sp_keyid := Some s\<rparr>))
      else if key = ''alg'' then try_bind (unquote v) (\<lambda>s. Ok (p\<lparr>sp_alg := Some s\<rparr>))
      else try_bind (unquote v) (\<lambda>s. Ok (p\<lparr>sp_tag := Some s\<rparr>)))"

fun parse_parameter_list :: "SignatureParams \<Rightarrow> int \<Rightarrow> string list \<Rightarrow> HttpProfileError + SignatureParams" where
  "parse_parameter_list params last_param_rank [] = Ok params"
| "parse_parameter_list params last_param_rank (p # ps) =
     (if p = [] then parse_parameter_list params last_param_rank ps
      else try_bind (ok_or (split_once CHR ''='' p) (MalformedEvidence ''signature parameter'')) (\<lambda>(k, v).
           try_bind (parameter_rank k) (\<lambda>rank.
           if rank \<le> last_param_rank then Err (MalformedEvidence ''signature parameter order'')
           else try_bind (assign params k v) (\<lambda>params'. parse_parameter_list params' rank ps))))"

definition parse_signature_parameters :: "string \<Rightarrow> HttpProfileError + SignatureParams" where
  "parse_signature_parameters param_tail =
     try_bind (check_tail_spelling param_tail) (\<lambda>_.
     parse_parameter_list params_default (-1) (split_parameters param_tail))"

section \<open>The Signature-Input member\<close>

record ParsedSignatureInput =
  ps_components :: "CoveredComponent list"
  ps_params :: SignatureParams

text \<open>\<open>split_once\<close> at the first closing parenthesis gives both slices; the list drops the opening one.\<close>

definition parse_signature_input :: "string \<Rightarrow> HttpProfileError + ParsedSignatureInput" where
  "parse_signature_input value0 =
     (let v = trim value0 in
      if \<not> starts_with v ''('' then Err (MalformedEvidence ''inner list'')
      else try_bind (ok_or (split_once CHR '')'' v) (MalformedEvidence ''inner list'')) (\<lambda>(opened, param_tail).
           try_bind (parse_covered_components (drop 1 opened)) (\<lambda>components.
           try_bind (parse_signature_parameters param_tail) (\<lambda>params.
           Ok \<lparr>ps_components = components, ps_params = params\<rparr>))))"

definition parse_signature_input_for :: "headers \<Rightarrow> string \<Rightarrow> string \<Rightarrow> HttpProfileError + ParsedSignatureInput" where
  "parse_signature_input_for hs label what =
     try_bind (map_err (\<lambda>_. MissingEvidence what) (required_header hs ''signature-input'')) (\<lambda>input_header.
     try_bind (member_value input_header label) parse_signature_input)"

end
