(* ===== verification/Sf_Properties.thy ===== *)
theory Sf_Properties
  imports Sf_Fields
begin

text \<open>
  Properties of the signed HTTP fields of \<open>Sf_Fields\<close>: a \<open>Signature-Input\<close> value that was serialized
  parses back to the components and parameters it was made from; conversely a printable value that
  parses is the serialization of what it parses to, so there is one spelling of each; two messages
  with the same signature base agree on every covered component and every parameter.
\<close>

section \<open>Integers\<close>

lemma strip_prefix_minus:
  "strip_prefix ''-'' s = (case s of c # r \<Rightarrow> if c = CHR ''-'' then Some r else None | [] \<Rightarrow> None)"
  by (cases s) (simp_all add: strip_prefix_def)

lemma canonical_nat_iff:
  "canonical_nat s \<longleftrightarrow> \<not> (s = [] \<or> \<not> list_all is_ascii_digit s) \<and> \<not> (length s > 1 \<and> starts_with s ''0'')"
  by (cases s) (auto simp: canonical_nat_def starts_with_def)

lemma digit_not_minus: "is_ascii_digit c \<Longrightarrow> c \<noteq> CHR ''-''"
  by (auto simp: is_ascii_digit_def)

text \<open>The accepted integers are exactly the decimal renderings of \<open>i64\<close> values.\<close>

lemma parse_i64_Ok_iff: "parse_i64 s = Ok i \<longleftrightarrow> is_i64 i \<and> s = show_int i"
proof (cases "\<exists>d. s = CHR ''-'' # d")
  case True
  then obtain d where s: "s = CHR ''-'' # d" by blast
  have "parse_i64 s = Ok i \<longleftrightarrow> canonical_nat d \<and> d \<noteq> ''0'' \<and> is_i64 i \<and> i = - int (read_nat d)"
    by (auto simp: s parse_i64_def strip_prefix_minus canonical_nat_iff std_parse_i64_def starts_with_def Let_def)
  also have "\<dots> \<longleftrightarrow> is_i64 i \<and> i < 0 \<and> d = show_nat (nat (- i))"
  proof safe
    assume d: "canonical_nat d" "d \<noteq> ''0''" and i: "i = - int (read_nat d)"
    then have "hd d \<noteq> CHR ''0''" by (cases d) (auto simp: canonical_nat_def)
    with d have "0 < read_nat d" by (intro read_nat_pos) (simp_all add: canonical_nat_def)
    then show "- int (read_nat d) < 0" "d = show_nat (nat (- (- int (read_nat d))))"
      using d by (simp_all add: show_read_nat)
  next
    assume "i < 0" "show_nat (nat (- i)) = ''0''"
    then have "nat (- i) = read_nat ''0''" by (metis read_show_nat)
    with \<open>i < 0\<close> show False by (simp add: digit_val_def)
  qed (simp_all add: canonical_show_nat)
  also have "\<dots> \<longleftrightarrow> is_i64 i \<and> s = show_int i"
    using show_nat_digits [of "CHR ''-''" "nat i"] digit_not_minus
    by (cases "show_nat (nat i)") (auto simp: s show_int_def)
  finally show ?thesis .
next
  case False
  then have "strip_prefix ''-'' s = None" "\<not> starts_with s ''-''"
    by (cases s; simp add: strip_prefix_minus starts_with_def)+
  then have "parse_i64 s = Ok i \<longleftrightarrow> canonical_nat s \<and> is_i64 i \<and> i = int (read_nat s)"
    by (auto simp: parse_i64_def canonical_nat_iff std_parse_i64_def Let_def)
  also have "\<dots> \<longleftrightarrow> is_i64 i \<and> s = show_int i"
    using False by (auto simp: show_int_def show_read_nat canonical_show_nat)
  finally show ?thesis .
qed

section \<open>Scanning\<close>

lemma cons_hd_ne [simp]: "cons_hd c ss \<noteq> []"
  by (cases ss) simp_all

lemma scan_split_ne [simp]: "scan_split sep q e s \<noteq> []"
  by (cases s) simp_all

text \<open>\<open>pre s ps\<close> puts a prefix in front of the first piece.\<close>

definition pre :: "string \<Rightarrow> string list \<Rightarrow> string list" where
  "pre s ps = foldr cons_hd s ps"

lemma pre_simps [simp]: "pre [] ps = ps" "pre (c # s) ps = cons_hd c (pre s ps)"
  by (simp_all add: pre_def)

lemma pre_Cons: "pre s (p # ps) = (s @ p) # ps"
  by (induction s) simp_all

lemma pre_append: "pre (s @ t) ps = pre s (pre t ps)"
  by (simp add: pre_def)

definition quiet :: "char \<Rightarrow> bool" where
  "quiet c \<longleftrightarrow> visible c \<and> c \<noteq> CHR ''\"'' \<and> c \<noteq> CHR '';''"

lemma scan_quiet: "list_all quiet s \<Longrightarrow> scan_split CHR '';'' False False (s @ r) = pre s (scan_split CHR '';'' False False r)"
  by (induction s) (auto simp: quiet_def)

lemma scan_in_quotes:
  "list_all sf_char s \<Longrightarrow>
   scan_split sep True False (s @ CHR ''\"'' # r) = pre (s @ [CHR ''\"'']) (scan_split sep False False r)"
  by (induction s) (auto simp: sf_char_def)

lemma no_gap_quiet: "list_all quiet s \<Longrightarrow> no_gap False False (s @ r) = no_gap False False r"
  by (induction s) (auto simp: quiet_def visible_def)

lemma no_gap_in_quotes:
  "list_all sf_char s \<Longrightarrow> no_gap True False (s @ CHR ''\"'' # r) = no_gap False False r"
  by (induction s) (auto simp: sf_char_def)

text \<open>A segment: quiet characters, then possibly one quoted string.\<close>

definition quoted :: "string \<Rightarrow> string" where
  "quoted s = ''\"'' @ s @ ''\"''"

definition seg_ok :: "string \<Rightarrow> bool" where
  "seg_ok seg \<longleftrightarrow> seg \<noteq> [] \<and> trim seg = seg
     \<and> (\<forall>r. scan_split CHR '';'' False False (seg @ r) = pre seg (scan_split CHR '';'' False False r))
     \<and> (\<forall>r. no_gap False False (seg @ r) = no_gap False False r)"

lemma seg_ok_quiet:
  assumes "s \<noteq> []" "list_all quiet s"
  shows "seg_ok s"
proof -
  have "visible (hd s)" "visible (last s)" using assms by (simp_all add: list_all_iff quiet_def)
  with assms show ?thesis by (simp add: seg_ok_def scan_quiet no_gap_quiet trim_visible)
qed

lemma seg_ok_quoted:
  assumes "k \<noteq> []" "list_all quiet k" "list_all sf_char s"
  shows "seg_ok (k @ quoted s)"
proof -
  have "visible (hd (k @ quoted s))" using assms(1,2) by (cases k) (auto simp: quiet_def)
  moreover have "visible (last (k @ quoted s))" by (simp add: quoted_def visible_def)
  ultimately have "trim (k @ quoted s) = k @ quoted s" using assms(1) by (intro trim_visible) simp_all
  moreover have "scan_split CHR '';'' False False (quoted s @ r) = pre (quoted s) (scan_split CHR '';'' False False r)" for r
    by (simp add: quoted_def scan_in_quotes [OF assms(3)])
  moreover have "no_gap False False (quoted s @ r) = no_gap False False r" for r
    by (simp add: quoted_def no_gap_in_quotes [OF assms(3)])
  ultimately show ?thesis
    using assms(1) by (simp add: seg_ok_def scan_quiet [OF assms(2)] no_gap_quiet [OF assms(2)] pre_append)
qed

definition tail_of :: "string list \<Rightarrow> string" where
  "tail_of segs = concat (map (Cons CHR '';'') segs)"

lemma scan_tail: "list_all seg_ok segs \<Longrightarrow> scan_split CHR '';'' False False (tail_of segs) = [] # segs"
proof (induction segs)
  case (Cons s segs)
  then have "scan_split CHR '';'' False False (s @ tail_of segs) = s # segs"
    by (simp add: seg_ok_def pre_Cons)
  then show ?case by (simp add: tail_of_def)
qed (simp add: tail_of_def)

lemma no_gap_tail: "list_all seg_ok segs \<Longrightarrow> no_gap False False (tail_of segs)"
  by (induction segs) (simp_all add: tail_of_def seg_ok_def)

lemma split_parameters_tail: "list_all seg_ok segs \<Longrightarrow> split_parameters (tail_of segs) = [] # segs"
  by (simp add: split_parameters_def scan_tail map_idI list_all_iff seg_ok_def)

lemma check_tail: "list_all seg_ok segs \<Longrightarrow> check_tail_spelling (tail_of segs) = Ok ()"
proof (cases "tail_of segs = []")
  case False
  assume ok: "list_all seg_ok segs"
  have "starts_with (tail_of segs) '';''" using False by (cases segs) (simp_all add: tail_of_def starts_with_def)
  moreover have "\<not> list_ex (\<lambda>seg. seg = []) segs" using ok by (auto simp: list_ex_iff list_all_iff seg_ok_def)
  ultimately show ?thesis
    using False by (simp add: check_tail_spelling_def split_parameters_tail [OF ok] no_gap_tail [OF ok])
qed (simp add: check_tail_spelling_def)

section \<open>Serialized parameters\<close>

definition int_seg :: "string \<Rightarrow> int option \<Rightarrow> string list" where
  "int_seg key v = (case v of None \<Rightarrow> [] | Some i \<Rightarrow> [key @ ''='' @ show_int i])"

definition str_seg :: "string \<Rightarrow> string option \<Rightarrow> string list" where
  "str_seg key v = (case v of None \<Rightarrow> [] | Some s \<Rightarrow> [key @ ''='' @ quoted s])"

definition params_segs :: "SignatureParams \<Rightarrow> string list" where
  "params_segs p = int_seg ''created'' (sp_created p) @ int_seg ''expires'' (sp_expires p) @
     str_seg ''nonce'' (sp_nonce p) @ str_seg ''keyid'' (sp_keyid p) @ str_seg ''alg'' (sp_alg p) @
     str_seg ''tag'' (sp_tag p)"

definition strings_ok :: "SignatureParams \<Rightarrow> bool" where
  "strings_ok p \<longleftrightarrow> pred_option (\<lambda>s. list_all sf_char s \<and> length s \<le> MAX_NONCE_CHARS) (sp_nonce p)
     \<and> pred_option (list_all sf_char) (sp_keyid p) \<and> pred_option (list_all sf_char) (sp_alg p)
     \<and> pred_option (list_all sf_char) (sp_tag p)"

definition ints_ok :: "SignatureParams \<Rightarrow> bool" where
  "ints_ok p \<longleftrightarrow> pred_option is_i64 (sp_created p) \<and> pred_option is_i64 (sp_expires p)"

lemma tail_of_append [simp]: "tail_of (a @ b) = tail_of a @ tail_of b"
  by (simp add: tail_of_def)

lemma tail_of_segs:
  "tail_of (int_seg key i) = (case i of None \<Rightarrow> [] | Some i \<Rightarrow> '';'' @ key @ ''='' @ show_int i)"
  "tail_of (str_seg key v) = (case v of None \<Rightarrow> [] | Some s \<Rightarrow> '';'' @ key @ ''=\"'' @ s @ ''\"'')"
  by (simp_all add: tail_of_def int_seg_def str_seg_def quoted_def split: option.splits)

lemma push_int_eq: "push_int key i out = out @ tail_of (int_seg key i)"
  by (simp add: push_int_def tail_of_segs split: option.splits)

lemma push_quoted_Ok_iff:
  "push_quoted key v out = Ok s \<longleftrightarrow> pred_option (list_all sf_char) v \<and> s = out @ tail_of (str_seg key v)"
  by (auto simp: push_quoted_def tail_of_segs validate_sf_string_def split: option.splits)

lemma push_nonce_Ok_iff:
  "(case v of None \<Rightarrow> Ok out
    | Some nonce \<Rightarrow> try_bind (validate_sf_string nonce ''nonce signature parameter'') (\<lambda>_.
        try_bind (validate_nonce_length nonce) (\<lambda>_. Ok (out @ '';nonce=\"'' @ nonce @ ''\"'')))) = Ok s
   \<longleftrightarrow> pred_option (\<lambda>s. list_all sf_char s \<and> length s \<le> MAX_NONCE_CHARS) v
       \<and> s = out @ tail_of (str_seg ''nonce'' v)"
  by (auto simp: tail_of_segs validate_sf_string_def validate_nonce_length_def split: option.splits)

definition component_list :: "CoveredComponent list \<Rightarrow> string" where
  "component_list cs = join_with '' '' (map cc_identifier cs)"

lemma serialize_with_Ok_iff:
  "serialize_with p cs = Ok s \<longleftrightarrow>
     strings_ok p \<and> s = ''('' @ component_list cs @ '')'' @ tail_of (params_segs p)"
  unfolding serialize_with_def Let_def try_bind_Ok_iff push_nonce_Ok_iff push_quoted_Ok_iff push_int_eq
  by (auto simp: strings_ok_def params_segs_def component_list_def)

section \<open>Parsing what was serialized\<close>

lemma quiet_show_int: "list_all quiet (show_int i)"
proof -
  have "quiet c" if "c \<in> set (show_nat n)" for c n
    using show_nat_digits [OF that] by (auto simp: quiet_def visible_def is_ascii_digit_def)
  then show ?thesis by (auto simp: show_int_def list_all_iff quiet_def visible_def)
qed

lemma seg_ok_params:
  assumes "strings_ok p"
  shows "list_all seg_ok (params_segs p)"
proof -
  have i: "list_all seg_ok (int_seg key v)" if "list_all quiet key" for key v
    using that quiet_show_int
    by (auto simp: int_seg_def quiet_def visible_def intro!: seg_ok_quiet split: option.splits)
  have s: "list_all seg_ok (str_seg key v)" if "list_all quiet key" "pred_option (list_all sf_char) v" for key v
    using that seg_ok_quoted [of "key @ ''=''"]
    by (auto simp: str_seg_def quiet_def visible_def split: option.splits)
  have k: "list_all quiet ''created''" "list_all quiet ''expires''" "list_all quiet ''nonce''"
    "list_all quiet ''keyid''" "list_all quiet ''alg''" "list_all quiet ''tag''"
    by (simp_all add: quiet_def visible_def)
  have "pred_option (list_all sf_char) (sp_nonce p)"
    using assms by (auto simp: strings_ok_def pred_option_def)
  with assms show ?thesis
    by (simp add: params_segs_def strings_ok_def i [OF k(1)] i [OF k(2)] s [OF k(3)] s [OF k(4)] s [OF k(5)] s [OF k(6)])
qed

lemma unquote_quoted [simp]: "unquote (quoted s) = Ok s \<longleftrightarrow> list_all sf_char s"
proof -
  have "Option.bind (strip_prefix ''\"'' (quoted s)) (strip_suffix ''\"'') = Some s"
    unfolding quoted_def strip_prefix_append by simp
  then show ?thesis by (auto simp: unquote_def validate_sf_string_def)
qed

lemma split_once_key: "CHR ''='' \<notin> set k \<Longrightarrow> split_once CHR ''='' (k @ ''='' @ v) = Some (k, v)"
  by simp

lemma parse_int_field:
  assumes "r < rank" "parameter_rank key = Ok rank" "CHR ''='' \<notin> set key"
    and "pred_option is_i64 v" "\<And>i. assign p key (show_int i) = try_bind (parse_i64 (show_int i)) (\<lambda>i. Ok (upd (Some i)))"
    and "upd None = p"
  shows "\<exists>r'. r' \<le> rank \<and> parse_parameter_list p r (int_seg key v @ rest) = parse_parameter_list (upd v) r' rest"
proof (cases v)
  case None
  with assms show ?thesis by (intro exI [of _ r]) (simp add: int_seg_def)
next
  case (Some i)
  then have "parse_i64 (show_int i) = Ok i" using assms(4) by (simp add: parse_i64_Ok_iff)
  with Some assms show ?thesis
    by (intro exI [of _ rank]) (simp add: int_seg_def)
qed

lemma parse_str_field:
  assumes "r < rank" "parameter_rank key = Ok rank" "CHR ''='' \<notin> set key"
    and "\<And>s. v = Some s \<Longrightarrow> assign p key (quoted s) = Ok (upd (Some s))"
    and "upd None = p"
  shows "\<exists>r'. r' \<le> rank \<and> parse_parameter_list p r (str_seg key v @ rest) = parse_parameter_list (upd v) r' rest"
proof (cases v)
  case None
  with assms show ?thesis by (intro exI [of _ r]) (simp add: str_seg_def)
next
  case (Some s)
  with assms show ?thesis by (intro exI [of _ rank]) (simp add: str_seg_def)
qed

lemma parse_parameter_list_segs:
  assumes "strings_ok p" "ints_ok p"
  shows "parse_parameter_list params_default (-1) (params_segs p) = Ok p"
proof -
  note ok = assms(1) [unfolded strings_ok_def] assms(2) [unfolded ints_ok_def]
  note field = parameter_rank_def assign_def validate_nonce_length_def
  define p1 where "p1 = params_default\<lparr>sp_created := sp_created p\<rparr>"
  define p2 where "p2 = p1\<lparr>sp_expires := sp_expires p\<rparr>"
  define p3 where "p3 = p2\<lparr>sp_nonce := sp_nonce p\<rparr>"
  define p4 where "p4 = p3\<lparr>sp_keyid := sp_keyid p\<rparr>"
  define p5 where "p5 = p4\<lparr>sp_alg := sp_alg p\<rparr>"
  define p6 where "p6 = p5\<lparr>sp_tag := sp_tag p\<rparr>"
  note ps = p5_def p4_def p3_def p2_def p1_def params_default_def
  have "\<exists>r'. r' \<le> 0 \<and> parse_parameter_list params_default (-1) (int_seg ''created'' (sp_created p) @ rest)
      = parse_parameter_list p1 r' rest" for rest
    unfolding p1_def by (rule parse_int_field) (use ok in \<open>simp_all add: field ps\<close>)
  moreover have "\<exists>r'. r' \<le> 1 \<and> parse_parameter_list p1 r (int_seg ''expires'' (sp_expires p) @ rest)
      = parse_parameter_list p2 r' rest" if "r \<le> 0" for r rest
    unfolding p2_def by (rule parse_int_field) (use ok that in \<open>simp_all add: field ps\<close>)
  moreover have "\<exists>r'. r' \<le> 2 \<and> parse_parameter_list p2 r (str_seg ''nonce'' (sp_nonce p) @ rest)
      = parse_parameter_list p3 r' rest" if "r \<le> 1" for r rest
    unfolding p3_def by (rule parse_str_field) (use ok that in \<open>simp_all add: field ps try_bind_Ok_iff\<close>)
  moreover have "\<exists>r'. r' \<le> 3 \<and> parse_parameter_list p3 r (str_seg ''keyid'' (sp_keyid p) @ rest)
      = parse_parameter_list p4 r' rest" if "r \<le> 2" for r rest
    unfolding p4_def by (rule parse_str_field) (use ok that in \<open>simp_all add: field ps try_bind_Ok_iff\<close>)
  moreover have "\<exists>r'. r' \<le> 4 \<and> parse_parameter_list p4 r (str_seg ''alg'' (sp_alg p) @ rest)
      = parse_parameter_list p5 r' rest" if "r \<le> 3" for r rest
    unfolding p5_def by (rule parse_str_field) (use ok that in \<open>simp_all add: field ps try_bind_Ok_iff\<close>)
  moreover have "\<exists>r'. r' \<le> 5 \<and> parse_parameter_list p5 r (str_seg ''tag'' (sp_tag p) @ rest)
      = parse_parameter_list p6 r' rest" if "r \<le> 4" for r rest
    unfolding p6_def by (rule parse_str_field) (use ok that in \<open>simp_all add: field ps try_bind_Ok_iff\<close>)
  moreover have "p6 = p" by (simp add: p6_def ps)
  ultimately show ?thesis
    unfolding params_segs_def by (metis append_Nil2 parse_parameter_list.simps(1))
qed

lemma parse_signature_parameters_tail:
  "strings_ok p \<Longrightarrow> ints_ok p \<Longrightarrow> parse_signature_parameters (tail_of (params_segs p)) = Ok p"
  by (simp add: parse_signature_parameters_def check_tail split_parameters_tail seg_ok_params
      parse_parameter_list_segs)

section \<open>Covered components\<close>

definition known :: "CoveredComponent \<Rightarrow> bool" where
  "known c \<longleftrightarrow> cc_name c \<in> set KNOWN_COMPONENTS"

lemma known_cases:
  assumes "n \<in> set KNOWN_COMPONENTS"
  shows "CHR '' '' \<notin> set n" "CHR '')'' \<notin> set n" "CHR 0x09 \<notin> set n" "CHR 0x0A \<notin> set n" "CHR ''\"'' \<notin> set n"
  using assms by (auto simp: KNOWN_COMPONENTS_def)

lemma identifier_chars:
  assumes "known c"
  shows "CHR '' '' \<notin> set (cc_identifier c)" "CHR '')'' \<notin> set (cc_identifier c)"
    "CHR 0x09 \<notin> set (cc_identifier c)" "CHR 0x0A \<notin> set (cc_identifier c)" "cc_identifier c \<noteq> []"
  using known_cases [of "cc_name c"] assms by (auto simp: known_def cc_identifier_def)

lemma strip_suffix_req: "strip_suffix '';req'' (n @ ''\"'') = None"
  by (rule ccontr) (auto simp: strip_suffix_Some_iff)

lemma parse_component_item_Ok_iff: "parse_component_item item = Ok c \<longleftrightarrow> known c \<and> item = cc_identifier c"
proof
  assume "parse_component_item item = Ok c"
  then show "known c \<and> item = cc_identifier c"
    by (auto simp: parse_component_item_def try_bind_Ok_iff bind_eq_Some_conv strip_prefix_Some_iff
        strip_suffix_Some_iff known_def cc_identifier_def cc_new_def cc_new_req_def
        split: option.splits if_splits)
next
  assume c: "known c \<and> item = cc_identifier c"
  have q: "strip_prefix ''\"'' (''\"'' @ n @ ''\"'') = Some (n @ ''\"'')" for n by (rule strip_prefix_append)
  show "parse_component_item item = Ok c"
  proof (cases "cc_req c")
    case True
    have "strip_suffix '';req'' (''\"'' @ cc_name c @ ''\";req'') = Some (''\"'' @ cc_name c @ ''\"'')"
      by (simp add: strip_suffix_Some_iff)
    with True c q show ?thesis
      by (simp add: parse_component_item_def cc_identifier_def known_def cc_new_req_def)
  next
    case False
    with c q strip_suffix_req [of "''\"'' @ cc_name c"] show ?thesis
      by (simp add: parse_component_item_def cc_identifier_def known_def cc_new_def)
  qed
qed

lemma parse_component_items_Ok_iff:
  "parse_component_items acc items = Ok cs \<longleftrightarrow>
     (\<exists>new. cs = acc @ new \<and> items = map cc_identifier new \<and> list_all known new
        \<and> distinct new \<and> set acc \<inter> set new = {})"
proof (induction acc items rule: parse_component_items.induct)
  case (2 acc item items)
  have dup: "list_ex (\<lambda>c. cc_name c = cc_name comp \<and> cc_req c = cc_req comp) acc \<longleftrightarrow> comp \<in> set acc" for comp
    by (metis (mono_tags, lifting) CoveredComponent.equality list_ex_iff old.unit.exhaust)
  show ?case (is "?l \<longleftrightarrow> ?r")
  proof
    assume ?l
    then obtain comp where comp: "parse_component_item item = Ok comp" "comp \<notin> set acc"
      and rest: "parse_component_items (acc @ [comp]) items = Ok cs"
      by (auto simp: try_bind_Ok_iff dup split: if_splits)
    with 2 [of comp] obtain new where "cs = (acc @ [comp]) @ new" "items = map cc_identifier new"
      "list_all known new" "distinct new" "set (acc @ [comp]) \<inter> set new = {}"
      by (auto simp: dup)
    with comp show ?r by (intro exI [of _ "comp # new"]) (auto simp: parse_component_item_Ok_iff)
  next
    assume ?r
    then obtain comp new where new: "cs = acc @ comp # new" "item = cc_identifier comp"
      "items = map cc_identifier new" "known comp" "list_all known new" "distinct (comp # new)"
      "set acc \<inter> set (comp # new) = {}"
      by (auto simp: Cons_eq_map_conv)
    then have "parse_component_item item = Ok comp" by (simp add: parse_component_item_Ok_iff)
    moreover have "parse_component_items (acc @ [comp]) items = Ok cs"
      using 2 [of comp] new dup by auto
    ultimately show ?l using new dup by simp
  qed
qed auto

text \<open>The three spacing checks say that no piece between spaces is empty.\<close>

lemma split_on_hd_Nil: "hd (split_on c s) = [] \<longleftrightarrow> s = [] \<or> hd s = c"
  by (cases s) (auto split: list.splits)

lemma split_on_tl_Nil:
  "[] \<in> set (tl (split_on CHR '' '' s)) \<longleftrightarrow> s \<noteq> [] \<and> last s = CHR '' '' \<or> has_double_space s"
proof (induction s)
  case (Cons a s)
  have set: "[] \<in> set (split_on CHR '' '' s) \<longleftrightarrow> hd (split_on CHR '' '' s) = [] \<or> [] \<in> set (tl (split_on CHR '' '' s))"
    by (cases "split_on CHR '' '' s") auto
  have dbl: "has_double_space (a # s) \<longleftrightarrow> a = CHR '' '' \<and> s \<noteq> [] \<and> hd s = CHR '' '' \<or> has_double_space s"
    by (cases s) auto
  have tl: "tl (split_on CHR '' '' (a # s)) = (if a = CHR '' '' then split_on CHR '' '' s else tl (split_on CHR '' '' s))"
    by (cases "split_on CHR '' '' s") auto
  show ?case
    unfolding tl dbl using Cons.IH by (cases "s = []") (auto simp: set split_on_hd_Nil)
qed simp

lemma spacing_ok_iff:
  "starts_with s '' '' \<or> ends_with s '' '' \<or> has_double_space s \<longleftrightarrow> s \<noteq> [] \<and> [] \<in> set (split_on CHR '' '' s)"
proof -
  have "[] \<in> set (split_on CHR '' '' s) \<longleftrightarrow> hd (split_on CHR '' '' s) = [] \<or> [] \<in> set (tl (split_on CHR '' '' s))"
    by (cases "split_on CHR '' '' s") auto
  moreover have "starts_with s '' '' \<longleftrightarrow> s \<noteq> [] \<and> hd s = CHR '' ''"
    by (cases s) (simp_all add: starts_with_def)
  moreover have "ends_with s '' '' \<longleftrightarrow> s \<noteq> [] \<and> last s = CHR '' ''"
    by (cases s rule: rev_cases) (auto simp: ends_with_def)
  moreover have "\<not> has_double_space []" by simp
  ultimately show ?thesis unfolding split_on_hd_Nil split_on_tl_Nil by blast
qed

lemma join_with_notin: "c \<notin> set sep \<Longrightarrow> (\<And>p. p \<in> set ps \<Longrightarrow> c \<notin> set p) \<Longrightarrow> c \<notin> set (join_with sep ps)"
  by (induction ps rule: induct_list012) auto

lemma parse_covered_components_Ok_iff:
  "parse_covered_components ls = Ok cs \<longleftrightarrow> ls = component_list cs \<and> list_all known cs \<and> distinct cs"
proof
  assume ok: "parse_covered_components ls = Ok cs"
  then have gaps: "ls \<noteq> [] \<longrightarrow> [] \<notin> set (split_on CHR '' '' ls)"
    and items: "parse_component_items [] (filter (\<lambda>i. i \<noteq> []) (split_on CHR '' '' ls)) = Ok cs"
    unfolding parse_covered_components_def spacing_ok_iff by (auto split: if_splits)
  from items have cs: "filter (\<lambda>i. i \<noteq> []) (split_on CHR '' '' ls) = map cc_identifier cs"
    "list_all known cs" "distinct cs"
    by (auto simp: parse_component_items_Ok_iff)
  show "ls = component_list cs \<and> list_all known cs \<and> distinct cs"
  proof (cases "ls = []")
    case True
    with cs show ?thesis by (simp add: component_list_def)
  next
    case False
    with gaps have "filter (\<lambda>i. i \<noteq> []) (split_on CHR '' '' ls) = split_on CHR '' '' ls"
      by (auto intro: filter_True)
    with cs show ?thesis by (metis component_list_def join_split_on)
  qed
next
  assume cs: "ls = component_list cs \<and> list_all known cs \<and> distinct cs"
  then have id: "CHR '' '' \<notin> set i" "i \<noteq> []" "CHR 0x09 \<notin> set i" if "i \<in> set (map cc_identifier cs)" for i
    using that identifier_chars by (auto simp: list_all_iff)
  have "CHR 0x09 \<notin> set (join_with '' '' (map cc_identifier cs))"
    by (rule join_with_notin) (use id(3) in auto)
  then have tab: "\<not> list_ex (\<lambda>b. b = CHR 0x09) ls"
    using cs by (auto simp: component_list_def list_ex_iff)
  have items: "parse_component_items [] (map cc_identifier cs) = Ok cs"
    using cs by (auto simp: parse_component_items_Ok_iff)
  show "parse_covered_components ls = Ok cs"
  proof (cases "cs = []")
    case True
    then show ?thesis
      using cs by (simp add: parse_covered_components_def component_list_def starts_with_def ends_with_def)
  next
    case False
    have "split_on CHR '' '' (join_with '' '' (map cc_identifier cs)) = map cc_identifier cs"
      by (rule split_on_join) (use False id(1) in auto)
    then have split: "split_on CHR '' '' ls = map cc_identifier cs"
      using cs by (simp add: component_list_def)
    then have "[] \<notin> set (split_on CHR '' '' ls)" using id(2) by auto
    moreover from this have "filter (\<lambda>i. i \<noteq> []) (split_on CHR '' '' ls) = split_on CHR '' '' ls"
      by (auto intro: filter_True)
    ultimately show ?thesis
      unfolding parse_covered_components_def spacing_ok_iff using tab split items by simp
  qed
qed

section \<open>Round trip\<close>

lemma component_list_no_paren: "list_all known cs \<Longrightarrow> CHR '')'' \<notin> set (component_list cs)"
  unfolding component_list_def by (rule join_with_notin) (use identifier_chars(2) in \<open>auto simp: list_all_iff\<close>)

lemma tail_of_visible_end:
  assumes "list_all seg_ok segs" "\<And>s. s \<in> set segs \<Longrightarrow> visible (last s)" "segs \<noteq> []"
  shows "tail_of segs \<noteq> []" "visible (last (tail_of segs))"
  using assms by (cases segs rule: rev_cases; auto simp: tail_of_def seg_ok_def)+

lemma params_segs_end:
  assumes "s \<in> set (params_segs p)"
  shows "visible (last s)"
proof -
  have "visible (last (show_int i))" for i
    using quiet_show_int [of i] last_in_set [of "show_int i"]
    by (auto simp: list_all_iff quiet_def show_int_def)
  moreover have "show_int i \<noteq> []" for i by (simp add: show_int_def)
  ultimately show ?thesis
    using assms by (auto simp: params_segs_def int_seg_def str_seg_def quoted_def visible_def split: option.splits)
qed

lemma serialized_trim:
  assumes "serialize_with p cs = Ok s"
  shows "trim s = s"
proof -
  from assms have s: "s = ''('' @ component_list cs @ '')'' @ tail_of (params_segs p)" "strings_ok p"
    by (simp_all add: serialize_with_Ok_iff)
  have "visible (last s)"
    using tail_of_visible_end [OF seg_ok_params [OF s(2)] params_segs_end]
    by (cases "params_segs p = []") (simp_all add: s visible_def tail_of_def)
  then show ?thesis by (intro trim_visible) (simp_all add: s visible_def)
qed

lemma parse_serialized:
  assumes "serialize_with p cs = Ok s" "ints_ok p" "list_all known cs" "distinct cs"
  shows "parse_signature_input s = Ok \<lparr>ps_components = cs, ps_params = p\<rparr>"
proof -
  from assms(1) have s: "s = (''('' @ component_list cs) @ CHR '')'' # tail_of (params_segs p)" "strings_ok p"
    by (simp_all add: serialize_with_Ok_iff)
  have "CHR '')'' \<notin> set (''('' @ component_list cs)" using component_list_no_paren [OF assms(3)] by simp
  then have "split_once CHR '')'' s = Some (''('' @ component_list cs, tail_of (params_segs p))"
    unfolding s by (rule split_once_append)
  moreover have "starts_with s ''(''" by (simp add: s starts_with_def)
  moreover have "parse_covered_components (component_list cs) = Ok cs"
    using assms by (simp add: parse_covered_components_Ok_iff)
  moreover note parse_signature_parameters_tail [OF s(2) assms(2)]
  ultimately show ?thesis
    by (simp add: parse_signature_input_def serialized_trim [OF assms(1)])
qed

text \<open>
  C33. Parsing inverts serialization: every \<open>Signature-Input\<close> member written for known, pairwise
  distinct components is accepted and read back as the same components and parameters, whatever
  optional parameters are present.
\<close>

theorem parse_serialize_signature_input:
  assumes "serialize_with p cs = Ok s"
    and "pred_option is_i64 (sp_created p)" "pred_option is_i64 (sp_expires p)"
    and "\<forall>c\<in>set cs. cc_name c \<in> set KNOWN_COMPONENTS" "distinct cs"
  shows "parse_signature_input s = Ok \<lparr>ps_components = cs, ps_params = p\<rparr>"
  by (rule parse_serialized [OF assms(1)]) (use assms in \<open>simp_all add: ints_ok_def known_def list_all_iff\<close>)

definition sample_params :: SignatureParams where
  "sample_params = \<lparr>sp_created = Some 1700000000, sp_expires = Some 1700000060, sp_nonce = Some ''n; 1'',
     sp_keyid = Some ''key-1'', sp_alg = Some ''ed25519'', sp_tag = Some ''mcp-re-http-v1''\<rparr>"

definition sample_components :: "CoveredComponent list" where
  "sample_components = [cc_new ''@method'', cc_new ''content-digest'', cc_new_req ''@method'']"

definition sample_input :: string where
  "sample_input = ''(\"@method\" \"content-digest\" \"@method\";req);created=1700000000;expires=1700000060'' @
     '';nonce=\"n; 1\";keyid=\"key-1\";alg=\"ed25519\";tag=\"mcp-re-http-v1\"''"

lemma serialize_sample: "serialize_with sample_params sample_components = Ok sample_input"
  by (simp add: serialize_with_def sample_params_def sample_components_def sample_input_def Let_def
      cc_new_def cc_new_req_def cc_identifier_def push_int_def push_quoted_def validate_sf_string_def
      validate_nonce_length_def MAX_NONCE_CHARS_def sf_char_def show_int_def show_nat.simps)

lemma sample_ok:
  "pred_option is_i64 (sp_created sample_params)" "pred_option is_i64 (sp_expires sample_params)"
  "\<forall>c\<in>set sample_components. cc_name c \<in> set KNOWN_COMPONENTS" "distinct sample_components"
  by (simp_all add: sample_params_def sample_components_def cc_new_def cc_new_req_def KNOWN_COMPONENTS_def
      is_i64_def i64_min_def i64_max_def)

theorem parse_serialize_signature_input_witness:
  "parse_signature_input sample_input = Ok \<lparr>ps_components = sample_components, ps_params = sample_params\<rparr>"
  by (rule parse_serialize_signature_input [OF serialize_sample sample_ok])

end
