(* ===== verification/Sf_Spelling.thy ===== *)
theory Sf_Spelling
  imports Sf_Properties
begin

text \<open>
  One spelling of a \<open>Signature-Input\<close> member: a printable value that parses is the serialization of
  what it parses to. The hypothesis is needed: the tail check of \<open>signature_parameters.rs\<close> refuses
  spaces and tabs outside quotes, but the splitter trims every Unicode white space, so a tail with
  another white-space character around a delimiter is accepted as well.
\<close>

section \<open>One spelling\<close>

definition printable :: "char \<Rightarrow> bool" where
  "printable c \<longleftrightarrow> 32 \<le> ord c \<and> ord c \<le> 126"

lemma printable_visible: "printable c \<Longrightarrow> c \<noteq> CHR '' '' \<Longrightarrow> visible c"
proof -
  assume "printable c" "c \<noteq> CHR '' ''"
  moreover have "ord c \<noteq> ord (CHR '' '')" using \<open>c \<noteq> CHR '' ''\<close> by (metis char_of_char)
  ultimately show "visible c" by (simp add: printable_def visible_def)
qed

lemma join_cons_hd: "ss \<noteq> [] \<Longrightarrow> join_with sep (cons_hd c ss) = c # join_with sep ss"
  by (cases ss rule: remdups_adj.cases) simp_all

lemma join_scan_split: "join_with [sep] (scan_split sep q e s) = s"
proof (induction sep q e s rule: scan_split.induct)
  case (2 sep q e c cs)
  have "join_with [sep] ([] # ss) = sep # join_with [sep] ss" if "ss \<noteq> []" for ss
    using that by (cases ss) simp_all
  then show ?case using 2 by (auto simp: join_cons_hd)
qed simp

lemma hd_cons_hd [simp]: "hd (cons_hd c ss) \<noteq> []" "hd (hd (cons_hd c ss)) = c" "tl (cons_hd c ss) = tl ss"
  by (cases ss; simp)+

lemma butlast_cons_hd: "ss \<noteq> [] \<Longrightarrow> butlast (cons_hd c ss) = (if tl ss = [] then [] else (c # hd ss) # butlast (tl ss))"
  by (cases ss) auto

text \<open>No piece starts with a space.\<close>

lemma scan_heads:
  "no_gap q e s \<Longrightarrow>
     (\<forall>p\<in>set (tl (scan_split CHR '';'' q e s)). p \<noteq> [] \<longrightarrow> hd p \<noteq> CHR '' '')
     \<and> (\<not> q \<and> \<not> e \<longrightarrow> hd (scan_split CHR '';'' q e s) \<noteq> [] \<longrightarrow> hd (hd (scan_split CHR '';'' q e s)) \<noteq> CHR '' '')"
proof (induction q e s rule: no_gap.induct)
  case (2 q e c cs)
  have set: "set ss = insert (hd ss) (set (tl ss))" if "ss \<noteq> []" for ss :: "string list"
    using that by (cases ss) auto
  show ?case using 2 set [OF scan_split_ne] by (auto split: if_splits)
qed simp

text \<open>No piece but the last ends with a space.\<close>

lemma scan_quoted_hd: "hd (scan_split sep True e s) = [] \<Longrightarrow> tl (scan_split sep True e s) = []"
  by (cases s) (auto split: if_splits)

definition ends_clean :: "string list \<Rightarrow> bool" where
  "ends_clean ss \<longleftrightarrow> (\<forall>p\<in>set (butlast ss). p \<noteq> [] \<longrightarrow> last p \<noteq> CHR '' '')"

lemma ends_clean_cons_hd:
  "ends_clean ss \<Longrightarrow> (c = CHR '' '' \<Longrightarrow> hd ss = [] \<Longrightarrow> tl ss = []) \<Longrightarrow> ends_clean (cons_hd c ss)"
  by (cases ss) (auto simp: butlast_cons_hd ends_clean_def)

lemma scan_lasts: "no_gap q e s \<Longrightarrow> (e \<Longrightarrow> q) \<Longrightarrow> ends_clean (scan_split CHR '';'' q e s)"
proof (induction q e s rule: no_gap.induct)
  case (1 q e)
  show ?case by (simp add: ends_clean_def)
next
  case (2 q e c cs)
  consider (esc) e | (bs) "\<not> e" "c = CHR 0x5C" "q" | (quote) "\<not> e" "c = CHR ''\"''"
    | (sep) "\<not> e" "c = CHR '';''" "\<not> q" | (sp) "\<not> e" "c = CHR '' ''" "q"
    | (plain) "\<not> e" "c \<noteq> CHR '' ''" "c \<noteq> CHR ''\"''" "\<not> (c = CHR 0x5C \<and> q)" "\<not> (c = CHR '';'' \<and> \<not> q)"
      "c \<noteq> CHR 0x09 \<or> q"
    using "2.prems"(1) by (auto split: if_splits)
  then show ?case
  proof cases
    case esc
    with 2 have "q" by simp
    with esc 2 have "ends_clean (scan_split CHR '';'' True False cs)" by simp
    with esc \<open>q\<close> show ?thesis by (auto intro: ends_clean_cons_hd dest: scan_quoted_hd)
  next
    case sep
    with 2 have "ends_clean (scan_split CHR '';'' False False cs)" by simp
    with sep show ?thesis by (auto simp: ends_clean_def)
  qed (use 2 in \<open>auto intro: ends_clean_cons_hd dest: scan_quoted_hd\<close>)
qed

lemma join_with_member: "p \<in> set ps \<Longrightarrow> set p \<subseteq> set (join_with sep ps)"
  by (induction ps rule: induct_list012) auto

lemma join_with_last: "ps \<noteq> [] \<Longrightarrow> last ps \<noteq> [] \<Longrightarrow> last (join_with sep ps) = last (last ps)"
proof (induction ps rule: induct_list012)
  case (3 x y zs)
  have "set (last (y # zs)) \<subseteq> set (join_with sep (y # zs))" by (rule join_with_member) simp
  with "3.prems"(2) have "join_with sep (y # zs) \<noteq> []" by (cases "last (y # zs)") auto
  with 3 show ?case by auto
qed simp_all

lemma scan_trimmed:
  assumes "list_all printable s" "no_gap False False s" "s \<noteq> [] \<Longrightarrow> last s \<noteq> CHR '' ''"
  shows "map trim (scan_split CHR '';'' False False s) = scan_split CHR '';'' False False s"
proof (rule map_idI)
  let ?ps = "scan_split CHR '';'' False False s"
  fix p assume p: "p \<in> set ?ps"
  have vis: "visible c" if "c \<in> set p" "c \<noteq> CHR '' ''" for c
    using that join_with_member [OF p, of "'';''"] assms(1)
    by (auto simp: join_scan_split list_all_iff intro!: printable_visible)
  show "trim p = p"
  proof (cases "p = []")
    case False
    have "p = hd ?ps \<or> p \<in> set (tl ?ps)" using p by (cases ?ps) auto
    then have hd: "hd p \<noteq> CHR '' ''" using scan_heads [OF assms(2)] False by auto
    have "p \<in> set (butlast ?ps) \<or> p = last ?ps" using p by (cases ?ps rule: rev_cases) auto
    moreover have "last p \<noteq> CHR '' ''" if "p = last ?ps"
    proof -
      have "s \<noteq> []" using join_with_member [OF p, of "'';''"] False by (auto simp: join_scan_split)
      moreover have "last s = last p"
        using join_with_last [of ?ps "'';''"] that False by (simp add: join_scan_split)
      ultimately show ?thesis using assms(3) by simp
    qed
    ultimately have "last p \<noteq> CHR '' ''"
      using scan_lasts [OF assms(2)] False by (auto simp: ends_clean_def)
    with False hd vis show ?thesis by (intro trim_visible) simp_all
  qed simp
qed

text \<open>The parameters read so far are the segments read so far.\<close>

definition unset_above :: "int \<Rightarrow> SignatureParams \<Rightarrow> bool" where
  "unset_above r p \<longleftrightarrow> (r < 0 \<longrightarrow> sp_created p = None) \<and> (r < 1 \<longrightarrow> sp_expires p = None)
     \<and> (r < 2 \<longrightarrow> sp_nonce p = None) \<and> (r < 3 \<longrightarrow> sp_keyid p = None)
     \<and> (r < 4 \<longrightarrow> sp_alg p = None) \<and> (r < 5 \<longrightarrow> sp_tag p = None)"

lemma unquote_Ok_iff: "unquote v = Ok s \<longleftrightarrow> v = quoted s \<and> list_all sf_char s"
  by (auto simp: unquote_def quoted_def try_bind_Ok_iff bind_eq_Some_conv strip_prefix_Some_iff
      strip_suffix_Some_iff validate_sf_string_def split: if_splits)

lemma assign_segs:
  assumes "parameter_rank k = Ok rank" "r < rank" "unset_above r p" "assign p k v = Ok p'"
    and "strings_ok p" "ints_ok p"
  shows "params_segs p' = params_segs p @ [k @ ''='' @ v] \<and> unset_above rank p' \<and> strings_ok p' \<and> ints_ok p'"
proof -
  note defs = unset_above_def params_segs_def int_seg_def str_seg_def strings_ok_def ints_ok_def
  from assms(1) consider "k = ''created''" "rank = 0" | "k = ''expires''" "rank = 1"
    | "k = ''nonce''" "rank = 2" | "k = ''keyid''" "rank = 3" | "k = ''alg''" "rank = 4"
    | "k = ''tag''" "rank = 5"
    unfolding parameter_rank_def by (simp split: if_split_asm)
  then show ?thesis
  proof cases
    case 1
    with assms(4) obtain i where "v = show_int i" "is_i64 i" "p' = p\<lparr>sp_created := Some i\<rparr>"
      by (auto simp: assign_def try_bind_Ok_iff parse_i64_Ok_iff)
    with 1 assms(2,3,5,6) show ?thesis by (simp add: defs)
  next
    case 2
    with assms(4) obtain i where "v = show_int i" "is_i64 i" "p' = p\<lparr>sp_expires := Some i\<rparr>"
      by (auto simp: assign_def try_bind_Ok_iff parse_i64_Ok_iff)
    with 2 assms(2,3,5,6) show ?thesis by (simp add: defs)
  next
    case 3
    with assms(4) obtain s where "v = quoted s" "list_all sf_char s" "length s \<le> MAX_NONCE_CHARS" "p' = p\<lparr>sp_nonce := Some s\<rparr>"
      by (auto simp: assign_def try_bind_Ok_iff unquote_Ok_iff validate_nonce_length_def split: if_splits)
    with 3 assms(2,3,5,6) show ?thesis by (simp add: defs)
  next
    case 4
    with assms(4) obtain s where "v = quoted s" "list_all sf_char s" "p' = p\<lparr>sp_keyid := Some s\<rparr>"
      by (auto simp: assign_def try_bind_Ok_iff unquote_Ok_iff)
    with 4 assms(2,3,5,6) show ?thesis by (simp add: defs)
  next
    case 5
    with assms(4) obtain s where "v = quoted s" "list_all sf_char s" "p' = p\<lparr>sp_alg := Some s\<rparr>"
      by (auto simp: assign_def try_bind_Ok_iff unquote_Ok_iff)
    with 5 assms(2,3,5,6) show ?thesis by (simp add: defs)
  next
    case 6
    with assms(4) obtain s where "v = quoted s" "list_all sf_char s" "p' = p\<lparr>sp_tag := Some s\<rparr>"
      by (auto simp: assign_def try_bind_Ok_iff unquote_Ok_iff)
    with 6 assms(2,3,5,6) show ?thesis by (simp add: defs)
  qed
qed

lemma parse_parameter_list_segs_of:
  "parse_parameter_list p r segs = Ok q \<Longrightarrow> [] \<notin> set segs \<Longrightarrow> unset_above r p \<Longrightarrow> strings_ok p \<Longrightarrow> ints_ok p
   \<Longrightarrow> params_segs q = params_segs p @ segs \<and> strings_ok q \<and> ints_ok q"
proof (induction p r segs rule: parse_parameter_list.induct)
  case (2 p r seg segs)
  then obtain k v rank p' where kv: "split_once CHR ''='' seg = Some (k, v)" "parameter_rank k = Ok rank"
    "\<not> rank \<le> r" "assign p k v = Ok p'" and rest: "parse_parameter_list p' rank segs = Ok q"
    by (auto simp: try_bind_Ok_iff split: if_splits)
  have seg: "seg = k @ ''='' @ v" using split_once_SomeD [OF kv(1)] by simp
  note step = assign_segs [OF kv(2) _ "2.prems"(3) kv(4) "2.prems"(4,5)]
  have "params_segs q = params_segs p' @ segs \<and> strings_ok q \<and> ints_ok q"
    using "2.IH"(2) [of rank p'] "2.prems"(2,3) kv rest step by auto
  with step kv(3) seg show ?case by simp
qed simp

lemma parse_signature_parameters_spelling:
  assumes "parse_signature_parameters tail = Ok p" "list_all printable tail"
    and "tail \<noteq> [] \<Longrightarrow> last tail \<noteq> CHR '' ''"
  shows "tail = tail_of (params_segs p) \<and> strings_ok p \<and> ints_ok p"
proof -
  have init: "unset_above (-1) params_default" "strings_ok params_default" "ints_ok params_default"
    "params_segs params_default = []"
    by (simp_all add: unset_above_def params_default_def strings_ok_def ints_ok_def params_segs_def
        int_seg_def str_seg_def)
  from assms(1) have check: "check_tail_spelling tail = Ok ()"
    and parse: "parse_parameter_list params_default (-1) (split_parameters tail) = Ok p"
    by (auto simp: parse_signature_parameters_def try_bind_Ok_iff)
  show ?thesis
  proof (cases tail)
    case Nil
    with parse have "p = params_default" by (simp add: split_parameters_def)
    with Nil init show ?thesis by (simp add: tail_of_def)
  next
    case (Cons c cs)
    with check have c: "c = CHR '';''" and gap: "no_gap False False tail"
      and segs: "[] \<notin> set (tl (split_parameters tail))"
      by (auto simp: check_tail_spelling_def starts_with_def list_ex_iff drop_Suc split: if_splits)
    define segs where "segs = scan_split CHR '';'' False False cs"
    have sp: "split_parameters tail = [] # segs"
      using scan_trimmed [OF assms(2) gap assms(3)] by (simp add: split_parameters_def Cons c segs_def)
    with parse_parameter_list_segs_of [of params_default "-1" segs p] parse segs init
    have "params_segs p = segs" "strings_ok p" "ints_ok p" by simp_all
    moreover have "tail = tail_of segs"
    proof -
      have "tail_of ss = CHR '';'' # join_with '';'' ss" if "ss \<noteq> []" for ss
        using that by (induction ss rule: induct_list012) (simp_all add: tail_of_def)
      then show ?thesis by (simp add: Cons c segs_def join_scan_split)
    qed
    ultimately show ?thesis by simp
  qed
qed

text \<open>A trimmed string does not end with a space.\<close>

lemma strip_while_result: "w \<in> set ws \<Longrightarrow> w \<noteq> [] \<Longrightarrow> \<not> starts_with (strip_while ws s) w"
proof (induction ws s rule: strip_while.induct)
  case (1 ws s)
  show ?case
  proof (cases "find (\<lambda>w. w \<noteq> [] \<and> starts_with s w) ws")
    case None
    moreover from None have "strip_while ws s = s" by (subst strip_while.simps) simp
    ultimately show ?thesis using 1(2,3) by (auto simp: find_None_iff)
  next
    case (Some w')
    then have "strip_while ws s = strip_while ws (drop (length w') s)" by (subst strip_while.simps) simp
    with Some 1 show ?thesis by simp
  qed
qed

lemma trim_no_trailing_space: "trim s \<noteq> [] \<Longrightarrow> last (trim s) \<noteq> CHR '' ''"
proof
  assume "trim s \<noteq> []" "last (trim s) = CHR '' ''"
  then have "starts_with (rev (trim s)) '' ''" by (cases "trim s" rule: rev_cases) (simp_all add: starts_with_def)
  then show False
    using strip_while_result [of "'' ''" "map rev ws_seqs"] by (simp add: trim_def trim_end_def ws_seqs_def)
qed

lemma strip_while_suffix: "\<exists>p. s = p @ strip_while ws s"
proof (induction ws s rule: strip_while.induct)
  case (1 ws s)
  show ?case
  proof (cases "find (\<lambda>w. w \<noteq> [] \<and> starts_with s w) ws")
    case None
    then show ?thesis by (subst strip_while.simps) simp
  next
    case (Some w)
    with 1 obtain p where "drop (length w) s = p @ strip_while ws (drop (length w) s)" by blast
    moreover from Some have "strip_while ws s = strip_while ws (drop (length w) s)"
      by (subst strip_while.simps) simp
    ultimately show ?thesis by (metis append_take_drop_id append.assoc)
  qed
qed

lemma set_trim: "set (trim s) \<subseteq> set s"
proof -
  have "set (strip_while ws t) \<subseteq> set t" for ws t
  proof -
    obtain p where "t = p @ strip_while ws t" using strip_while_suffix by blast
    then show ?thesis by (metis set_append sup_ge2)
  qed
  then show ?thesis unfolding trim_def trim_end_def trim_start_def by (metis set_rev subset_trans)
qed




end
