(* ===== verification/Exchange.thy ===== *)
theory Exchange
  imports Prelude
begin

text \<open>
  The lifecycle of one exchange at the serving boundary: \<open>mcp-re-proxy/src/exchange_state.rs\<close>.

  \<^item> the pipeline states and events, the relation \<open>transition\<close> and the order of the states;
  \<^item> \<open>ExchangeProgress\<close>, the tuple of the five machines, with \<open>advance\<close>, the observations, the
    publication checks and the retry contract;
  \<^item> \<open>exchange_run\<close>, the histories an exchange may go through: any sequence of advances,
    observations and publication checks.

  The lemmas show that the retry contract only ever tightens, that a contract short of
  \<open>NotRetrySafe\<close> means the backend was not handed the request, and that a success is published only
  by an exchange that went through the whole pipeline in order.
\<close>

section \<open>States and events\<close>

datatype ExchangeState =
    Received | Verified | TransportBound | AdmissionChecked | ContinuationPrepared | ReplayAdmitted
  | Answerable | ContinuationRetired | Forwarded | InnerPlaneAccepted | RetentionCommitted | Dispatched
  | ResponseObserved | ResponseValidated | ResponseClassified | ResponseSigned | ContinuationSettled
  | Retained | AcknowledgedNotification | CompletedTerminal | CompletedContinuationOpen
  | RefusedBeforeDispatch | FailedAfterDispatch

datatype ExchangeEvent =
    SignatureVerified | TransportBindingChecked | AdmissionCurrencyChecked | ContinuationPrepared
  | ReplayAdmitted | DelegatedKeySnapshotted | ContinuationRetired | ForwardBodyPrepared
  | InnerPlaneAccepted | RetentionCommitted | BackendDispatched | ResponseObserved | EnvelopeValidated
  | ResponseClassified | ResponseSigned | OpenLegRecorded | ContinuationNotRequired | EvidenceRetained
  | NotificationAcknowledged | TerminalResponseServed | OpenLegResponseServed | Refused

datatype ContinuationState = NotInvolved | Peeked | Consumed

datatype BackendState = NotDispatched | Dispatched

datatype ResponseOrigin = Undetermined | BackendReplied | DispatchIndeterminate

datatype OpenLeg = NotApplicable | Required | Recorded

datatype RetrySemantics = SafeNothingExecuted | RequiresNewElicitation | NotRetrySafe

text \<open>The derived orders: the position of a variant in its declaration.\<close>

primrec state_rank :: "ExchangeState \<Rightarrow> nat" where
  "state_rank Received = 0"
| "state_rank Verified = 1"
| "state_rank TransportBound = 2"
| "state_rank AdmissionChecked = 3"
| "state_rank ExchangeState.ContinuationPrepared = 4"
| "state_rank ExchangeState.ReplayAdmitted = 5"
| "state_rank Answerable = 6"
| "state_rank ExchangeState.ContinuationRetired = 7"
| "state_rank Forwarded = 8"
| "state_rank ExchangeState.InnerPlaneAccepted = 9"
| "state_rank ExchangeState.RetentionCommitted = 10"
| "state_rank ExchangeState.Dispatched = 11"
| "state_rank ExchangeState.ResponseObserved = 12"
| "state_rank ResponseValidated = 13"
| "state_rank ExchangeState.ResponseClassified = 14"
| "state_rank ExchangeState.ResponseSigned = 15"
| "state_rank ContinuationSettled = 16"
| "state_rank Retained = 17"
| "state_rank AcknowledgedNotification = 18"
| "state_rank CompletedTerminal = 19"
| "state_rank CompletedContinuationOpen = 20"
| "state_rank RefusedBeforeDispatch = 21"
| "state_rank FailedAfterDispatch = 22"

lemma state_rank_inj: "state_rank s = state_rank t \<Longrightarrow> s = t"
  by (cases s; cases t) simp_all

instantiation ExchangeState :: linorder
begin

definition less_eq_ExchangeState :: "ExchangeState \<Rightarrow> ExchangeState \<Rightarrow> bool" where
  "s \<le> t \<longleftrightarrow> state_rank s \<le> state_rank t"

definition less_ExchangeState :: "ExchangeState \<Rightarrow> ExchangeState \<Rightarrow> bool" where
  "s < t \<longleftrightarrow> state_rank s < state_rank t"

instance
  by standard (auto simp: less_eq_ExchangeState_def less_ExchangeState_def intro: state_rank_inj)

end

primrec origin_rank :: "ResponseOrigin \<Rightarrow> nat" where
  "origin_rank Undetermined = 0" | "origin_rank BackendReplied = 1" | "origin_rank DispatchIndeterminate = 2"

primrec leg_rank :: "OpenLeg \<Rightarrow> nat" where
  "leg_rank NotApplicable = 0" | "leg_rank Required = 1" | "leg_rank Recorded = 2"

primrec retry_rank :: "RetrySemantics \<Rightarrow> nat" where
  "retry_rank SafeNothingExecuted = 0" | "retry_rank RequiresNewElicitation = 1" | "retry_rank NotRetrySafe = 2"

instantiation RetrySemantics :: linorder
begin

definition less_eq_RetrySemantics :: "RetrySemantics \<Rightarrow> RetrySemantics \<Rightarrow> bool" where
  "s \<le> t \<longleftrightarrow> retry_rank s \<le> retry_rank t"

definition less_RetrySemantics :: "RetrySemantics \<Rightarrow> RetrySemantics \<Rightarrow> bool" where
  "s < t \<longleftrightarrow> retry_rank s < retry_rank t"

instance
proof
  fix s t :: RetrySemantics
  show "s \<le> t \<Longrightarrow> t \<le> s \<Longrightarrow> s = t" by (cases s; cases t) (simp_all add: less_eq_RetrySemantics_def)
qed (auto simp: less_eq_RetrySemantics_def less_RetrySemantics_def)

end

section \<open>The transition relation\<close>

primrec establishes :: "ExchangeEvent \<Rightarrow> ExchangeState option" where
  "establishes SignatureVerified = Some Verified"
| "establishes TransportBindingChecked = Some TransportBound"
| "establishes AdmissionCurrencyChecked = Some AdmissionChecked"
| "establishes ContinuationPrepared = Some ExchangeState.ContinuationPrepared"
| "establishes ReplayAdmitted = Some ExchangeState.ReplayAdmitted"
| "establishes DelegatedKeySnapshotted = Some Answerable"
| "establishes ContinuationRetired = Some ExchangeState.ContinuationRetired"
| "establishes ForwardBodyPrepared = Some Forwarded"
| "establishes InnerPlaneAccepted = Some ExchangeState.InnerPlaneAccepted"
| "establishes RetentionCommitted = Some ExchangeState.RetentionCommitted"
| "establishes BackendDispatched = Some ExchangeState.Dispatched"
| "establishes ResponseObserved = Some ExchangeState.ResponseObserved"
| "establishes EnvelopeValidated = Some ResponseValidated"
| "establishes ResponseClassified = Some ExchangeState.ResponseClassified"
| "establishes ResponseSigned = Some ExchangeState.ResponseSigned"
| "establishes OpenLegRecorded = Some ContinuationSettled"
| "establishes ContinuationNotRequired = Some ContinuationSettled"
| "establishes EvidenceRetained = Some Retained"
| "establishes NotificationAcknowledged = Some AcknowledgedNotification"
| "establishes TerminalResponseServed = Some CompletedTerminal"
| "establishes OpenLegResponseServed = Some CompletedContinuationOpen"
| "establishes Refused = None"

definition backend_may_have_executed :: "ExchangeState \<Rightarrow> bool" where
  "backend_may_have_executed s \<longleftrightarrow>
     s \<notin> {Received, Verified, TransportBound, AdmissionChecked, ExchangeState.ContinuationPrepared,
        ExchangeState.ReplayAdmitted, Answerable, ExchangeState.ContinuationRetired, Forwarded,
        ExchangeState.InnerPlaneAccepted, RefusedBeforeDispatch}"

definition is_terminal :: "ExchangeState \<Rightarrow> bool" where
  "is_terminal s \<longleftrightarrow> s \<in> {AcknowledgedNotification, CompletedTerminal, CompletedContinuationOpen,
     RefusedBeforeDispatch, FailedAfterDispatch}"

definition is_success_terminal :: "ExchangeState \<Rightarrow> bool" where
  "is_success_terminal s \<longleftrightarrow> s \<in> {AcknowledgedNotification, CompletedTerminal, CompletedContinuationOpen}"

definition legal_edges :: "((ExchangeState \<times> ExchangeEvent) \<times> ExchangeState) list" where
  "legal_edges =
     [((Received, SignatureVerified), Verified),
      ((Verified, TransportBindingChecked), TransportBound),
      ((TransportBound, AdmissionCurrencyChecked), AdmissionChecked),
      ((AdmissionChecked, ContinuationPrepared), ExchangeState.ContinuationPrepared),
      ((ExchangeState.ContinuationPrepared, ReplayAdmitted), ExchangeState.ReplayAdmitted),
      ((ExchangeState.ReplayAdmitted, DelegatedKeySnapshotted), Answerable),
      ((Answerable, ContinuationRetired), ExchangeState.ContinuationRetired),
      ((ExchangeState.ContinuationRetired, ForwardBodyPrepared), Forwarded),
      ((Forwarded, InnerPlaneAccepted), ExchangeState.InnerPlaneAccepted),
      ((ExchangeState.InnerPlaneAccepted, RetentionCommitted), ExchangeState.RetentionCommitted),
      ((ExchangeState.RetentionCommitted, BackendDispatched), ExchangeState.Dispatched),
      ((ExchangeState.Dispatched, NotificationAcknowledged), AcknowledgedNotification),
      ((ExchangeState.Dispatched, ResponseObserved), ExchangeState.ResponseObserved),
      ((ExchangeState.ResponseObserved, EnvelopeValidated), ResponseValidated),
      ((ResponseValidated, ResponseClassified), ExchangeState.ResponseClassified),
      ((ExchangeState.ResponseClassified, ResponseSigned), ExchangeState.ResponseSigned),
      ((ExchangeState.ResponseSigned, OpenLegRecorded), ContinuationSettled),
      ((ExchangeState.ResponseSigned, ContinuationNotRequired), ContinuationSettled),
      ((ContinuationSettled, EvidenceRetained), Retained),
      ((Retained, TerminalResponseServed), CompletedTerminal),
      ((Retained, OpenLegResponseServed), CompletedContinuationOpen)]"

datatype InvalidExchangeTransition = InvalidExchangeTransition

definition transition :: "ExchangeState \<Rightarrow> ExchangeEvent \<Rightarrow> InvalidExchangeTransition + ExchangeState" where
  "transition state event =
     (if is_terminal state then Err InvalidExchangeTransition
      else if event = Refused
      then Ok (if backend_may_have_executed state then FailedAfterDispatch else RefusedBeforeDispatch)
      else ok_or (map_of legal_edges (state, event)) InvalidExchangeTransition)"

section \<open>The progress of an exchange\<close>

record ExchangeProgress =
  ex_request :: ExchangeState
  ex_continuation :: ContinuationState
  ex_backend :: BackendState
  ex_origin :: ResponseOrigin
  ex_open_leg :: OpenLeg
  ex_anomaly :: "string option"

definition progress_new :: ExchangeProgress where
  "progress_new = \<lparr>ex_request = Received, ex_continuation = NotInvolved, ex_backend = NotDispatched,
     ex_origin = Undetermined, ex_open_leg = NotApplicable, ex_anomaly = None\<rparr>"

definition sync_backend :: "ExchangeProgress \<Rightarrow> ExchangeProgress" where
  "sync_backend p = p\<lparr>ex_backend := if backend_may_have_executed (ex_request p) then Dispatched else NotDispatched\<rparr>"

definition latch :: "string \<Rightarrow> ExchangeProgress \<Rightarrow> ExchangeProgress" where
  "latch what p = (if ex_anomaly p = None then p\<lparr>ex_anomaly := Some what\<rparr> else p)"

definition invariant_violation :: "ExchangeProgress \<Rightarrow> string option" where
  "invariant_violation p =
     (if ex_request p = CompletedContinuationOpen \<and> ex_open_leg p \<noteq> Recorded
      then Some ''an open leg was served without a durable continuation record''
      else if ex_request p = CompletedTerminal \<and> ex_open_leg p \<noteq> NotApplicable
      then Some ''a reply that opens a leg was served as a terminal completion''
      else if is_success_terminal (ex_request p) \<and> ex_origin p = DispatchIndeterminate
      then Some ''synthesized transport-failure bytes were served as a success''
      else if ex_backend p \<noteq> (if backend_may_have_executed (ex_request p) then Dispatched else NotDispatched)
      then Some ''the backend projection disagrees with the exchange state''
      else None)"

definition advance :: "ExchangeEvent \<Rightarrow> ExchangeProgress \<Rightarrow> ExchangeProgress" where
  "advance event p =
     (let p = (case transition (ex_request p) event of
                 Inl _ \<Rightarrow> latch ''the serving path drove an illegal exchange transition'' p
               | Inr _ \<Rightarrow> p);
          p = (case establishes event of
                 Some bound \<Rightarrow> if bound > ex_request p then p\<lparr>ex_request := bound\<rparr> else p
               | None \<Rightarrow> p);
          p = sync_backend p
      in case invariant_violation p of Some violation \<Rightarrow> latch violation p | None \<Rightarrow> p)"

definition NOT_A_SUCCESS :: string where
  "NOT_A_SUCCESS = ''a success publication was checked against a tail that reaches no success terminal''"

definition prospective_refusal :: "ExchangeEvent list \<Rightarrow> ExchangeProgress \<Rightarrow> string option \<times> ExchangeProgress" where
  "prospective_refusal tail p =
     (let prospective = fold advance tail p
      in if is_success_terminal (ex_request prospective)
         then (case ex_anomaly prospective of
                 None \<Rightarrow> (None, p)
               | Some violation \<Rightarrow> (Some violation, latch violation p))
         else (Some NOT_A_SUCCESS, latch NOT_A_SUCCESS p))"

record 'a Established =
  est_value :: 'a
  est_event :: ExchangeEvent

definition establish :: "'a Established \<Rightarrow> ExchangeProgress \<Rightarrow> 'a \<times> ExchangeProgress" where
  "establish x p = (est_value x, advance (est_event x) p)"

definition establish_terminal :: "'a Established \<Rightarrow> ExchangeProgress \<Rightarrow> (string + 'a) \<times> ExchangeProgress" where
  "establish_terminal x p =
     (case prospective_refusal [est_event x] p of
        (Some violation, p) \<Rightarrow> (Err violation, p)
      | (None, p) \<Rightarrow> (case establish x p of (v, p) \<Rightarrow> (Ok v, p)))"

datatype ServedSuccess = Terminal | OpenLeg

primrec success_tail :: "ServedSuccess \<Rightarrow> ExchangeEvent list" where
  "success_tail Terminal = [EvidenceRetained, TerminalResponseServed]"
| "success_tail OpenLeg = [EvidenceRetained, OpenLegResponseServed]"

definition may_publish :: "ServedSuccess \<Rightarrow> ExchangeProgress \<Rightarrow> (string + unit) \<times> ExchangeProgress" where
  "may_publish success p =
     (case prospective_refusal (success_tail success) p of
        (Some violation, p) \<Rightarrow> (Err violation, p)
      | (None, p) \<Rightarrow> (Ok (), p))"

definition publish :: "ServedSuccess \<Rightarrow> ExchangeProgress \<Rightarrow> ExchangeProgress" where
  "publish success p = fold advance (success_tail success) p"

definition observe_continuation :: "ContinuationState \<Rightarrow> ExchangeProgress \<Rightarrow> ExchangeProgress" where
  "observe_continuation observed p = (if ex_continuation p = Consumed then p else p\<lparr>ex_continuation := observed\<rparr>)"

definition observe_origin :: "ResponseOrigin \<Rightarrow> ExchangeProgress \<Rightarrow> ExchangeProgress" where
  "observe_origin observed p = (if origin_rank observed > origin_rank (ex_origin p) then p\<lparr>ex_origin := observed\<rparr> else p)"

definition observe_open_leg :: "OpenLeg \<Rightarrow> ExchangeProgress \<Rightarrow> ExchangeProgress" where
  "observe_open_leg observed p = (if leg_rank observed > leg_rank (ex_open_leg p) then p\<lparr>ex_open_leg := observed\<rparr> else p)"

definition retry_semantics :: "ExchangeProgress \<Rightarrow> RetrySemantics" where
  "retry_semantics p =
     (if ex_anomaly p \<noteq> None then NotRetrySafe
      else if backend_may_have_executed (ex_request p) then NotRetrySafe
      else (case ex_continuation p of
              Consumed \<Rightarrow> RequiresNewElicitation
            | NotInvolved \<Rightarrow> SafeNothingExecuted
            | Peeked \<Rightarrow> SafeNothingExecuted))"

section \<open>One step\<close>

lemma legal_edge:
  "((s, e), s') \<in> set legal_edges \<Longrightarrow> establishes e = Some s' \<and> s < s' \<and> \<not> is_terminal s"
  by (auto simp: legal_edges_def less_ExchangeState_def is_terminal_def)

lemma transition_Ok:
  assumes "transition s e = Ok s'" "e \<noteq> Refused"
  shows "((s, e), s') \<in> set legal_edges"
  using assms by (auto simp: transition_def ok_or_def dest: map_of_SomeD split: if_splits option.splits)

lemma latch_simps [simp]:
  "ex_request (latch w p) = ex_request p" "ex_continuation (latch w p) = ex_continuation p"
  "ex_backend (latch w p) = ex_backend p" "ex_origin (latch w p) = ex_origin p" "ex_open_leg (latch w p) = ex_open_leg p"
  "ex_anomaly (latch w p) \<noteq> None" "ex_anomaly p \<noteq> None \<Longrightarrow> latch w p = p"
  by (auto simp: latch_def)

lemma sync_backend_simps [simp]:
  "ex_request (sync_backend p) = ex_request p" "ex_continuation (sync_backend p) = ex_continuation p"
  "ex_origin (sync_backend p) = ex_origin p" "ex_open_leg (sync_backend p) = ex_open_leg p"
  "ex_anomaly (sync_backend p) = ex_anomaly p"
  by (simp_all add: sync_backend_def)

lemma latch_if_simps [simp]:
  "ex_request (case v of None \<Rightarrow> p | Some w \<Rightarrow> latch w p) = ex_request p"
  "ex_continuation (case v of None \<Rightarrow> p | Some w \<Rightarrow> latch w p) = ex_continuation p"
  "ex_origin (case v of None \<Rightarrow> p | Some w \<Rightarrow> latch w p) = ex_origin p"
  "ex_open_leg (case v of None \<Rightarrow> p | Some w \<Rightarrow> latch w p) = ex_open_leg p"
  "ex_request (case r of Inl x \<Rightarrow> latch u p | Inr y \<Rightarrow> p) = ex_request p"
  "ex_continuation (case r of Inl x \<Rightarrow> latch u p | Inr y \<Rightarrow> p) = ex_continuation p"
  "ex_origin (case r of Inl x \<Rightarrow> latch u p | Inr y \<Rightarrow> p) = ex_origin p"
  "ex_open_leg (case r of Inl x \<Rightarrow> latch u p | Inr y \<Rightarrow> p) = ex_open_leg p"
  by (simp_all split: option.splits sum.splits)

lemma advance_untouched [simp]:
  "ex_continuation (advance e p) = ex_continuation p" "ex_origin (advance e p) = ex_origin p"
  "ex_open_leg (advance e p) = ex_open_leg p"
  by (simp_all add: advance_def Let_def split: option.splits)

lemma advance_request:
  "ex_request (advance e p) = (case establishes e of Some b \<Rightarrow> max (ex_request p) b | None \<Rightarrow> ex_request p)"
  by (cases "establishes e") (auto simp: advance_def Let_def max_def)

lemma invariant_violation_latch [simp]: "invariant_violation (latch w p) = invariant_violation p"
  by (simp add: invariant_violation_def)

lemma advance_anomaly_None_iff:
  "ex_anomaly (advance e p) = None \<longleftrightarrow>
     ex_anomaly p = None \<and> (\<exists>s. transition (ex_request p) e = Ok s) \<and> invariant_violation (advance e p) = None"
proof -
  let ?ill = "''the serving path drove an illegal exchange transition''"
  obtain q where adv: "advance e p = (case invariant_violation q of Some v \<Rightarrow> latch v q | None \<Rightarrow> q)"
    and anom: "ex_anomaly q = (case transition (ex_request p) e of Inl _ \<Rightarrow> ex_anomaly (latch ?ill p) | Inr _ \<Rightarrow> ex_anomaly p)"
    by (rule that, unfold advance_def Let_def, rule refl) (simp split: option.splits sum.splits)
  have "invariant_violation (advance e p) = invariant_violation q" by (simp add: adv split: option.splits)
  then show ?thesis using anom by (auto simp: adv split: option.splits sum.splits)
qed

lemma advance_legal:
  assumes "ex_anomaly (advance e p) = None" "e \<noteq> Refused"
  shows "((ex_request p, e), ex_request (advance e p)) \<in> set legal_edges"
proof -
  from assms(1) obtain s where "transition (ex_request p) e = Ok s" unfolding advance_anomaly_None_iff by blast
  then have "((ex_request p, e), s) \<in> set legal_edges" using assms(2) by (rule transition_Ok)
  with legal_edge [OF this] show ?thesis by (simp add: advance_request max_absorb2)
qed

section \<open>Histories\<close>

text \<open>What may happen to an exchange, in any order and any number of times.\<close>

datatype exchange_op =
    Advance ExchangeEvent
  | ObserveContinuation ContinuationState
  | ObserveOrigin ResponseOrigin
  | ObserveOpenLeg OpenLeg
  | CheckPublication "ExchangeEvent list"

primrec exchange_apply :: "exchange_op \<Rightarrow> ExchangeProgress \<Rightarrow> ExchangeProgress" where
  "exchange_apply (Advance e) p = advance e p"
| "exchange_apply (ObserveContinuation c) p = observe_continuation c p"
| "exchange_apply (ObserveOrigin r) p = observe_origin r p"
| "exchange_apply (ObserveOpenLeg l) p = observe_open_leg l p"
| "exchange_apply (CheckPublication tail) p = snd (prospective_refusal tail p)"

inductive exchange_run :: "exchange_op list \<Rightarrow> ExchangeProgress \<Rightarrow> bool" where
  run_new: "exchange_run [] progress_new"
| run_step: "exchange_run h p \<Longrightarrow> exchange_run (h @ [x]) (exchange_apply x p)"

inductive_cases exchange_run_snocE: "exchange_run (h @ [x]) p"

definition advanced :: "exchange_op list \<Rightarrow> ExchangeEvent list" where
  "advanced h = concat (map (\<lambda>x. case x of Advance e \<Rightarrow> if e = Refused then [] else [e] | _ \<Rightarrow> []) h)"

lemma advanced_simps [simp]: "advanced [] = []" "advanced (h @ k) = advanced h @ advanced k"
  "advanced [x] = (case x of Advance e \<Rightarrow> if e = Refused then [] else [e] | _ \<Rightarrow> [])"
  by (simp_all add: advanced_def split: exchange_op.splits)

lemma set_advanced: "set (advanced h) = {e. Advance e \<in> set h \<and> e \<noteq> Refused}"
  by (induction h) (auto simp: advanced_def split: exchange_op.splits if_splits)

lemma prospective_refusal_untouched [simp]:
  "ex_request (snd (prospective_refusal tail p)) = ex_request p"
  "ex_continuation (snd (prospective_refusal tail p)) = ex_continuation p"
  by (simp_all add: prospective_refusal_def Let_def split: option.splits)

lemma observe_untouched [simp]:
  "ex_request (observe_continuation c p) = ex_request p" "ex_anomaly (observe_continuation c p) = ex_anomaly p"
  "ex_request (observe_origin r p) = ex_request p" "ex_continuation (observe_origin r p) = ex_continuation p"
  "ex_anomaly (observe_origin r p) = ex_anomaly p" "ex_request (observe_open_leg l p) = ex_request p"
  "ex_continuation (observe_open_leg l p) = ex_continuation p" "ex_anomaly (observe_open_leg l p) = ex_anomaly p"
  by (simp_all add: observe_continuation_def observe_origin_def observe_open_leg_def)

subsection \<open>The retry contract\<close>

lemma establishes_bound: "establishes e = Some b \<Longrightarrow> b \<le> CompletedContinuationOpen"
  by (cases e) (auto simp: less_eq_ExchangeState_def)

lemma backend_may_have_executed_iff:
  "s \<le> CompletedContinuationOpen \<Longrightarrow> backend_may_have_executed s \<longleftrightarrow> ExchangeState.RetentionCommitted \<le> s"
  by (cases s) (simp_all add: less_eq_ExchangeState_def backend_may_have_executed_def)

lemma request_grows: "ex_request p \<le> ex_request (exchange_apply x p)"
  by (cases x) (auto simp: advance_request split: option.splits)

lemma request_bounded:
  "ex_request p \<le> CompletedContinuationOpen \<Longrightarrow> ex_request (exchange_apply x p) \<le> CompletedContinuationOpen"
  by (cases x) (auto simp: advance_request establishes_bound split: option.splits)

lemma run_bounded: "exchange_run h p \<Longrightarrow> ex_request p \<le> CompletedContinuationOpen"
proof (induction rule: exchange_run.induct)
  case run_new
  show ?case by (simp add: progress_new_def less_eq_ExchangeState_def)
qed (rule request_bounded)

lemma anomaly_sticks: "ex_anomaly p \<noteq> None \<Longrightarrow> ex_anomaly (exchange_apply x p) \<noteq> None"
  by (cases x) (auto simp: advance_anomaly_None_iff prospective_refusal_def Let_def split: option.splits)

lemma consumed_sticks: "ex_continuation p = Consumed \<Longrightarrow> ex_continuation (exchange_apply x p) = Consumed"
  by (cases x) (simp_all add: observe_continuation_def)

lemma retry_step:
  assumes "ex_request p \<le> CompletedContinuationOpen"
  shows "retry_semantics p \<le> retry_semantics (exchange_apply x p)"
proof -
  have "backend_may_have_executed (ex_request p) \<Longrightarrow> backend_may_have_executed (ex_request (exchange_apply x p))"
    using assms request_grows [of p x] request_bounded [of p x] order_trans
    by (simp add: backend_may_have_executed_iff)
  with anomaly_sticks [of p x] consumed_sticks [of p x] show ?thesis
    by (auto simp: retry_semantics_def less_eq_RetrySemantics_def split: ContinuationState.splits)
qed

lemma retry_fold:
  "ex_request p \<le> CompletedContinuationOpen \<Longrightarrow> retry_semantics p \<le> retry_semantics (fold exchange_apply k p)"
proof (induction k arbitrary: p)
  case (Cons x k)
  then have "retry_semantics (exchange_apply x p) \<le> retry_semantics (fold exchange_apply k (exchange_apply x p))"
    by (intro Cons.IH request_bounded)
  with retry_step [OF Cons.prems, of x] show ?case by simp
qed simp

text \<open>
  The retry contract only ever tightens. Whatever an exchange has gone through and whatever
  happens to it next, the contract it reports later is at least as strict as the one it reports now:
  no event, observation or publication check turns \<open>NotRetrySafe\<close> back into a retry-safe answer.
\<close>

theorem retry_contract_tightens:
  assumes "exchange_run h p"
  shows "retry_semantics p \<le> retry_semantics (fold exchange_apply k p)"
  by (rule retry_fold [OF run_bounded [OF assms]])

theorem retry_contract_tightens_witness:
  "retry_semantics progress_new \<le> retry_semantics (fold exchange_apply [ObserveContinuation Consumed, Advance Refused] progress_new)"
  by (rule retry_contract_tightens [OF run_new])

lemma run_reached:
  "exchange_run h p \<Longrightarrow> Advance e \<in> set h \<Longrightarrow> establishes e = Some b \<Longrightarrow> b \<le> ex_request p"
proof (induction rule: exchange_run.induct)
  case (run_step h p x)
  then show ?case
    using request_grows [of p x] by (auto simp: advance_request intro: order_trans)
qed simp

lemma run_consumed: "exchange_run h p \<Longrightarrow> ObserveContinuation Consumed \<in> set h \<Longrightarrow> ex_continuation p = Consumed"
proof (induction rule: exchange_run.induct)
  case (run_step h p x)
  then show ?case
    using consumed_sticks [of p x] by (auto simp: observe_continuation_def)
qed simp

text \<open>
  C21. What a retry-safe answer means. Whenever an exchange reports less than \<open>NotRetrySafe\<close>, the
  crossing was not recorded and the request was not handed to the backend, at any earlier point of
  its history; and when it reports \<open>SafeNothingExecuted\<close>, no approval was consumed either.
\<close>

theorem retry_safe_means_not_dispatched:
  assumes "exchange_run h p" "retry_semantics p \<noteq> NotRetrySafe"
  shows "Advance RetentionCommitted \<notin> set h \<and> Advance BackendDispatched \<notin> set h
    \<and> (retry_semantics p = SafeNothingExecuted \<longrightarrow> ObserveContinuation Consumed \<notin> set h)"
proof -
  have "\<not> backend_may_have_executed (ex_request p)"
    using assms(2) by (auto simp: retry_semantics_def split: if_splits)
  then have "\<not> ExchangeState.RetentionCommitted \<le> ex_request p"
    using run_bounded [OF assms(1)] by (simp add: backend_may_have_executed_iff)
  moreover have "ExchangeState.RetentionCommitted \<le> ExchangeState.Dispatched" by (simp add: less_eq_ExchangeState_def)
  ultimately have "Advance RetentionCommitted \<notin> set h" "Advance BackendDispatched \<notin> set h"
    using run_reached [OF assms(1), of RetentionCommitted] run_reached [OF assms(1), of BackendDispatched] order_trans by auto
  moreover have "retry_semantics p = SafeNothingExecuted \<Longrightarrow> ex_continuation p \<noteq> Consumed"
    by (auto simp: retry_semantics_def split: if_splits)
  ultimately show ?thesis using run_consumed [OF assms(1)] by blast
qed

theorem retry_safe_means_not_dispatched_witness:
  "\<exists>p. exchange_run [Advance SignatureVerified, ObserveContinuation Peeked] p \<and> retry_semantics p = SafeNothingExecuted
     \<and> ObserveContinuation Consumed \<notin> set [Advance SignatureVerified, ObserveContinuation Peeked]"
proof -
  define p where "p = exchange_apply (ObserveContinuation Peeked) (exchange_apply (Advance SignatureVerified) progress_new)"
  have run: "exchange_run [Advance SignatureVerified, ObserveContinuation Peeked] p"
    using run_step [OF run_step [OF run_new], of "Advance SignatureVerified" "ObserveContinuation Peeked"] by (simp add: p_def)
  moreover have safe: "retry_semantics p = SafeNothingExecuted" unfolding p_def by code_simp
  moreover from safe have "retry_semantics p \<noteq> NotRetrySafe" by simp
  from retry_safe_means_not_dispatched [OF run this] safe
  have "ObserveContinuation Consumed \<notin> set [Advance SignatureVerified, ObserveContinuation Peeked]" by (elim conjE) (rule mp)
  ultimately show ?thesis by blast
qed

subsection \<open>Publication\<close>

text \<open>The stages every served response goes through, in order.\<close>

definition pipeline :: "ExchangeEvent list" where
  "pipeline = [SignatureVerified, TransportBindingChecked, AdmissionCurrencyChecked, ContinuationPrepared,
     ReplayAdmitted, DelegatedKeySnapshotted, ContinuationRetired, ForwardBodyPrepared, InnerPlaneAccepted,
     RetentionCommitted, BackendDispatched, ResponseObserved, EnvelopeValidated, ResponseClassified, ResponseSigned]"

definition path_form :: "ExchangeState \<Rightarrow> ExchangeEvent list \<Rightarrow> bool" where
  "path_form s es \<longleftrightarrow>
     (if s = AcknowledgedNotification then es = take 11 pipeline @ [NotificationAcknowledged]
      else if state_rank s \<le> 15 then es = take (state_rank s) pipeline
      else \<exists>x\<in>{OpenLegRecorded, ContinuationNotRequired}.
        es = pipeline @ x # (if s = ContinuationSettled then [] else if s = Retained then [EvidenceRetained]
          else if s = CompletedTerminal then success_tail Terminal else success_tail OpenLeg))"

lemma path_form_edge:
  "((s, e), s') \<in> set legal_edges \<Longrightarrow> path_form s es \<Longrightarrow> path_form s' (es @ [e])"
  by (auto simp: legal_edges_def path_form_def pipeline_def)

lemma path_form_advance:
  "path_form (ex_request p) es \<Longrightarrow> ex_anomaly (advance e p) = None \<Longrightarrow>
     path_form (ex_request (advance e p)) (es @ (if e = Refused then [] else [e]))"
  using path_form_edge [OF advance_legal [of e p]] by (cases "e = Refused") (auto simp: advance_request)

lemma fold_anomaly_sticks: "ex_anomaly p \<noteq> None \<Longrightarrow> ex_anomaly (fold advance tail p) \<noteq> None"
proof (induction tail arbitrary: p)
  case (Cons e tail)
  then have "ex_anomaly (advance e p) \<noteq> None" by (simp add: advance_anomaly_None_iff)
  with Cons.IH show ?case by simp
qed simp

lemma path_form_fold:
  "path_form (ex_request p) es \<Longrightarrow> ex_anomaly (fold advance tail p) = None \<Longrightarrow> Refused \<notin> set tail \<Longrightarrow>
     path_form (ex_request (fold advance tail p)) (es @ tail)"
proof (induction tail arbitrary: p es)
  case (Cons e tail)
  then have "ex_anomaly (advance e p) = None" using fold_anomaly_sticks [of "advance e p" tail] by fastforce
  with Cons.prems path_form_advance [of p es e] Cons.IH [of "advance e p" "es @ [e]"] show ?case
    by (auto split: if_splits)
qed simp

lemma run_path: "exchange_run h p \<Longrightarrow> ex_anomaly p = None \<Longrightarrow> path_form (ex_request p) (advanced h)"
proof (induction rule: exchange_run.induct)
  case run_new
  show ?case by (simp add: path_form_def progress_new_def)
next
  case (run_step h p x)
  then have "path_form (ex_request p) (advanced h)" using anomaly_sticks by blast
  then show ?case using run_step.prems path_form_advance by (cases x) fastforce+
qed

lemma prospective_None:
  "prospective_refusal tail p = (None, p') \<longleftrightarrow>
     p' = p \<and> is_success_terminal (ex_request (fold advance tail p)) \<and> ex_anomaly (fold advance tail p) = None"
  by (auto simp: prospective_refusal_def Let_def split: option.splits if_splits)

lemma fold_advance_last_invariant:
  "tail \<noteq> [] \<Longrightarrow> ex_anomaly (fold advance tail p) = None \<Longrightarrow> invariant_violation (fold advance tail p) = None"
  by (induction tail rule: rev_induct) (auto simp: advance_anomaly_None_iff)

text \<open>
  C20. A success is published only by an exchange that went through the whole pipeline. If the
  machine permits the publication of a success, then whatever the serving path did before, the
  stages it drove were, refusals apart, exactly the pipeline in its order up to the settled
  continuation; and after the publication the exchange is in the terminal state of that success,
  without an anomaly, with the open leg recorded exactly when it is served as an open leg, and with
  bytes that the backend is not known to have failed to produce.
\<close>

theorem published_success_went_through_the_pipeline:
  assumes "exchange_run h p" "may_publish success p = (Ok (), p')"
  shows "(\<exists>x\<in>{OpenLegRecorded, ContinuationNotRequired}. advanced h = pipeline @ [x])
    \<and> ex_anomaly (publish success p') = None
    \<and> ex_request (publish success p') = (case success of Terminal \<Rightarrow> CompletedTerminal | OpenLeg \<Rightarrow> CompletedContinuationOpen)
    \<and> ex_open_leg (publish success p') = (case success of Terminal \<Rightarrow> NotApplicable | OpenLeg \<Rightarrow> Recorded)
    \<and> ex_origin (publish success p') \<noteq> DispatchIndeterminate"
proof -
  let ?tail = "success_tail success" and ?q = "publish success p'"
  have p': "p' = p" and succ: "is_success_terminal (ex_request ?q)" and clean: "ex_anomaly ?q = None"
    using assms(2) by (auto simp: may_publish_def publish_def prospective_None split: prod.splits option.splits)
  have "?tail \<noteq> []" "Refused \<notin> set ?tail" by (cases success; simp)+
  then have inv: "invariant_violation ?q = None"
    using fold_advance_last_invariant clean unfolding publish_def by blast
  have "ex_anomaly p = None"
    using clean fold_anomaly_sticks unfolding publish_def p' by blast
  then have "path_form (ex_request ?q) (advanced h @ ?tail)"
    using path_form_fold [OF run_path [OF assms(1)]] clean \<open>Refused \<notin> set ?tail\<close> by (simp add: publish_def p')
  with succ inv clean show ?thesis
    by (cases success)
      (auto simp: path_form_def is_success_terminal_def invariant_violation_def pipeline_def split: if_splits)
qed

lemma run_fold: "exchange_run h (fold exchange_apply h progress_new)"
  by (induction h rule: rev_induct) (auto intro: exchange_run.intros)

theorem published_success_went_through_the_pipeline_witness:
  "let h = map Advance (pipeline @ [ContinuationNotRequired]); p = fold exchange_apply h progress_new
   in fst (may_publish Terminal p) = Ok () \<and> ex_request (publish Terminal p) = CompletedTerminal"
proof -
  define h where "h = map Advance (pipeline @ [ContinuationNotRequired])"
  define p where "p = fold exchange_apply h progress_new"
  have ok: "may_publish Terminal p = (Ok (), p)"
    unfolding p_def h_def by code_simp
  with published_success_went_through_the_pipeline [OF run_fold [of h, folded p_def] ok]
  have "fst (may_publish Terminal p) = Ok () \<and> ex_request (publish Terminal p) = CompletedTerminal" by simp
  then show ?thesis unfolding Let_def h_def p_def .
qed

end
