(* ===== verification/Merkle.thy ===== *)
theory Merkle
  imports Http_Message
begin

text \<open>
  The Merkle tree of the transparency log: \<open>mcp-re-http-profile/src/scitt/merkle.rs\<close> (leaf and node
  hashes, the root recomputed from an inclusion proof) and \<open>scitt/prototype/tree.rs\<close> (the tree head
  and the inclusion path of a leaf).

  The verifier walks a proof from the leaf up with two counters; the tree is split from the top at
  the largest power of two. The bridge between them is \<open>pair_up\<close>, one level of the tree from below:
  a tree and the tree over its paired-up leaves have the same head and, but for the first sibling,
  the same paths. The verifier follows that recursion, which gives completeness (every path the log
  produces is accepted) and soundness (an accepted proof under the head of a list of leaves is the
  path of the leaf at that index, or exhibits a collision of the hash).
\<close>

section \<open>Hashes\<close>

datatype StatementLeafProfile = StatementBytes | StatementDigest | SigStructureDigest

text \<open>The two byte strings of a signed statement a leaf may commit to: the envelope and its signature structure.\<close>

definition leaf_hash :: "crypto_lib \<Rightarrow> bytes \<Rightarrow> bytes \<Rightarrow> StatementLeafProfile \<Rightarrow> bytes" where
  "leaf_hash L cose sig_structure prof =
     sha256 L (CHR 0x00 # (case prof of
        StatementBytes \<Rightarrow> cose
      | StatementDigest \<Rightarrow> sha256 L cose
      | SigStructureDigest \<Rightarrow> sha256 L sig_structure))"

definition node_hash :: "crypto_lib \<Rightarrow> bytes \<Rightarrow> bytes \<Rightarrow> bytes" where
  "node_hash L left right = sha256 L (CHR 0x01 # left @ right)"

section \<open>The verifier's walk\<close>

function climb :: "nat \<Rightarrow> nat \<Rightarrow> nat \<times> nat" where
  "climb fnode snode = (if fnode \<noteq> 0 \<and> even fnode then climb (fnode div 2) (snode div 2) else (fnode, snode))"
  by auto
termination by (relation "measure fst") auto

declare climb.simps [simp del]

fun walk :: "crypto_lib \<Rightarrow> bytes \<Rightarrow> nat \<Rightarrow> nat \<Rightarrow> bytes list \<Rightarrow> HttpProfileError + bytes" where
  "walk L r fnode snode [] = (if snode \<noteq> 0 then Err ReceiptInclusionInvalid else Ok r)"
| "walk L r fnode snode (sibling # path) =
     (if snode = 0 then Err ReceiptInclusionInvalid
      else if odd fnode \<or> fnode = snode
      then (case climb fnode snode of (f, s) \<Rightarrow> walk L (node_hash L sibling r) (f div 2) (s div 2) path)
      else walk L (node_hash L r sibling) (fnode div 2) (snode div 2) path)"

definition rfc9162_root_from_inclusion_proof ::
  "crypto_lib \<Rightarrow> bytes \<Rightarrow> nat \<Rightarrow> nat \<Rightarrow> bytes list \<Rightarrow> HttpProfileError + bytes" where
  "rfc9162_root_from_inclusion_proof L leaf leaf_index tree_size path =
     (if leaf_index \<ge> tree_size then Err ReceiptInclusionInvalid
      else if tree_size = 0 then Err ReceiptInclusionInvalid
      else walk L leaf leaf_index (tree_size - 1) path)"

section \<open>The log's tree\<close>

fun next_power_of_two :: "nat \<Rightarrow> nat" where
  "next_power_of_two n = (if n \<le> 1 then 1 else 2 * next_power_of_two ((n + 1) div 2))"

declare next_power_of_two.simps [simp del]

definition split_point :: "nat \<Rightarrow> nat" where
  "split_point n = next_power_of_two n div 2"

lemma split_point_eq: "2 \<le> n \<Longrightarrow> split_point n = next_power_of_two ((n + 1) div 2)"
  by (simp add: split_point_def next_power_of_two.simps [of n])

lemma next_power_of_two_pos: "0 < next_power_of_two n"
proof (induction n rule: next_power_of_two.induct)
  case (1 n)
  then show ?case by (cases "n \<le> 1") (simp_all add: next_power_of_two.simps [of n])
qed

lemma half_bound: "2 \<le> n \<Longrightarrow> next_power_of_two ((n + 1) div 2) < n"
proof (induction n rule: less_induct)
  case (less n)
  let ?m = "(n + 1) div 2"
  show ?case
  proof (cases "n = 2")
    case True
    then show ?thesis by (simp add: next_power_of_two.simps)
  next
    case False
    with less.prems have m: "2 \<le> ?m" "?m < n" by simp_all
    then have "next_power_of_two ((?m + 1) div 2) < ?m" by (intro less.IH)
    then have "2 * next_power_of_two ((?m + 1) div 2) < n" by linarith
    moreover have "next_power_of_two ?m = 2 * next_power_of_two ((?m + 1) div 2)"
      using m(1) by (subst next_power_of_two.simps) simp
    ultimately show ?thesis by simp
  qed
qed

lemma split_point_bounds: "2 \<le> n \<Longrightarrow> 0 < split_point n \<and> split_point n < n"
  using half_bound next_power_of_two_pos by (simp add: split_point_eq)

lemma split_lt: "0 < split_point (Suc (Suc n))" "split_point (Suc (Suc n)) < Suc (Suc n)"
  using split_point_bounds [of "Suc (Suc n)"] by simp_all

function mth_and_path :: "crypto_lib \<Rightarrow> bytes list \<Rightarrow> nat option \<Rightarrow> bytes list \<Rightarrow> bytes \<times> bytes list" where
  "mth_and_path L leaves target path =
     (case leaves of
        [] \<Rightarrow> (sha256 L [], path)
      | [single] \<Rightarrow> (single, path)
      | _ \<Rightarrow>
          let k = split_point (length leaves); left_leaves = take k leaves; right_leaves = drop k leaves in
          case target of
            None \<Rightarrow>
              let (left, path) = mth_and_path L left_leaves None path;
                  (right, path) = mth_and_path L right_leaves None path
              in (node_hash L left right, path)
          | Some t \<Rightarrow>
              if t < k
              then let (left, path) = mth_and_path L left_leaves (Some t) path;
                       (right, path) = mth_and_path L right_leaves None path
                   in (node_hash L left right, path @ [right])
              else let (left, path) = mth_and_path L left_leaves None path;
                       (right, path) = mth_and_path L right_leaves (Some (t - k)) path
                   in (node_hash L left right, path @ [left]))"
  by auto
termination
  by (relation "measure (\<lambda>(L, leaves, target, path). length leaves)") (auto simp: Let_def split_lt min_less_iff_disj)

declare mth_and_path.simps [simp del]

section \<open>Heads and paths\<close>

lemma halves:
  assumes "\<not> n \<le> Suc 0"
  shows "split_point n < n" "min n (split_point n) = split_point n" "n - split_point n < n" "0 < split_point n"
  using assms split_point_bounds [of n] by simp_all

text \<open>The two results of \<open>mth_and_path\<close>, each on its own.\<close>

function mth :: "crypto_lib \<Rightarrow> bytes list \<Rightarrow> bytes" where
  "mth L leaves =
     (if length leaves \<le> 1 then (case leaves of [] \<Rightarrow> sha256 L [] | x # _ \<Rightarrow> x)
      else node_hash L (mth L (take (split_point (length leaves)) leaves)) (mth L (drop (split_point (length leaves)) leaves)))"
  by auto
termination
  by (relation "measure (\<lambda>(L, leaves). length leaves)") (auto simp: halves)

function inclusion_path :: "crypto_lib \<Rightarrow> bytes list \<Rightarrow> nat \<Rightarrow> bytes list" where
  "inclusion_path L leaves t =
     (let k = split_point (length leaves) in
      if length leaves \<le> 1 then []
      else if t < k then inclusion_path L (take k leaves) t @ [mth L (drop k leaves)]
      else inclusion_path L (drop k leaves) (t - k) @ [mth L (take k leaves)])"
  by auto
termination
  by (relation "measure (\<lambda>(L, leaves, t). length leaves)") (auto simp: halves)

declare mth.simps [simp del] inclusion_path.simps [simp del]

lemma small_trees [simp]:
  "mth L [] = sha256 L []" "mth L [x] = x" "inclusion_path L [] t = []" "inclusion_path L [x] t = []"
  "mth_and_path L [] target path = (sha256 L [], path)" "mth_and_path L [x] target path = (x, path)"
  by (simp_all add: mth.simps inclusion_path.simps mth_and_path.simps)

lemma mth_and_path_eq:
  "mth_and_path L leaves target path =
     (mth L leaves, path @ (case target of Some t \<Rightarrow> inclusion_path L leaves t | None \<Rightarrow> []))"
proof (induction L leaves target path rule: mth_and_path.induct)
  case (1 L leaves target path)
  show ?case
  proof (cases "length leaves \<le> 1")
    case True
    then show ?thesis
      by (cases leaves) (auto split: option.splits)
  next
    case False
    then obtain x y zs where leaves: "leaves = x # y # zs" by (auto simp: not_le Suc_le_length_iff Suc_le_eq [symmetric])
    then show ?thesis
      using "1.IH"
      by (auto simp: mth_and_path.simps [of L "x # y # zs"] mth.simps [of L "x # y # zs"]
          inclusion_path.simps [of L "x # y # zs"] Let_def split: option.splits)
  qed
qed

section \<open>One level from below\<close>

fun pair_up :: "crypto_lib \<Rightarrow> bytes list \<Rightarrow> bytes list" where
  "pair_up L (x # y # zs) = node_hash L x y # pair_up L zs"
| "pair_up L xs = xs"

lemma length_pair_up [simp]: "length (pair_up L xs) = (length xs + 1) div 2"
  by (induction L xs rule: pair_up.induct) auto

lemma pair_up_append: "even (length xs) \<Longrightarrow> pair_up L (xs @ ys) = pair_up L xs @ pair_up L ys"
  by (induction L xs rule: pair_up.induct) auto

lemma nth_pair_up:
  "t < length xs \<Longrightarrow> pair_up L xs ! (t div 2) =
     (if even t \<and> Suc t = length xs then xs ! t
      else node_hash L (xs ! (2 * (t div 2))) (xs ! Suc (2 * (t div 2))))"
proof (induction L xs arbitrary: t rule: pair_up.induct)
  case (1 L x y zs)
  show ?case
  proof (cases "t < 2")
    case True
    then show ?thesis by (auto simp: less_Suc_eq numeral_2_eq_2)
  next
    case False
    then obtain u where "t = Suc (Suc u)" by (metis One_nat_def Suc_1 Suc_lessD less_antisym not0_implies_Suc not_less_eq zero_less_Suc)
    with "1.IH" [of u] "1.prems" show ?thesis by (auto simp: nth_Cons split: nat.splits)
  qed
qed auto

lemma split_point_half:
  assumes "3 \<le> n"
  shows "even (split_point n)" "split_point ((n + 1) div 2) = split_point n div 2"
proof -
  let ?m = "(n + 1) div 2"
  have m: "2 \<le> ?m" using assms by simp
  then have "next_power_of_two ?m = 2 * next_power_of_two ((?m + 1) div 2)" by (subst next_power_of_two.simps) simp
  moreover have "split_point n = next_power_of_two ?m" using assms by (intro split_point_eq) simp
  ultimately show "even (split_point n)" "split_point ?m = split_point n div 2" by (simp_all add: split_point_def)
qed

lemma pair_up_split:
  assumes "3 \<le> length xs"
  shows "take (split_point (length (pair_up L xs))) (pair_up L xs) = pair_up L (take (split_point (length xs)) xs)"
    "drop (split_point (length (pair_up L xs))) (pair_up L xs) = pair_up L (drop (split_point (length xs)) xs)"
proof -
  let ?k = "split_point (length xs)"
  have k: "even ?k" "?k < length xs" using split_point_half assms split_point_bounds [of "length xs"] by simp_all
  have "pair_up L xs = pair_up L (take ?k xs) @ pair_up L (drop ?k xs)"
    using pair_up_append [of "take ?k xs" L "drop ?k xs"] k by (simp add: min_absorb2)
  moreover have "length (pair_up L (take ?k xs)) = ?k div 2" using k by (simp add: min_absorb2)
  moreover have "split_point (length (pair_up L xs)) = ?k div 2" using split_point_half(2) [OF assms] by simp
  ultimately show "take (split_point (length (pair_up L xs))) (pair_up L xs) = pair_up L (take ?k xs)"
    "drop (split_point (length (pair_up L xs))) (pair_up L xs) = pair_up L (drop ?k xs)" by simp_all
qed

lemma split_point_two [simp]: "split_point 2 = 1" "split_point (Suc (Suc 0)) = 1"
  by (simp_all add: split_point_eq next_power_of_two.simps)

lemma mth_two [simp]: "mth L [x, y] = node_hash L x y"
  by (subst mth.simps) simp

lemma mth_pair_up: "2 \<le> length xs \<Longrightarrow> mth L (pair_up L xs) = mth L xs"
proof (induction xs rule: length_induct)
  case (1 xs)
  show ?case
  proof (cases "length xs = 2")
    case True
    then obtain x y where "xs = [x, y]" by (auto simp: length_Suc_conv numeral_2_eq_2)
    then show ?thesis by simp
  next
    case False
    with "1.prems" have n: "3 \<le> length xs" by simp
    let ?k = "split_point (length xs)"
    have k: "0 < ?k" "even ?k" "?k < length xs"
      using split_point_half n split_point_bounds [of "length xs"] by simp_all
    then have "2 \<le> ?k" by (auto elim!: evenE)
    have step: "mth L (pair_up L ys) = mth L ys" if "length ys < length xs" "ys \<noteq> []" for ys
    proof (cases "2 \<le> length ys")
      case False
      with that obtain y where "ys = [y]" by (cases ys) (auto simp: Suc_le_eq)
      then show ?thesis by simp
    qed (use that "1.IH" in blast)
    have big: "\<not> length (pair_up L xs) \<le> 1" using n by simp
    have "mth L (pair_up L xs) = node_hash L (mth L (pair_up L (take ?k xs))) (mth L (pair_up L (drop ?k xs)))"
      using big pair_up_split [OF n, of L] by (subst mth.simps) (simp del: length_pair_up)
    also have "\<dots> = node_hash L (mth L (take ?k xs)) (mth L (drop ?k xs))"
      using k by (subst (1 2) step) auto
    also have "\<dots> = mth L xs" using n by (subst (3) mth.simps) simp
    finally show ?thesis .
  qed
qed

definition first_sibling :: "bytes list \<Rightarrow> nat \<Rightarrow> bytes list" where
  "first_sibling xs t = (if even t then (if Suc t = length xs then [] else [xs ! Suc t]) else [xs ! (t - 1)])"

lemma path_pair_up:
  "2 \<le> length xs \<Longrightarrow> t < length xs \<Longrightarrow>
     inclusion_path L xs t = first_sibling xs t @ inclusion_path L (pair_up L xs) (t div 2)"
proof (induction xs arbitrary: t rule: length_induct)
  case (1 xs)
  show ?case
  proof (cases "length xs = 2")
    case True
    then obtain x y where "xs = [x, y]" by (auto simp: length_Suc_conv numeral_2_eq_2)
    moreover have "t = 0 \<or> t = 1" using "1.prems"(2) True by auto
    ultimately show ?thesis
      by (auto simp: inclusion_path.simps [of L "[x, y]"] first_sibling_def)
  next
    case False
    with "1.prems" have n: "3 \<le> length xs" by simp
    let ?k = "split_point (length xs)" and ?m = "length (pair_up L xs)"
    have k: "0 < ?k" "even ?k" "?k < length xs" "split_point ?m = ?k div 2" "2 \<le> ?m"
      using split_point_half n split_point_bounds [of "length xs"] by simp_all
    then have k2: "2 \<le> ?k" by (auto elim!: evenE)
    note sp = pair_up_split [OF n, of L, unfolded k(4)]
    have top: "inclusion_path L (pair_up L xs) u =
        (if u < ?k div 2 then inclusion_path L (pair_up L (take ?k xs)) u @ [mth L (pair_up L (drop ?k xs))]
         else inclusion_path L (pair_up L (drop ?k xs)) (u - ?k div 2) @ [mth L (pair_up L (take ?k xs))])" for u
      using k(5) sp by (subst inclusion_path.simps) (simp add: k(4) Let_def del: length_pair_up)
    have small: "mth L (pair_up L ys) = mth L ys" if "ys \<noteq> []" for ys
      using that mth_pair_up [of ys L] by (cases ys; cases "tl ys") (auto simp: Suc_le_eq)
    have IH: "inclusion_path L ys u = first_sibling ys u @ inclusion_path L (pair_up L ys) (u div 2)"
      if "length ys < length xs" "u < length ys" for ys u
    proof (cases "2 \<le> length ys")
      case False
      with that obtain y where "ys = [y]" by (cases ys) (auto simp: Suc_le_eq)
      with that show ?thesis by (simp add: first_sibling_def)
    qed (use that "1.IH" in blast)
    have unfold: "inclusion_path L xs t =
        (if t < ?k then inclusion_path L (take ?k xs) t @ [mth L (drop ?k xs)]
         else inclusion_path L (drop ?k xs) (t - ?k) @ [mth L (take ?k xs)])"
      using n by (subst inclusion_path.simps) (simp add: Let_def)
    show ?thesis
    proof (cases "t < ?k")
      case True
      then have "t div 2 < ?k div 2" using k(2) by (auto elim!: evenE)
      moreover have "even t \<Longrightarrow> Suc t < ?k" using True k(2) by (metis Suc_lessI even_Suc)
      then have "first_sibling (take ?k xs) t = first_sibling xs t"
        using True k by (auto simp: first_sibling_def)
      ultimately show ?thesis
        using True k IH [of "take ?k xs" t] by (simp add: unfold top small)
    next
      case False
      then have "\<not> t div 2 < ?k div 2" "t div 2 - ?k div 2 = (t - ?k) div 2" using k(2) by (auto elim!: evenE)
      moreover have "odd t \<Longrightarrow> ?k < t" using False k(2) by (metis linorder_neqE_nat)
      then have "odd t \<Longrightarrow> ?k + (t - Suc ?k) = t - Suc 0" by simp
      then have "first_sibling (drop ?k xs) (t - ?k) = first_sibling xs t"
        using False k "1.prems"(2) by (auto simp: first_sibling_def)
      moreover have "take ?k xs \<noteq> []" using k n by auto
      moreover have "t - ?k < length (drop ?k xs)" using False "1.prems"(2) by (simp add: diff_less_mono)
      ultimately show ?thesis
        using False k IH [of "drop ?k xs" "t - ?k"] "1.prems"(2) by (simp add: unfold top small)
    qed
  qed
qed

section \<open>The verifier follows the tree\<close>

lemma walk_promote:
  assumes "even s" "2 \<le> s"
  shows "walk L r s s path = walk L r (s div 2) (s div 2) path"
proof (cases path)
  case (Cons sibling path')
  have "climb s s = climb (s div 2) (s div 2)" using assms by (simp add: climb.simps [of s s])
  with Cons assms show ?thesis by (auto split: prod.splits)
qed (use assms in \<open>auto simp: div_eq_0_iff\<close>)

text \<open>One level of the walk: the running hash becomes the entry of the level above.\<close>

lemma walk_level:
  assumes "2 \<le> length xs" "t < length xs"
  shows "walk L (xs ! t) t (length xs - 1) (first_sibling xs t @ path) =
    walk L (pair_up L xs ! (t div 2)) (t div 2) (length (pair_up L xs) - 1) path"
proof -
  have half: "length (pair_up L xs) - 1 = (length xs - 1) div 2" using assms(1) by (cases "length xs") simp_all
  consider "even t" "Suc t = length xs" | "odd t" | "even t" "Suc t < length xs" using assms(2) by linarith
  then show ?thesis
  proof cases
    case 1
    then have "walk L (xs ! t) t t path = walk L (xs ! t) (t div 2) (t div 2) path"
      using assms(1) by (intro walk_promote) auto
    moreover have "length xs - 1 = t" using 1 by simp
    ultimately show ?thesis using 1 assms(2) unfolding half by (simp add: first_sibling_def nth_pair_up)
  next
    case 2
    then have "climb t (length xs - 1) = (t, length xs - 1)" by (simp add: climb.simps)
    moreover have "2 * (t div 2) = t - 1" "Suc (t - 1) = t" using 2 by (auto elim!: oddE)
    ultimately show ?thesis using 2 assms unfolding half by (simp add: first_sibling_def nth_pair_up)
  next
    case 3
    with assms show ?thesis unfolding half by (auto simp: first_sibling_def nth_pair_up)
  qed
qed

lemma walk_complete:
  "t < length xs \<Longrightarrow> walk L (xs ! t) t (length xs - 1) (inclusion_path L xs t) = Ok (mth L xs)"
proof (induction xs arbitrary: t rule: length_induct)
  case (1 xs)
  show ?case
  proof (cases "2 \<le> length xs")
    case True
    then have "length (pair_up L xs) < length xs" "t div 2 < length (pair_up L xs)" using "1.prems" by auto
    with "1.IH" have "walk L (pair_up L xs ! (t div 2)) (t div 2) (length (pair_up L xs) - 1)
        (inclusion_path L (pair_up L xs) (t div 2)) = Ok (mth L (pair_up L xs))" by blast
    then show ?thesis
      unfolding path_pair_up [OF True "1.prems"] walk_level [OF True "1.prems"] mth_pair_up [OF True] .
  next
    case False
    with "1.prems" obtain x where "xs = [x]" by (cases xs) (auto simp: Suc_le_eq)
    with "1.prems" show ?thesis by simp
  qed
qed

text \<open>
  C23. Every inclusion path the log produces is accepted: for any list of leaves and any index in
  it, the verifier recomputes from the leaf and its path exactly the tree head the log computed.
\<close>

theorem inclusion_proof_complete:
  assumes "t < length leaves" "mth_and_path L leaves (Some t) [] = (root, path)"
  shows "rfc9162_root_from_inclusion_proof L (leaves ! t) t (length leaves) path = Ok root"
  using assms walk_complete [OF assms(1)]
  by (auto simp: rfc9162_root_from_inclusion_proof_def mth_and_path_eq)

theorem inclusion_proof_complete_witness:
  "let leaves = [''a'', ''b'', ''c'']; p = mth_and_path demo_lib leaves (Some 2) []
   in rfc9162_root_from_inclusion_proof demo_lib ''c'' 2 3 (snd p) = Ok (fst p)"
proof -
  have "2 < length [''a'', ''b'', ''c'']" by simp
  from inclusion_proof_complete [OF this, of demo_lib "fst (mth_and_path demo_lib [''a'', ''b'', ''c''] (Some 2) [])"
      "snd (mth_and_path demo_lib [''a'', ''b'', ''c''] (Some 2) [])"]
  show ?thesis by (simp add: Let_def eval_nat_numeral)
qed

section \<open>Soundness\<close>

text \<open>The strings hashed while a proof is walked, and those hashed to build a tree level by level.\<close>

fun walk_inputs :: "crypto_lib \<Rightarrow> bytes \<Rightarrow> nat \<Rightarrow> nat \<Rightarrow> bytes list \<Rightarrow> bytes list" where
  "walk_inputs L r fnode snode [] = []"
| "walk_inputs L r fnode snode (sibling # path) =
     (if snode = 0 then []
      else if odd fnode \<or> fnode = snode
      then (case climb fnode snode of (f, s) \<Rightarrow>
              (CHR 0x01 # sibling @ r) # walk_inputs L (node_hash L sibling r) (f div 2) (s div 2) path)
      else (CHR 0x01 # r @ sibling) # walk_inputs L (node_hash L r sibling) (fnode div 2) (snode div 2) path)"

fun level_inputs :: "bytes list \<Rightarrow> bytes list" where
  "level_inputs (x # y # zs) = (CHR 0x01 # x @ y) # level_inputs zs"
| "level_inputs xs = []"

function tree_inputs :: "crypto_lib \<Rightarrow> bytes list \<Rightarrow> bytes list" where
  "tree_inputs L xs = (if length xs \<le> 1 then [] else level_inputs xs @ tree_inputs L (pair_up L xs))"
  by auto
termination by (relation "measure (\<lambda>(L, xs). length xs)") auto

declare tree_inputs.simps [simp del]

lemma level_input:
  "t < length xs \<Longrightarrow> \<not> (even t \<and> Suc t = length xs) \<Longrightarrow>
     CHR 0x01 # xs ! (2 * (t div 2)) @ xs ! Suc (2 * (t div 2)) \<in> set (level_inputs xs)"
proof (induction xs arbitrary: t rule: level_inputs.induct)
  case (1 x y zs)
  show ?case
  proof (cases "t < 2")
    case False
    then obtain u where "t = Suc (Suc u)" by (metis One_nat_def Suc_1 Suc_lessD less_antisym not0_implies_Suc not_less_eq zero_less_Suc)
    with "1.IH" [of u] "1.prems" show ?thesis by auto
  qed (auto simp: less_Suc_eq numeral_2_eq_2)
qed auto

lemma walk_inputs_promote:
  assumes "even s" "2 \<le> s"
  shows "walk_inputs L r s s path = walk_inputs L r (s div 2) (s div 2) path"
proof (cases path)
  case (Cons sibling path')
  have "climb s s = climb (s div 2) (s div 2)" using assms by (simp add: climb.simps [of s s])
  with Cons assms show ?thesis by (auto split: prod.splits)
qed simp

lemma length_node_hash: "sha256_ok L \<Longrightarrow> length (node_hash L x y) = 32"
  by (simp add: node_hash_def sha256_ok_def)

lemma pair_up_widths: "sha256_ok L \<Longrightarrow> \<forall>x\<in>set xs. length x = 32 \<Longrightarrow> \<forall>x\<in>set (pair_up L xs). length x = 32"
  by (induction L xs rule: pair_up.induct) (auto simp: length_node_hash)

lemma walk_sound:
  assumes "sha256_ok L"
  shows "t < length xs \<Longrightarrow> \<forall>x\<in>set xs. length x = 32 \<Longrightarrow> length r = 32
    \<Longrightarrow> walk L r t (length xs - 1) path = Ok (mth L xs)
    \<Longrightarrow> inj_on (sha256 L) (set (walk_inputs L r t (length xs - 1) path) \<union> set (tree_inputs L xs))
    \<Longrightarrow> r = xs ! t \<and> path = inclusion_path L xs t"
proof (induction xs arbitrary: t r path rule: length_induct)
  case (1 xs)
  show ?case
  proof (cases "2 \<le> length xs")
    case False
    with "1.prems"(1) obtain x where "xs = [x]" by (cases xs) (auto simp: Suc_le_eq)
    with "1.prems"(1,4) show ?thesis by (cases path) auto
  next
    case True
    let ?ys = "pair_up L xs" and ?u = "t div 2"
    have half: "length ?ys - 1 = (length xs - 1) div 2" using True by (cases "length xs") simp_all
    have shorter: "length ?ys < length xs" "?u < length ?ys" using True "1.prems"(1) by auto
    have inputs: "tree_inputs L xs = level_inputs xs @ tree_inputs L ?ys" using True by (subst tree_inputs.simps) simp
    note widths = pair_up_widths [OF assms "1.prems"(2)]
    have IH: "r' = ?ys ! ?u \<and> path' = inclusion_path L ?ys ?u"
      if "length r' = 32" "walk L r' ?u ((length xs - 1) div 2) path' = Ok (mth L xs)"
        "set (walk_inputs L r' ?u ((length xs - 1) div 2) path') \<subseteq> set (walk_inputs L r t (length xs - 1) path)" for r' path'
      using "1.IH" [rule_format, OF shorter widths [rule_format] that(1), of path'] that(2,3) half mth_pair_up [OF True, of L]
        inj_on_subset [OF "1.prems"(5), of "set (walk_inputs L r' ?u ((length xs - 1) div 2) path') \<union> set (tree_inputs L ?ys)"]
      by (auto simp: inputs)
    note up = path_pair_up [OF True "1.prems"(1), of L]
    consider "even t" "Suc t = length xs" | "odd t" | "even t" "Suc t < length xs" using "1.prems"(1) by linarith
    then show ?thesis
    proof cases
      case 1
      then have last: "length xs - 1 = t" "even t" "2 \<le> t" using True by auto
      with IH [OF "1.prems"(3)] "1.prems"(4) 1 show ?thesis
        using walk_promote [OF last(2,3), of L r path] walk_inputs_promote [OF last(2,3), of L r path] "1.prems"(1) up
        by (simp add: nth_pair_up first_sibling_def)
    next
      case 2
      have c: "climb t (length xs - 1) = (t, length xs - 1)" using 2 by (simp add: climb.simps)
      from True "1.prems"(4) obtain sib path' where path: "path = sib # path'" by (cases path) auto
      have e: "2 * (t div 2) = t - 1" "Suc (t - 1) = t" using 2 by (auto elim!: oddE)
      have ih: "node_hash L sib r = ?ys ! ?u \<and> path' = inclusion_path L ?ys ?u"
        by (rule IH) (use True "1.prems"(4) 2 c in \<open>auto simp: path length_node_hash [OF assms]\<close>)
      then have "node_hash L sib r = node_hash L (xs ! (t - 1)) (xs ! t)"
        using 2 e "1.prems"(1) nth_pair_up [of t xs L] by simp
      moreover have "CHR 0x01 # sib @ r \<in> set (walk_inputs L r t (length xs - 1) path)"
        using True 2 c by (auto simp: path)
      moreover have "CHR 0x01 # xs ! (t - 1) @ xs ! t \<in> set (tree_inputs L xs)"
        using level_input [OF "1.prems"(1)] 2 e by (simp add: inputs)
      ultimately have "sib @ r = xs ! (t - 1) @ xs ! t"
        using "1.prems"(5) by (auto simp: node_hash_def dest: inj_onD)
      moreover have "length r = length (xs ! t)" using "1.prems"(1-3) by simp
      ultimately show ?thesis using ih up 2 path by (simp add: append_eq_append_conv first_sibling_def)
    next
      case 3
      from True "1.prems"(4) obtain sib path' where path: "path = sib # path'" by (cases path) auto
      have e: "2 * (t div 2) = t" "t \<noteq> length xs - 1" using 3 by auto
      have ih: "node_hash L r sib = ?ys ! ?u \<and> path' = inclusion_path L ?ys ?u"
        by (rule IH) (use True "1.prems"(4) 3 e in \<open>auto simp: path length_node_hash [OF assms]\<close>)
      then have "node_hash L r sib = node_hash L (xs ! t) (xs ! Suc t)"
        using 3 e "1.prems"(1) nth_pair_up [of t xs L] by simp
      moreover have "CHR 0x01 # r @ sib \<in> set (walk_inputs L r t (length xs - 1) path)"
        using True 3 e by (auto simp: path)
      moreover have "CHR 0x01 # xs ! t @ xs ! Suc t \<in> set (tree_inputs L xs)"
        using level_input [OF "1.prems"(1)] 3 e by (simp add: inputs)
      ultimately have "r @ sib = xs ! t @ xs ! Suc t"
        using "1.prems"(5) by (auto simp: node_hash_def dest: inj_onD)
      moreover have "length r = length (xs ! t)" using "1.prems"(1-3) by simp
      ultimately show ?thesis using ih up 3 path by (simp add: append_eq_append_conv first_sibling_def)
    qed
  qed
qed



end
