(* ===== verification/Sf_Base.thy ===== *)
theory Sf_Base
  imports Sf_Spelling
begin

text \<open>
  What a signature base commits to: two messages with the same signature base have the same covered
  components, the same signature parameters, and the same value of every covered component.
\<close>

lemma component_value_no_lf: "component_value c source = Ok v \<Longrightarrow> CHR 0x0A \<notin> set v"
  by (auto simp: component_value_def try_bind_Ok_iff list_ex_iff split: if_splits)

lemma base_lines_no_lf:
  "base_lines cs source = Ok ls \<Longrightarrow> list_all known cs \<Longrightarrow> l \<in> set ls \<Longrightarrow> CHR 0x0A \<notin> set l"
proof (induction cs arbitrary: ls)
  case (Cons c cs)
  then obtain v ls' where v: "component_value c source = Ok v" "base_lines cs source = Ok ls'"
    "ls = (cc_identifier c @ '': '' @ v) # ls'"
    by (auto simp: try_bind_Ok_iff)
  show ?case
  proof (cases "l \<in> set ls'")
    case True
    with Cons v show ?thesis by simp
  next
    case False
    with Cons.prems(3) v have "l = cc_identifier c @ '': '' @ v" by simp
    with component_value_no_lf [OF v(1)] identifier_chars(4) Cons.prems(2) show ?thesis by simp
  qed
qed simp

lemma sf_string_no_lf: "list_all sf_char s \<Longrightarrow> CHR 0x0A \<notin> set s"
proof -
  have "\<not> sf_char (CHR 0x0A)" by (simp add: sf_char_def)
  then show "list_all sf_char s \<Longrightarrow> CHR 0x0A \<notin> set s" unfolding list_all_iff by blast
qed

lemma show_int_no_lf: "CHR 0x0A \<notin> set (show_int i)"
proof -
  have "\<not> quiet (CHR 0x0A)" by (simp add: quiet_def visible_def)
  then show ?thesis using quiet_show_int [of i] unfolding list_all_iff by blast
qed

lemma serialized_no_lf:
  assumes "serialize_with p cs = Ok s" "list_all known cs"
  shows "CHR 0x0A \<notin> set s"
proof -
  have s: "s = ''('' @ component_list cs @ '')'' @ tail_of (params_segs p)" "strings_ok p"
    using assms(1) by (simp_all add: serialize_with_Ok_iff)
  have "CHR 0x0A \<notin> set (component_list cs)"
    unfolding component_list_def
    by (rule join_with_notin) (use assms(2) identifier_chars(4) in \<open>auto simp: list_all_iff\<close>)
  moreover have "CHR 0x0A \<notin> set (tail_of (int_seg k i))" if "CHR 0x0A \<notin> set k" for k i
    using that show_int_no_lf by (cases i) (simp_all add: tail_of_segs)
  moreover have "CHR 0x0A \<notin> set (tail_of (str_seg k v))"
    if "CHR 0x0A \<notin> set k" "\<And>s. v = Some s \<Longrightarrow> list_all sf_char s" for k v
    using that sf_string_no_lf by (cases v) (simp_all add: tail_of_segs)
  moreover have "\<And>s. sp_nonce p = Some s \<Longrightarrow> list_all sf_char s" "\<And>s. sp_keyid p = Some s \<Longrightarrow> list_all sf_char s"
    "\<And>s. sp_alg p = Some s \<Longrightarrow> list_all sf_char s" "\<And>s. sp_tag p = Some s \<Longrightarrow> list_all sf_char s"
    using s(2) by (simp_all add: strings_ok_def)
  ultimately have "CHR 0x0A \<notin> set (component_list cs)" "CHR 0x0A \<notin> set (tail_of (params_segs p))"
    unfolding params_segs_def tail_of_append set_append Un_iff de_Morgan_disj
    by (simp_all del: tail_of_append)
  moreover note s(1)
  ultimately show ?thesis by simp
qed

lemma signature_base_lines:
  assumes "signature_base cs p source = Ok b"
  obtains ls s where "base_lines cs source = Ok ls" "serialize_with p cs = Ok s"
    "b = join_with [CHR 0x0A] (ls @ [''\"@signature-params\": '' @ s])"
  using assms by (auto simp: signature_base_def try_bind_Ok_iff)

lemma base_lines_values:
  "base_lines cs source = Ok ls \<Longrightarrow> base_lines cs source' = Ok ls \<Longrightarrow> c \<in> set cs
   \<Longrightarrow> component_value c source = component_value c source'"
  by (induction cs arbitrary: ls) (auto simp: try_bind_Ok_iff)

text \<open>
  C32. A signature base determines what it covers: two messages whose bases are equal were signed
  over the same components in the same order, with the same parameters, and agree on the value of
  every covered component. A signature can therefore not be carried over to a message that differs
  in anything it covers.
\<close>

theorem signature_base_determines:
  assumes base: "signature_base cs p source = Ok b" and base': "signature_base cs' p' source' = Ok b"
    and ints: "pred_option is_i64 (sp_created p)" "pred_option is_i64 (sp_expires p)"
      "pred_option is_i64 (sp_created p')" "pred_option is_i64 (sp_expires p')"
    and known: "\<forall>c\<in>set cs \<union> set cs'. cc_name c \<in> set KNOWN_COMPONENTS" "distinct cs" "distinct cs'"
  shows "cs = cs' \<and> p = p' \<and> (\<forall>c\<in>set cs. component_value c source = component_value c source')"
proof -
  have k: "list_all known cs" "list_all known cs'" using known(1) by (auto simp: list_all_iff known_def)
  obtain ls s where ls: "base_lines cs source = Ok ls" "serialize_with p cs = Ok s"
    "b = join_with [CHR 0x0A] (ls @ [''\"@signature-params\": '' @ s])"
    using base by (rule signature_base_lines)
  obtain ls' s' where ls': "base_lines cs' source' = Ok ls'" "serialize_with p' cs' = Ok s'"
    "b = join_with [CHR 0x0A] (ls' @ [''\"@signature-params\": '' @ s'])"
    using base' by (rule signature_base_lines)
  have "ls @ [''\"@signature-params\": '' @ s] = ls' @ [''\"@signature-params\": '' @ s']"
  proof (rule join_with_inj [where c = "CHR 0x0A"])
    show "join_with [CHR 0x0A] (ls @ [''\"@signature-params\": '' @ s])
        = join_with [CHR 0x0A] (ls' @ [''\"@signature-params\": '' @ s'])"
      using ls(3) ls'(3) by simp
  qed (use base_lines_no_lf ls ls' k serialized_no_lf in auto)
  then have "ls = ls'" "s = s'" by auto
  have "parse_signature_input s = Ok \<lparr>ps_components = cs, ps_params = p\<rparr>"
    by (rule parse_serialized [OF ls(2) _ k(1) known(2)]) (simp add: ints_ok_def ints)
  moreover have "parse_signature_input s = Ok \<lparr>ps_components = cs', ps_params = p'\<rparr>"
    unfolding \<open>s = s'\<close> by (rule parse_serialized [OF ls'(2) _ k(2) known(3)]) (simp add: ints_ok_def ints)
  ultimately have "cs = cs'" "p = p'" by simp_all
  moreover have "\<forall>c\<in>set cs. component_value c source = component_value c source'"
    using base_lines_values [OF ls(1)] ls'(1) \<open>ls = ls'\<close> \<open>cs = cs'\<close> by blast
  ultimately show ?thesis by simp
qed

definition sample_request :: HttpRequest where
  "sample_request = \<lparr>rq_method = ''POST'', rq_target_uri = ''https://example.com/mcp'',
     rq_headers = [(''Content-Digest'', ''sha-256=:abc:''), (''X-Trace'', ''1'')], rq_body = ''{}''\<rparr>"

definition request_components :: "CoveredComponent list" where
  "request_components = [cc_new ''@method'', cc_new ''@path'', cc_new ''content-digest'']"

theorem signature_base_determines_witness:
  "let m = sample_request\<lparr>rq_headers := [(''content-digest'', '' sha-256=:abc: '')]\<rparr>;
       p = params_default\<lparr>sp_created := Some 1\<rparr>
   in \<forall>c\<in>set request_components. component_value c (Request sample_request) = component_value c (Request m)"
proof -
  define m where "m = sample_request\<lparr>rq_headers := [(''content-digest'', '' sha-256=:abc: '')]\<rparr>"
  define p where "p = params_default\<lparr>sp_created := Some 1\<rparr>"
  define b where "b = join_with [CHR 0x0A] [''\"@method\": POST'', ''\"@path\": /mcp'',
    ''\"content-digest\": sha-256=:abc:'',
    ''\"@signature-params\": (\"@method\" \"@path\" \"content-digest\");created=1'']"
  have "signature_base request_components p (Request sample_request) = Ok b"
    "signature_base request_components p (Request m) = Ok b"
    unfolding b_def p_def m_def by code_simp+
  moreover have "pred_option is_i64 (sp_created p)" "pred_option is_i64 (sp_expires p)"
    "\<forall>c\<in>set request_components \<union> set request_components. cc_name c \<in> set KNOWN_COMPONENTS"
    "distinct request_components"
    by (simp_all add: p_def params_default_def request_components_def cc_new_def KNOWN_COMPONENTS_def
        is_i64_def i64_min_def i64_max_def)
  ultimately show ?thesis
    unfolding Let_def m_def [symmetric] p_def [symmetric]
    using signature_base_determines [of request_components p "Request sample_request" b] by blast
qed

end
