(* ===== verification/Json_Body.thy ===== *)
theory Json_Body
  imports Http_Message "HOL-Library.AList"
begin

text \<open>
  JSON bodies: the values of \<open>serde_json\<close>, the envelope checks of
  \<open>mcp-re-http-profile/src/envelope/\<close>, the result classes of \<open>result_class.rs\<close>, the meta blocks of
  \<open>body/mod.rs\<close>, the representability scan of \<open>body/representable.rs\<close> with \<open>carried_number.rs\<close> and
  \<open>decimal_token.rs\<close>, and the reserved-key strip of \<open>context/reserved_key_strip.rs\<close>. Parsing and
  printing are the crate \<open>serde_json\<close>: the fields of the record \<open>json_lib\<close>. The byte scans keep the
  rest of the input instead of an index into it.
\<close>

section \<open>Values\<close>

text \<open>A number is a \<open>u64\<close>, a negative \<open>i64\<close>, or an \<open>f64\<close> known by the text it is printed as.\<close>

datatype serde_number = PosInt nat | NegInt int | Float string

datatype json =
    JNull
  | JBool bool
  | JNumber serde_number
  | JString string
  | JArray "json list"
  | JObject "(string \<times> json) list"

fun as_object :: "json \<Rightarrow> (string \<times> json) list option" where
  "as_object (JObject m) = Some m"
| "as_object _ = None"

fun as_str :: "json \<Rightarrow> string option" where
  "as_str (JString s) = Some s"
| "as_str _ = None"

definition json_get :: "json \<Rightarrow> string \<Rightarrow> json option" where
  "json_get v key = Option.bind (as_object v) (\<lambda>m. map_of m key)"

fun is_i64_number :: "json \<Rightarrow> bool" where
  "is_i64_number (JNumber (PosInt n)) \<longleftrightarrow> int n \<le> i64_max"
| "is_i64_number (JNumber (NegInt i)) \<longleftrightarrow> True"
| "is_i64_number _ \<longleftrightarrow> False"

text \<open>
  \<open>from_slice\<close> and \<open>to_vec\<close> are the parser and the printer, \<open>from_str_string\<close> the parser of a quoted
  string, \<open>f64_reemit\<close> the text an \<open>f64\<close> read from a number token is printed as, if it is finite.
\<close>

record json_lib =
  from_slice :: "bytes \<Rightarrow> json option"
  to_vec :: "json \<Rightarrow> bytes"
  from_slice_string :: "bytes \<Rightarrow> string option"
  from_utf8 :: "bytes \<Rightarrow> string option"
  f64_reemit :: "string \<Rightarrow> string option"

definition json_roundtrip :: "json_lib \<Rightarrow> bool" where
  "json_roundtrip J \<longleftrightarrow> (\<forall>v. from_slice J (to_vec J v) = Some v)"

section \<open>Decimal tokens\<close>

record DecimalToken =
  dt_negative :: bool
  dt_digits :: string
  dt_exponent :: int

definition checked_i32 :: "int \<Rightarrow> int option" where
  "checked_i32 i = (if - 2147483648 \<le> i \<and> i \<le> 2147483647 then Some i else None)"

text \<open>The integer parsers of the standard library: an optional sign, then digits, within range.\<close>

definition std_parse_int :: "string \<Rightarrow> int option" where
  "std_parse_int s =
     (case s of
        [] \<Rightarrow> None
      | c # ds \<Rightarrow>
          if c = CHR ''-'' \<or> c = CHR ''+''
          then if ds \<noteq> [] \<and> list_all is_ascii_digit ds
               then Some (if c = CHR ''-'' then - int (read_nat ds) else int (read_nat ds)) else None
          else if list_all is_ascii_digit s then Some (int (read_nat s)) else None)"

definition std_parse_i32 :: "string \<Rightarrow> int option" where
  "std_parse_i32 s = Option.bind (std_parse_int s) checked_i32"

definition std_i64_ok :: "string \<Rightarrow> bool" where
  "std_i64_ok s \<longleftrightarrow> (case std_parse_int s of Some i \<Rightarrow> is_i64 i | None \<Rightarrow> False)"

definition std_u64_ok :: "string \<Rightarrow> bool" where
  "std_u64_ok s \<longleftrightarrow> \<not> starts_with s ''-'' \<and>
     (case std_parse_int s of Some i \<Rightarrow> i \<le> 18446744073709551615 | None \<Rightarrow> False)"

fun drop_trailing_zeros :: "string \<Rightarrow> int \<Rightarrow> (string \<times> int) option" where
  "drop_trailing_zeros [] exponent = Some ([], exponent)"
| "drop_trailing_zeros (c # rev_digits) exponent =
     (if c = CHR ''0''
      then Option.bind (checked_i32 (exponent + 1)) (drop_trailing_zeros rev_digits)
      else Some (c # rev_digits, exponent))"

definition normalized :: "bool \<Rightarrow> string \<Rightarrow> int \<Rightarrow> DecimalToken option" where
  "normalized negative digits exponent =
     Option.bind (drop_trailing_zeros (rev (dropWhile (\<lambda>d. d = CHR ''0'') digits)) exponent) (\<lambda>(rd, e).
     if rd = [] then Some \<lparr>dt_negative = False, dt_digits = [], dt_exponent = 0\<rparr>
     else Some \<lparr>dt_negative = negative, dt_digits = rev rd, dt_exponent = e\<rparr>)"

definition split_exponent :: "string \<Rightarrow> string \<times> string option" where
  "split_exponent s =
     (case dropWhile (\<lambda>c. c \<noteq> CHR ''e'' \<and> c \<noteq> CHR ''E'') s of
        [] \<Rightarrow> (s, None)
      | _ # e \<Rightarrow> (takeWhile (\<lambda>c. c \<noteq> CHR ''e'' \<and> c \<noteq> CHR ''E'') s, Some e))"

definition decimal_parse :: "string \<Rightarrow> DecimalToken option" where
  "decimal_parse text =
     (let (negative, unsigned) =
            (case strip_prefix ''-'' text of
               Some rest \<Rightarrow> (True, rest)
             | None \<Rightarrow> (False, case strip_prefix ''+'' text of Some r \<Rightarrow> r | None \<Rightarrow> text));
          (significand, exponent_text) = split_exponent unsigned
      in Option.bind (case exponent_text of Some t \<Rightarrow> std_parse_i32 t | None \<Rightarrow> Some 0) (\<lambda>exponent.
         let (integer, fraction) = (case split_once CHR ''.'' significand of Some p \<Rightarrow> p | None \<Rightarrow> (significand, []))
         in if integer = [] \<and> fraction = [] then None
            else if \<not> list_all is_ascii_digit (integer @ fraction) then None
            else Option.bind (checked_i32 (int (length fraction))) (\<lambda>scale.
                 Option.bind (checked_i32 (exponent - scale)) (\<lambda>e.
                 normalized negative (integer @ fraction) e))))"

section \<open>Representable bodies\<close>

definition decimal_survives_the_f64_carrier :: "json_lib \<Rightarrow> string \<Rightarrow> bool" where
  "decimal_survives_the_f64_carrier J text =
     (case f64_reemit J text of
        None \<Rightarrow> False
      | Some emitted \<Rightarrow>
          (case (decimal_parse text, decimal_parse emitted) of
             (Some received, Some emitted) \<Rightarrow> received = emitted
           | _ \<Rightarrow> False))"

definition number_char :: "char \<Rightarrow> bool" where
  "number_char b \<longleftrightarrow> b = CHR ''-'' \<or> b = CHR ''+'' \<or> b = CHR ''.'' \<or> is_ascii_digit b \<or> b = CHR ''e'' \<or> b = CHR ''E''"

definition scan_number :: "json_lib \<Rightarrow> bytes \<Rightarrow> HttpProfileError + bytes" where
  "scan_number J body =
     (let token = takeWhile number_char body in
      if list_ex (\<lambda>b. b = CHR ''.'' \<or> b = CHR ''e'' \<or> b = CHR ''E'') token
      then if \<not> decimal_survives_the_f64_carrier J token
           then Err (MalformedEvidence ''body carries a number this profile cannot sign without altering it'')
           else Ok (dropWhile number_char body)
      else if \<not> std_i64_ok token \<and> \<not> std_u64_ok token
      then Err (MalformedEvidence ''body carries an integer this profile cannot sign without altering it'')
      else Ok (dropWhile number_char body))"

text \<open>The raw text up to the closing quote, a backslash taking the next byte with it.\<close>

fun take_string :: "bytes \<Rightarrow> bytes \<times> bytes" where
  "take_string [] = ([], [])"
| "take_string [c] = (if c = CHR ''\"'' then ([], []) else ([c], []))"
| "take_string (c # d # cs) =
     (if c = CHR ''\"'' then ([], d # cs)
      else if c = CHR 0x5C then (case take_string cs of (raw, rest) \<Rightarrow> (c # d # raw, rest))
      else (case take_string (d # cs) of (raw, rest) \<Rightarrow> (c # raw, rest)))"

definition decoded_member_name :: "json_lib \<Rightarrow> bytes \<Rightarrow> HttpProfileError + string" where
  "decoded_member_name J raw =
     (if CHR 0x5C \<notin> set raw then ok_or (from_utf8 J raw) (MalformedEvidence ''body json'')
      else ok_or (from_slice_string J (''\"'' @ raw @ ''\"'')) (MalformedEvidence ''body json''))"

definition is_ascii_whitespace :: "char \<Rightarrow> bool" where
  "is_ascii_whitespace c \<longleftrightarrow> c = CHR '' '' \<or> c = CHR 0x09 \<or> c = CHR 0x0A \<or> c = CHR 0x0C \<or> c = CHR 0x0D"

text \<open>The innermost frame is the head: \<open>Some names\<close> for an object, \<open>None\<close> for an array.\<close>

type_synonym frames = "string list option list"

definition scan_string :: "json_lib \<Rightarrow> bytes \<Rightarrow> frames \<Rightarrow> HttpProfileError + bytes \<times> frames" where
  "scan_string J body frames =
     (case take_string body of (raw, after) \<Rightarrow>
        if starts_with (dropWhile is_ascii_whitespace after) '':''
        then try_bind (decoded_member_name J raw) (\<lambda>name.
             case frames of
               Some names # fs \<Rightarrow>
                 if name \<in> set names then Err (MalformedEvidence ''body object has a duplicate member name'')
                 else Ok (after, Some (name # names) # fs)
             | _ \<Rightarrow> Ok (after, frames))
        else Ok (after, frames))"

lemma take_string_length: "take_string b = (raw, rest) \<Longrightarrow> length rest \<le> length b"
proof (induction b arbitrary: raw rest rule: take_string.induct)
  case (3 c d cs)
  then show ?case by (fastforce split: if_splits prod.splits)
qed (auto split: if_splits)

lemma scan_string_length:
  assumes "scan_string J b fs = Ok (rest, fs')"
  shows "length rest \<le> length b"
proof -
  obtain raw after where t: "take_string b = (raw, after)" by (cases "take_string b")
  have "rest = after"
    using assms by (cases fs; cases "hd fs") (auto simp: scan_string_def t try_bind_Ok_iff split: if_splits)
  with take_string_length [OF t] show ?thesis by simp
qed

lemma scan_number_length:
  assumes "scan_number J (c # cs) = Ok rest" "number_char c"
  shows "length rest \<le> length cs"
proof -
  have "rest = dropWhile number_char (c # cs)"
    using assms(1) by (auto simp: scan_number_def Let_def split: if_splits)
  then show ?thesis using assms(2) by (simp add: length_dropWhile_le)
qed

function scan_body :: "json_lib \<Rightarrow> frames \<Rightarrow> bytes \<Rightarrow> HttpProfileError + unit" where
  "scan_body J frames [] = Ok ()"
| "scan_body J frames (b # bs) =
     (if b = CHR ''\"''
      then (case scan_string J bs frames of Inl e \<Rightarrow> Err e | Inr (rest, fs) \<Rightarrow> scan_body J fs rest)
      else if b = CHR ''-'' \<or> is_ascii_digit b
      then (case scan_number J (b # bs) of Inl e \<Rightarrow> Err e | Inr rest \<Rightarrow> scan_body J frames rest)
      else if b = CHR ''{'' then scan_body J (Some [] # frames) bs
      else if b = CHR ''['' then scan_body J (None # frames) bs
      else if b = CHR ''}'' \<or> b = CHR '']'' then scan_body J (drop 1 frames) bs
      else scan_body J frames bs)"
  by pat_completeness auto

termination scan_body
proof (relation "measure (\<lambda>(J, fs, b). length b)", goal_cases)
  case (2 J frames b bs y rest fs)
  then show ?case using scan_string_length [of J bs frames rest fs] by simp
next
  case (3 J frames b bs rest)
  then have "number_char b" by (auto simp: number_char_def)
  with 3 show ?case using scan_number_length [of J b bs rest] by simp
qed simp_all

definition reject_unrepresentable_json :: "json_lib \<Rightarrow> bytes \<Rightarrow> HttpProfileError + unit" where
  "reject_unrepresentable_json J body = scan_body J [] body"

section \<open>Meta blocks\<close>

definition META_KEY :: string where "META_KEY = ''_meta''"

text \<open>The block is the value it serializes to; \<open>from_value\<close> is the derived deserializer.\<close>

definition insert_meta_block :: "json_lib \<Rightarrow> bytes \<Rightarrow> string \<Rightarrow> json \<Rightarrow> HttpProfileError + bytes" where
  "insert_meta_block J body key block =
     try_bind (ok_or (from_slice J body) (MalformedEvidence ''body json'')) (\<lambda>root.
     try_bind (reject_unrepresentable_json J body) (\<lambda>_.
     try_bind (ok_or (as_object root) (MalformedEvidence ''body not a json object'')) (\<lambda>obj.
     let meta = (case map_of obj META_KEY of Some m \<Rightarrow> m | None \<Rightarrow> JObject []) in
     try_bind (ok_or (as_object meta) (MalformedEvidence ''_meta not an object'')) (\<lambda>meta_obj.
     Ok (to_vec J (JObject (AList.update META_KEY (JObject (AList.update key block meta_obj)) obj)))))))"

definition extract_meta_block ::
  "json_lib \<Rightarrow> (json \<Rightarrow> 'a option) \<Rightarrow> bytes \<Rightarrow> string \<Rightarrow> string \<Rightarrow> HttpProfileError + 'a" where
  "extract_meta_block J from_value body key what =
     try_bind (ok_or (from_slice J body) (MalformedEvidence ''body json'')) (\<lambda>root.
     try_bind (ok_or (Option.bind (json_get root META_KEY) (\<lambda>m. json_get m key)) (MissingEvidence what)) (\<lambda>block.
     ok_or (from_value block) (MalformedEvidence what)))"

section \<open>Result classes\<close>

definition INPUT_REQUIRED_RESULT_TYPE :: string where "INPUT_REQUIRED_RESULT_TYPE = ''input_required''"
definition COMPLETE_RESULT_TYPE :: string where "COMPLETE_RESULT_TYPE = ''complete''"

datatype ResultTypeClass = Complete | InputRequired | Unrecognized

definition classify_result_type :: "json option \<Rightarrow> ResultTypeClass" where
  "classify_result_type result =
     (case result of
        None \<Rightarrow> Complete
      | Some r \<Rightarrow>
          (case json_get r ''resultType'' of
             None \<Rightarrow> Complete
           | Some (JString t) \<Rightarrow>
               if t = INPUT_REQUIRED_RESULT_TYPE then InputRequired
               else if t = COMPLETE_RESULT_TYPE then Complete else Unrecognized
           | Some _ \<Rightarrow> Unrecognized))"

definition is_input_required :: "json option \<Rightarrow> bool" where
  "is_input_required result \<longleftrightarrow> classify_result_type result = InputRequired"

definition input_required_state_of :: "json option \<Rightarrow> HttpProfileError + string option" where
  "input_required_state_of result =
     (case classify_result_type result of
        Complete \<Rightarrow> Ok None
      | Unrecognized \<Rightarrow> Err UnrecognizedResultType
      | InputRequired \<Rightarrow>
          try_bind (ok_or (Option.bind (Option.bind result (\<lambda>r. json_get r ''requestState'')) as_str)
                      (MalformedEvidence ''input_required requestState'')) (\<lambda>state. Ok (Some state)))"

definition input_required_state :: "json_lib \<Rightarrow> bytes \<Rightarrow> HttpProfileError + string option" where
  "input_required_state J body =
     try_bind (ok_or (from_slice J body) (MalformedEvidence ''response body'')) (\<lambda>parsed.
     input_required_state_of (json_get parsed ''result''))"

section \<open>JSON-RPC envelopes\<close>

definition JSON_RPC_VERSION :: string where "JSON_RPC_VERSION = ''2.0''"

datatype OutstandingId = Id json | Notification

definition outstanding_id :: "json_lib \<Rightarrow> bytes \<Rightarrow> HttpProfileError + OutstandingId" where
  "outstanding_id J request_body =
     try_bind (ok_or (from_slice J request_body) (MalformedEvidence ''request body'')) (\<lambda>parsed.
     try_bind (ok_or (as_object parsed) (MalformedEvidence ''request body'')) (\<lambda>obj.
     case map_of obj ''id'' of None \<Rightarrow> Ok Notification | Some i \<Rightarrow> Ok (Id i)))"

definition validate_request_envelope :: "json_lib \<Rightarrow> bytes \<Rightarrow> HttpProfileError + OutstandingId" where
  "validate_request_envelope J request_body =
     try_bind (reject_unrepresentable_json J request_body) (\<lambda>_.
     try_bind (ok_or (from_slice J request_body) (MalformedEvidence ''request body is not JSON'')) (\<lambda>parsed.
     try_bind (ok_or (as_object parsed) (MalformedEvidence ''request body is not a JSON object'')) (\<lambda>obj.
     try_bind (case map_of obj ''jsonrpc'' of
                 None \<Rightarrow> Err (MalformedEvidence ''request jsonrpc member absent'')
               | Some v \<Rightarrow> require (v = JString JSON_RPC_VERSION)
                            (MalformedEvidence ''request jsonrpc member is not \"2.0\"'')) (\<lambda>_.
     try_bind (case map_of obj ''method'' of
                 None \<Rightarrow> Err (MalformedEvidence ''request method member absent'')
               | Some v \<Rightarrow> require (as_str v \<noteq> None)
                            (MalformedEvidence ''request method member is not a string'')) (\<lambda>_.
     if map_of obj ''result'' \<noteq> None \<or> map_of obj ''error'' \<noteq> None
     then Err (MalformedEvidence ''request carries a response member'')
     else try_bind (case map_of obj ''params'' of
                 None \<Rightarrow> Ok ()
               | Some (JObject _) \<Rightarrow> Ok ()
               | Some (JArray _) \<Rightarrow> Ok ()
               | Some _ \<Rightarrow> Err (MalformedEvidence ''request params is neither an object nor an array'')) (\<lambda>_.
     case map_of obj ''id'' of
       None \<Rightarrow> Ok Notification
     | Some (JString s) \<Rightarrow> Ok (Id (JString s))
     | Some (JNumber n) \<Rightarrow> Ok (Id (JNumber n))
     | Some _ \<Rightarrow> Err (MalformedEvidence ''request id is neither a string nor a number'')))))))"

datatype ResponseOutcome = ResultOutcome | ErrorOutcome

record ValidatedEnvelope =
  ve_outcome :: ResponseOutcome
  ve_result :: "json option"

definition check_error_object :: "json \<Rightarrow> HttpProfileError + unit" where
  "check_error_object error =
     try_bind (ok_or (as_object error) (UpstreamResponseInvalid ''error is not an object'')) (\<lambda>e.
     try_bind (case map_of e ''code'' of
                 Some code \<Rightarrow> require (is_i64_number code) (UpstreamResponseInvalid ''error.code is not an integer'')
               | None \<Rightarrow> Err (UpstreamResponseInvalid ''error.code is not an integer'')) (\<lambda>_.
     case map_of e ''message'' of
       Some m \<Rightarrow> require (as_str m \<noteq> None) (UpstreamResponseInvalid ''error.message is not a string'')
     | None \<Rightarrow> Err (UpstreamResponseInvalid ''error.message is not a string'')))"

lemma as_object_Some_iff [simp]: "as_object v = Some m \<longleftrightarrow> v = JObject m"
  by (cases v) auto

lemma as_str_Some_iff [simp]: "as_str v = Some t \<longleftrightarrow> v = JString t"
  by (cases v) auto

lemma check_error_object_Ok:
  "check_error_object error = Ok () \<Longrightarrow>
     \<exists>e c m. error = JObject e \<and> map_of e ''code'' = Some c \<and> is_i64_number c \<and> map_of e ''message'' = Some (JString m)"
  by (auto simp: check_error_object_def try_bind_Ok_iff split: option.splits)

definition response_outcome :: "json option \<Rightarrow> json option \<Rightarrow> HttpProfileError + ResponseOutcome" where
  "response_outcome result error =
     (case (result, error) of
        (Some _, Some _) \<Rightarrow> Err (UpstreamResponseInvalid ''both result and error present'')
      | (None, None) \<Rightarrow> Err (UpstreamResponseInvalid ''neither result nor error present'')
      | (Some _, None) \<Rightarrow> Ok ResultOutcome
      | (None, Some _) \<Rightarrow> Ok ErrorOutcome)"

definition check_response_id :: "(string \<times> json) list \<Rightarrow> OutstandingId \<Rightarrow> HttpProfileError + unit" where
  "check_response_id obj outstanding =
     (case outstanding of
        Notification \<Rightarrow> Err (UpstreamResponseInvalid ''a notification has no response'')
      | Id expected \<Rightarrow>
          (case map_of obj ''id'' of
             None \<Rightarrow> Err (UpstreamResponseInvalid ''id member absent'')
           | Some i \<Rightarrow> require (i = expected) (UpstreamResponseInvalid ''id does not match the outstanding request'')))"

definition validate_response_envelope :: "json \<Rightarrow> OutstandingId \<Rightarrow> HttpProfileError + ValidatedEnvelope" where
  "validate_response_envelope parsed outstanding =
     try_bind (ok_or (as_object parsed) (UpstreamResponseInvalid ''not a JSON object'')) (\<lambda>obj.
     try_bind (ok_or (map_of obj ''jsonrpc'') (UpstreamResponseInvalid ''jsonrpc member absent'')) (\<lambda>version.
     try_bind (require (version = JString JSON_RPC_VERSION)
                 (UpstreamResponseInvalid ''jsonrpc member is not \"2.0\"'')) (\<lambda>_.
     let result = map_of obj ''result''; error = map_of obj ''error'' in
     try_bind (response_outcome result error) (\<lambda>outcome.
     try_bind (case error of None \<Rightarrow> Ok () | Some e \<Rightarrow> check_error_object e) (\<lambda>_.
     try_bind (case result of
                 None \<Rightarrow> Ok ()
               | Some r \<Rightarrow> require (as_object r \<noteq> None) (UpstreamResponseInvalid ''result is not an object'')) (\<lambda>_.
     try_bind (require (map_of obj ''method'' = None) (UpstreamResponseInvalid ''response carries a method member'')) (\<lambda>_.
     try_bind (require (map_of obj ''params'' = None) (UpstreamResponseInvalid ''response carries a params member'')) (\<lambda>_.
     try_bind (check_response_id obj outstanding) (\<lambda>_.
     Ok \<lparr>ve_outcome = outcome, ve_result = result\<rparr>)))))))))"

definition parse_response_body :: "json_lib \<Rightarrow> bytes \<Rightarrow> HttpProfileError + json" where
  "parse_response_body J body = ok_or (from_slice J body) (UpstreamResponseInvalid ''not JSON'')"



section \<open>Stripping the reserved keys\<close>

definition strip_meta_of :: "(string \<times> json) list \<Rightarrow> (string \<times> json) list \<times> bool" where
  "strip_meta_of container =
     (case map_of container ''_meta'' of
        Some (JObject meta) \<Rightarrow>
          let removed_evidence = map_of meta REQUEST_EVIDENCE_BLOCK_KEY \<noteq> None;
              meta = AList.delete REQUEST_EVIDENCE_BLOCK_KEY meta;
              seeded = map_of meta VERIFIED_CONTEXT_BLOCK_KEY \<noteq> None;
              meta = AList.delete VERIFIED_CONTEXT_BLOCK_KEY meta
          in (if (removed_evidence \<or> seeded) \<and> meta = [] then AList.delete ''_meta'' container
              else AList.update ''_meta'' (JObject meta) container, seeded)
      | _ \<Rightarrow> (container, False))"

definition member_path :: "string \<Rightarrow> string \<Rightarrow> string" where
  "member_path parent key = (if parent = [] then key else parent @ ''.'' @ key)"

text \<open>The size of a container never grows, which is what the recursion of the strip rests on.\<close>

definition members_size :: "(string \<times> json) list \<Rightarrow> nat" where
  "members_size m = sum_list (map (\<lambda>(k, v). Suc (size v)) m)"

lemma size_members: "members_size m \<le> size_list (size_prod (\<lambda>_. 0) size) m"
  by (induction m) (auto simp: members_size_def)

lemma members_size_delete: "members_size (AList.delete k m) \<le> members_size m"
  by (induction m) (auto simp: members_size_def)

lemma size_delete:
  "size_list (size_prod (\<lambda>_. 0) size) (AList.delete k m) \<le> size_list (size_prod (\<lambda>_. 0) size) (m :: (string \<times> json) list)"
  by (induction m) auto

lemma members_size_update:
  "map_of m k = Some v \<Longrightarrow> size v' \<le> size v \<Longrightarrow> members_size (AList.update k v' m) \<le> members_size m"
  by (induction m) (auto simp: members_size_def split: if_splits)

lemma members_size_strip: "members_size (fst (strip_meta_of m)) \<le> members_size m"
proof (cases "\<exists>meta. map_of m ''_meta'' = Some (JObject meta)")
  case True
  then obtain meta where meta: "map_of m ''_meta'' = Some (JObject meta)" by blast
  have "size (JObject (AList.delete a (AList.delete b meta))) \<le> size (JObject meta)" for a b
    using size_delete [of a "AList.delete b meta"] size_delete [of b meta] by simp
  with meta show ?thesis
    by (auto simp: strip_meta_of_def Let_def members_size_delete members_size_update)
next
  case False
  then have "strip_meta_of m = (m, False)" by (auto simp: strip_meta_of_def split: option.splits json.splits)
  then show ?thesis by simp
qed

function (sequential)
  strip_descendant_meta :: "string \<Rightarrow> json \<Rightarrow> json \<times> string list"
  and strip_members :: "string \<Rightarrow> (string \<times> json) list \<Rightarrow> (string \<times> json) list \<times> string list"
  and strip_elements :: "string \<Rightarrow> nat \<Rightarrow> json list \<Rightarrow> json list \<times> string list"
where
  "strip_descendant_meta path (JObject m) =
     (case strip_meta_of m of (m', seeded) \<Rightarrow>
      case strip_members path m' of (m'', found) \<Rightarrow>
      (JObject m'', (if seeded then [member_path path ''_meta''] else []) @ found))"
| "strip_descendant_meta path (JArray elements) =
     (case strip_elements path 0 elements of (es, found) \<Rightarrow> (JArray es, found))"
| "strip_descendant_meta path v = (v, [])"
| "strip_members path [] = ([], [])"
| "strip_members path ((key, child) # m) =
     (case strip_descendant_meta (member_path path key) child of (child', found) \<Rightarrow>
      case strip_members path m of (m', found') \<Rightarrow> ((key, child') # m', found @ found'))"
| "strip_elements path index [] = ([], [])"
| "strip_elements path index (child # es) =
     (case strip_descendant_meta (path @ ''['' @ show_nat index @ '']'') child of (child', found) \<Rightarrow>
      case strip_elements path (Suc index) es of (es', found') \<Rightarrow> (child' # es', found @ found'))"
  by pat_completeness auto

termination
proof (relation "measure (\<lambda>x. case x of Inl (p, v) \<Rightarrow> size v
    | Inr (Inl (p, m)) \<Rightarrow> members_size m | Inr (Inr (p, i, es)) \<Rightarrow> size_list size es)", goal_cases)
  case (2 path m m' seeded)
  have "members_size (fst (strip_meta_of m)) \<le> size_list (size_prod (\<lambda>_. 0) size) m"
    using members_size_strip [of m] size_members [of m] by (rule le_trans)
  moreover from 2 have "m' = fst (strip_meta_of m)" by (metis fst_conv)
  ultimately show ?case by simp
qed (auto simp: members_size_def)

end
