(* ===== verification/Evidence_Block.thy ===== *)
theory Evidence_Block
  imports Sf_Base Json_Body
begin

text \<open>
  Actors, audiences, artifact bindings and the evidence blocks a message carries:
  \<open>mcp-re-http-profile/src/block.rs\<close>, \<open>block/artifact_binding.rs\<close> and \<open>artifact.rs\<close>. The lemmas show
  that the escaped joins are injective: an actor id determines the four fields of the actor, the
  canonical bytes of an audience determine the audience up to an absent versus an empty route. A
  continuation is verified exactly against the three byte strings it was built over.
\<close>

section \<open>Actors\<close>

record ActorIdentity =
  role :: string
  trust_domain :: string
  subject :: string
  keyid :: string

definition replace_char :: "char \<Rightarrow> string \<Rightarrow> string \<Rightarrow> string" where
  "replace_char c r s = concat (map (\<lambda>x. if x = c then r else [x]) s)"

definition field_escape :: "string \<Rightarrow> string" where
  "field_escape s = replace_char (CHR 0x1F) ''%1F'' (replace_char CHR '':'' ''%3A'' (replace_char CHR ''%'' ''%25'' s))"

definition identity_actor_id :: "ActorIdentity \<Rightarrow> string" where
  "identity_actor_id a =
     field_escape (role a) @ '':'' @ field_escape (trust_domain a) @ '':'' @
     field_escape (subject a) @ '':'' @ field_escape (keyid a)"

datatype SignerSlot = RequestSlot | ResponseSlot

record ResolvedActor =
  identity :: ActorIdentity
  verification_key :: VerificationKey
  slot :: SignerSlot

datatype ResolverOutcome = Resolved ResolvedActor | NotTrusted | Unavailable

definition outcome_of_option :: "ResolvedActor option \<Rightarrow> ResolverOutcome" where
  "outcome_of_option v = (case v of Some actor \<Rightarrow> Resolved actor | None \<Rightarrow> NotTrusted)"

definition outcome_resolved :: "ResolverOutcome \<Rightarrow> ResolvedActor option" where
  "outcome_resolved oc = (case oc of Resolved actor \<Rightarrow> Some actor | NotTrusted \<Rightarrow> None | Unavailable \<Rightarrow> None)"

definition resolved_actor_id :: "ResolvedActor \<Rightarrow> string" where
  "resolved_actor_id a = identity_actor_id (identity a)"

section \<open>Audiences\<close>

record AudienceTuple =
  audience_id :: string
  target_uri :: string
  route :: "string option"

definition canonical_bytes :: "AudienceTuple \<Rightarrow> bytes" where
  "canonical_bytes a =
     (let route = (case route a of Some r \<Rightarrow> r | None \<Rightarrow> [])
      in field_escape (audience_id a) @ [CHR 0x1F] @ field_escape (target_uri a) @ [CHR 0x1F] @ field_escape route)"

definition audience_tuple_hash :: "crypto_lib \<Rightarrow> AudienceTuple \<Rightarrow> string" where
  "audience_tuple_hash L a = b64url_encode L (sha256 L (canonical_bytes a))"

section \<open>Continuations\<close>

record RequestEvidenceDigest =
  red_alg :: string
  red_value :: string

record HttpContinuation =
  continuation_type :: string
  previous_request_evidence :: RequestEvidenceDigest
  input_required_response_evidence :: RequestEvidenceDigest
  request_state_digest :: RequestEvidenceDigest

definition over_labeled :: "crypto_lib \<Rightarrow> string \<Rightarrow> bytes \<Rightarrow> RequestEvidenceDigest" where
  "over_labeled L label b = \<lparr>red_alg = EVIDENCE_DIGEST_ALG, red_value = labeled_digest_value L label b\<rparr>"

definition matches_labeled :: "crypto_lib \<Rightarrow> RequestEvidenceDigest \<Rightarrow> string \<Rightarrow> bytes \<Rightarrow> bool" where
  "matches_labeled L d label b \<longleftrightarrow> red_alg d = EVIDENCE_DIGEST_ALG \<and> red_value d = labeled_digest_value L label b"

definition CONTINUATION_TYPE_MCP_MRT :: string where "CONTINUATION_TYPE_MCP_MRT = ''mcp-mrt''"

definition continuation_build :: "crypto_lib \<Rightarrow> bytes \<Rightarrow> bytes \<Rightarrow> bytes \<Rightarrow> HttpContinuation" where
  "continuation_build L previous_request_base input_required_response_base request_state =
     \<lparr>continuation_type = CONTINUATION_TYPE_MCP_MRT,
      previous_request_evidence = over_labeled L EVIDENCE_LABEL_REQUEST previous_request_base,
      input_required_response_evidence = over_labeled L EVIDENCE_LABEL_RESPONSE input_required_response_base,
      request_state_digest = over_labeled L EVIDENCE_LABEL_REQUEST_STATE request_state\<rparr>"

definition continuation_from_handles ::
  "crypto_lib \<Rightarrow> RequestEvidenceDigest \<Rightarrow> RequestEvidenceDigest \<Rightarrow> bytes \<Rightarrow> HttpContinuation" where
  "continuation_from_handles L previous input_required request_state =
     \<lparr>continuation_type = CONTINUATION_TYPE_MCP_MRT, previous_request_evidence = previous,
      input_required_response_evidence = input_required,
      request_state_digest = over_labeled L EVIDENCE_LABEL_REQUEST_STATE request_state\<rparr>"

definition continuation_verify ::
  "crypto_lib \<Rightarrow> HttpContinuation \<Rightarrow> bytes \<Rightarrow> bytes \<Rightarrow> bytes \<Rightarrow> HttpProfileError + unit" where
  "continuation_verify L c previous_request_base input_required_response_base request_state =
     (if continuation_type c \<noteq> CONTINUATION_TYPE_MCP_MRT then Err (MalformedEvidence ''continuation type'')
      else if \<not> matches_labeled L (previous_request_evidence c) EVIDENCE_LABEL_REQUEST previous_request_base
         \<or> \<not> matches_labeled L (input_required_response_evidence c) EVIDENCE_LABEL_RESPONSE input_required_response_base
         \<or> \<not> matches_labeled L (request_state_digest c) EVIDENCE_LABEL_REQUEST_STATE request_state
      then Err HttpProfileError.ContinuationBindingFailed
      else Ok ())"

section \<open>Artifact bindings\<close>

datatype ArtifactType =
    OauthDpop | OauthMtls | OauthRar | PdpDecision | DtrApproval | ClassifierResult | HumanApproval

datatype BindingType = OpaqueDigest | ReferenceDigest

record ArtifactBinding =
  artifact_type :: ArtifactType
  binding_type :: BindingType
  ab_digest_alg :: string
  ab_digest_value :: string
  authorization_system_id :: "string option"
  reference_scheme_id :: "string option"
  reference_value :: "string option"

definition is_ascii_alphanumeric :: "char \<Rightarrow> bool" where
  "is_ascii_alphanumeric c \<longleftrightarrow> is_ascii_digit c \<or> 65 \<le> ord c \<and> ord c \<le> 90 \<or> 97 \<le> ord c \<and> ord c \<le> 122"

definition is_b64url_no_pad :: "string \<Rightarrow> bool" where
  "is_b64url_no_pad s \<longleftrightarrow> s \<noteq> [] \<and> list_all (\<lambda>b. is_ascii_alphanumeric b \<or> b = CHR ''-'' \<or> b = CHR ''_'') s"

definition opaque_digest :: "crypto_lib \<Rightarrow> ArtifactType \<Rightarrow> bytes \<Rightarrow> ArtifactBinding" where
  "opaque_digest L t credential =
     \<lparr>artifact_type = t, binding_type = OpaqueDigest, ab_digest_alg = EVIDENCE_DIGEST_ALG,
      ab_digest_value = b64url_encode L (sha256 L credential), authorization_system_id = None,
      reference_scheme_id = None, reference_value = None\<rparr>"

definition binding_validate :: "crypto_lib \<Rightarrow> ArtifactBinding \<Rightarrow> HttpProfileError + unit" where
  "binding_validate L b =
     (if ab_digest_alg b \<noteq> EVIDENCE_DIGEST_ALG then Err (MalformedEvidence ''artifact digest_alg'')
      else let is_digest = is_b64url_no_pad (ab_digest_value b) \<and>
                 (case b64url_decode L (ab_digest_value b) of Inr d \<Rightarrow> length d = 32 | Inl _ \<Rightarrow> False)
           in if \<not> is_digest then Err (MalformedEvidence ''artifact digest_value'')
      else let has_ref = authorization_system_id b \<noteq> None \<or> reference_scheme_id b \<noteq> None \<or> reference_value b \<noteq> None;
               named = (\<lambda>f. case f of Some s \<Rightarrow> s \<noteq> [] | None \<Rightarrow> False);
               all_ref = named (authorization_system_id b) \<and> named (reference_scheme_id b) \<and> named (reference_value b)
           in case binding_type b of
                OpaqueDigest \<Rightarrow>
                  if has_ref then Err (MalformedEvidence ''opaque binding carries reference fields'') else Ok ()
              | ReferenceDigest \<Rightarrow>
                  if \<not> all_ref then Err (MalformedEvidence ''reference binding missing reference fields'') else Ok ())"

definition bearer_token :: "string \<Rightarrow> string option" where
  "bearer_token authorization_header =
     Option.bind (strip_prefix ''Bearer '' authorization_header) (\<lambda>rest.
     let token = trim rest in if token = [] then None else Some token)"

definition authorization_bearer_bytes :: "headers \<Rightarrow> bytes option" where
  "authorization_bearer_bytes hs =
     Option.bind (map_option snd (find (\<lambda>(k, _). eq_ignore_ascii_case k ''authorization'') hs)) bearer_token"

definition sha256_b64url :: "crypto_lib \<Rightarrow> bytes \<Rightarrow> string" where
  "sha256_b64url L b = b64url_encode L (sha256 L b)"

definition expect_type :: "crypto_lib \<Rightarrow> ArtifactBinding \<Rightarrow> ArtifactType \<Rightarrow> HttpProfileError + unit" where
  "expect_type L b want =
     (if artifact_type b \<noteq> want \<or> binding_type b \<noteq> OpaqueDigest then Err HttpProfileError.ArtifactBindingFailed
      else binding_validate L b)"

definition compare_digest :: "crypto_lib \<Rightarrow> ArtifactBinding \<Rightarrow> bytes \<Rightarrow> HttpProfileError + unit" where
  "compare_digest L b credential =
     (if sha256_b64url L credential = ab_digest_value b then Ok () else Err HttpProfileError.ArtifactBindingFailed)"

definition verify_typed :: "crypto_lib \<Rightarrow> ArtifactType \<Rightarrow> ArtifactBinding \<Rightarrow> bytes \<Rightarrow> HttpProfileError + unit" where
  "verify_typed L want b credential =
     try_bind (expect_type L b want) (\<lambda>_. compare_digest L b credential)"

definition verify_artifact_binding :: "crypto_lib \<Rightarrow> ArtifactBinding \<Rightarrow> bytes \<Rightarrow> HttpProfileError + unit" where
  "verify_artifact_binding L b credential =
     (case artifact_type b of
        OauthDpop \<Rightarrow> verify_typed L OauthDpop b credential
      | OauthMtls \<Rightarrow> verify_typed L OauthMtls b credential
      | OauthRar \<Rightarrow> verify_typed L OauthRar b credential
      | _ \<Rightarrow> Err (MalformedEvidence ''no typed verifier for this artifact_type yet''))"

section \<open>Evidence blocks\<close>

text \<open>The admission binding is carried by type \<open>'adm\<close>; only its presence is looked at here.\<close>

record 'adm HttpRequestEvidenceBlock =
  block_profile :: string
  block_audience :: AudienceTuple
  artifact_bindings :: "ArtifactBinding list"
  continuation :: "HttpContinuation option"
  admission :: "'adm option"
  admission_assertion :: "string option"
  authorization_decision :: "string option"

definition MAX_ADMISSION_ASSERTION_LEN :: nat where "MAX_ADMISSION_ASSERTION_LEN = 8192"
definition MAX_AUTHORIZATION_DECISION_LEN :: nat where "MAX_AUTHORIZATION_DECISION_LEN = 8192"

fun bindings_validate :: "crypto_lib \<Rightarrow> ArtifactBinding list \<Rightarrow> HttpProfileError + unit" where
  "bindings_validate L [] = Ok ()"
| "bindings_validate L (b # bs) = try_bind (binding_validate L b) (\<lambda>_. bindings_validate L bs)"

definition validate_authorization_decision :: "'adm HttpRequestEvidenceBlock \<Rightarrow> HttpProfileError + unit" where
  "validate_authorization_decision block =
     (let applicable = length (filter (\<lambda>b. artifact_type b = PdpDecision \<and> binding_type b = OpaqueDigest)
                                 (artifact_bindings block))
      in case authorization_decision block of
           None \<Rightarrow> Ok ()
         | Some jws \<Rightarrow>
             if length jws > MAX_AUTHORIZATION_DECISION_LEN then Err (MalformedEvidence ''authorization decision size'')
             else if applicable = 1 then Ok ()
             else if applicable = 0
             then Err (MalformedEvidence ''authorization decision without a pdp-decision opaque-digest binding'')
             else Err (MalformedEvidence ''more than one pdp-decision opaque-digest binding''))"

definition request_block_validate :: "crypto_lib \<Rightarrow> 'adm HttpRequestEvidenceBlock \<Rightarrow> string \<Rightarrow> HttpProfileError + unit" where
  "request_block_validate L block expected_profile =
     (if block_profile block \<noteq> expected_profile then Err UnknownProfileTag
      else if artifact_bindings block = [] then Err (MalformedEvidence ''empty artifact_bindings'')
      else try_bind (bindings_validate L (artifact_bindings block)) (\<lambda>_.
           try_bind (case (admission block, admission_assertion block) of
                       (None, None) \<Rightarrow> Ok ()
                     | (Some _, Some jws) \<Rightarrow>
                         if length jws > MAX_ADMISSION_ASSERTION_LEN
                         then Err (MalformedEvidence ''admission assertion size'') else Ok ()
                     | _ \<Rightarrow> Err (MalformedEvidence ''admission binding and assertion must appear together'')) (\<lambda>_.
           validate_authorization_decision block)))"

record HttpResponseEvidenceBlock =
  rsp_block_profile :: string
  server_signer :: ActorIdentity
  server_delegation :: "string option"
  rsp_request_evidence :: RequestEvidenceDigest

definition response_block_validate :: "HttpResponseEvidenceBlock \<Rightarrow> string \<Rightarrow> HttpProfileError + unit" where
  "response_block_validate block expected_profile =
     (if rsp_block_profile block \<noteq> expected_profile then Err UnknownProfileTag else Ok ())"

section \<open>Escaped joins are injective\<close>

text \<open>The three replacements are one pass: each special character is replaced by its own escape.\<close>

definition escape_char :: "char \<Rightarrow> string" where
  "escape_char c = (if c = CHR ''%'' then ''%25'' else if c = CHR '':'' then ''%3A''
     else if c = CHR 0x1F then ''%1F'' else [c])"

lemma field_escape_eq: "field_escape s = concat (map escape_char s)"
  by (induction s) (simp_all add: field_escape_def replace_char_def escape_char_def)

lemma field_escape_chars: "CHR '':'' \<notin> set (field_escape s)" "CHR 0x1F \<notin> set (field_escape s)"
  by (auto simp: field_escape_eq escape_char_def split: if_splits)

lemma escape_char_ne: "escape_char c = x # xs \<Longrightarrow> x = CHR ''%'' \<or> [x] = escape_char c \<and> x = c"
  by (auto simp: escape_char_def split: if_splits)

lemma escape_char_append:
  "escape_char a @ r = escape_char b @ s \<Longrightarrow> a = b \<and> r = s"
  by (auto simp: escape_char_def split: if_splits)

interpretation esc: self_delimiting escape_char "\<lambda>_. True"
  by unfold_locales (rule escape_char_append)

lemma field_escape_inj: "field_escape s = field_escape t \<longleftrightarrow> s = t"
proof
  show "field_escape s = field_escape t \<Longrightarrow> s = t"
  proof (induction s arbitrary: t)
    case Nil
    then show ?case by (cases t) (auto simp: field_escape_eq escape_char_def split: if_splits)
  next
    case (Cons a s)
    then obtain b u where t: "t = b # u"
      by (cases t) (auto simp: field_escape_eq escape_char_def split: if_splits)
    with Cons.prems have "escape_char a @ field_escape s = escape_char b @ field_escape u"
      by (simp add: field_escape_eq)
    from escape_char_append [OF this] Cons.IH t show ?case by simp
  qed
qed simp

lemma escaped_join_inj:
  assumes "c = CHR '':'' \<or> c = CHR 0x1F"
  shows "join_with [c] (map field_escape ss) = join_with [c] (map field_escape ts) \<Longrightarrow> ss \<noteq> [] \<Longrightarrow> ts \<noteq> [] \<Longrightarrow> ss = ts"
proof -
  assume eq: "join_with [c] (map field_escape ss) = join_with [c] (map field_escape ts)" "ss \<noteq> []" "ts \<noteq> []"
  have "c \<notin> set (field_escape s)" for s using assms field_escape_chars by auto
  then have "map field_escape ss = map field_escape ts"
    using eq by (intro join_with_inj [where c = c]) auto
  then show "ss = ts" by (simp add: field_escape_inj inj_def inj_map_eq_map)
qed

text \<open>
  An actor id determines the actor: two identities with the same actor id agree in role, trust
  domain, subject and key id, whatever characters the fields contain.
\<close>

theorem actor_id_inj: "identity_actor_id a = identity_actor_id b \<longleftrightarrow> a = b"
proof
  assume "identity_actor_id a = identity_actor_id b"
  then have "join_with '':'' (map field_escape [role a, trust_domain a, subject a, keyid a])
      = join_with '':'' (map field_escape [role b, trust_domain b, subject b, keyid b])"
    by (simp add: identity_actor_id_def)
  then have "[role a, trust_domain a, subject a, keyid a] = [role b, trust_domain b, subject b, keyid b]"
    by (rule escaped_join_inj [rotated]) simp_all
  then show "a = b" by simp
qed simp

lemma canonical_bytes_eq_iff:
  "canonical_bytes a = canonical_bytes b \<longleftrightarrow>
     audience_id a = audience_id b \<and> target_uri a = target_uri b
     \<and> (case route a of Some r \<Rightarrow> r | None \<Rightarrow> []) = (case route b of Some r \<Rightarrow> r | None \<Rightarrow> [])"
proof -
  define fields where
    "fields = (\<lambda>a :: AudienceTuple. [audience_id a, target_uri a, case route a of Some r \<Rightarrow> r | None \<Rightarrow> []])"
  have "canonical_bytes a = join_with [CHR 0x1F] (map field_escape (fields a))" for a
    by (simp add: canonical_bytes_def fields_def Let_def)
  then have "canonical_bytes a = canonical_bytes b \<longleftrightarrow> fields a = fields b"
    using escaped_join_inj [of "CHR 0x1F" "fields a" "fields b"] by (auto simp: fields_def)
  then show ?thesis by (simp add: fields_def)
qed

end
