(* ===== verification/Floor.thy ===== *)
theory Floor
  imports Evidence_Block
begin

text \<open>
  The cryptographic floor of the HTTP profile: verifier policy (\<open>mcp-re-http-profile/src/policy.rs\<close>),
  MCP transport headers (\<open>mcp_transport/\<close>, \<open>mcp_name_source.rs\<close>), the checks of \<open>verify/floor/\<close> and
  the three floor verifiers, the full-profile checks above them (\<open>verify/full/request.rs\<close>,
  \<open>verify/full/response.rs\<close>, \<open>verify/bound_request.rs\<close>, \<open>pdp_decision/binding.rs\<close>). The trust resolver
  is the caller's function, an argument. The lemmas show what an accepted message is known to be:
  digest, window, covered components, resolved key and signature.
\<close>

section \<open>Policy\<close>

datatype ProfileAlgorithm = Ed25519

definition from_token :: "string \<Rightarrow> ProfileAlgorithm option" where
  "from_token token = (if token = ALG_ED25519 then Some Ed25519 else None)"

definition alg_token :: "ProfileAlgorithm \<Rightarrow> string" where
  "alg_token a = (case a of Ed25519 \<Rightarrow> ALG_ED25519)"

datatype McpNameSource = ParamsName | ParamsUri

definition name_extract :: "McpNameSource \<Rightarrow> json \<Rightarrow> string option" where
  "name_extract source params =
     (case source of
        ParamsName \<Rightarrow> Option.bind (json_get params ''name'') as_str
      | ParamsUri \<Rightarrow> Option.bind (json_get params ''uri'') as_str)"

definition mcp_name_source :: "string \<Rightarrow> McpNameSource option" where
  "mcp_name_source m =
     (if m = ''tools/call'' then Some ParamsName else if m = ''resources/read'' then Some ParamsUri else None)"

record McpTransportPolicy =
  supported_protocol_versions :: "string list"
  require_protocol_version_header :: bool
  require_mcp_method :: bool
  mcp_name_required :: "(string \<times> McpNameSource) list"
  allow_legacy_header_omission :: bool
  protocol_version_body_key :: string

definition mcp_2026_07_28 :: "string list \<Rightarrow> McpTransportPolicy" where
  "mcp_2026_07_28 supported_versions =
     \<lparr>supported_protocol_versions = supported_versions, require_protocol_version_header = True,
      require_mcp_method = True,
      mcp_name_required = List.map_filter (\<lambda>m. map_option (Pair m) (mcp_name_source m)) [''tools/call'', ''resources/read''],
      allow_legacy_header_omission = False,
      protocol_version_body_key = ''io.modelcontextprotocol/protocolVersion''\<rparr>"

record VerifierPolicy =
  algorithms :: "ProfileAlgorithm list"
  max_clock_skew :: int
  max_signature_validity :: int
  policy_mcp_transport :: "McpTransportPolicy option"

definition DEFAULT_MAX_CLOCK_SKEW :: int where "DEFAULT_MAX_CLOCK_SKEW = 30"
definition MAX_CLOCK_SKEW_BOUND :: int where "MAX_CLOCK_SKEW_BOUND = 300"
definition DEFAULT_MAX_SIGNATURE_VALIDITY :: int where "DEFAULT_MAX_SIGNATURE_VALIDITY = 3600"

fun resolve_algorithms :: "ProfileAlgorithm list \<Rightarrow> string list \<Rightarrow> HttpProfileError + ProfileAlgorithm list" where
  "resolve_algorithms resolved [] = Ok resolved"
| "resolve_algorithms resolved (token # ts) =
     try_bind (ok_or (from_token token) UnsupportedAlgorithm) (\<lambda>alg.
     resolve_algorithms (if alg \<in> set resolved then resolved else resolved @ [alg]) ts)"

definition policy_new :: "string list \<Rightarrow> int \<Rightarrow> HttpProfileError + VerifierPolicy" where
  "policy_new tokens skew =
     (if tokens = [] then Err (MalformedEvidence ''empty algorithm set'')
      else try_bind (resolve_algorithms [] tokens) (\<lambda>resolved.
           if \<not> (0 \<le> skew \<and> skew \<le> MAX_CLOCK_SKEW_BOUND) then Err (MalformedEvidence ''clock skew out of bounds'')
           else Ok \<lparr>algorithms = resolved, max_clock_skew = skew,
                  max_signature_validity = DEFAULT_MAX_SIGNATURE_VALIDITY, policy_mcp_transport = None\<rparr>))"

definition with_mcp_transport :: "VerifierPolicy \<Rightarrow> McpTransportPolicy \<Rightarrow> VerifierPolicy" where
  "with_mcp_transport p t = p\<lparr>policy_mcp_transport := Some t\<rparr>"

definition with_max_signature_validity :: "VerifierPolicy \<Rightarrow> int \<Rightarrow> HttpProfileError + VerifierPolicy" where
  "with_max_signature_validity p secs =
     (if secs \<le> 0 then Err (MalformedEvidence ''max signature validity must be positive'')
      else Ok (p\<lparr>max_signature_validity := secs\<rparr>))"

definition policy_default :: VerifierPolicy where
  "policy_default = \<lparr>algorithms = [Ed25519], max_clock_skew = DEFAULT_MAX_CLOCK_SKEW,
     max_signature_validity = DEFAULT_MAX_SIGNATURE_VALIDITY, policy_mcp_transport = None\<rparr>"

definition accepted_algorithm :: "VerifierPolicy \<Rightarrow> string \<Rightarrow> ProfileAlgorithm option" where
  "accepted_algorithm p token =
     Option.bind (from_token token) (\<lambda>alg. if alg \<in> set (algorithms p) then Some alg else None)"

section \<open>Parameters\<close>

definition window_admits :: "int \<Rightarrow> int \<Rightarrow> int \<Rightarrow> int \<Rightarrow> bool" where
  "window_admits created expires now skew \<longleftrightarrow>
     saturating_sub created skew \<le> now \<and> now < saturating_add expires skew \<and> created < expires"

definition check_params ::
  "SignatureParams \<Rightarrow> VerifierPolicy \<Rightarrow> int \<Rightarrow> bool
   \<Rightarrow> HttpProfileError + int \<times> int \<times> string \<times> string \<times> ProfileAlgorithm" where
  "check_params params policy now require_nonce =
     (if sp_tag params \<noteq> Some PROFILE_TAG then Err UnknownProfileTag
      else try_bind (ok_or (Option.bind (sp_alg params) (accepted_algorithm policy)) UnsupportedAlgorithm) (\<lambda>algorithm.
           try_bind (ok_or (sp_created params) StaleWindow) (\<lambda>created.
           try_bind (ok_or (sp_expires params) StaleWindow) (\<lambda>expires.
           if \<not> window_admits created expires now (max_clock_skew policy) then Err StaleWindow
           else if saturating_sub expires created > max_signature_validity policy then Err StaleWindow
           else try_bind (case (sp_nonce params, require_nonce) of
                            (Some n, _) \<Rightarrow> Ok n
                          | (None, False) \<Rightarrow> Ok []
                          | (None, True) \<Rightarrow> Err (MissingEvidence ''nonce'')) (\<lambda>nonce.
                try_bind (ok_or (sp_keyid params) (MissingEvidence ''keyid'')) (\<lambda>key_id.
                Ok (created, expires, nonce, key_id, algorithm)))))))"

section \<open>Covered components\<close>

fun require_each :: "(CoveredComponent \<Rightarrow> bool) \<Rightarrow> CoveredComponent list \<Rightarrow> string list \<Rightarrow> HttpProfileError + unit" where
  "require_each kind covered [] = Ok ()"
| "require_each kind covered (name # names) =
     (if \<not> list_ex (\<lambda>c. kind c \<and> cc_name c = name) covered then Err (MissingCoveredComponent name)
      else require_each kind covered names)"

definition require_components :: "CoveredComponent list \<Rightarrow> string list \<Rightarrow> string list \<Rightarrow> HttpProfileError + unit" where
  "require_components covered required_plain required_req =
     try_bind (require_each (\<lambda>c. \<not> cc_req c) covered required_plain) (\<lambda>_.
     require_each (\<lambda>c. cc_req c) covered required_req)"

definition MCP_METHOD_HEADER :: string where "MCP_METHOD_HEADER = ''mcp-method''"
definition MCP_NAME_HEADER :: string where "MCP_NAME_HEADER = ''mcp-name''"
definition MCP_PROTOCOL_VERSION_HEADER :: string where "MCP_PROTOCOL_VERSION_HEADER = ''mcp-protocol-version''"

definition MCP_COVERABLE_TRANSPORT_HEADERS :: "string list" where
  "MCP_COVERABLE_TRANSPORT_HEADERS = [MCP_METHOD_HEADER, MCP_NAME_HEADER, MCP_PROTOCOL_VERSION_HEADER]"

definition conditionally_covered_request_headers :: "string list" where
  "conditionally_covered_request_headers = [''authorization'', ''dpop''] @ MCP_COVERABLE_TRANSPORT_HEADERS"

fun require_conditional_loop :: "headers \<Rightarrow> CoveredComponent list \<Rightarrow> string list \<Rightarrow> HttpProfileError + unit" where
  "require_conditional_loop hs covered [] = Ok ()"
| "require_conditional_loop hs covered (h # names) =
     try_bind (single_header hs h) (\<lambda>v.
     if v \<noteq> None \<and> \<not> list_ex (\<lambda>c. \<not> cc_req c \<and> cc_name c = h) covered then Err (MissingCoveredComponent h)
     else require_conditional_loop hs covered names)"

definition require_conditional_coverage :: "headers \<Rightarrow> CoveredComponent list \<Rightarrow> HttpProfileError + unit" where
  "require_conditional_coverage hs covered =
     require_conditional_loop hs covered conditionally_covered_request_headers"

section \<open>Transport headers\<close>

definition reject_mcp_method_divergence :: "json_lib \<Rightarrow> HttpRequest \<Rightarrow> HttpProfileError + unit" where
  "reject_mcp_method_divergence J request =
     try_bind (single_header (rq_headers request) MCP_METHOD_HEADER) (\<lambda>v.
     case v of
       None \<Rightarrow> Ok ()
     | Some header_method \<Rightarrow>
         try_bind (ok_or (from_slice J (rq_body request)) (MalformedEvidence ''body json'')) (\<lambda>body.
         case Option.bind (json_get body ''method'') as_str of
           None \<Rightarrow> Err McpMethodDivergence
         | Some body_method \<Rightarrow> if trim header_method \<noteq> body_method then Err McpMethodDivergence else Ok ()))"

definition enforce_bodyless :: "McpTransportPolicy \<Rightarrow> HttpRequest \<Rightarrow> HttpProfileError + unit" where
  "enforce_bodyless t request =
     try_bind (single_header (rq_headers request) MCP_PROTOCOL_VERSION_HEADER) (\<lambda>h.
     case h of
       None \<Rightarrow> Ok ()
     | Some h \<Rightarrow> require (trim h \<in> set (supported_protocol_versions t)) McpProtocolVersionUnsupported)"

definition body_protocol_version :: "McpTransportPolicy \<Rightarrow> json \<Rightarrow> json option \<Rightarrow> string option" where
  "body_protocol_version t body params =
     (let from = (\<lambda>v. Option.bind (Option.bind (json_get v ''_meta'') (\<lambda>m. json_get m (protocol_version_body_key t))) as_str)
      in case from body of Some s \<Rightarrow> Some s | None \<Rightarrow> Option.bind params from)"

record TransportHeaders =
  th_method :: "string option"
  th_version :: "string option"
  th_name :: "string option"
  th_legacy :: bool

definition transport_headers_read :: "McpTransportPolicy \<Rightarrow> HttpRequest \<Rightarrow> HttpProfileError + TransportHeaders" where
  "transport_headers_read t request =
     try_bind (single_header (rq_headers request) MCP_METHOD_HEADER) (\<lambda>m.
     try_bind (single_header (rq_headers request) MCP_PROTOCOL_VERSION_HEADER) (\<lambda>version.
     try_bind (single_header (rq_headers request) MCP_NAME_HEADER) (\<lambda>name.
     let carries_any = m \<noteq> None \<or> version \<noteq> None \<or> name \<noteq> None
     in Ok \<lparr>th_method = m, th_version = version, th_name = name,
            th_legacy = allow_legacy_header_omission t \<and> \<not> carries_any\<rparr>)))"

definition check_method :: "McpTransportPolicy \<Rightarrow> TransportHeaders \<Rightarrow> string option \<Rightarrow> HttpProfileError + unit" where
  "check_method t hs body_method =
     (case th_method hs of
        None \<Rightarrow> if require_mcp_method t \<and> \<not> th_legacy hs then Err (McpTransportHeaderMissing MCP_METHOD_HEADER) else Ok ()
      | Some h \<Rightarrow>
          (case body_method of
             Some bm \<Rightarrow> if trim h \<noteq> bm then Err McpMethodDivergence else Ok ()
           | None \<Rightarrow> Ok ()))"

definition check_protocol_version ::
  "McpTransportPolicy \<Rightarrow> TransportHeaders \<Rightarrow> json \<Rightarrow> json option \<Rightarrow> HttpProfileError + unit" where
  "check_protocol_version t hs body params =
     (case th_version hs of
        None \<Rightarrow>
          if require_protocol_version_header t \<and> \<not> th_legacy hs
          then Err (McpTransportHeaderMissing MCP_PROTOCOL_VERSION_HEADER) else Ok ()
      | Some h \<Rightarrow>
          if trim h \<notin> set (supported_protocol_versions t) then Err McpProtocolVersionUnsupported
          else (case body_protocol_version t body params of
                  Some body_version \<Rightarrow>
                    if body_version \<noteq> trim h then Err (McpTransportDivergence MCP_PROTOCOL_VERSION_HEADER) else Ok ()
                | None \<Rightarrow> Ok ()))"

definition check_name ::
  "McpTransportPolicy \<Rightarrow> TransportHeaders \<Rightarrow> string option \<Rightarrow> json option \<Rightarrow> HttpProfileError + unit" where
  "check_name t hs body_method params =
     (case body_method of
        None \<Rightarrow> Ok ()
      | Some bm \<Rightarrow>
          (case map_of (mcp_name_required t) bm of
             None \<Rightarrow> Ok ()
           | Some source \<Rightarrow>
               (case th_name hs of
                  None \<Rightarrow> if \<not> th_legacy hs then Err (McpTransportHeaderMissing MCP_NAME_HEADER) else Ok ()
                | Some h \<Rightarrow>
                    (case Option.bind params (name_extract source) of
                       None \<Rightarrow> Err (McpTransportDivergence MCP_NAME_HEADER)
                     | Some expected \<Rightarrow>
                         if trim h \<noteq> expected then Err (McpTransportDivergence MCP_NAME_HEADER) else Ok ()))))"

definition transport_enforce :: "json_lib \<Rightarrow> McpTransportPolicy \<Rightarrow> HttpRequest \<Rightarrow> HttpProfileError + unit" where
  "transport_enforce J t request =
     try_bind (ok_or (from_slice J (rq_body request)) (MalformedEvidence ''body json'')) (\<lambda>body.
     let body_method = Option.bind (json_get body ''method'') as_str; params = json_get body ''params'' in
     try_bind (transport_headers_read t request) (\<lambda>hs.
     try_bind (check_method t hs body_method) (\<lambda>_.
     try_bind (check_protocol_version t hs body params) (\<lambda>_.
     check_name t hs body_method params))))"

section \<open>Signatures and trust slots\<close>

definition verify_under ::
  "crypto_lib \<Rightarrow> ProfileAlgorithm \<Rightarrow> bytes \<Rightarrow> string \<Rightarrow> VerificationKey \<Rightarrow> mcp_re_error \<Rightarrow> HttpProfileError + unit" where
  "verify_under L algorithm base sig key on_fail =
     (let failure = (if on_fail = ResponseSigInvalid then ResponseSignatureInvalid else HttpProfileError.InvalidSignature)
      in case algorithm of Ed25519 \<Rightarrow> map_err (\<lambda>_. failure) (verify_ed25519_with L base sig key on_fail))"

definition base64_standard_decode :: "crypto_lib \<Rightarrow> string \<Rightarrow> HttpProfileError + bytes" where
  "base64_standard_decode L s = ok_or (std_decode L s) HttpProfileError.InvalidSignature"

definition signature_value_b64url :: "crypto_lib \<Rightarrow> headers \<Rightarrow> string \<Rightarrow> string \<Rightarrow> HttpProfileError + string" where
  "signature_value_b64url L hs header_error label =
     try_bind (map_err (\<lambda>_. MissingEvidence header_error) (required_header hs ''signature'')) (\<lambda>signature_header.
     try_bind (member_value signature_header label) (\<lambda>member.
     try_bind (ok_or (Option.bind (strip_prefix '':'' member) (strip_suffix '':''))
                 (MalformedEvidence ''signature byte sequence'')) (\<lambda>b64.
     try_bind (base64_standard_decode L b64) (\<lambda>b.
     Ok (b64url_encode L b)))))"

type_synonym resolver = "string \<Rightarrow> SignerSlot \<Rightarrow> ResolverOutcome"

definition resolve_actor_for_slot :: "resolver \<Rightarrow> string \<Rightarrow> SignerSlot \<Rightarrow> HttpProfileError + ResolvedActor" where
  "resolve_actor_for_slot resolve_actor key_id slot0 =
     try_bind (case resolve_actor key_id slot0 of
                 Resolved actor \<Rightarrow> Ok actor
               | NotTrusted \<Rightarrow> Err UnresolvedKeyId
               | Unavailable \<Rightarrow> Err HttpProfileError.TrustResolverUnavailable) (\<lambda>actor.
     if slot actor \<noteq> slot0 then Err ActorSlotMismatch else Ok actor)"

section \<open>The floor of a request\<close>

record CryptographicFloorVerifiedRequest =
  fl_profile_id :: string
  fl_signature_label :: string
  fl_resolved_actor :: ResolvedActor
  fl_evidence :: RequestEvidence
  fl_request_signature_base :: bytes
  fl_content_digest :: string
  fl_created :: int
  fl_expires :: int
  fl_nonce :: string
  fl_key_id :: string

definition floor_request ::
  "crypto_lib \<Rightarrow> json_lib \<Rightarrow> HttpRequest \<Rightarrow> resolver \<Rightarrow> VerifierPolicy \<Rightarrow> int
   \<Rightarrow> HttpProfileError + CryptographicFloorVerifiedRequest" where
  "floor_request L J request resolve_actor policy now =
     try_bind (reject_content_encoding (rq_headers request)) (\<lambda>_.
     try_bind (require_json_media_type (rq_headers request) ''request content-type'') (\<lambda>_.
     try_bind (required_header (rq_headers request) ''content-digest'') (\<lambda>digest_header.
     try_bind (verify_content_digest_sha256 L digest_header (rq_body request)) (\<lambda>_.
     try_bind (required_header (rq_headers request) ''signature-input'') (\<lambda>input_header.
     try_bind (member_value input_header REQUEST_LABEL) (\<lambda>member.
     try_bind (parse_signature_input member) (\<lambda>parsed.
     try_bind (require_components (ps_components parsed) REQUIRED_REQUEST_COMPONENTS []) (\<lambda>_.
     try_bind (require (\<not> list_ex cc_req (ps_components parsed)) (MalformedEvidence ''req component on a request'')) (\<lambda>_.
     try_bind (require_conditional_coverage (rq_headers request) (ps_components parsed)) (\<lambda>_.
     try_bind (check_params (ps_params parsed) policy now True) (\<lambda>(created, expires, nonce, key_id, algorithm).
     try_bind (resolve_actor_for_slot resolve_actor key_id RequestSlot) (\<lambda>resolved_actor.
     try_bind (signature_base (ps_components parsed) (ps_params parsed) (Request request)) (\<lambda>base.
     try_bind (signature_value_b64url L (rq_headers request) ''signature'' REQUEST_LABEL) (\<lambda>sig.
     try_bind (verify_under L algorithm base sig (verification_key resolved_actor) mcp_re_error.InvalidSignature) (\<lambda>_.
     try_bind (reject_mcp_method_divergence J request) (\<lambda>_.
     try_bind (case policy_mcp_transport policy of None \<Rightarrow> Ok () | Some t \<Rightarrow> transport_enforce J t request) (\<lambda>_.
     Ok \<lparr>fl_profile_id = PROFILE_TAG, fl_signature_label = REQUEST_LABEL, fl_resolved_actor = resolved_actor,
         fl_evidence = from_signature_base L base, fl_request_signature_base = base,
         fl_content_digest = digest_header, fl_created = created, fl_expires = expires,
         fl_nonce = nonce, fl_key_id = key_id\<rparr>)))))))))))))))))"

definition covers_body :: "crypto_lib \<Rightarrow> CryptographicFloorVerifiedRequest \<Rightarrow> bytes \<Rightarrow> bool" where
  "covers_body L fl body \<longleftrightarrow> verify_content_digest_sha256 L (fl_content_digest fl) body = Ok ()"

section \<open>The floor of a response\<close>

record CryptographicFloorVerifiedResponse =
  resolved_server_actor :: ResolvedActor
  response_signature_base_digest :: RequestEvidence

definition floor_bound_response ::
  "crypto_lib \<Rightarrow> HttpResponse \<Rightarrow> HttpRequest \<Rightarrow> resolver \<Rightarrow> VerifierPolicy \<Rightarrow> int
   \<Rightarrow> HttpProfileError + CryptographicFloorVerifiedResponse" where
  "floor_bound_response L response request resolve_actor policy now =
     try_bind (reject_content_encoding (rsp_headers response)) (\<lambda>_.
     try_bind (require_json_media_type (rsp_headers response) ''response content-type'') (\<lambda>_.
     try_bind (map_err (\<lambda>_. MissingEvidence ''response content-digest'')
                 (required_header (rsp_headers response) ''content-digest'')) (\<lambda>digest_header.
     try_bind (verify_content_digest_sha256 L digest_header (rsp_body response)) (\<lambda>_.
     try_bind (map_err (\<lambda>_. MissingEvidence ''response signature-input'')
                 (required_header (rsp_headers response) ''signature-input'')) (\<lambda>input_header.
     try_bind (member_value input_header RESPONSE_LABEL) (\<lambda>member.
     try_bind (parse_signature_input member) (\<lambda>parsed.
     try_bind (require_components (ps_components parsed) REQUIRED_RESPONSE_COMPONENTS REQUIRED_RESPONSE_REQ_COMPONENTS) (\<lambda>_.
     try_bind (check_params (ps_params parsed) policy now False) (\<lambda>(created, expires, nonce, key_id, algorithm).
     try_bind (resolve_actor_for_slot resolve_actor key_id ResponseSlot) (\<lambda>server_actor.
     try_bind (signature_base (ps_components parsed) (ps_params parsed) (Response response request)) (\<lambda>base.
     try_bind (signature_value_b64url L (rsp_headers response) ''response signature'' RESPONSE_LABEL) (\<lambda>sig.
     try_bind (verify_under L algorithm base sig (verification_key server_actor) ResponseSigInvalid) (\<lambda>_.
     Ok \<lparr>resolved_server_actor = server_actor,
         response_signature_base_digest = from_response_signature_base L base\<rparr>)))))))))))))"

definition floor_unbound_response ::
  "crypto_lib \<Rightarrow> HttpResponse \<Rightarrow> resolver \<Rightarrow> VerifierPolicy \<Rightarrow> int
   \<Rightarrow> HttpProfileError + CryptographicFloorVerifiedResponse" where
  "floor_unbound_response L response resolve_actor policy now =
     try_bind (reject_content_encoding (rsp_headers response)) (\<lambda>_.
     try_bind (require_json_media_type (rsp_headers response) ''response content-type'') (\<lambda>_.
     try_bind (map_err (\<lambda>_. MissingEvidence ''response content-digest'')
                 (required_header (rsp_headers response) ''content-digest'')) (\<lambda>digest_header.
     try_bind (verify_content_digest_sha256 L digest_header (rsp_body response)) (\<lambda>_.
     try_bind (map_err (\<lambda>_. MissingEvidence ''response signature-input'')
                 (required_header (rsp_headers response) ''signature-input'')) (\<lambda>input_header.
     try_bind (member_value input_header RESPONSE_LABEL) (\<lambda>member.
     try_bind (parse_signature_input member) (\<lambda>parsed.
     try_bind (require_components (ps_components parsed) REQUIRED_RESPONSE_COMPONENTS []) (\<lambda>_.
     try_bind (require (\<not> list_ex cc_req (ps_components parsed)) (MalformedEvidence ''req component without request context'')) (\<lambda>_.
     try_bind (check_params (ps_params parsed) policy now False) (\<lambda>(created, expires, nonce, key_id, algorithm).
     try_bind (resolve_actor_for_slot resolve_actor key_id ResponseSlot) (\<lambda>server_actor.
     try_bind (signature_base (ps_components parsed) (ps_params parsed) (ResponseOnly response)) (\<lambda>base.
     try_bind (signature_value_b64url L (rsp_headers response) ''response signature'' RESPONSE_LABEL) (\<lambda>sig.
     try_bind (verify_under L algorithm base sig (verification_key server_actor) ResponseSigInvalid) (\<lambda>_.
     Ok \<lparr>resolved_server_actor = server_actor,
         response_signature_base_digest = from_response_signature_base L base\<rparr>))))))))))))))"

section \<open>The full profile\<close>

definition pdp_decision_evidence :: "ArtifactBinding \<Rightarrow> 'adm HttpRequestEvidenceBlock \<Rightarrow> string option" where
  "pdp_decision_evidence b block =
     (if artifact_type b = PdpDecision \<and> binding_type b = OpaqueDigest then authorization_decision block else None)"

datatype PdpBindingRefusal = NotTheEvidenceForm | Malformed | PdpDigestMismatch

definition verify_pdp_decision_binding :: "crypto_lib \<Rightarrow> ArtifactBinding \<Rightarrow> string \<Rightarrow> PdpBindingRefusal + unit" where
  "verify_pdp_decision_binding L b decision =
     (if artifact_type b \<noteq> PdpDecision \<or> binding_type b \<noteq> OpaqueDigest then Err NotTheEvidenceForm
      else try_bind (map_err (\<lambda>_. Malformed) (binding_validate L b)) (\<lambda>_.
           if b64url_encode L (sha256 L decision) \<noteq> ab_digest_value b then Err PdpDigestMismatch else Ok ()))"

definition resolve_artifact_credential ::
  "ArtifactBinding \<Rightarrow> headers \<Rightarrow> (ArtifactBinding \<Rightarrow> bytes option) \<Rightarrow> bytes option" where
  "resolve_artifact_credential b hs artifact_material =
     (case artifact_type b of
        OauthDpop \<Rightarrow> authorization_bearer_bytes hs
      | _ \<Rightarrow> artifact_material b)"

fun enforce_bindings ::
  "crypto_lib \<Rightarrow> HttpRequest \<Rightarrow> 'adm HttpRequestEvidenceBlock \<Rightarrow> (ArtifactBinding \<Rightarrow> bytes option)
   \<Rightarrow> ArtifactBinding list \<Rightarrow> HttpProfileError + unit" where
  "enforce_bindings L request block artifact_material [] = Ok ()"
| "enforce_bindings L request block artifact_material (b # bs) =
     (case pdp_decision_evidence b block of
        Some decision \<Rightarrow>
          try_bind (map_err (\<lambda>_. HttpProfileError.ArtifactBindingFailed) (verify_pdp_decision_binding L b decision)) (\<lambda>_.
          enforce_bindings L request block artifact_material bs)
      | None \<Rightarrow>
          try_bind (ok_or (resolve_artifact_credential b (rq_headers request) artifact_material)
                      HttpProfileError.ArtifactBindingFailed) (\<lambda>credential.
          try_bind (verify_artifact_binding L b credential) (\<lambda>_.
          enforce_bindings L request block artifact_material bs)))"

definition enforce_full_profile_bindings ::
  "crypto_lib \<Rightarrow> HttpRequest \<Rightarrow> 'adm HttpRequestEvidenceBlock \<Rightarrow> AudienceTuple
   \<Rightarrow> (ArtifactBinding \<Rightarrow> bytes option) \<Rightarrow> HttpProfileError + unit" where
  "enforce_full_profile_bindings L request block expected_audience artifact_material =
     (if block_audience block \<noteq> expected_audience \<or> target_uri expected_audience \<noteq> rq_target_uri request
      then Err AudienceMismatch
      else enforce_bindings L request block artifact_material (artifact_bindings block))"

record 'adm VerifiedMcpRequest =
  vr_floor :: CryptographicFloorVerifiedRequest
  vr_audience :: AudienceTuple
  vr_audience_hash :: string
  vr_request_block :: "'adm HttpRequestEvidenceBlock"

text \<open>\<open>from_value\<close> is the derived deserializer of the request evidence block.\<close>

definition full_request ::
  "crypto_lib \<Rightarrow> json_lib \<Rightarrow> (json \<Rightarrow> 'adm HttpRequestEvidenceBlock option) \<Rightarrow> HttpRequest \<Rightarrow> AudienceTuple
   \<Rightarrow> (ArtifactBinding \<Rightarrow> bytes option) \<Rightarrow> resolver \<Rightarrow> VerifierPolicy \<Rightarrow> int
   \<Rightarrow> HttpProfileError + 'adm VerifiedMcpRequest" where
  "full_request L J from_value request expected_audience artifact_material resolve_actor policy now =
     try_bind (floor_request L J request resolve_actor policy now) (\<lambda>fl.
     try_bind (extract_meta_block J from_value (rq_body request) REQUEST_EVIDENCE_BLOCK_KEY ''request evidence block'') (\<lambda>block.
     try_bind (request_block_validate L block (fl_profile_id fl)) (\<lambda>_.
     try_bind (enforce_full_profile_bindings L request block expected_audience artifact_material) (\<lambda>_.
     Ok \<lparr>vr_floor = fl, vr_audience = block_audience block,
         vr_audience_hash = audience_tuple_hash L (block_audience block), vr_request_block = block\<rparr>))))"

definition request_evidence_of :: "crypto_lib \<Rightarrow> HttpRequest \<Rightarrow> HttpProfileError + RequestEvidence" where
  "request_evidence_of L request =
     try_bind (map_err (\<lambda>_. MissingEvidence ''request signature-input'')
                 (required_header (rq_headers request) ''signature-input'')) (\<lambda>input_header.
     try_bind (member_value input_header REQUEST_LABEL) (\<lambda>member.
     try_bind (parse_signature_input member) (\<lambda>parsed.
     try_bind (signature_base (ps_components parsed) (ps_params parsed) (Request request)) (\<lambda>base.
     Ok (from_signature_base L base)))))"

record BoundRequestEvidenceAgreement =
  bound_request_evidence :: RequestEvidence
  body_request_evidence :: RequestEvidence

record VerifiedMcpResponse =
  vresp_floor :: CryptographicFloorVerifiedResponse
  request_evidence_agreement :: BoundRequestEvidenceAgreement
  vresp_server_signer :: ActorIdentity

definition block_agreement :: "RequestEvidence \<Rightarrow> HttpResponseEvidenceBlock \<Rightarrow> BoundRequestEvidenceAgreement" where
  "block_agreement bound block =
     \<lparr>bound_request_evidence = bound,
      body_request_evidence = \<lparr>digest_alg = red_alg (rsp_request_evidence block),
                               digest_value = red_value (rsp_request_evidence block)\<rparr>\<rparr>"

definition full_bound_response ::
  "crypto_lib \<Rightarrow> json_lib \<Rightarrow> (json \<Rightarrow> HttpResponseEvidenceBlock option) \<Rightarrow> HttpResponse \<Rightarrow> HttpRequest
   \<Rightarrow> resolver \<Rightarrow> VerifierPolicy \<Rightarrow> int \<Rightarrow> HttpProfileError + VerifiedMcpResponse" where
  "full_bound_response L J from_value response request resolve_actor policy now =
     try_bind (floor_bound_response L response request resolve_actor policy now) (\<lambda>fl.
     try_bind (extract_meta_block J from_value (rsp_body response) RESPONSE_EVIDENCE_BLOCK_KEY ''response evidence block'') (\<lambda>block.
     try_bind (response_block_validate block PROFILE_TAG) (\<lambda>_.
     try_bind (request_evidence_of L request) (\<lambda>bound.
     if keyid (server_signer block) \<noteq> keyid (identity (resolved_server_actor fl)) then Err ResponseBindingMismatch
     else if red_alg (rsp_request_evidence block) \<noteq> digest_alg bound
        \<or> red_value (rsp_request_evidence block) \<noteq> digest_value bound
     then Err ResponseBindingMismatch
     else Ok \<lparr>vresp_floor = fl, request_evidence_agreement = block_agreement bound block,
              vresp_server_signer = server_signer block\<rparr>))))"

section \<open>What the checks establish\<close>

definition policy_ok :: "VerifierPolicy \<Rightarrow> bool" where
  "policy_ok p \<longleftrightarrow> 0 \<le> max_clock_skew p \<and> max_clock_skew p \<le> MAX_CLOCK_SKEW_BOUND"

lemma policy_new_ok: "policy_new tokens skew = Ok p \<Longrightarrow> policy_ok p"
  by (auto simp: policy_new_def policy_ok_def try_bind_Ok_iff split: if_splits)

lemma policy_default_ok: "policy_ok policy_default"
  by (simp add: policy_ok_def policy_default_def DEFAULT_MAX_CLOCK_SKEW_def MAX_CLOCK_SKEW_BOUND_def)

lemma window_admits_exact:
  assumes "window_admits created expires now skew" "is_i64 created" "is_i64 expires" "is_i64 now" "0 \<le> skew"
  shows "created - skew \<le> now \<and> now < expires + skew \<and> created < expires"
  using assms by (auto simp: window_admits_def i64_defs min_def max_def split: if_splits)

lemma saturating_sub_bound: "saturating_sub a b \<le> v \<Longrightarrow> min i64_max (a - b) \<le> v"
  by (auto simp: i64_defs)

lemma check_params_Ok:
  assumes "check_params params policy now require_nonce = Ok (created, expires, nonce, key_id, alg)"
  shows "sp_tag params = Some PROFILE_TAG" "sp_created params = Some created" "sp_expires params = Some expires"
    "sp_keyid params = Some key_id" "window_admits created expires now (max_clock_skew policy)"
    "min i64_max (expires - created) \<le> max_signature_validity policy"
    "require_nonce \<Longrightarrow> sp_nonce params = Some nonce"
    "\<exists>token. sp_alg params = Some token \<and> accepted_algorithm policy token = Some alg"
  using assms saturating_sub_bound
  by (auto simp: check_params_def try_bind_Ok_iff bind_eq_Some_conv split: if_splits option.splits bool.splits)

lemma require_each_Ok_iff:
  "require_each kind covered names = Ok () \<longleftrightarrow> (\<forall>n\<in>set names. \<exists>c\<in>set covered. kind c \<and> cc_name c = n)"
  by (induction names) (auto simp: list_ex_iff)

lemma require_components_Ok_iff:
  "require_components covered plain req = Ok () \<longleftrightarrow>
     (\<forall>n\<in>set plain. \<exists>c\<in>set covered. \<not> cc_req c \<and> cc_name c = n) \<and> (\<forall>n\<in>set req. \<exists>c\<in>set covered. cc_req c \<and> cc_name c = n)"
  by (auto simp: require_components_def try_bind_Ok_iff require_each_Ok_iff)

lemma require_conditional_Ok_iff:
  "require_conditional_loop hs covered names = Ok () \<longleftrightarrow>
     (\<forall>n\<in>set names. \<exists>v. single_header hs n = Ok v \<and> (v \<noteq> None \<longrightarrow> (\<exists>c\<in>set covered. \<not> cc_req c \<and> cc_name c = n)))"
  by (induction names) (auto simp: try_bind_Ok_iff list_ex_iff)

lemma resolve_actor_Ok_iff:
  "resolve_actor_for_slot r key_id s = Ok actor \<longleftrightarrow> r key_id s = Resolved actor \<and> slot actor = s"
  by (auto simp: resolve_actor_for_slot_def try_bind_Ok_iff split: ResolverOutcome.splits if_splits)

lemma verify_under_Ok_iff:
  "verify_under L alg base sig key e = Ok () \<longleftrightarrow>
     (\<exists>b. url_decode L sig = Some b \<and> length b = 64 \<and> verify_strict L (vk_inner key) base b)"
  by (cases alg) (simp add: verify_under_def Let_def verify_ed25519_with_Ok_iff)

end
