(* ===== verification/Floor_Sound.thy ===== *)
theory Floor_Sound
  imports Floor
begin

text \<open>
  What an accepted message is known to be: the soundness of the floor verifiers and of the full
  profile checks of \<open>Floor\<close>. Each statement lists what the code has established when it returns a
  verified value.
\<close>

lemma assign_ints_ok: "assign p k v = Ok p' \<Longrightarrow> ints_ok p \<Longrightarrow> ints_ok p'"
  by (auto simp: assign_def ints_ok_def try_bind_Ok_iff parse_i64_Ok_iff split: if_splits)

lemma parse_parameter_list_ints_ok: "parse_parameter_list p r segs = Ok q \<Longrightarrow> ints_ok p \<Longrightarrow> ints_ok q"
proof (induction p r segs rule: parse_parameter_list.induct)
  case (2 p r seg segs)
  show ?case
  proof (cases "seg = []")
    case True
    with 2 show ?thesis by simp
  next
    case False
    with "2.prems"(1) obtain k v rank p' where "assign p k v = Ok p'" "\<not> rank \<le> r" "parse_parameter_list p' rank segs = Ok q"
      by (auto simp: try_bind_Ok_iff split: if_splits)
    with 2 False assign_ints_ok show ?thesis by blast
  qed
qed simp

lemma parse_signature_input_ok:
  assumes "parse_signature_input v = Ok parsed"
  shows "ints_ok (ps_params parsed)" "list_all known (ps_components parsed)" "distinct (ps_components parsed)"
proof -
  have "ints_ok params_default" by (simp add: ints_ok_def params_default_def)
  then have "parse_signature_parameters tail = Ok p \<Longrightarrow> ints_ok p" for tail p
    by (auto simp: parse_signature_parameters_def try_bind_Ok_iff intro: parse_parameter_list_ints_ok)
  with assms show "ints_ok (ps_params parsed)" "list_all known (ps_components parsed)" "distinct (ps_components parsed)"
    by (auto simp: parse_signature_input_def try_bind_Ok_iff Let_def parse_covered_components_Ok_iff split: if_splits)
qed

lemma covered_plain_iff: "(\<exists>c\<in>set cs. \<not> cc_req c \<and> cc_name c = n) \<longleftrightarrow> cc_new n \<in> set cs"
  by (auto simp: cc_new_def intro!: CoveredComponent.equality bexI [of _ "\<lparr>cc_name = n, cc_req = False\<rparr>"])
     (metis CoveredComponent.surjective old.unit.exhaust)

lemma single_header_absent: "single_header hs n = Ok None \<Longrightarrow> kv \<in> set hs \<Longrightarrow> \<not> header_named n kv"
  by (auto simp: single_header_eq filter_empty_conv split: list.splits)

text \<open>The steps of the request floor, with the values they produce.\<close>

lemma floor_request_steps:
  assumes "floor_request L J request resolve policy now = Ok fl"
  obtains parsed alg sig where
    "required_header (rq_headers request) ''content-digest'' = Ok (fl_content_digest fl)"
    "verify_content_digest_sha256 L (fl_content_digest fl) (rq_body request) = Ok ()"
    "\<exists>v. parse_signature_input v = Ok parsed"
    "require_components (ps_components parsed) REQUIRED_REQUEST_COMPONENTS [] = Ok ()"
    "require_conditional_coverage (rq_headers request) (ps_components parsed) = Ok ()"
    "check_params (ps_params parsed) policy now True = Ok (fl_created fl, fl_expires fl, fl_nonce fl, fl_key_id fl, alg)"
    "resolve_actor_for_slot resolve (fl_key_id fl) RequestSlot = Ok (fl_resolved_actor fl)"
    "signature_base (ps_components parsed) (ps_params parsed) (Request request) = Ok (fl_request_signature_base fl)"
    "verify_under L alg (fl_request_signature_base fl) sig (verification_key (fl_resolved_actor fl)) mcp_re_error.InvalidSignature = Ok ()"
    "fl_evidence fl = from_signature_base L (fl_request_signature_base fl)"
    "fl_profile_id fl = PROFILE_TAG" "fl_signature_label fl = REQUEST_LABEL"
proof -
  from assms obtain digest member parsed created expires nonce key_id alg actor base sig where steps:
    "required_header (rq_headers request) ''content-digest'' = Ok digest"
    "verify_content_digest_sha256 L digest (rq_body request) = Ok ()"
    "parse_signature_input member = Ok parsed"
    "require_components (ps_components parsed) REQUIRED_REQUEST_COMPONENTS [] = Ok ()"
    "require_conditional_coverage (rq_headers request) (ps_components parsed) = Ok ()"
    "check_params (ps_params parsed) policy now True = Ok (created, expires, nonce, key_id, alg)"
    "resolve_actor_for_slot resolve key_id RequestSlot = Ok actor"
    "signature_base (ps_components parsed) (ps_params parsed) (Request request) = Ok base"
    "verify_under L alg base sig (verification_key actor) mcp_re_error.InvalidSignature = Ok ()"
    "fl = \<lparr>fl_profile_id = PROFILE_TAG, fl_signature_label = REQUEST_LABEL, fl_resolved_actor = actor,
         fl_evidence = from_signature_base L base, fl_request_signature_base = base,
         fl_content_digest = digest, fl_created = created, fl_expires = expires,
         fl_nonce = nonce, fl_key_id = key_id\<rparr>"
    unfolding floor_request_def try_bind_Ok_iff by (auto simp: try_bind_Ok_iff)
  show thesis by (rule that [of parsed alg sig]) (use steps in auto)
qed

text \<open>
  C3. Soundness of the request floor. When a request is accepted, its body matches its
  \<open>Content-Digest\<close>; the resolver vouched for the key id in the request slot; a 64-byte signature
  verifies strictly under that key over the signature base of this very request; the base covers
  method, target URI, content digest, content type and every conditionally covered header that is
  present; the signed window contains the present up to the tolerated skew and is no longer than
  the policy allows; and the evidence returned is the digest of that base.
\<close>

theorem floor_request_sound:
  assumes "floor_request L J request resolve policy now = Ok fl" "policy_ok policy" "is_i64 now"
  shows "\<exists>cs params sig.
      signature_base cs params (Request request) = Ok (fl_request_signature_base fl)
    \<and> resolve (fl_key_id fl) RequestSlot = Resolved (fl_resolved_actor fl) \<and> slot (fl_resolved_actor fl) = RequestSlot
    \<and> length sig = 64
    \<and> verify_strict L (vk_inner (verification_key (fl_resolved_actor fl))) (fl_request_signature_base fl) sig
    \<and> (\<forall>n\<in>set REQUIRED_REQUEST_COMPONENTS. cc_new n \<in> set cs)
    \<and> (\<forall>n\<in>set conditionally_covered_request_headers.
         (\<exists>kv\<in>set (rq_headers request). header_named n kv) \<longrightarrow> cc_new n \<in> set cs)
    \<and> covers_body L fl (rq_body request)
    \<and> sp_tag params = Some PROFILE_TAG \<and> sp_keyid params = Some (fl_key_id fl) \<and> sp_nonce params = Some (fl_nonce fl)
    \<and> fl_created fl - max_clock_skew policy \<le> now \<and> now < fl_expires fl + max_clock_skew policy
    \<and> fl_created fl < fl_expires fl
    \<and> min i64_max (fl_expires fl - fl_created fl) \<le> max_signature_validity policy
    \<and> fl_evidence fl = from_signature_base L (fl_request_signature_base fl)"
  using assms(1)
proof (rule floor_request_steps)
  fix parsed alg sig
  assume steps: "verify_content_digest_sha256 L (fl_content_digest fl) (rq_body request) = Ok ()"
    "\<exists>v. parse_signature_input v = Ok parsed"
    "require_components (ps_components parsed) REQUIRED_REQUEST_COMPONENTS [] = Ok ()"
    "require_conditional_coverage (rq_headers request) (ps_components parsed) = Ok ()"
    and params: "check_params (ps_params parsed) policy now True = Ok (fl_created fl, fl_expires fl, fl_nonce fl, fl_key_id fl, alg)"
    and resolved: "resolve_actor_for_slot resolve (fl_key_id fl) RequestSlot = Ok (fl_resolved_actor fl)"
    and base: "signature_base (ps_components parsed) (ps_params parsed) (Request request) = Ok (fl_request_signature_base fl)"
    and sig: "verify_under L alg (fl_request_signature_base fl) sig (verification_key (fl_resolved_actor fl)) mcp_re_error.InvalidSignature = Ok ()"
    and ev: "fl_evidence fl = from_signature_base L (fl_request_signature_base fl)"
  note p = check_params_Ok [OF params]
  have "ints_ok (ps_params parsed)" using steps(2) parse_signature_input_ok(1) by blast
  then have "is_i64 (fl_created fl)" "is_i64 (fl_expires fl)" using p(2,3) by (simp_all add: ints_ok_def)
  then have window: "fl_created fl - max_clock_skew policy \<le> now" "now < fl_expires fl + max_clock_skew policy"
    "fl_created fl < fl_expires fl"
    using window_admits_exact [OF p(5)] assms(2,3) by (simp_all add: policy_ok_def)
  have req: "\<forall>n\<in>set REQUIRED_REQUEST_COMPONENTS. cc_new n \<in> set (ps_components parsed)"
    using steps(3) by (simp add: require_components_Ok_iff covered_plain_iff)
  have cond: "cc_new n \<in> set (ps_components parsed)"
    if "n \<in> set conditionally_covered_request_headers" "kv \<in> set (rq_headers request)" "header_named n kv" for n kv
  proof -
    from steps(4) that(1) obtain v where "single_header (rq_headers request) n = Ok v"
      "v \<noteq> None \<longrightarrow> cc_new n \<in> set (ps_components parsed)"
      by (auto simp: require_conditional_coverage_def require_conditional_Ok_iff covered_plain_iff)
    moreover have "v \<noteq> None"
      using single_header_absent [of "rq_headers request" n kv] that(2,3) calculation(1) by (cases v) simp_all
    ultimately show ?thesis by simp
  qed
  from sig obtain b where b: "length b = 64"
    "verify_strict L (vk_inner (verification_key (fl_resolved_actor fl))) (fl_request_signature_base fl) b"
    by (auto simp: verify_under_Ok_iff)
  show ?thesis
    using base resolved b req cond steps(1) p(1,4,6,7) window ev
    by (intro exI [of _ "ps_components parsed"] exI [of _ "ps_params parsed"] exI [of _ b])
      (auto simp: resolve_actor_Ok_iff covers_body_def)
qed

section \<open>The full profile\<close>

text \<open>Where the credential behind an artifact binding is taken from.\<close>

definition bound_credential ::
  "ArtifactBinding \<Rightarrow> 'adm HttpRequestEvidenceBlock \<Rightarrow> HttpRequest \<Rightarrow> (ArtifactBinding \<Rightarrow> bytes option) \<Rightarrow> bytes option" where
  "bound_credential b block r material =
     (case pdp_decision_evidence b block of
        Some decision \<Rightarrow> Some decision
      | None \<Rightarrow> resolve_artifact_credential b (rq_headers r) material)"

lemma verify_artifact_binding_Ok:
  "verify_artifact_binding L b credential = Ok () \<Longrightarrow>
     sha256_b64url L credential = ab_digest_value b \<and> binding_validate L b = Ok () \<and> binding_type b = OpaqueDigest"
  by (auto simp: verify_artifact_binding_def verify_typed_def expect_type_def compare_digest_def try_bind_Ok_iff
      split: ArtifactType.splits if_splits)

lemma verify_pdp_decision_binding_Ok:
  "verify_pdp_decision_binding L b decision = Ok () \<Longrightarrow>
     sha256_b64url L decision = ab_digest_value b \<and> binding_validate L b = Ok () \<and> binding_type b = OpaqueDigest"
  by (auto simp: verify_pdp_decision_binding_def sha256_b64url_def try_bind_Ok_iff split: if_splits)

lemma enforce_bindings_Ok:
  "enforce_bindings L r block material bs = Ok () \<Longrightarrow> b \<in> set bs \<Longrightarrow>
     \<exists>credential. bound_credential b block r material = Some credential
       \<and> sha256_b64url L credential = ab_digest_value b \<and> binding_type b = OpaqueDigest"
  by (induction L r block material bs rule: enforce_bindings.induct)
    (auto simp: bound_credential_def try_bind_Ok_iff dest: verify_artifact_binding_Ok verify_pdp_decision_binding_Ok
      split: option.splits)

lemma full_request_steps:
  assumes "full_request L J from_value r expected material resolve policy now = Ok v"
  shows "floor_request L J r resolve policy now = Ok (vr_floor v)" "vr_audience v = expected"
    "vr_audience_hash v = audience_tuple_hash L expected" "target_uri expected = rq_target_uri r"
    "request_block_validate L (vr_request_block v) PROFILE_TAG = Ok ()" "fl_profile_id (vr_floor v) = PROFILE_TAG"
    "fl_signature_label (vr_floor v) = REQUEST_LABEL"
    "enforce_bindings L r (vr_request_block v) material (artifact_bindings (vr_request_block v)) = Ok ()"
proof -
  from assms obtain fl block where fl: "floor_request L J r resolve policy now = Ok fl"
    and block: "request_block_validate L block (fl_profile_id fl) = Ok ()"
      "enforce_full_profile_bindings L r block expected material = Ok ()"
    and v: "v = \<lparr>vr_floor = fl, vr_audience = block_audience block,
         vr_audience_hash = audience_tuple_hash L (block_audience block), vr_request_block = block\<rparr>"
    by (auto simp: full_request_def try_bind_Ok_iff)
  from fl have prof: "fl_profile_id fl = PROFILE_TAG" "fl_signature_label fl = REQUEST_LABEL"
    by (rule floor_request_steps, simp)+
  show "floor_request L J r resolve policy now = Ok (vr_floor v)" using fl v by simp
  from block(2) have "block_audience block = expected" "target_uri expected = rq_target_uri r"
    "enforce_bindings L r block material (artifact_bindings block) = Ok ()"
    by (auto simp: enforce_full_profile_bindings_def split: if_splits)
  then show "vr_audience v = expected" "vr_audience_hash v = audience_tuple_hash L expected"
    "target_uri expected = rq_target_uri r"
    "enforce_bindings L r (vr_request_block v) material (artifact_bindings (vr_request_block v)) = Ok ()"
    by (simp_all add: v)
  show "request_block_validate L (vr_request_block v) PROFILE_TAG = Ok ()" "fl_profile_id (vr_floor v) = PROFILE_TAG"
    "fl_signature_label (vr_floor v) = REQUEST_LABEL"
    using block(1) prof by (simp_all add: v)
qed

text \<open>
  C5. Soundness of the full profile. A request accepted under an expected audience passed the
  floor; it was meant for exactly that audience and sent to its target URI; and each of its artifact
  bindings, of which there is at least one, is the digest of the credential the verifier itself
  obtained: the transmitted decision document, the bearer token of the covered \<open>Authorization\<close>
  header, or the material the caller holds.
\<close>

theorem full_request_sound:
  assumes "full_request L J from_value r expected material resolve policy now = Ok v"
  shows "floor_request L J r resolve policy now = Ok (vr_floor v)
    \<and> vr_audience v = expected \<and> target_uri expected = rq_target_uri r
    \<and> vr_audience_hash v = audience_tuple_hash L expected
    \<and> block_profile (vr_request_block v) = PROFILE_TAG
    \<and> artifact_bindings (vr_request_block v) \<noteq> []
    \<and> (\<forall>b\<in>set (artifact_bindings (vr_request_block v)).
         \<exists>credential. bound_credential b (vr_request_block v) r material = Some credential
           \<and> sha256_b64url L credential = ab_digest_value b)
    \<and> (admission (vr_request_block v) = None \<longleftrightarrow> admission_assertion (vr_request_block v) = None)"
proof -
  note f = full_request_steps [OF assms]
  have "block_profile (vr_request_block v) = PROFILE_TAG" "artifact_bindings (vr_request_block v) \<noteq> []"
    "admission (vr_request_block v) = None \<longleftrightarrow> admission_assertion (vr_request_block v) = None"
    using f(5) by (auto simp: request_block_validate_def try_bind_Ok_iff split: if_splits option.splits)
  with f(1-4) enforce_bindings_Ok [OF f(8)] show ?thesis by blast
qed

end
