(* ===== verification/Delegation.thy ===== *)
theory Delegation
  imports Floor_Sound
begin

text \<open>
  Delegation credentials: \<open>mcp-re-http-profile/src/delegation/\<close>, the delegated response verifiers of
  \<open>verify/full/delegated/\<close>, the values they return (\<open>verified_response/\<close>) and the \<open>Verifier\<close> that
  carries a policy and a resolver for all of them (\<open>verifier.rs\<close>). A response may be signed by a
  short-lived key; the credential in its evidence block is a compact JWS by which a root key the
  verifier trusts hands that key its authority.

  The derived serializers of the header and the claims are the record \<open>jws_lib\<close>. The closures of
  the code that fill a cell as they run take that cell as an argument and return it.
\<close>

section \<open>The credential\<close>

definition DELEGATION_TYP :: string where "DELEGATION_TYP = ''mcp-re-delegation+jwt''"
definition DELEGATION_ALG :: string where "DELEGATION_ALG = ''EdDSA''"
definition KEY_USE_RESPONSE_SIGNING :: string where "KEY_USE_RESPONSE_SIGNING = ''response-signing''"
definition JWK_KTY_OKP :: string where "JWK_KTY_OKP = ''OKP''"
definition JWK_CRV_ED25519 :: string where "JWK_CRV_ED25519 = ''Ed25519''"

record DelegationHeader =
  dh_typ :: string
  dh_alg :: string
  dh_kid :: string

record DelegatedJwk =
  jwk_kty :: string
  jwk_crv :: string
  jwk_kid :: string
  jwk_x :: string

record Cnf =
  cnf_jwk :: DelegatedJwk

datatype Audience = One string | Many "string list"

fun audience_contains :: "Audience \<Rightarrow> string \<Rightarrow> bool" where
  "audience_contains (One a) who \<longleftrightarrow> a = who"
| "audience_contains (Many v) who \<longleftrightarrow> list_ex (\<lambda>a. a = who) v"

record DelegationClaims =
  cl_iss :: string
  cl_iat :: int
  cl_nbf :: int
  cl_exp :: int
  cl_jti :: string
  cl_aud :: Audience
  cl_profile :: string
  cl_audience_hash :: string
  cl_server_signer :: string
  cl_key_use :: string
  cl_delegated_kid :: string
  cl_issuer_kid :: string
  cl_trust_epoch :: string
  cl_cnf :: Cnf

record VerifiedDelegation =
  vd_delegated_key :: VerificationKey
  vd_delegated_kid :: string
  vd_server_signer :: string
  vd_issuer_kid :: string
  vd_nbf :: int
  vd_exp :: int
  vd_trust_epoch :: string

record DelegationVerifyParams =
  dv_now :: int
  dv_max_clock_skew :: int
  dv_verifier_audiences :: "string list"
  dv_expected_profile :: string
  dv_expected_audience_hash :: string
  dv_expected_server_signer :: string
  dv_accepted_epochs :: "string list"

record jws_lib =
  header_to_vec :: "DelegationHeader \<Rightarrow> bytes option"
  header_from_slice :: "bytes \<Rightarrow> DelegationHeader option"
  claims_to_vec :: "DelegationClaims \<Rightarrow> bytes option"
  claims_from_slice :: "bytes \<Rightarrow> DelegationClaims option"

definition bounded_skew :: "int \<Rightarrow> int" where
  "bounded_skew configured = min (max configured 0) MAX_CLOCK_SKEW_BOUND"

section \<open>Parsing\<close>

definition split_compact_jws :: "string \<Rightarrow> HttpProfileError + string \<times> string \<times> string" where
  "split_compact_jws jws =
     (case split_on CHR ''.'' jws of
        [h, p, s] \<Rightarrow> if h \<noteq> [] \<and> p \<noteq> [] \<and> s \<noteq> [] then Ok (h, p, s) else Err HttpProfileError.DelegationCredentialInvalid
      | _ \<Rightarrow> Err HttpProfileError.DelegationCredentialInvalid)"

definition decode_json :: "crypto_lib \<Rightarrow> (bytes \<Rightarrow> 'a option) \<Rightarrow> string \<Rightarrow> HttpProfileError + 'a" where
  "decode_json L read segment =
     try_bind (map_err (\<lambda>_. HttpProfileError.DelegationCredentialInvalid) (b64url_decode L segment)) (\<lambda>b.
     ok_or (read b) HttpProfileError.DelegationCredentialInvalid)"

definition parse_credential ::
  "crypto_lib \<Rightarrow> jws_lib \<Rightarrow> string \<Rightarrow> HttpProfileError + DelegationHeader \<times> DelegationClaims" where
  "parse_credential L S compact_jws =
     try_bind (split_compact_jws compact_jws) (\<lambda>(h, p, _).
     try_bind (decode_json L (header_from_slice S) h) (\<lambda>header.
     try_bind (decode_json L (claims_from_slice S) p) (\<lambda>claims.
     Ok (header, claims))))"

section \<open>Verification\<close>

definition check_root_signature ::
  "crypto_lib \<Rightarrow> string \<times> string \<times> string \<Rightarrow> DelegationHeader \<Rightarrow> DelegationClaims
   \<Rightarrow> ('s \<Rightarrow> string \<Rightarrow> 's \<times> VerificationKey option) \<Rightarrow> 's \<Rightarrow> 's \<times> (HttpProfileError + unit)" where
  "check_root_signature L segments header claims resolve_root st =
     (case segments of (header_seg, payload_seg, sig_seg) \<Rightarrow>
        if dh_typ header \<noteq> DELEGATION_TYP \<or> dh_alg header \<noteq> DELEGATION_ALG
        then (st, Err HttpProfileError.DelegationCredentialInvalid)
        else if dh_kid header \<noteq> cl_issuer_kid claims then (st, Err HttpProfileError.DelegationCredentialInvalid)
        else case resolve_root st (cl_issuer_kid claims) of
               (st, None) \<Rightarrow> (st, Err HttpProfileError.DelegationIssuerUntrusted)
             | (st, Some root_key) \<Rightarrow>
                 (st, map_err (\<lambda>_. HttpProfileError.DelegationCredentialInvalid)
                        (verify_ed25519_with L (header_seg @ ''.'' @ payload_seg) sig_seg root_key
                           mcp_re_error.DelegationCredentialInvalid)))"

definition check_freshness :: "DelegationClaims \<Rightarrow> DelegationVerifyParams \<Rightarrow> HttpProfileError + unit" where
  "check_freshness claims params =
     (let skew = bounded_skew (dv_max_clock_skew params) in
      case (checked_add (dv_now params) skew, checked_sub (dv_now params) skew) of
        (Some earliest, Some latest) \<Rightarrow>
          if earliest < cl_nbf claims \<or> latest > cl_exp claims then Err HttpProfileError.DelegationCredentialExpired
          else Ok ()
      | _ \<Rightarrow> Err HttpProfileError.DelegationCredentialExpired)"

definition check_scope :: "DelegationClaims \<Rightarrow> DelegationVerifyParams \<Rightarrow> HttpProfileError + unit" where
  "check_scope claims params =
     (if \<not> list_ex (audience_contains (cl_aud claims)) (dv_verifier_audiences params)
      then Err HttpProfileError.DelegationAudienceMismatch
      else if cl_profile claims \<noteq> dv_expected_profile params then Err HttpProfileError.DelegationProfileMismatch
      else if cl_audience_hash claims \<noteq> dv_expected_audience_hash params
        \<or> cl_server_signer claims \<noteq> dv_expected_server_signer params
      then Err HttpProfileError.DelegationAudienceMismatch
      else if cl_key_use claims \<noteq> KEY_USE_RESPONSE_SIGNING then Err HttpProfileError.DelegationKeyUseInvalid
      else Ok ())"

definition check_epoch_and_revocation ::
  "DelegationClaims \<Rightarrow> DelegationVerifyParams \<Rightarrow> (string \<Rightarrow> bool) \<Rightarrow> HttpProfileError + unit" where
  "check_epoch_and_revocation claims params is_revoked =
     (if \<not> list_ex (\<lambda>e. e = cl_trust_epoch claims) (dv_accepted_epochs params)
      then Err HttpProfileError.DelegationTrustEpochStale
      else if is_revoked (cl_delegated_kid claims) \<or> is_revoked (cl_issuer_kid claims) \<or> is_revoked (cl_jti claims)
      then Err HttpProfileError.DelegationRevoked
      else Ok ())"

definition delegated_key :: "crypto_lib \<Rightarrow> DelegationClaims \<Rightarrow> HttpProfileError + VerificationKey" where
  "delegated_key L claims =
     (let jwk = cnf_jwk (cl_cnf claims) in
      if jwk_kty jwk \<noteq> JWK_KTY_OKP \<or> jwk_crv jwk \<noteq> JWK_CRV_ED25519 \<or> jwk_kid jwk \<noteq> cl_delegated_kid claims
      then Err HttpProfileError.DelegationCredentialInvalid
      else map_err (\<lambda>_. HttpProfileError.DelegationCredentialInvalid) (vk_from_b64url L (jwk_x jwk)))"

definition verify_delegation_credential ::
  "crypto_lib \<Rightarrow> jws_lib \<Rightarrow> string \<Rightarrow> DelegationVerifyParams \<Rightarrow> ('s \<Rightarrow> string \<Rightarrow> 's \<times> VerificationKey option)
   \<Rightarrow> (string \<Rightarrow> bool) \<Rightarrow> 's \<Rightarrow> 's \<times> (HttpProfileError + VerifiedDelegation)" where
  "verify_delegation_credential L S compact_jws params resolve_root is_revoked st =
     (case try_bind (split_compact_jws compact_jws) (\<lambda>segments.
           try_bind (decode_json L (header_from_slice S) (fst segments)) (\<lambda>header.
           try_bind (decode_json L (claims_from_slice S) (fst (snd segments))) (\<lambda>claims.
           Ok (segments, header, claims)))) of
        Inl e \<Rightarrow> (st, Err e)
      | Inr (segments, header, claims) \<Rightarrow>
          (case check_root_signature L segments header claims resolve_root st of
             (st, Inl e) \<Rightarrow> (st, Err e)
           | (st, Inr _) \<Rightarrow>
               (st,
                try_bind (check_freshness claims params) (\<lambda>_.
                try_bind (check_scope claims params) (\<lambda>_.
                try_bind (check_epoch_and_revocation claims params is_revoked) (\<lambda>_.
                try_bind (delegated_key L claims) (\<lambda>key.
                Ok \<lparr>vd_delegated_key = key, vd_delegated_kid = cl_delegated_kid claims,
                    vd_server_signer = cl_server_signer claims, vd_issuer_kid = cl_issuer_kid claims,
                    vd_nbf = cl_nbf claims, vd_exp = cl_exp claims, vd_trust_epoch = cl_trust_epoch claims\<rparr>)))))))"

section \<open>Issuance\<close>

definition JWS_SIGNATURE_LEN :: nat where "JWS_SIGNATURE_LEN = 64"

definition issue_delegation_credential_with_signer ::
  "crypto_lib \<Rightarrow> jws_lib \<Rightarrow> DelegationHeader \<Rightarrow> DelegationClaims \<Rightarrow> (bytes \<Rightarrow> HttpProfileError + bytes)
   \<Rightarrow> HttpProfileError + string" where
  "issue_delegation_credential_with_signer L S header claims sign_root =
     try_bind (ok_or (header_to_vec S header) HttpProfileError.DelegationCredentialInvalid) (\<lambda>hb.
     try_bind (ok_or (claims_to_vec S claims) HttpProfileError.DelegationCredentialInvalid) (\<lambda>pb.
     let h = b64url_encode L hb; p = b64url_encode L pb; signing_input = h @ ''.'' @ p in
     try_bind (sign_root signing_input) (\<lambda>sig.
     if length sig \<noteq> JWS_SIGNATURE_LEN then Err HttpProfileError.DelegationCredentialInvalid
     else Ok (h @ ''.'' @ p @ ''.'' @ b64url_encode L sig))))"

text \<open>The in-process issuer panics where the other one refuses: \<open>None\<close> is that panic.\<close>

definition issue_delegation_credential ::
  "crypto_lib \<Rightarrow> jws_lib \<Rightarrow> SigningKey \<Rightarrow> DelegationHeader \<Rightarrow> DelegationClaims \<Rightarrow> string option" where
  "issue_delegation_credential L S root_key header claims =
     (case issue_delegation_credential_with_signer L S header claims
             (\<lambda>input. map_err (\<lambda>_. HttpProfileError.DelegationCredentialInvalid) (b64url_decode L (sign_b64url L root_key input))) of
        Inl _ \<Rightarrow> None
      | Inr credential \<Rightarrow> Some credential)"

section \<open>Delegated responses\<close>

record AcceptedResponseSigner =
  as_identity :: ActorIdentity
  as_verification_key :: VerificationKey

record ResponseSignatureFacts =
  accepted_signer :: AcceptedResponseSigner
  facts_base_digest :: RequestEvidence

definition signature_facts :: "CryptographicFloorVerifiedResponse \<Rightarrow> ResponseSignatureFacts" where
  "signature_facts v =
     \<lparr>accepted_signer = \<lparr>as_identity = identity (resolved_server_actor v),
                         as_verification_key = verification_key (resolved_server_actor v)\<rparr>,
      facts_base_digest = response_signature_base_digest v\<rparr>"

record VerifiedDelegatedMcpResponse =
  vdr_signature_facts :: ResponseSignatureFacts
  vdr_request_evidence_agreement :: BoundRequestEvidenceAgreement
  vdr_delegation_issuer_kid :: string

record VerifiedDelegatedUnboundResponse =
  vdu_signature_facts :: ResponseSignatureFacts
  vdu_delegation_issuer_kid :: string

record DelegationExpectations =
  de_verifier_audiences :: "string list"
  de_expected_audience_hash :: string
  de_accepted_epochs :: "string list"
  de_max_clock_skew :: int

text \<open>The resolver closure: the failure it could not report otherwise is left in the cell.\<close>

definition root_resolver ::
  "resolver \<Rightarrow> HttpProfileError option \<Rightarrow> string \<Rightarrow> HttpProfileError option \<times> VerificationKey option" where
  "root_resolver resolve_actor cell issuer_kid =
     (case resolve_actor_for_slot resolve_actor issuer_kid ResponseSlot of
        Inr actor \<Rightarrow> (cell, Some (verification_key actor))
      | Inl e \<Rightarrow> if e = UnresolvedKeyId then (cell, None) else (Some e, None))"

definition chain_to_root ::
  "crypto_lib \<Rightarrow> jws_lib \<Rightarrow> string \<Rightarrow> HttpResponseEvidenceBlock \<Rightarrow> resolver \<Rightarrow> DelegationExpectations
   \<Rightarrow> (string \<Rightarrow> bool) \<Rightarrow> int \<Rightarrow> HttpProfileError + VerifiedDelegation" where
  "chain_to_root L S credential block resolve_actor expect is_revoked now =
     (let params = \<lparr>dv_now = now, dv_max_clock_skew = de_max_clock_skew expect,
                    dv_verifier_audiences = de_verifier_audiences expect, dv_expected_profile = PROFILE_TAG,
                    dv_expected_audience_hash = de_expected_audience_hash expect,
                    dv_expected_server_signer = identity_actor_id (server_signer block),
                    dv_accepted_epochs = de_accepted_epochs expect\<rparr>
      in case verify_delegation_credential L S credential params (root_resolver resolve_actor) is_revoked None of
           (resolve_failure, verified) \<Rightarrow>
             map_err (\<lambda>e. case resolve_failure of Some failure \<Rightarrow> failure | None \<Rightarrow> e) verified)"

definition delegated_bound_response ::
  "crypto_lib \<Rightarrow> json_lib \<Rightarrow> jws_lib \<Rightarrow> (json \<Rightarrow> HttpResponseEvidenceBlock option) \<Rightarrow> HttpResponse \<Rightarrow> HttpRequest
   \<Rightarrow> resolver \<Rightarrow> VerifierPolicy \<Rightarrow> DelegationExpectations \<Rightarrow> (string \<Rightarrow> bool) \<Rightarrow> int
   \<Rightarrow> HttpProfileError + VerifiedDelegatedMcpResponse" where
  "delegated_bound_response L J S from_value response request resolve_actor policy expect is_revoked now =
     try_bind (reject_content_encoding (rsp_headers response)) (\<lambda>_.
     try_bind (require_json_media_type (rsp_headers response) ''response content-type'') (\<lambda>_.
     try_bind (map_err (\<lambda>_. MissingEvidence ''response content-digest'')
                 (required_header (rsp_headers response) ''content-digest'')) (\<lambda>digest_header.
     try_bind (verify_content_digest_sha256 L digest_header (rsp_body response)) (\<lambda>_.
     try_bind (map_err (\<lambda>_. MissingEvidence ''response signature-input'')
                 (required_header (rsp_headers response) ''signature-input'')) (\<lambda>input_header.
     try_bind (member_value input_header RESPONSE_LABEL) (\<lambda>member.
     try_bind (parse_signature_input member) (\<lambda>parsed.
     try_bind (require_components (ps_components parsed) REQUIRED_RESPONSE_COMPONENTS REQUIRED_RESPONSE_REQ_COMPONENTS) (\<lambda>_.
     try_bind (check_params (ps_params parsed) policy now False) (\<lambda>(created, expires, nonce, key_id, algorithm).
     try_bind (extract_meta_block J from_value (rsp_body response) RESPONSE_EVIDENCE_BLOCK_KEY ''response evidence block'') (\<lambda>block.
     try_bind (response_block_validate block PROFILE_TAG) (\<lambda>_.
     try_bind (ok_or (server_delegation block) HttpProfileError.DelegationCredentialMissing) (\<lambda>credential.
     try_bind (chain_to_root L S credential block resolve_actor expect is_revoked now) (\<lambda>verified.
     try_bind (require (key_id = vd_delegated_kid verified \<and> keyid (server_signer block) = vd_delegated_kid verified)
                 HttpProfileError.DelegationKeyMismatch) (\<lambda>_.
     try_bind (signature_base (ps_components parsed) (ps_params parsed) (Response response request)) (\<lambda>base.
     try_bind (signature_value_b64url L (rsp_headers response) ''response signature'' RESPONSE_LABEL) (\<lambda>sig.
     try_bind (map_err (\<lambda>_. HttpProfileError.DelegationKeyMismatch)
                 (verify_under L algorithm base sig (vd_delegated_key verified) ResponseSigInvalid)) (\<lambda>_.
     try_bind (request_evidence_of L request) (\<lambda>bound.
     if red_alg (rsp_request_evidence block) \<noteq> digest_alg bound
        \<or> red_value (rsp_request_evidence block) \<noteq> digest_value bound
     then Err ResponseBindingMismatch
     else Ok \<lparr>vdr_signature_facts =
                \<lparr>accepted_signer = \<lparr>as_identity = server_signer block, as_verification_key = vd_delegated_key verified\<rparr>,
                 facts_base_digest = from_response_signature_base L base\<rparr>,
              vdr_request_evidence_agreement = block_agreement bound block,
              vdr_delegation_issuer_kid = vd_issuer_kid verified\<rparr>))))))))))))))))))"

definition delegated_unbound_response ::
  "crypto_lib \<Rightarrow> json_lib \<Rightarrow> jws_lib \<Rightarrow> (json \<Rightarrow> HttpResponseEvidenceBlock option) \<Rightarrow> HttpResponse
   \<Rightarrow> resolver \<Rightarrow> VerifierPolicy \<Rightarrow> DelegationExpectations \<Rightarrow> (string \<Rightarrow> bool) \<Rightarrow> int
   \<Rightarrow> HttpProfileError + VerifiedDelegatedUnboundResponse" where
  "delegated_unbound_response L J S from_value response resolve_actor policy expect is_revoked now =
     try_bind (reject_content_encoding (rsp_headers response)) (\<lambda>_.
     try_bind (require_json_media_type (rsp_headers response) ''response content-type'') (\<lambda>_.
     try_bind (map_err (\<lambda>_. MissingEvidence ''response content-digest'')
                 (required_header (rsp_headers response) ''content-digest'')) (\<lambda>digest_header.
     try_bind (verify_content_digest_sha256 L digest_header (rsp_body response)) (\<lambda>_.
     try_bind (map_err (\<lambda>_. MissingEvidence ''response signature-input'')
                 (required_header (rsp_headers response) ''signature-input'')) (\<lambda>input_header.
     try_bind (member_value input_header RESPONSE_LABEL) (\<lambda>member.
     try_bind (parse_signature_input member) (\<lambda>parsed.
     try_bind (require_components (ps_components parsed) REQUIRED_RESPONSE_COMPONENTS []) (\<lambda>_.
     try_bind (require (\<not> list_ex cc_req (ps_components parsed)) (MalformedEvidence ''req component without request context'')) (\<lambda>_.
     try_bind (check_params (ps_params parsed) policy now False) (\<lambda>(created, expires, nonce, key_id, algorithm).
     try_bind (extract_meta_block J from_value (rsp_body response) RESPONSE_EVIDENCE_BLOCK_KEY ''response evidence block'') (\<lambda>block.
     try_bind (response_block_validate block PROFILE_TAG) (\<lambda>_.
     try_bind (ok_or (server_delegation block) HttpProfileError.DelegationCredentialMissing) (\<lambda>credential.
     try_bind (chain_to_root L S credential block resolve_actor expect is_revoked now) (\<lambda>verified.
     try_bind (require (key_id = vd_delegated_kid verified \<and> keyid (server_signer block) = vd_delegated_kid verified)
                 HttpProfileError.DelegationKeyMismatch) (\<lambda>_.
     try_bind (signature_base (ps_components parsed) (ps_params parsed) (ResponseOnly response)) (\<lambda>base.
     try_bind (signature_value_b64url L (rsp_headers response) ''response signature'' RESPONSE_LABEL) (\<lambda>sig.
     try_bind (map_err (\<lambda>_. HttpProfileError.DelegationKeyMismatch)
                 (verify_under L algorithm base sig (vd_delegated_key verified) ResponseSigInvalid)) (\<lambda>_.
     Ok \<lparr>vdu_signature_facts =
           \<lparr>accepted_signer = \<lparr>as_identity = server_signer block, as_verification_key = vd_delegated_key verified\<rparr>,
            facts_base_digest = from_response_signature_base L base\<rparr>,
         vdu_delegation_issuer_kid = vd_issuer_kid verified\<rparr>))))))))))))))))))"

section \<open>The verifier\<close>

record Verifier =
  ve_policy :: VerifierPolicy
  ve_resolve_actor :: resolver

definition verify_request_floor ::
  "crypto_lib \<Rightarrow> json_lib \<Rightarrow> Verifier \<Rightarrow> HttpRequest \<Rightarrow> int \<Rightarrow> HttpProfileError + CryptographicFloorVerifiedRequest" where
  "verify_request_floor L J v request now = floor_request L J request (ve_resolve_actor v) (ve_policy v) now"

definition verify_request ::
  "crypto_lib \<Rightarrow> json_lib \<Rightarrow> (json \<Rightarrow> 'adm HttpRequestEvidenceBlock option) \<Rightarrow> Verifier \<Rightarrow> HttpRequest \<Rightarrow> AudienceTuple
   \<Rightarrow> (ArtifactBinding \<Rightarrow> bytes option) \<Rightarrow> int \<Rightarrow> HttpProfileError + 'adm VerifiedMcpRequest" where
  "verify_request L J from_value v request expected_audience artifact_material now =
     full_request L J from_value request expected_audience artifact_material (ve_resolve_actor v) (ve_policy v) now"

definition verify_bound_response_floor ::
  "crypto_lib \<Rightarrow> Verifier \<Rightarrow> HttpResponse \<Rightarrow> HttpRequest \<Rightarrow> int \<Rightarrow> HttpProfileError + CryptographicFloorVerifiedResponse" where
  "verify_bound_response_floor L v response request now =
     floor_bound_response L response request (ve_resolve_actor v) (ve_policy v) now"

definition verify_bound_response ::
  "crypto_lib \<Rightarrow> json_lib \<Rightarrow> (json \<Rightarrow> HttpResponseEvidenceBlock option) \<Rightarrow> Verifier \<Rightarrow> HttpResponse \<Rightarrow> HttpRequest \<Rightarrow> int
   \<Rightarrow> HttpProfileError + VerifiedMcpResponse" where
  "verify_bound_response L J from_value v response request now =
     full_bound_response L J from_value response request (ve_resolve_actor v) (ve_policy v) now"

definition verify_unbound_response_floor ::
  "crypto_lib \<Rightarrow> Verifier \<Rightarrow> HttpResponse \<Rightarrow> int \<Rightarrow> HttpProfileError + CryptographicFloorVerifiedResponse" where
  "verify_unbound_response_floor L v response now = floor_unbound_response L response (ve_resolve_actor v) (ve_policy v) now"

definition verify_delegated_bound_response ::
  "crypto_lib \<Rightarrow> json_lib \<Rightarrow> jws_lib \<Rightarrow> (json \<Rightarrow> HttpResponseEvidenceBlock option) \<Rightarrow> Verifier \<Rightarrow> HttpResponse \<Rightarrow> HttpRequest
   \<Rightarrow> DelegationExpectations \<Rightarrow> (string \<Rightarrow> bool) \<Rightarrow> int \<Rightarrow> HttpProfileError + VerifiedDelegatedMcpResponse" where
  "verify_delegated_bound_response L J S from_value v response request expect is_revoked now =
     delegated_bound_response L J S from_value response request (ve_resolve_actor v) (ve_policy v) expect is_revoked now"

definition verify_delegated_unbound_response ::
  "crypto_lib \<Rightarrow> json_lib \<Rightarrow> jws_lib \<Rightarrow> (json \<Rightarrow> HttpResponseEvidenceBlock option) \<Rightarrow> Verifier \<Rightarrow> HttpResponse
   \<Rightarrow> DelegationExpectations \<Rightarrow> (string \<Rightarrow> bool) \<Rightarrow> int \<Rightarrow> HttpProfileError + VerifiedDelegatedUnboundResponse" where
  "verify_delegated_unbound_response L J S from_value v response expect is_revoked now =
     delegated_unbound_response L J S from_value response (ve_resolve_actor v) (ve_policy v) expect is_revoked now"

section \<open>What a verified credential establishes\<close>

text \<open>
  The authority a credential carries: a root key the caller resolves signed exactly these header and
  payload segments, and the claims hold for this verifier, now.
\<close>

definition jws_signed :: "crypto_lib \<Rightarrow> (bytes \<Rightarrow> 'c option) \<Rightarrow> string \<Rightarrow> 'c \<Rightarrow> VerificationKey \<Rightarrow> bool" where
  "jws_signed L read compact_jws claims root \<longleftrightarrow>
     (\<exists>h p s sig pb. compact_jws = h @ ''.'' @ p @ ''.'' @ s
       \<and> url_decode L p = Some pb \<and> read pb = Some claims
       \<and> url_decode L s = Some sig \<and> length sig = 64 \<and> verify_strict L (vk_inner root) (h @ ''.'' @ p) sig)"

abbreviation root_signed :: "crypto_lib \<Rightarrow> jws_lib \<Rightarrow> string \<Rightarrow> DelegationClaims \<Rightarrow> VerificationKey \<Rightarrow> bool" where
  "root_signed L S \<equiv> jws_signed L (claims_from_slice S)"

definition delegates ::
  "crypto_lib \<Rightarrow> DelegationClaims \<Rightarrow> DelegationVerifyParams \<Rightarrow> (string \<Rightarrow> bool) \<Rightarrow> VerificationKey \<Rightarrow> bool" where
  "delegates L claims params is_revoked key \<longleftrightarrow>
     (\<exists>skew. 0 \<le> skew \<and> skew \<le> MAX_CLOCK_SKEW_BOUND
        \<and> cl_nbf claims \<le> dv_now params + skew \<and> dv_now params \<le> cl_exp claims + skew)
     \<and> (\<exists>a\<in>set (dv_verifier_audiences params). audience_contains (cl_aud claims) a)
     \<and> cl_profile claims = dv_expected_profile params
     \<and> cl_audience_hash claims = dv_expected_audience_hash params
     \<and> cl_server_signer claims = dv_expected_server_signer params
     \<and> cl_key_use claims = KEY_USE_RESPONSE_SIGNING
     \<and> cl_trust_epoch claims \<in> set (dv_accepted_epochs params)
     \<and> \<not> is_revoked (cl_delegated_kid claims) \<and> \<not> is_revoked (cl_issuer_kid claims) \<and> \<not> is_revoked (cl_jti claims)
     \<and> jwk_kid (cnf_jwk (cl_cnf claims)) = cl_delegated_kid claims
     \<and> url_decode L (jwk_x (cnf_jwk (cl_cnf claims))) = Some (vk_inner key) \<and> point_valid L (vk_inner key)"

lemma bounded_skew_bounds: "0 \<le> bounded_skew s" "bounded_skew s \<le> MAX_CLOCK_SKEW_BOUND"
  by (auto simp: bounded_skew_def MAX_CLOCK_SKEW_BOUND_def)

text \<open>
  The readers of compact JWS documents: each splits a string into its three segments, and what the
  base64 encoder joins, it takes apart again.
\<close>

definition url_alphabet :: "crypto_lib \<Rightarrow> bool" where
  "url_alphabet L \<longleftrightarrow> (\<forall>b. CHR ''.'' \<notin> set (url_encode L b) \<and> (b \<noteq> [] \<longrightarrow> url_encode L b \<noteq> []))"

locale compact_reader =
  fixes split :: "string \<Rightarrow> 'e + string \<times> string \<times> string"
  assumes split_Ok_iff: "split jws = Ok (h, p, s) \<longleftrightarrow> split_on CHR ''.'' jws = [h, p, s] \<and> h \<noteq> [] \<and> p \<noteq> [] \<and> s \<noteq> []"
begin

lemma split_join: "split jws = Ok (h, p, s) \<Longrightarrow> jws = h @ ''.'' @ p @ ''.'' @ s"
  using join_split_on [of "CHR ''.''" jws] by (simp add: split_Ok_iff)

lemma split_encoded:
  assumes "url_alphabet L" "hb \<noteq> []" "pb \<noteq> []" "sb \<noteq> []"
  shows "split (b64url_encode L hb @ ''.'' @ b64url_encode L pb @ ''.'' @ b64url_encode L sb)
    = Ok (b64url_encode L hb, b64url_encode L pb, b64url_encode L sb)"
  using assms by (simp add: split_Ok_iff url_alphabet_def b64url_encode_def split_on_append_sep split_on_no_sep)

lemma signed_by:
  assumes "split jws = Ok (h, p, s)" "url_decode L p = Some pb" "read pb = Some claims"
    and "verify_ed25519_with L (h @ ''.'' @ p) s root e = Ok ()"
  shows "jws_signed L read jws claims root"
proof -
  from assms(4) obtain sig where "url_decode L s = Some sig" "length sig = 64" "verify_strict L (vk_inner root) (h @ ''.'' @ p) sig"
    by (auto simp: verify_ed25519_with_Ok_iff)
  with assms(2,3) split_join [OF assms(1)] show ?thesis unfolding jws_signed_def by blast
qed

end

interpretation credential_jws: compact_reader split_compact_jws
  by unfold_locales (auto simp: split_compact_jws_def split: list.splits if_splits)

text \<open>A serializer whose output is not empty and is read back as the value it came from.\<close>

definition serde_ok :: "('a \<Rightarrow> bytes option) \<Rightarrow> (bytes \<Rightarrow> 'a option) \<Rightarrow> bool" where
  "serde_ok ser de \<longleftrightarrow> (\<forall>v b. ser v = Some b \<longrightarrow> b \<noteq> [] \<and> de b = Some v)"

lemma decode_json_Ok_iff: "decode_json L read seg = Ok a \<longleftrightarrow> (\<exists>b. url_decode L seg = Some b \<and> read b = Some a)"
  by (simp add: decode_json_def try_bind_Ok_iff b64url_decode_def)

lemma check_freshness_Ok:
  assumes "check_freshness claims params = Ok ()"
  shows "\<exists>skew. 0 \<le> skew \<and> skew \<le> MAX_CLOCK_SKEW_BOUND
        \<and> cl_nbf claims \<le> dv_now params + skew \<and> dv_now params \<le> cl_exp claims + skew"
  using assms bounded_skew_bounds [of "dv_max_clock_skew params"]
  by (intro exI [of _ "bounded_skew (dv_max_clock_skew params)"])
    (auto simp: check_freshness_def Let_def split: option.splits if_splits)

lemma delegated_key_Ok_iff:
  "delegated_key L claims = Ok key \<longleftrightarrow>
     jwk_kty (cnf_jwk (cl_cnf claims)) = JWK_KTY_OKP \<and> jwk_crv (cnf_jwk (cl_cnf claims)) = JWK_CRV_ED25519
     \<and> jwk_kid (cnf_jwk (cl_cnf claims)) = cl_delegated_kid claims
     \<and> url_decode L (jwk_x (cnf_jwk (cl_cnf claims))) = Some (vk_inner key) \<and> length (vk_inner key) = 32 \<and> point_valid L (vk_inner key)"
  by (cases key) (auto simp: delegated_key_def Let_def vk_from_b64url_def vk_from_bytes_def b64url_decode_def try_bind_Ok_iff)

lemma checks_delegate:
  assumes "check_freshness claims params = Ok ()" "check_scope claims params = Ok ()"
    "check_epoch_and_revocation claims params is_revoked = Ok ()" "delegated_key L claims = Ok key"
  shows "delegates L claims params is_revoked key"
  unfolding delegates_def
  using check_freshness_Ok [OF assms(1)] assms(2-4)
  by (auto simp: check_scope_def check_epoch_and_revocation_def delegated_key_Ok_iff list_ex_iff split: if_splits)

lemma verify_delegation_credential_Ok:
  assumes "verify_delegation_credential L S jws params resolve_root is_revoked st = (st', Ok v)"
  obtains claims root where
    "resolve_root st (vd_issuer_kid v) = (st', Some root)"
    "root_signed L S jws claims root" "delegates L claims params is_revoked (vd_delegated_key v)"
    "vd_delegated_kid v = cl_delegated_kid claims" "vd_issuer_kid v = cl_issuer_kid claims"
    "vd_server_signer v = cl_server_signer claims"
proof -
  from assms obtain h p s header claims where seg: "split_compact_jws jws = Ok (h, p, s)"
    and claims: "decode_json L (claims_from_slice S) p = Ok claims"
    and root: "check_root_signature L (h, p, s) header claims resolve_root st = (st', Ok ())"
    and checks: "check_freshness claims params = Ok ()" "check_scope claims params = Ok ()"
      "check_epoch_and_revocation claims params is_revoked = Ok ()" "delegated_key L claims = Ok (vd_delegated_key v)"
    and v: "vd_delegated_kid v = cl_delegated_kid claims" "vd_issuer_kid v = cl_issuer_kid claims"
      "vd_server_signer v = cl_server_signer claims"
    by (auto simp: verify_delegation_credential_def try_bind_Ok_iff split: sum.splits prod.splits)
  from root obtain key where "resolve_root st (cl_issuer_kid claims) = (st', Some key)"
    "verify_ed25519_with L (h @ ''.'' @ p) s key mcp_re_error.DelegationCredentialInvalid = Ok ()"
    by (auto simp: check_root_signature_def split: if_splits prod.splits option.splits)
  with claims have "root_signed L S jws claims key"
    by (auto simp: decode_json_Ok_iff intro: credential_jws.signed_by [OF seg])
  with v checks_delegate [OF checks] \<open>resolve_root st (cl_issuer_kid claims) = (st', Some key)\<close>
  show thesis by (intro that [of key claims]) simp_all
qed

lemma chain_to_root_Ok:
  assumes "chain_to_root L S credential block resolve expect is_revoked now = Ok verified"
  obtains claims root params where
    "resolve (vd_issuer_kid verified) ResponseSlot = Resolved root" "slot root = ResponseSlot"
    "root_signed L S credential claims (verification_key root)"
    "delegates L claims params is_revoked (vd_delegated_key verified)"
    "dv_now params = now" "dv_verifier_audiences params = de_verifier_audiences expect"
    "dv_expected_profile params = PROFILE_TAG" "dv_expected_audience_hash params = de_expected_audience_hash expect"
    "dv_expected_server_signer params = identity_actor_id (server_signer block)"
    "dv_accepted_epochs params = de_accepted_epochs expect"
    "cl_delegated_kid claims = vd_delegated_kid verified" "cl_issuer_kid claims = vd_issuer_kid verified"
proof -
  let ?params = "\<lparr>dv_now = now, dv_max_clock_skew = de_max_clock_skew expect,
                    dv_verifier_audiences = de_verifier_audiences expect, dv_expected_profile = PROFILE_TAG,
                    dv_expected_audience_hash = de_expected_audience_hash expect,
                    dv_expected_server_signer = identity_actor_id (server_signer block),
                    dv_accepted_epochs = de_accepted_epochs expect\<rparr>"
  from assms obtain cell where
    "verify_delegation_credential L S credential ?params (root_resolver resolve) is_revoked None = (cell, Ok verified)"
    by (auto simp: chain_to_root_def Let_def split: prod.splits)
  then show thesis
  proof (rule verify_delegation_credential_Ok)
    fix claims key
    assume root: "root_resolver resolve None (vd_issuer_kid verified) = (cell, Some key)"
      and claims: "root_signed L S credential claims key" "delegates L claims ?params is_revoked (vd_delegated_key verified)"
        "vd_delegated_kid verified = cl_delegated_kid claims" "vd_issuer_kid verified = cl_issuer_kid claims"
    from root obtain actor where "resolve (vd_issuer_kid verified) ResponseSlot = Resolved actor" "slot actor = ResponseSlot"
      "key = verification_key actor"
      by (auto simp: root_resolver_def resolve_actor_Ok_iff split: sum.splits if_splits)
    with claims show thesis by (intro that [of actor claims ?params]) simp_all
  qed
qed

lemma checked_window:
  assumes "\<exists>member. parse_signature_input member = Ok parsed"
    "check_params (ps_params parsed) policy now require_nonce = Ok (created, expires, nonce, key_id, alg)"
    "policy_ok policy" "is_i64 now"
  shows "created - max_clock_skew policy \<le> now" "now < expires + max_clock_skew policy" "created < expires"
proof -
  note p = check_params_Ok [OF assms(2)]
  have "ints_ok (ps_params parsed)" using assms(1) parse_signature_input_ok(1) by blast
  then have "is_i64 created" "is_i64 expires" using p(2,3) by (simp_all add: ints_ok_def)
  then show "created - max_clock_skew policy \<le> now" "now < expires + max_clock_skew policy" "created < expires"
    using window_admits_exact [OF p(5)] assms(3,4) by (simp_all add: policy_ok_def)
qed

lemma covered_req_iff: "(\<exists>c\<in>set cs. cc_req c \<and> cc_name c = n) \<longleftrightarrow> cc_new_req n \<in> set cs"
  by (auto simp: cc_new_req_def intro!: CoveredComponent.equality bexI [of _ "\<lparr>cc_name = n, cc_req = True\<rparr>"])
     (metis CoveredComponent.surjective old.unit.exhaust)

lemma require_response_components:
  assumes "require_components cs plain req = Ok ()"
  shows "\<forall>n\<in>set plain. cc_new n \<in> set cs" "\<forall>n\<in>set req. cc_new_req n \<in> set cs"
  using assms by (auto simp: require_components_Ok_iff covered_plain_iff covered_req_iff)

text \<open>The steps of the delegated response verifier, with the values they produce.\<close>

lemma delegated_bound_response_steps:
  assumes "delegated_bound_response L J S from_value response request resolve policy expect is_revoked now = Ok v"
  obtains digest parsed created expires nonce key_id alg block credential verified base sig bound where
    "required_header (rsp_headers response) ''content-digest'' = Ok digest"
    "verify_content_digest_sha256 L digest (rsp_body response) = Ok ()"
    "\<exists>member. parse_signature_input member = Ok parsed"
    "require_components (ps_components parsed) REQUIRED_RESPONSE_COMPONENTS REQUIRED_RESPONSE_REQ_COMPONENTS = Ok ()"
    "check_params (ps_params parsed) policy now False = Ok (created, expires, nonce, key_id, alg)"
    "extract_meta_block J from_value (rsp_body response) RESPONSE_EVIDENCE_BLOCK_KEY ''response evidence block'' = Ok block"
    "server_delegation block = Some credential"
    "chain_to_root L S credential block resolve expect is_revoked now = Ok verified"
    "key_id = vd_delegated_kid verified" "keyid (server_signer block) = vd_delegated_kid verified"
    "signature_base (ps_components parsed) (ps_params parsed) (Response response request) = Ok base"
    "verify_under L alg base sig (vd_delegated_key verified) ResponseSigInvalid = Ok ()"
    "request_evidence_of L request = Ok bound"
    "red_alg (rsp_request_evidence block) = digest_alg bound" "red_value (rsp_request_evidence block) = digest_value bound"
    "v = \<lparr>vdr_signature_facts =
            \<lparr>accepted_signer = \<lparr>as_identity = server_signer block, as_verification_key = vd_delegated_key verified\<rparr>,
             facts_base_digest = from_response_signature_base L base\<rparr>,
          vdr_request_evidence_agreement = block_agreement bound block,
          vdr_delegation_issuer_kid = vd_issuer_kid verified\<rparr>"
  using assms unfolding delegated_bound_response_def try_bind_Ok_iff
  by (auto simp: try_bind_Ok_iff split: if_splits intro: that)

text \<open>
  C24. Soundness of delegated responses. When a response is accepted as the answer to a request, its
  body matches its \<open>Content-Digest\<close>; it is signed, over a base that covers its own required
  components and the request's, by a key that a credential delegates to the signer the block names;
  and that credential is signed by a root the resolver vouched for in the response slot, is inside
  its window up to the bounded skew, is meant for this verifier and this profile, names response
  signing as the use of the key, belongs to an accepted trust epoch, and neither the key, the root
  nor the credential itself is revoked. The request evidence in the body is that of this request.
\<close>

theorem delegated_bound_response_sound:
  assumes "delegated_bound_response L J S from_value response request resolve policy expect is_revoked now = Ok v"
    and "policy_ok policy" "is_i64 now"
  shows "\<exists>claims root credential params cs sparams base sig created expires.
      resolve (vdr_delegation_issuer_kid v) ResponseSlot = Resolved root \<and> slot root = ResponseSlot
    \<and> root_signed L S credential claims (verification_key root) \<and> cl_issuer_kid claims = vdr_delegation_issuer_kid v
    \<and> delegates L claims params is_revoked (as_verification_key (accepted_signer (vdr_signature_facts v)))
    \<and> dv_now params = now \<and> dv_verifier_audiences params = de_verifier_audiences expect
    \<and> dv_expected_profile params = PROFILE_TAG \<and> dv_expected_audience_hash params = de_expected_audience_hash expect
    \<and> dv_expected_server_signer params = identity_actor_id (as_identity (accepted_signer (vdr_signature_facts v)))
    \<and> dv_accepted_epochs params = de_accepted_epochs expect
    \<and> keyid (as_identity (accepted_signer (vdr_signature_facts v))) = cl_delegated_kid claims
    \<and> sp_keyid sparams = Some (cl_delegated_kid claims) \<and> sp_tag sparams = Some PROFILE_TAG
    \<and> signature_base cs sparams (Response response request) = Ok base
    \<and> length sig = 64
    \<and> verify_strict L (vk_inner (as_verification_key (accepted_signer (vdr_signature_facts v)))) base sig
    \<and> (\<forall>n\<in>set REQUIRED_RESPONSE_COMPONENTS. cc_new n \<in> set cs)
    \<and> (\<forall>n\<in>set REQUIRED_RESPONSE_REQ_COMPONENTS. cc_new_req n \<in> set cs)
    \<and> (\<exists>digest. required_header (rsp_headers response) ''content-digest'' = Ok digest
         \<and> verify_content_digest_sha256 L digest (rsp_body response) = Ok ())
    \<and> sp_created sparams = Some created \<and> sp_expires sparams = Some expires
    \<and> created - max_clock_skew policy \<le> now \<and> now < expires + max_clock_skew policy
    \<and> request_evidence_of L request = Ok (bound_request_evidence (vdr_request_evidence_agreement v))
    \<and> body_request_evidence (vdr_request_evidence_agreement v) = bound_request_evidence (vdr_request_evidence_agreement v)
    \<and> facts_base_digest (vdr_signature_facts v) = from_response_signature_base L base"
  using assms(1)
proof (rule delegated_bound_response_steps)
  fix digest parsed created expires nonce key_id alg block credential verified base sig bound
  assume digest: "required_header (rsp_headers response) ''content-digest'' = Ok digest"
      "verify_content_digest_sha256 L digest (rsp_body response) = Ok ()"
    and parsed: "\<exists>member. parse_signature_input member = Ok parsed"
    and cover: "require_components (ps_components parsed) REQUIRED_RESPONSE_COMPONENTS REQUIRED_RESPONSE_REQ_COMPONENTS = Ok ()"
    and params: "check_params (ps_params parsed) policy now False = Ok (created, expires, nonce, key_id, alg)"
    and chain: "chain_to_root L S credential block resolve expect is_revoked now = Ok verified"
    and kid: "key_id = vd_delegated_kid verified" "keyid (server_signer block) = vd_delegated_kid verified"
    and base: "signature_base (ps_components parsed) (ps_params parsed) (Response response request) = Ok base"
    and sig: "verify_under L alg base sig (vd_delegated_key verified) ResponseSigInvalid = Ok ()"
    and bound: "request_evidence_of L request = Ok bound"
      "red_alg (rsp_request_evidence block) = digest_alg bound" "red_value (rsp_request_evidence block) = digest_value bound"
    and v: "v = \<lparr>vdr_signature_facts =
            \<lparr>accepted_signer = \<lparr>as_identity = server_signer block, as_verification_key = vd_delegated_key verified\<rparr>,
             facts_base_digest = from_response_signature_base L base\<rparr>,
          vdr_request_evidence_agreement = block_agreement bound block,
          vdr_delegation_issuer_kid = vd_issuer_kid verified\<rparr>"
  from sig obtain b where b: "length b = 64" "verify_strict L (vk_inner (vd_delegated_key verified)) base b"
    by (auto simp: verify_under_Ok_iff)
  note window = checked_window [OF parsed params assms(2,3)]
  note covered = require_response_components [OF cover]
  from chain show ?thesis
  proof (rule chain_to_root_Ok)
    fix claims root dparams
    assume "resolve (vd_issuer_kid verified) ResponseSlot = Resolved root" "slot root = ResponseSlot"
      "root_signed L S credential claims (verification_key root)"
      "delegates L claims dparams is_revoked (vd_delegated_key verified)"
      "dv_now dparams = now" "dv_verifier_audiences dparams = de_verifier_audiences expect"
      "dv_expected_profile dparams = PROFILE_TAG" "dv_expected_audience_hash dparams = de_expected_audience_hash expect"
      "dv_expected_server_signer dparams = identity_actor_id (server_signer block)"
      "dv_accepted_epochs dparams = de_accepted_epochs expect"
      "cl_delegated_kid claims = vd_delegated_kid verified" "cl_issuer_kid claims = vd_issuer_kid verified"
    with b base digest bound kid window covered check_params_Ok(1-4) [OF params]
    show ?thesis
      unfolding v
      by (intro exI [of _ claims] exI [of _ root] exI [of _ credential] exI [of _ dparams]
          exI [of _ "ps_components parsed"] exI [of _ "ps_params parsed"] exI [of _ base] exI [of _ b]
          exI [of _ created] exI [of _ expires]) (simp add: block_agreement_def)
  qed
qed

end
