(* ===== verification/Admission.thy ===== *)
theory Admission
  imports Delegation
begin

text \<open>
  Admission assertions and authorization decisions: \<open>mcp-re-http-profile/src/admission/\<close>,
  \<open>admission_policy.rs\<close>, \<open>authoritative_admission/mod.rs\<close> and \<open>pdp_decision/\<close>. Both are compact
  JWS documents of an issuer the verifier trusts. An admission says that an actor is admitted, at a
  generation, and is checked against the authority's live state when there is one; a decision says
  that an operation of an actor was permitted or denied. The derived serializers are the records
  \<open>admission_lib\<close> and \<open>decision_lib\<close>. Generations are 64-bit counters that are only compared.
\<close>

section \<open>Admission assertions\<close>

definition ADMISSION_TYP :: string where "ADMISSION_TYP = ''mcp-re-admission+jws''"
definition ADMISSION_ALG :: string where "ADMISSION_ALG = ''EdDSA''"

datatype AdmissionStatus = Admitted | Suspended | Revoked

record AdmissionHeader =
  ah_typ :: string
  ah_alg :: string
  ah_kid :: string

record AdmissionClaims =
  ac_iss :: string
  ac_iat :: int
  ac_nbf :: int
  ac_exp :: int
  ac_jti :: string
  ac_aud :: Audience
  ac_profile :: string
  ac_admission_id :: string
  ac_admitted_actor :: string
  ac_generation :: nat
  ac_admitted_state_digest :: string
  ac_status :: AdmissionStatus
  ac_issuer_kid :: string

record AdmissionBinding =
  adb_binding_type :: BindingType
  adb_admission_id :: string
  adb_generation :: nat
  adb_digest_alg :: string
  adb_digest_value :: string

record admission_lib =
  adm_header_to_vec :: "AdmissionHeader \<Rightarrow> bytes option"
  adm_header_from_slice :: "bytes \<Rightarrow> AdmissionHeader option"
  adm_claims_to_vec :: "AdmissionClaims \<Rightarrow> bytes option"
  adm_claims_from_slice :: "bytes \<Rightarrow> AdmissionClaims option"

definition opaque_from :: "crypto_lib \<Rightarrow> AdmissionClaims \<Rightarrow> AdmissionBinding" where
  "opaque_from L assertion =
     \<lparr>adb_binding_type = OpaqueDigest, adb_admission_id = ac_admission_id assertion,
      adb_generation = ac_generation assertion, adb_digest_alg = EVIDENCE_DIGEST_ALG,
      adb_digest_value = b64url_encode L (sha256 L (ac_admitted_state_digest assertion))\<rparr>"

definition matches_state :: "crypto_lib \<Rightarrow> AdmissionBinding \<Rightarrow> string \<Rightarrow> bool" where
  "matches_state L binding admitted_state_digest \<longleftrightarrow>
     adb_binding_type binding = OpaqueDigest \<and> adb_digest_alg binding = EVIDENCE_DIGEST_ALG
     \<and> adb_digest_value binding = b64url_encode L (sha256 L admitted_state_digest)"

record VerifiedAdmission =
  va_admission_id :: string
  va_generation :: nat
  va_admitted_actor :: string
  va_status :: AdmissionStatus

datatype AdmissionVerdict = Live VerifiedAdmission | DegradedCandidate VerifiedAdmission

fun verdict_verified :: "AdmissionVerdict \<Rightarrow> VerifiedAdmission" where
  "verdict_verified (Live v) = v"
| "verdict_verified (DegradedCandidate v) = v"

record AdmissionPolicy =
  ap_max_assertion_age :: int
  ap_max_clock_skew :: int
  ap_degraded_propagation_bound :: int
  ap_allow_degraded_mode :: bool

definition admission_policy_default :: AdmissionPolicy where
  "admission_policy_default = \<lparr>ap_max_assertion_age = 300, ap_max_clock_skew = 30,
     ap_degraded_propagation_bound = 0, ap_allow_degraded_mode = False\<rparr>"

record AuthoritativeAdmission =
  aa_admission_id :: string
  aa_generation :: nat
  aa_status :: AdmissionStatus

definition issue_admission_assertion ::
  "crypto_lib \<Rightarrow> admission_lib \<Rightarrow> AdmissionClaims \<Rightarrow> (bytes \<Rightarrow> HttpProfileError + bytes) \<Rightarrow> HttpProfileError + string" where
  "issue_admission_assertion L A claims sign_root =
     (let header = \<lparr>ah_typ = ADMISSION_TYP, ah_alg = ADMISSION_ALG, ah_kid = ac_issuer_kid claims\<rparr> in
      try_bind (ok_or (adm_header_to_vec A header) (MalformedEvidence ''admission header'')) (\<lambda>hb.
      try_bind (ok_or (adm_claims_to_vec A claims) (MalformedEvidence ''admission claims'')) (\<lambda>pb.
      let h = b64url_encode L hb; p = b64url_encode L pb; signing_input = h @ ''.'' @ p in
      try_bind (sign_root signing_input) (\<lambda>sig.
      Ok (h @ ''.'' @ p @ ''.'' @ b64url_encode L sig)))))"

definition adm_split_compact :: "string \<Rightarrow> HttpProfileError + string \<times> string \<times> string" where
  "adm_split_compact jws =
     (case split_on CHR ''.'' jws of
        [h, p, s] \<Rightarrow> if h \<noteq> [] \<and> p \<noteq> [] \<and> s \<noteq> [] then Ok (h, p, s) else Err (MalformedEvidence ''admission jws shape'')
      | _ \<Rightarrow> Err (MalformedEvidence ''admission jws shape''))"

definition adm_decode_json :: "crypto_lib \<Rightarrow> (bytes \<Rightarrow> 'a option) \<Rightarrow> string \<Rightarrow> HttpProfileError + 'a" where
  "adm_decode_json L read seg =
     try_bind (map_err (\<lambda>_. MalformedEvidence ''admission b64url'') (b64url_decode L seg)) (\<lambda>b.
     ok_or (read b) (MalformedEvidence ''admission json''))"

definition adm_s_seg :: "crypto_lib \<Rightarrow> string \<Rightarrow> HttpProfileError + string" where
  "adm_s_seg L s_seg =
     try_bind (map_err (\<lambda>_. AdmissionAssertionInvalid) (b64url_decode L s_seg)) (\<lambda>b. Ok (b64url_encode L b))"

definition verify_admission_assertion ::
  "crypto_lib \<Rightarrow> admission_lib \<Rightarrow> string \<Rightarrow> string \<Rightarrow> string list \<Rightarrow> AdmissionPolicy \<Rightarrow> int
   \<Rightarrow> (string \<Rightarrow> VerificationKey option) \<Rightarrow> HttpProfileError + AdmissionClaims" where
  "verify_admission_assertion L A compact_jws expected_profile verifier_audiences policy now resolve_issuer =
     try_bind (adm_split_compact compact_jws) (\<lambda>(h_seg, p_seg, s_seg).
     try_bind (adm_decode_json L (adm_header_from_slice A) h_seg) (\<lambda>header.
     if ah_typ header \<noteq> ADMISSION_TYP \<or> ah_alg header \<noteq> ADMISSION_ALG then Err AdmissionAssertionInvalid
     else try_bind (adm_decode_json L (adm_claims_from_slice A) p_seg) (\<lambda>claims.
     if ah_kid header \<noteq> ac_issuer_kid claims then Err AdmissionAssertionInvalid
     else try_bind (ok_or (resolve_issuer (ac_issuer_kid claims)) AdmissionIssuerUntrusted) (\<lambda>root.
     try_bind (adm_s_seg L s_seg) (\<lambda>sig.
     try_bind (map_err (\<lambda>_. AdmissionAssertionInvalid)
                 (verify_ed25519_with L (h_seg @ ''.'' @ p_seg) sig root mcp_re_error.InvalidSignature)) (\<lambda>_.
     if ac_profile claims \<noteq> expected_profile then Err AdmissionAssertionInvalid
     else if \<not> list_ex (audience_contains (ac_aud claims)) verifier_audiences then Err AdmissionAssertionInvalid
     else let skew = ap_max_clock_skew policy in
       if saturating_sub (ac_nbf claims) skew > now \<or> saturating_add (ac_exp claims) skew \<le> now
          \<or> ac_exp claims \<le> ac_nbf claims
       then Err AdmissionAssertionExpired
       else if saturating_sub now (ac_iat claims) > saturating_add (ap_max_assertion_age policy) skew
          \<or> ac_iat claims > saturating_add now skew
       then Err AdmissionAssertionExpired
       else Ok claims))))))"

definition check_admission ::
  "crypto_lib \<Rightarrow> admission_lib \<Rightarrow> AdmissionBinding \<Rightarrow> string \<Rightarrow> string \<Rightarrow> AuthoritativeAdmission option \<Rightarrow> string \<Rightarrow> string list
   \<Rightarrow> AdmissionPolicy \<Rightarrow> int \<Rightarrow> (string \<Rightarrow> VerificationKey option) \<Rightarrow> HttpProfileError + AdmissionVerdict" where
  "check_admission L A binding assertion_jws presenter_actor_id authoritative expected_profile verifier_audiences
     policy now resolve_issuer =
     try_bind (verify_admission_assertion L A assertion_jws expected_profile verifier_audiences policy now resolve_issuer) (\<lambda>claims.
     if ac_admitted_actor claims \<noteq> presenter_actor_id then Err AdmissionBindingMismatch
     else if adb_admission_id binding \<noteq> ac_admission_id claims \<or> adb_generation binding \<noteq> ac_generation claims
       \<or> \<not> matches_state L binding (ac_admitted_state_digest claims)
     then Err AdmissionBindingMismatch
     else if ac_status claims \<noteq> Admitted then Err AdmissionNotCurrent
     else
       let verified = \<lparr>va_admission_id = ac_admission_id claims, va_generation = ac_generation claims,
                       va_admitted_actor = ac_admitted_actor claims, va_status = Admitted\<rparr> in
       case authoritative of
         Some state \<Rightarrow>
           if aa_admission_id state \<noteq> adb_admission_id binding then Err AdmissionStateUnavailable
           else if adb_generation binding \<noteq> aa_generation state then Err AdmissionNotCurrent
           else if aa_status state \<noteq> Admitted then Err AdmissionNotCurrent
           else Ok (Live verified)
       | None \<Rightarrow>
           if \<not> ap_allow_degraded_mode policy then Err AdmissionStateUnavailable
           else if saturating_sub now (ac_iat claims)
                   > saturating_add (ap_degraded_propagation_bound policy) (ap_max_clock_skew policy)
           then Err AdmissionStateUnavailable
           else Ok (DegradedCandidate verified))"

section \<open>Authorization decisions\<close>

definition PDP_DECISION_TYP :: string where "PDP_DECISION_TYP = ''mcp-re-authorization-decision+jws''"
definition PDP_DECISION_ALG :: string where "PDP_DECISION_ALG = ''EdDSA''"

datatype PdpDecisionOutcome = Permit | Deny

datatype DecidedActor =
    Principal (da_trust_domain: string) (da_subject: string)
  | Credential (da_trust_domain: string) (da_subject: string) (da_credential_keyid: string)

record PdpDecisionHeader =
  ph_typ :: string
  ph_alg :: string
  ph_kid :: string

record PdpDecisionClaims =
  pc_iss :: string
  pc_iat :: int
  pc_nbf :: int
  pc_exp :: int
  pc_jti :: string
  pc_aud :: Audience
  pc_profile :: string
  pc_decided_actor :: DecidedActor
  pc_decided_operation :: string
  pc_decided_target :: "string option"
  pc_decision :: PdpDecisionOutcome
  pc_policy_version :: string
  pc_issuer_kid :: string

record decision_lib =
  dec_header_to_vec :: "PdpDecisionHeader \<Rightarrow> bytes option"
  dec_header_from_slice :: "bytes \<Rightarrow> PdpDecisionHeader option"
  dec_claims_to_vec :: "PdpDecisionClaims \<Rightarrow> bytes option"
  dec_claims_from_slice :: "bytes \<Rightarrow> PdpDecisionClaims option"

datatype PdpDecisionRefusal =
    PdpMalformed string | IssuerUntrusted | SignatureInvalid | ProfileMismatch | PdpAudienceMismatch
  | Expired | Stale | IssuedInTheFuture

record PdpDecisionFreshness =
  pf_max_clock_skew :: int
  pf_max_decision_age :: int

definition issue_authorization_decision ::
  "crypto_lib \<Rightarrow> decision_lib \<Rightarrow> PdpDecisionClaims \<Rightarrow> (bytes \<Rightarrow> HttpProfileError + bytes) \<Rightarrow> HttpProfileError + string" where
  "issue_authorization_decision L D claims sign_root =
     (let header = \<lparr>ph_typ = PDP_DECISION_TYP, ph_alg = PDP_DECISION_ALG, ph_kid = pc_issuer_kid claims\<rparr> in
      try_bind (ok_or (dec_header_to_vec D header) (MalformedEvidence ''decision header'')) (\<lambda>hb.
      try_bind (ok_or (dec_claims_to_vec D claims) (MalformedEvidence ''decision claims'')) (\<lambda>pb.
      let h = b64url_encode L hb; p = b64url_encode L pb; signing_input = h @ ''.'' @ p in
      try_bind (sign_root signing_input) (\<lambda>sig.
      Ok (h @ ''.'' @ p @ ''.'' @ b64url_encode L sig)))))"

definition pdp_split_compact :: "string \<Rightarrow> PdpDecisionRefusal + string \<times> string \<times> string" where
  "pdp_split_compact jws =
     (case split_on CHR ''.'' jws of
        [h, p, s] \<Rightarrow> if h \<noteq> [] \<and> p \<noteq> [] \<and> s \<noteq> [] then Ok (h, p, s) else Err (PdpMalformed ''compact jws shape'')
      | _ \<Rightarrow> Err (PdpMalformed ''compact jws shape''))"

definition pdp_decode_json :: "crypto_lib \<Rightarrow> (bytes \<Rightarrow> 'a option) \<Rightarrow> string \<Rightarrow> PdpDecisionRefusal + 'a" where
  "pdp_decode_json L read seg =
     try_bind (map_err (\<lambda>_. PdpMalformed ''base64url'') (b64url_decode L seg)) (\<lambda>b.
     ok_or (read b) (PdpMalformed ''json''))"

definition pdp_s_seg :: "crypto_lib \<Rightarrow> string \<Rightarrow> PdpDecisionRefusal + string" where
  "pdp_s_seg L s_seg = try_bind (map_err (\<lambda>_. PdpMalformed ''signature segment'') (b64url_decode L s_seg)) (\<lambda>_. Ok s_seg)"

definition verify_authorization_decision ::
  "crypto_lib \<Rightarrow> decision_lib \<Rightarrow> string \<Rightarrow> string \<Rightarrow> string list \<Rightarrow> PdpDecisionFreshness \<Rightarrow> int
   \<Rightarrow> (string \<Rightarrow> VerificationKey option) \<Rightarrow> PdpDecisionRefusal + PdpDecisionClaims" where
  "verify_authorization_decision L D compact_jws expected_profile verifier_audiences freshness now resolve_issuer =
     try_bind (pdp_split_compact compact_jws) (\<lambda>(h_seg, p_seg, s_seg).
     try_bind (pdp_decode_json L (dec_header_from_slice D) h_seg) (\<lambda>header.
     if ph_typ header \<noteq> PDP_DECISION_TYP \<or> ph_alg header \<noteq> PDP_DECISION_ALG then Err (PdpMalformed ''typ/alg'')
     else try_bind (pdp_decode_json L (dec_claims_from_slice D) p_seg) (\<lambda>claims.
     if ph_kid header \<noteq> pc_issuer_kid claims then Err (PdpMalformed ''header kid disagrees with claims'')
     else try_bind (ok_or (resolve_issuer (pc_issuer_kid claims)) IssuerUntrusted) (\<lambda>root.
     try_bind (pdp_s_seg L s_seg) (\<lambda>sig.
     try_bind (map_err (\<lambda>_. SignatureInvalid)
                 (verify_ed25519_with L (h_seg @ ''.'' @ p_seg) sig root mcp_re_error.InvalidSignature)) (\<lambda>_.
     if pc_profile claims \<noteq> expected_profile then Err ProfileMismatch
     else if \<not> list_ex (audience_contains (pc_aud claims)) verifier_audiences then Err PdpAudienceMismatch
     else let skew = pf_max_clock_skew freshness in
       if saturating_sub (pc_nbf claims) skew > now \<or> saturating_add (pc_exp claims) skew \<le> now
          \<or> pc_exp claims \<le> pc_nbf claims
       then Err Expired
       else if saturating_sub (pc_iat claims) skew > now then Err IssuedInTheFuture
       else if saturating_sub now (pc_iat claims) > saturating_add (pf_max_decision_age freshness) skew then Err Stale
       else Ok claims))))))"

section \<open>What an accepted document establishes\<close>

interpretation admission_jws: compact_reader adm_split_compact
  by unfold_locales (auto simp: adm_split_compact_def split: list.splits if_splits)

interpretation decision_jws: compact_reader pdp_split_compact
  by unfold_locales (auto simp: pdp_split_compact_def split: list.splits if_splits)

lemma adm_decode_json_Ok_iff: "adm_decode_json L read seg = Ok a \<longleftrightarrow> (\<exists>b. url_decode L seg = Some b \<and> read b = Some a)"
  by (simp add: adm_decode_json_def try_bind_Ok_iff b64url_decode_def)

lemma pdp_decode_json_Ok_iff: "pdp_decode_json L read seg = Ok a \<longleftrightarrow> (\<exists>b. url_decode L seg = Some b \<and> read b = Some a)"
  by (simp add: pdp_decode_json_def try_bind_Ok_iff b64url_decode_def)

text \<open>The signature segment is decoded and encoded again before it is verified.\<close>

lemma adm_s_seg_verifies:
  "adm_s_seg L s = Ok sig \<Longrightarrow> b64_ok L \<Longrightarrow> verify_ed25519_with L m sig root e = Ok () \<Longrightarrow> verify_ed25519_with L m s root e' = Ok ()"
  by (auto simp: adm_s_seg_def try_bind_Ok_iff b64url_decode_def verify_ed25519_with_Ok_iff b64url_encode_def b64_ok_def)

lemma saturating_window:
  assumes "is_i64 now" "\<not> saturating_sub nbf skew > now" "\<not> saturating_add ex skew \<le> now"
  shows "now < ex + skew" "now < i64_max \<Longrightarrow> nbf - skew \<le> now"
  using assms by (auto simp: i64_defs)

lemma saturating_age:
  assumes "\<not> saturating_sub now iat > saturating_add age skew" "0 \<le> age" "0 \<le> skew"
  shows "min i64_max (now - iat) \<le> age + skew"
  using assms by (auto simp: i64_defs)

lemma verify_admission_assertion_Ok:
  assumes "verify_admission_assertion L A jws profile audiences policy now resolve_issuer = Ok claims" "b64_ok L"
  obtains root where "resolve_issuer (ac_issuer_kid claims) = Some root" "jws_signed L (adm_claims_from_slice A) jws claims root"
    "ac_profile claims = profile" "\<exists>a\<in>set audiences. audience_contains (ac_aud claims) a"
    "\<not> saturating_sub (ac_nbf claims) (ap_max_clock_skew policy) > now"
    "\<not> saturating_add (ac_exp claims) (ap_max_clock_skew policy) \<le> now" "ac_nbf claims < ac_exp claims"
    "\<not> saturating_sub now (ac_iat claims) > saturating_add (ap_max_assertion_age policy) (ap_max_clock_skew policy)"
proof -
  from assms(1) obtain h p s sig root where steps: "adm_split_compact jws = Ok (h, p, s)"
    "adm_decode_json L (adm_claims_from_slice A) p = Ok claims" "resolve_issuer (ac_issuer_kid claims) = Some root"
    "adm_s_seg L s = Ok sig" "verify_ed25519_with L (h @ ''.'' @ p) sig root mcp_re_error.InvalidSignature = Ok ()"
    and checks: "ac_profile claims = profile" "list_ex (audience_contains (ac_aud claims)) audiences"
    "\<not> saturating_sub (ac_nbf claims) (ap_max_clock_skew policy) > now"
    "\<not> saturating_add (ac_exp claims) (ap_max_clock_skew policy) \<le> now" "ac_nbf claims < ac_exp claims"
    "\<not> saturating_sub now (ac_iat claims) > saturating_add (ap_max_assertion_age policy) (ap_max_clock_skew policy)"
    unfolding verify_admission_assertion_def try_bind_Ok_iff
    by (auto simp: try_bind_Ok_iff Let_def not_le not_less split: if_splits)
  from adm_s_seg_verifies [OF steps(4) assms(2) steps(5)] steps(1,2)
  have "jws_signed L (adm_claims_from_slice A) jws claims root"
    by (auto simp: adm_decode_json_Ok_iff intro: admission_jws.signed_by)
  with steps(3) checks show thesis by (intro that) (auto simp: list_ex_iff)
qed

text \<open>
  C28. Soundness of an admission. When an admission is accepted, an issuer the caller resolves signed
  its assertion; the assertion is for this profile and one of this verifier's audiences, is within
  its window and its age; it admits exactly the actor that presents the request, at exactly the
  admission id and generation the request is bound to, and the bound digest is that of the admitted
  state. A live verdict means that the authority itself, asked now, holds the same admission at the
  same generation and admitted; a degraded one that there was no answer, that the policy allows
  this, and that the assertion is younger than the propagation bound.
\<close>

theorem check_admission_sound:
  assumes "check_admission L A binding jws presenter authoritative profile audiences policy now resolve_issuer = Ok verdict"
    and "b64_ok L" "is_i64 now" "0 \<le> ap_max_clock_skew policy" "0 \<le> ap_max_assertion_age policy"
      "0 \<le> ap_degraded_propagation_bound policy"
  shows "\<exists>claims root. resolve_issuer (ac_issuer_kid claims) = Some root
    \<and> jws_signed L (adm_claims_from_slice A) jws claims root
    \<and> ac_profile claims = profile \<and> (\<exists>a\<in>set audiences. audience_contains (ac_aud claims) a)
    \<and> ac_status claims = Admitted \<and> ac_admitted_actor claims = presenter
    \<and> now < ac_exp claims + ap_max_clock_skew policy \<and> ac_nbf claims < ac_exp claims
    \<and> (now < i64_max \<longrightarrow> ac_nbf claims - ap_max_clock_skew policy \<le> now)
    \<and> min i64_max (now - ac_iat claims) \<le> ap_max_assertion_age policy + ap_max_clock_skew policy
    \<and> matches_state L binding (ac_admitted_state_digest claims)
    \<and> verdict_verified verdict = \<lparr>va_admission_id = adb_admission_id binding, va_generation = adb_generation binding,
         va_admitted_actor = presenter, va_status = Admitted\<rparr>
    \<and> va_admission_id (verdict_verified verdict) = ac_admission_id claims
    \<and> va_generation (verdict_verified verdict) = ac_generation claims
    \<and> (case verdict of
         Live v \<Rightarrow> authoritative = Some \<lparr>aa_admission_id = va_admission_id v, aa_generation = va_generation v, aa_status = Admitted\<rparr>
       | DegradedCandidate v \<Rightarrow> authoritative = None \<and> ap_allow_degraded_mode policy
           \<and> min i64_max (now - ac_iat claims) \<le> ap_degraded_propagation_bound policy + ap_max_clock_skew policy)"
proof -
  from assms(1) obtain claims where claims: "verify_admission_assertion L A jws profile audiences policy now resolve_issuer = Ok claims"
    and rest: "ac_admitted_actor claims = presenter" "adb_admission_id binding = ac_admission_id claims"
      "adb_generation binding = ac_generation claims" "matches_state L binding (ac_admitted_state_digest claims)"
      "ac_status claims = Admitted"
      "verdict_verified verdict = \<lparr>va_admission_id = ac_admission_id claims, va_generation = ac_generation claims,
         va_admitted_actor = ac_admitted_actor claims, va_status = Admitted\<rparr>"
      "case verdict of
         Live v \<Rightarrow> authoritative = Some \<lparr>aa_admission_id = va_admission_id v, aa_generation = va_generation v, aa_status = Admitted\<rparr>
       | DegradedCandidate v \<Rightarrow> authoritative = None \<and> ap_allow_degraded_mode policy
           \<and> \<not> saturating_sub now (ac_iat claims) > saturating_add (ap_degraded_propagation_bound policy) (ap_max_clock_skew policy)"
    unfolding check_admission_def try_bind_Ok_iff
    by (auto simp: Let_def not_less split: if_splits option.splits)
  from claims assms(2) show ?thesis
  proof (rule verify_admission_assertion_Ok)
    fix root
    assume r: "resolve_issuer (ac_issuer_kid claims) = Some root" "jws_signed L (adm_claims_from_slice A) jws claims root"
      "ac_profile claims = profile" "\<exists>a\<in>set audiences. audience_contains (ac_aud claims) a"
      and w: "\<not> saturating_sub (ac_nbf claims) (ap_max_clock_skew policy) > now"
      "\<not> saturating_add (ac_exp claims) (ap_max_clock_skew policy) \<le> now" "ac_nbf claims < ac_exp claims"
      "\<not> saturating_sub now (ac_iat claims) > saturating_add (ap_max_assertion_age policy) (ap_max_clock_skew policy)"
    note window = saturating_window [OF assms(3) w(1,2)] saturating_age [OF w(4) assms(5,4)]
    have "case verdict of Live v \<Rightarrow> True | DegradedCandidate v \<Rightarrow>
        min i64_max (now - ac_iat claims) \<le> ap_degraded_propagation_bound policy + ap_max_clock_skew policy"
      using rest(7) saturating_age [OF _ assms(6,4), of now "ac_iat claims"] by (auto split: AdmissionVerdict.splits)
    with rest r w(3) window show ?thesis
      by (intro exI [of _ claims] exI [of _ root]) (auto split: AdmissionVerdict.splits)
  qed
qed

lemma pdp_s_seg_eq: "pdp_s_seg L s = Ok sig \<Longrightarrow> sig = s"
  by (auto simp: pdp_s_seg_def try_bind_Ok_iff)

text \<open>
  C31. Soundness of an authorization decision. The claims of an accepted decision are those an issuer
  the caller resolves has signed; they are for this profile and one of this verifier's audiences,
  within their window, not from the future beyond the skew, and no older than the policy allows.
\<close>

theorem verify_authorization_decision_sound:
  assumes "verify_authorization_decision L D jws profile audiences freshness now resolve_issuer = Ok claims"
    and "is_i64 now" "0 \<le> pf_max_clock_skew freshness" "0 \<le> pf_max_decision_age freshness"
  shows "\<exists>root. resolve_issuer (pc_issuer_kid claims) = Some root
    \<and> jws_signed L (dec_claims_from_slice D) jws claims root
    \<and> pc_profile claims = profile \<and> (\<exists>a\<in>set audiences. audience_contains (pc_aud claims) a)
    \<and> now < pc_exp claims + pf_max_clock_skew freshness \<and> pc_nbf claims < pc_exp claims
    \<and> (now < i64_max \<longrightarrow> pc_nbf claims - pf_max_clock_skew freshness \<le> now \<and> pc_iat claims - pf_max_clock_skew freshness \<le> now)
    \<and> min i64_max (now - pc_iat claims) \<le> pf_max_decision_age freshness + pf_max_clock_skew freshness"
proof -
  from assms(1) obtain h p s sig root where steps: "pdp_split_compact jws = Ok (h, p, s)"
    "pdp_decode_json L (dec_claims_from_slice D) p = Ok claims" "resolve_issuer (pc_issuer_kid claims) = Some root"
    "pdp_s_seg L s = Ok sig" "verify_ed25519_with L (h @ ''.'' @ p) sig root mcp_re_error.InvalidSignature = Ok ()"
    and checks: "pc_profile claims = profile" "list_ex (audience_contains (pc_aud claims)) audiences"
      "pc_nbf claims < pc_exp claims"
    and w: "\<not> saturating_sub (pc_nbf claims) (pf_max_clock_skew freshness) > now"
      "\<not> saturating_add (pc_exp claims) (pf_max_clock_skew freshness) \<le> now"
      "\<not> saturating_sub (pc_iat claims) (pf_max_clock_skew freshness) > now"
      "\<not> saturating_sub now (pc_iat claims) > saturating_add (pf_max_decision_age freshness) (pf_max_clock_skew freshness)"
    unfolding verify_authorization_decision_def try_bind_Ok_iff
    by (auto simp: try_bind_Ok_iff Let_def not_le not_less split: if_splits)
  have "jws_signed L (dec_claims_from_slice D) jws claims root"
    using steps pdp_s_seg_eq [OF steps(4)] by (auto simp: pdp_decode_json_Ok_iff intro: decision_jws.signed_by)
  then show ?thesis
    using steps(3) checks saturating_window [OF assms(2) w(1,2)] saturating_window(2) [OF assms(2) w(3,2)]
      saturating_age [OF w(4) assms(4,3)]
    by (intro exI [of _ root]) (auto simp: list_ex_iff)
qed

section \<open>What is issued is accepted\<close>

text \<open>
  C30. An issued admission is accepted. An assertion signed by an issuer the verifier resolves, for the
  presenting actor, presented with the binding made from it and while the authority holds the same
  generation as admitted, gives the live verdict, as long as the assertion is current.
\<close>

theorem issued_admission_accepted:
  assumes "issue_admission_assertion L A claims sign_root = Ok jws"
    and "\<And>m sig. sign_root m = Ok sig \<Longrightarrow> length sig = 64 \<and> verify_strict L (vk_inner root) m sig"
    and "b64_ok L" "url_alphabet L"
      "serde_ok (adm_header_to_vec A) (adm_header_from_slice A)" "serde_ok (adm_claims_to_vec A) (adm_claims_from_slice A)"
    and "resolve_issuer (ac_issuer_kid claims) = Some root" "ac_status claims = Admitted"
      "a \<in> set audiences" "audience_contains (ac_aud claims) a"
    and "0 \<le> ap_max_clock_skew policy" "ac_nbf claims \<le> now" "now < ac_exp claims" "ac_iat claims \<le> now"
      "now - ac_iat claims \<le> ap_max_assertion_age policy" "is_i64 now" "is_i64 (ac_nbf claims)" "is_i64 (ac_exp claims)"
      "is_i64 (ac_iat claims)" "is_i64 (ap_max_assertion_age policy + ap_max_clock_skew policy)"
    and "state = \<lparr>aa_admission_id = ac_admission_id claims, aa_generation = ac_generation claims, aa_status = Admitted\<rparr>"
  shows "check_admission L A (opaque_from L claims) jws (ac_admitted_actor claims) (Some state) (ac_profile claims) audiences
      policy now resolve_issuer
    = Ok (Live \<lparr>va_admission_id = ac_admission_id claims, va_generation = ac_generation claims,
               va_admitted_actor = ac_admitted_actor claims, va_status = Admitted\<rparr>)"
proof -
  let ?header = "\<lparr>ah_typ = ADMISSION_TYP, ah_alg = ADMISSION_ALG, ah_kid = ac_issuer_kid claims\<rparr>"
  from assms(1) obtain hb pb sig where b: "adm_header_to_vec A ?header = Some hb" "adm_claims_to_vec A claims = Some pb"
    and sig: "sign_root (b64url_encode L hb @ ''.'' @ b64url_encode L pb) = Ok sig"
    and jws: "jws = b64url_encode L hb @ ''.'' @ b64url_encode L pb @ ''.'' @ b64url_encode L sig"
    by (auto simp: issue_admission_assertion_def try_bind_Ok_iff Let_def)
  have read: "hb \<noteq> []" "adm_header_from_slice A hb = Some ?header" "pb \<noteq> []" "adm_claims_from_slice A pb = Some claims"
    using b assms(5,6) by (auto simp: serde_ok_def)
  note s = assms(2) [OF sig]
  have "adm_split_compact jws = Ok (b64url_encode L hb, b64url_encode L pb, b64url_encode L sig)"
    using admission_jws.split_encoded [OF assms(4) read(1,3)] s unfolding jws by (cases sig) simp_all
  moreover have "adm_s_seg L (b64url_encode L sig) = Ok (b64url_encode L sig)" using assms(3) by (simp add: adm_s_seg_def)
  moreover have "verify_ed25519_with L (b64url_encode L hb @ ''.'' @ b64url_encode L pb) (b64url_encode L sig) root
      mcp_re_error.InvalidSignature = Ok ()"
    using s assms(3) by (simp add: verify_ed25519_with_Ok_iff b64url_encode_def b64_ok_def)
  moreover have "\<not> saturating_sub (ac_nbf claims) (ap_max_clock_skew policy) > now"
    "\<not> saturating_add (ac_exp claims) (ap_max_clock_skew policy) \<le> now" "\<not> ac_exp claims \<le> ac_nbf claims"
    "\<not> saturating_sub now (ac_iat claims) > saturating_add (ap_max_assertion_age policy) (ap_max_clock_skew policy)"
    "\<not> ac_iat claims > saturating_add now (ap_max_clock_skew policy)"
    using assms(11-20) by (auto simp: i64_defs)
  moreover have "list_ex (audience_contains (ac_aud claims)) audiences" using assms(9,10) by (auto simp: list_ex_iff)
  ultimately have "verify_admission_assertion L A jws (ac_profile claims) audiences policy now resolve_issuer = Ok claims"
    using read assms(3,7)
    by (simp add: verify_admission_assertion_def adm_decode_json_def)
  then show ?thesis
    using assms(8,21) by (simp add: check_admission_def opaque_from_def matches_state_def)
qed

end
