(* ===== verification/Sign.thy ===== *)
theory Sign
  imports Floor_Sound
begin

text \<open>
  Signing: \<open>mcp-re-http-profile/src/sign.rs\<close>. A signer mutates the message it is given; the model
  returns the message as the code leaves it, beside the result. The signature itself is an
  argument: \<open>sign_base\<close> for a custody-held key, \<open>local_sig\<close> for a key in memory.
\<close>

definition set_header :: "headers \<Rightarrow> string \<Rightarrow> string \<Rightarrow> headers" where
  "set_header hs name v = filter (\<lambda>(k, _). \<not> eq_ignore_ascii_case k name) hs @ [(name, v)]"

definition ED25519_SIGNATURE_LEN :: nat where "ED25519_SIGNATURE_LEN = 64"

definition base64_standard_encode :: "crypto_lib \<Rightarrow> bytes \<Rightarrow> string" where
  "base64_standard_encode L b = std_encode L b"

definition emit_signature ::
  "crypto_lib \<Rightarrow> headers \<Rightarrow> string \<Rightarrow> CoveredComponent list \<Rightarrow> SignatureParams \<Rightarrow> bytes
   \<Rightarrow> (bytes \<Rightarrow> HttpProfileError + bytes) \<Rightarrow> headers \<times> (HttpProfileError + unit)" where
  "emit_signature L hs label components params base sign_base =
     (case sign_base base of
        Inl e \<Rightarrow> (hs, Err e)
      | Inr sig_bytes \<Rightarrow>
          if length sig_bytes \<noteq> ED25519_SIGNATURE_LEN then (hs, Err HttpProfileError.InvalidSignature)
          else case serialize_with params components of
                 Inl e \<Rightarrow> (hs, Err e)
               | Inr s \<Rightarrow>
                   let hs = set_header hs ''Signature-Input'' (label @ ''='' @ s);
                       hs = set_header hs ''Signature'' (label @ ''=:'' @ base64_standard_encode L sig_bytes @ '':'')
                   in (hs, Ok ()))"

definition local_sig :: "crypto_lib \<Rightarrow> SigningKey \<Rightarrow> bytes \<Rightarrow> HttpProfileError + bytes" where
  "local_sig L key base = map_err (\<lambda>_. HttpProfileError.InvalidSignature) (b64url_decode L (sign_b64url L key base))"

fun conditional_components :: "headers \<Rightarrow> string list \<Rightarrow> HttpProfileError + CoveredComponent list" where
  "conditional_components hs [] = Ok []"
| "conditional_components hs (h # names) =
     try_bind (single_header hs h) (\<lambda>v.
     try_bind (conditional_components hs names) (\<lambda>cs.
     Ok ((if v \<noteq> None then [cc_new h] else []) @ cs)))"

definition conditional_request_components :: "headers \<Rightarrow> HttpProfileError + CoveredComponent list" where
  "conditional_request_components hs = conditional_components hs conditionally_covered_request_headers"

definition sign_request_components :: "HttpRequest \<Rightarrow> HttpProfileError + CoveredComponent list" where
  "sign_request_components request =
     try_bind (conditional_request_components (rq_headers request)) (\<lambda>cs.
     Ok (map cc_new REQUIRED_REQUEST_COMPONENTS @ cs))"

definition sign_request_with_signer ::
  "crypto_lib \<Rightarrow> HttpRequest \<Rightarrow> (bytes \<Rightarrow> HttpProfileError + bytes) \<Rightarrow> string \<Rightarrow> int \<Rightarrow> int \<Rightarrow> string
   \<Rightarrow> HttpRequest \<times> (HttpProfileError + RequestEvidence)" where
  "sign_request_with_signer L request sign_base key_id created expires nonce =
     (case reject_content_encoding (rq_headers request) of
        Inl e \<Rightarrow> (request, Err e)
      | Inr _ \<Rightarrow>
          let request = request\<lparr>rq_headers := set_header (rq_headers request) ''Content-Digest''
                                   (content_digest_sha256 L (rq_body request))\<rparr>;
              params = \<lparr>sp_created = Some created, sp_expires = Some expires, sp_nonce = Some nonce,
                        sp_keyid = Some key_id, sp_alg = Some ALG_ED25519, sp_tag = Some PROFILE_TAG\<rparr>
          in case sign_request_components request of
               Inl e \<Rightarrow> (request, Err e)
             | Inr components \<Rightarrow>
                 (case signature_base components params (Request request) of
                    Inl e \<Rightarrow> (request, Err e)
                  | Inr base \<Rightarrow>
                      (case emit_signature L (rq_headers request) REQUEST_LABEL components params base sign_base of
                         (hs, Inl e) \<Rightarrow> (request\<lparr>rq_headers := hs\<rparr>, Err e)
                       | (hs, Inr _) \<Rightarrow> (request\<lparr>rq_headers := hs\<rparr>, Ok (from_signature_base L base)))))"

definition sign_request ::
  "crypto_lib \<Rightarrow> HttpRequest \<Rightarrow> SigningKey \<Rightarrow> string \<Rightarrow> int \<Rightarrow> int \<Rightarrow> string
   \<Rightarrow> HttpRequest \<times> (HttpProfileError + RequestEvidence)" where
  "sign_request L request key key_id created expires nonce =
     sign_request_with_signer L request (local_sig L key) key_id created expires nonce"

definition sign_request_full_with_signer ::
  "crypto_lib \<Rightarrow> json_lib \<Rightarrow> HttpRequest \<Rightarrow> json \<Rightarrow> (bytes \<Rightarrow> HttpProfileError + bytes) \<Rightarrow> string \<Rightarrow> int \<Rightarrow> int \<Rightarrow> string
   \<Rightarrow> HttpRequest \<times> (HttpProfileError + RequestEvidence)" where
  "sign_request_full_with_signer L J request block sign_base key_id created expires nonce =
     (case insert_meta_block J (rq_body request) REQUEST_EVIDENCE_BLOCK_KEY block of
        Inl e \<Rightarrow> (request, Err e)
      | Inr body \<Rightarrow> sign_request_with_signer L (request\<lparr>rq_body := body\<rparr>) sign_base key_id created expires nonce)"

definition sign_request_full ::
  "crypto_lib \<Rightarrow> json_lib \<Rightarrow> HttpRequest \<Rightarrow> json \<Rightarrow> SigningKey \<Rightarrow> string \<Rightarrow> int \<Rightarrow> int \<Rightarrow> string
   \<Rightarrow> HttpRequest \<times> (HttpProfileError + RequestEvidence)" where
  "sign_request_full L J request block key key_id created expires nonce =
     (case insert_meta_block J (rq_body request) REQUEST_EVIDENCE_BLOCK_KEY block of
        Inl e \<Rightarrow> (request, Err e)
      | Inr body \<Rightarrow> sign_request L (request\<lparr>rq_body := body\<rparr>) key key_id created expires nonce)"

definition response_params :: "string \<Rightarrow> int \<Rightarrow> int \<Rightarrow> SignatureParams" where
  "response_params key_id created expires =
     \<lparr>sp_created = Some created, sp_expires = Some expires, sp_nonce = None, sp_keyid = Some key_id,
      sp_alg = Some ALG_ED25519, sp_tag = Some PROFILE_TAG\<rparr>"

definition sign_response_with_signer ::
  "crypto_lib \<Rightarrow> HttpResponse \<Rightarrow> HttpRequest \<Rightarrow> (bytes \<Rightarrow> HttpProfileError + bytes) \<Rightarrow> string \<Rightarrow> int \<Rightarrow> int
   \<Rightarrow> HttpResponse \<times> (HttpProfileError + bytes)" where
  "sign_response_with_signer L response request sign_base key_id created expires =
     (case reject_content_encoding (rsp_headers response) of
        Inl e \<Rightarrow> (response, Err e)
      | Inr _ \<Rightarrow>
          let response = response\<lparr>rsp_headers := set_header (rsp_headers response) ''Content-Digest''
                                     (content_digest_sha256 L (rsp_body response))\<rparr>;
              components = map cc_new REQUIRED_RESPONSE_COMPONENTS @ map cc_new_req REQUIRED_RESPONSE_REQ_COMPONENTS;
              params = response_params key_id created expires
          in case signature_base components params (Response response request) of
               Inl e \<Rightarrow> (response, Err e)
             | Inr base \<Rightarrow>
                 (case emit_signature L (rsp_headers response) RESPONSE_LABEL components params base sign_base of
                    (hs, Inl e) \<Rightarrow> (response\<lparr>rsp_headers := hs\<rparr>, Err e)
                  | (hs, Inr _) \<Rightarrow> (response\<lparr>rsp_headers := hs\<rparr>, Ok base)))"

definition sign_response_unbound ::
  "crypto_lib \<Rightarrow> HttpResponse \<Rightarrow> SigningKey \<Rightarrow> string \<Rightarrow> int \<Rightarrow> int \<Rightarrow> HttpResponse \<times> (HttpProfileError + unit)" where
  "sign_response_unbound L response key key_id created expires =
     (case reject_content_encoding (rsp_headers response) of
        Inl e \<Rightarrow> (response, Err e)
      | Inr _ \<Rightarrow>
          let response = response\<lparr>rsp_headers := set_header (rsp_headers response) ''Content-Digest''
                                     (content_digest_sha256 L (rsp_body response))\<rparr>;
              components = map cc_new REQUIRED_RESPONSE_COMPONENTS;
              params = response_params key_id created expires
          in case signature_base components params (ResponseOnly response) of
               Inl e \<Rightarrow> (response, Err e)
             | Inr base \<Rightarrow>
                 (case emit_signature L (rsp_headers response) RESPONSE_LABEL components params base (local_sig L key) of
                    (hs, r) \<Rightarrow> (response\<lparr>rsp_headers := hs\<rparr>, r)))"

text \<open>\<open>to_value\<close> is the derived serializer of the response evidence block.\<close>

definition delegated_block :: "ActorIdentity \<Rightarrow> string \<Rightarrow> RequestEvidence \<Rightarrow> HttpResponseEvidenceBlock" where
  "delegated_block signer delegation ev =
     \<lparr>rsp_block_profile = PROFILE_TAG, server_signer = signer, server_delegation = Some delegation,
      rsp_request_evidence = \<lparr>red_alg = digest_alg ev, red_value = digest_value ev\<rparr>\<rparr>"

definition sign_delegated_response_full ::
  "crypto_lib \<Rightarrow> json_lib \<Rightarrow> (HttpResponseEvidenceBlock \<Rightarrow> json) \<Rightarrow> HttpResponse \<Rightarrow> HttpRequest \<Rightarrow> RequestEvidence
   \<Rightarrow> ActorIdentity \<Rightarrow> string \<Rightarrow> SigningKey \<Rightarrow> string \<Rightarrow> int \<Rightarrow> int \<Rightarrow> HttpResponse \<times> (HttpProfileError + bytes)" where
  "sign_delegated_response_full L J to_value response request ev signer delegation key kid created expires =
     (case insert_meta_block J (rsp_body response) RESPONSE_EVIDENCE_BLOCK_KEY (to_value (delegated_block signer delegation ev)) of
        Inl e \<Rightarrow> (response, Err e)
      | Inr body \<Rightarrow> sign_response_with_signer L (response\<lparr>rsp_body := body\<rparr>) request (local_sig L key) kid created expires)"

definition sign_delegated_response_unbound ::
  "crypto_lib \<Rightarrow> json_lib \<Rightarrow> (HttpResponseEvidenceBlock \<Rightarrow> json) \<Rightarrow> HttpResponse \<Rightarrow> ActorIdentity \<Rightarrow> string
   \<Rightarrow> RequestEvidence \<Rightarrow> SigningKey \<Rightarrow> string \<Rightarrow> int \<Rightarrow> int \<Rightarrow> HttpResponse \<times> (HttpProfileError + unit)" where
  "sign_delegated_response_unbound L J to_value response signer delegation ev key kid created expires =
     (case insert_meta_block J (rsp_body response) RESPONSE_EVIDENCE_BLOCK_KEY (to_value (delegated_block signer delegation ev)) of
        Inl e \<Rightarrow> (response, Err e)
      | Inr body \<Rightarrow> sign_response_unbound L (response\<lparr>rsp_body := body\<rparr>) key kid created expires)"

end
