(* ===== verification/Custody.thy ===== *)
theory Custody
  imports Delegation Sign Core_Calendar
begin

text \<open>
  Custody of the delegated response key: \<open>mcp-re-http-profile/src/custody/\<close>. A custody asks a root
  for a credential over a key it has just generated, keeps the key while the credential lasts, asks
  for a successor before it expires, paces its attempts while the root refuses, and signs responses
  with nothing else. The root and the key factory are the closures \<open>issue\<close> and \<open>factory\<close> of the
  code, each with a state of its own that the custody threads through its calls.
\<close>

section \<open>The rotation window\<close>

datatype KeyWindowError = NonPositiveOverlap | OverlapNotInsideTtl

record DelegatedKeyWindow =
  kw_ttl :: int
  kw_overlap :: int

definition window_of :: "int \<Rightarrow> int \<Rightarrow> KeyWindowError + DelegatedKeyWindow" where
  "window_of ttl overlap =
     (if overlap \<le> 0 then Err NonPositiveOverlap
      else if overlap \<ge> ttl then Err OverlapNotInsideTtl
      else Ok \<lparr>kw_ttl = ttl, kw_overlap = overlap\<rparr>)"

section \<open>Terms of issuance\<close>

datatype CustodyError = FailClosedIssuance | CustodySign HttpProfileError

definition u64_max :: nat where "u64_max = 18446744073709551615"

definition ISSUANCE_ATTEMPTS_PER_OVERLAP :: int where "ISSUANCE_ATTEMPTS_PER_OVERLAP = 10"
definition MIN_ISSUANCE_RETRY_SECS :: int where "MIN_ISSUANCE_RETRY_SECS = 1"

definition rotation_due :: "int \<Rightarrow> int \<Rightarrow> int \<Rightarrow> bool" where
  "rotation_due exp overlap now = (case checked_sub exp overlap of None \<Rightarrow> True | Some at \<Rightarrow> now \<ge> at)"

definition mintable :: "int \<Rightarrow> int \<Rightarrow> nat \<Rightarrow> CustodyError + int \<times> nat" where
  "mintable now ttl counter =
     (case checked_add now ttl of
        None \<Rightarrow> Err FailClosedIssuance
      | Some exp \<Rightarrow> if counter < u64_max then Ok (exp, counter + 1) else Err FailClosedIssuance)"

definition signature_valid_until :: "int \<Rightarrow> int \<Rightarrow> int \<Rightarrow> int" where
  "signature_valid_until now ttl exp = (case checked_add now ttl of None \<Rightarrow> exp | Some until \<Rightarrow> min until exp)"

definition retry_interval :: "int \<Rightarrow> int" where
  "retry_interval overlap = max (overlap sdiv ISSUANCE_ATTEMPTS_PER_OVERLAP) MIN_ISSUANCE_RETRY_SECS"

definition next_attempt_after :: "int \<Rightarrow> int \<Rightarrow> int" where
  "next_attempt_after now overlap = saturating_add now (retry_interval overlap)"

section \<open>The active key\<close>

record ActiveDelegatedKey =
  ak_key :: SigningKey
  ak_server_signer :: ActorIdentity
  ak_credential :: string
  ak_delegated_kid :: string
  ak_jti :: string
  ak_nbf :: int
  ak_exp :: int

definition issued ::
  "crypto_lib \<Rightarrow> jws_lib \<Rightarrow> SigningKey \<Rightarrow> ActorIdentity \<Rightarrow> DelegationHeader \<times> DelegationClaims \<Rightarrow> string
   \<Rightarrow> HttpProfileError + ActiveDelegatedKey" where
  "issued L S key signer requested credential =
     (case requested of (requested_header, requested_claims) \<Rightarrow>
      try_bind (parse_credential L S credential) (\<lambda>(header, claims).
      try_bind (delegated_key L claims) (\<lambda>dk.
      if vk_inner dk \<noteq> vk_inner (public_key L key) then Err HttpProfileError.DelegationCredentialInvalid
      else if cl_server_signer claims \<noteq> identity_actor_id signer \<or> keyid signer \<noteq> cl_delegated_kid claims
      then Err HttpProfileError.DelegationCredentialInvalid
      else let as_requested = requested_claims\<lparr>cl_iat := cl_iat claims, cl_nbf := cl_nbf claims, cl_exp := cl_exp claims\<rparr> in
        if header \<noteq> requested_header \<or> claims \<noteq> as_requested then Err HttpProfileError.DelegationCredentialInvalid
        else if cl_nbf claims \<ge> cl_exp claims then Err HttpProfileError.DelegationCredentialInvalid
        else Ok \<lparr>ak_key = key, ak_server_signer = signer, ak_credential = credential,
                 ak_delegated_kid = cl_delegated_kid claims, ak_jti = cl_jti claims,
                 ak_nbf = cl_nbf claims, ak_exp = cl_exp claims\<rparr>)))"

section \<open>The custody\<close>


record KeyLifecycleEvent =
  ev_event_type :: string
  ev_delegated_kid :: string
  ev_issuer_kid :: string
  ev_nbf :: int
  ev_exp :: int
  ev_jti :: string
  ev_at :: int

record CustodyConfig =
  cc_issuer_kid :: string
  cc_iss :: string
  cc_profile :: string
  cc_aud :: string
  cc_audience_hash :: string
  cc_trust_epoch :: string
  cc_server_role :: string
  cc_server_trust_domain :: string
  cc_server_subject :: string
  cc_window :: DelegatedKeyWindow

record ('i, 'f) custody =
  cu_cfg :: CustodyConfig
  cu_issuer :: 'i
  cu_factory :: 'f
  cu_active :: "ActiveDelegatedKey option"
  cu_audit :: "KeyLifecycleEvent list"
  cu_root_invocations :: nat
  cu_counter :: nat
  cu_next_attempt_at :: "int option"

definition custody_new :: "CustodyConfig \<Rightarrow> 'i \<Rightarrow> 'f \<Rightarrow> ('i, 'f) custody" where
  "custody_new cfg issuer fac =
     \<lparr>cu_cfg = cfg, cu_issuer = issuer, cu_factory = fac, cu_active = None, cu_audit = [],
      cu_root_invocations = 0, cu_counter = 0, cu_next_attempt_at = None\<rparr>"

definition set_trust_epoch :: "('i, 'f) custody \<Rightarrow> string \<Rightarrow> ('i, 'f) custody" where
  "set_trust_epoch c epoch = c\<lparr>cu_cfg := (cu_cfg c)\<lparr>cc_trust_epoch := epoch\<rparr>\<rparr>"

definition retired :: "('i, 'f) custody \<Rightarrow> ActiveDelegatedKey \<Rightarrow> int \<Rightarrow> KeyLifecycleEvent" where
  "retired c a now =
     \<lparr>ev_event_type = DELEGATED_KEY_RETIRED, ev_delegated_kid = ak_delegated_kid a,
      ev_issuer_kid = cc_issuer_kid (cu_cfg c), ev_nbf = ak_nbf a, ev_exp = ak_exp a, ev_jti = ak_jti a, ev_at = now\<rparr>"

definition build_claims ::
  "crypto_lib \<Rightarrow> ('i, 'f) custody \<Rightarrow> int \<Rightarrow> int \<Rightarrow> SigningKey \<Rightarrow> ActorIdentity \<times> DelegationHeader \<times> DelegationClaims" where
  "build_claims L c now exp key =
     (let cfg = cu_cfg c;
          public_key_b64url = vk_to_b64url L (public_key L key);
          kid = jwk_thumbprint_ed25519 L public_key_b64url;
          signer = \<lparr>role = cc_server_role cfg, trust_domain = cc_server_trust_domain cfg,
                    subject = cc_server_subject cfg, keyid = kid\<rparr>;
          header = \<lparr>dh_typ = DELEGATION_TYP, dh_alg = DELEGATION_ALG, dh_kid = cc_issuer_kid cfg\<rparr>;
          claims = \<lparr>cl_iss = cc_iss cfg, cl_iat = now, cl_nbf = now, cl_exp = exp,
                    cl_jti = cc_issuer_kid cfg @ ''#'' @ kid @ ''#'' @ show_nat (cu_counter c),
                    cl_aud = One (cc_aud cfg), cl_profile = cc_profile cfg, cl_audience_hash = cc_audience_hash cfg,
                    cl_server_signer = identity_actor_id signer, cl_key_use = KEY_USE_RESPONSE_SIGNING,
                    cl_delegated_kid = kid, cl_issuer_kid = cc_issuer_kid cfg, cl_trust_epoch = cc_trust_epoch cfg,
                    cl_cnf = \<lparr>cnf_jwk = \<lparr>jwk_kty = JWK_KTY_OKP, jwk_crv = JWK_CRV_ED25519, jwk_kid = kid,
                                         jwk_x = public_key_b64url\<rparr>\<rparr>\<rparr>
      in (signer, header, claims))"

definition adopt :: "('i, 'f) custody \<Rightarrow> ActiveDelegatedKey \<Rightarrow> bool \<Rightarrow> int \<Rightarrow> ('i, 'f) custody" where
  "adopt c active is_rotation now =
     c\<lparr>cu_next_attempt_at := None,
       cu_audit := cu_audit c @
         [\<lparr>ev_event_type = (if is_rotation then DELEGATED_KEY_ROTATED else DELEGATED_KEY_ISSUED),
           ev_delegated_kid = ak_delegated_kid active, ev_issuer_kid = cc_issuer_kid (cu_cfg c),
           ev_nbf = ak_nbf active, ev_exp = ak_exp active, ev_jti = ak_jti active, ev_at = now\<rparr>],
       cu_active := Some active\<rparr>"

definition hold_off :: "('i, 'f) custody \<Rightarrow> int \<Rightarrow> ('i, 'f) custody \<times> (CustodyError + unit)" where
  "hold_off c now =
     (let c = c\<lparr>cu_next_attempt_at := Some (next_attempt_after now (kw_overlap (cc_window (cu_cfg c))))\<rparr> in
      case cu_active c of
        None \<Rightarrow> (c, Err FailClosedIssuance)
      | Some a \<Rightarrow>
          if now < ak_exp a then (c, Ok ())
          else (c\<lparr>cu_active := None, cu_audit := cu_audit c @ [retired c a now]\<rparr>, Err FailClosedIssuance))"

definition attempt_allowed :: "('i, 'f) custody \<Rightarrow> int \<Rightarrow> bool" where
  "attempt_allowed c now = (case cu_next_attempt_at c of None \<Rightarrow> True | Some at \<Rightarrow> now \<ge> at)"

definition attempt_issuance ::
  "crypto_lib \<Rightarrow> jws_lib \<Rightarrow> ('i \<Rightarrow> DelegationHeader \<Rightarrow> DelegationClaims \<Rightarrow> 'i \<times> string option) \<Rightarrow> ('f \<Rightarrow> 'f \<times> SigningKey)
   \<Rightarrow> ('i, 'f) custody \<Rightarrow> int \<Rightarrow> ('i, 'f) custody \<times> (CustodyError + unit)" where
  "attempt_issuance L S issue factory c now =
     (let is_rotation = (case cu_active c of None \<Rightarrow> False | Some a \<Rightarrow> now < ak_exp a) in
      case mintable now (kw_ttl (cc_window (cu_cfg c))) (cu_counter c) of
        Inl e \<Rightarrow> (c, Err e)
      | Inr (exp, next_counter) \<Rightarrow>
          (case factory (cu_factory c) of (fac, key) \<Rightarrow>
           let c = c\<lparr>cu_factory := fac, cu_counter := next_counter\<rparr> in
           case build_claims L c now exp key of (signer, header, claims) \<Rightarrow>
           let c = c\<lparr>cu_root_invocations := min u64_max (cu_root_invocations c + 1)\<rparr> in
           case issue (cu_issuer c) header claims of (iss, answer) \<Rightarrow>
           let c = c\<lparr>cu_issuer := iss\<rparr> in
           case (case answer of
                   None \<Rightarrow> None
                 | Some credential \<Rightarrow> (case issued L S key signer (header, claims) credential of
                                         Inl _ \<Rightarrow> None | Inr active \<Rightarrow> Some active)) of
             Some active \<Rightarrow> (adopt c active is_rotation now, Ok ())
           | None \<Rightarrow> hold_off c now))"

definition issue_if ::
  "crypto_lib \<Rightarrow> jws_lib \<Rightarrow> ('i \<Rightarrow> DelegationHeader \<Rightarrow> DelegationClaims \<Rightarrow> 'i \<times> string option) \<Rightarrow> ('f \<Rightarrow> 'f \<times> SigningKey)
   \<Rightarrow> ('i, 'f) custody \<Rightarrow> bool \<Rightarrow> int \<Rightarrow> ('i, 'f) custody \<times> (CustodyError + unit)" where
  "issue_if L S issue factory c needs now =
     (case (if needs \<and> attempt_allowed c now then attempt_issuance L S issue factory c now else (c, Ok ())) of
        (c, Inl e) \<Rightarrow> (c, Err e)
      | (c, Inr _) \<Rightarrow>
          (c, case cu_active c of
                Some a \<Rightarrow> if now < ak_exp a then Ok () else Err FailClosedIssuance
              | None \<Rightarrow> Err FailClosedIssuance))"

definition ensure_active ::
  "crypto_lib \<Rightarrow> jws_lib \<Rightarrow> ('i \<Rightarrow> DelegationHeader \<Rightarrow> DelegationClaims \<Rightarrow> 'i \<times> string option) \<Rightarrow> ('f \<Rightarrow> 'f \<times> SigningKey)
   \<Rightarrow> ('i, 'f) custody \<Rightarrow> int \<Rightarrow> ('i, 'f) custody \<times> (CustodyError + unit)" where
  "ensure_active L S issue factory c now =
     (let needs = (case cu_active c of
                     None \<Rightarrow> True
                   | Some a \<Rightarrow> rotation_due (ak_exp a) (kw_overlap (cc_window (cu_cfg c))) now)
      in issue_if L S issue factory c needs now)"

definition issue_now ::
  "crypto_lib \<Rightarrow> jws_lib \<Rightarrow> ('i \<Rightarrow> DelegationHeader \<Rightarrow> DelegationClaims \<Rightarrow> 'i \<times> string option) \<Rightarrow> ('f \<Rightarrow> 'f \<times> SigningKey)
   \<Rightarrow> ('i, 'f) custody \<Rightarrow> int \<Rightarrow> ('i, 'f) custody \<times> (CustodyError + unit)" where
  "issue_now L S issue factory c now = issue_if L S issue factory (c\<lparr>cu_next_attempt_at := None\<rparr>) True now"

definition reissue ::
  "crypto_lib \<Rightarrow> jws_lib \<Rightarrow> ('i \<Rightarrow> DelegationHeader \<Rightarrow> DelegationClaims \<Rightarrow> 'i \<times> string option) \<Rightarrow> ('f \<Rightarrow> 'f \<times> SigningKey)
   \<Rightarrow> ('i, 'f) custody \<Rightarrow> int \<Rightarrow> ('i, 'f) custody \<times> (CustodyError + ActiveDelegatedKey option)" where
  "reissue L S issue factory c now =
     (let previous = cu_active c in
      case issue_now L S issue factory c now of
        (c, Inl e) \<Rightarrow> (c, Err e)
      | (c, Inr _) \<Rightarrow>
          (let successor = (case cu_active c of
                              None \<Rightarrow> None
                            | Some a \<Rightarrow> (case previous of
                                           None \<Rightarrow> Some a
                                         | Some p \<Rightarrow> if ak_credential p \<noteq> ak_credential a then Some a else None));
               c = (case (successor, previous) of
                      (Some _, Some p) \<Rightarrow> c\<lparr>cu_audit := cu_audit c @ [retired c p now]\<rparr>
                    | _ \<Rightarrow> c)
           in (c, Ok successor)))"

definition custody_sign_response ::
  "crypto_lib \<Rightarrow> json_lib \<Rightarrow> jws_lib \<Rightarrow> (HttpResponseEvidenceBlock \<Rightarrow> json)
   \<Rightarrow> ('i \<Rightarrow> DelegationHeader \<Rightarrow> DelegationClaims \<Rightarrow> 'i \<times> string option) \<Rightarrow> ('f \<Rightarrow> 'f \<times> SigningKey)
   \<Rightarrow> ('i, 'f) custody \<Rightarrow> int \<Rightarrow> HttpResponse \<Rightarrow> HttpRequest \<Rightarrow> RequestEvidence
   \<Rightarrow> (('i, 'f) custody \<times> HttpResponse) \<times> (CustodyError + unit)" where
  "custody_sign_response L J S to_value issue factory c now response request ev =
     (case ensure_active L S issue factory c now of
        (c, Inl e) \<Rightarrow> ((c, response), Err e)
      | (c, Inr _) \<Rightarrow>
          (case cu_active c of
             None \<Rightarrow> ((c, response), Err FailClosedIssuance)
           | Some a \<Rightarrow>
               (case sign_delegated_response_full L J to_value response request ev (ak_server_signer a) (ak_credential a)
                       (ak_key a) (ak_delegated_kid a) now
                       (signature_valid_until now (kw_ttl (cc_window (cu_cfg c))) (ak_exp a)) of
                  (response, Inl e) \<Rightarrow> ((c, response), Err (CustodySign e))
                | (response, Inr _) \<Rightarrow> ((c, response), Ok ()))))"

section \<open>Runs\<close>

datatype custody_op =
    EnsureActive int
  | Reissue int
  | SetEpoch string
  | SignResponse int HttpResponse HttpRequest RequestEvidence

fun custody_step ::
  "crypto_lib \<Rightarrow> json_lib \<Rightarrow> jws_lib \<Rightarrow> (HttpResponseEvidenceBlock \<Rightarrow> json)
   \<Rightarrow> ('i \<Rightarrow> DelegationHeader \<Rightarrow> DelegationClaims \<Rightarrow> 'i \<times> string option) \<Rightarrow> ('f \<Rightarrow> 'f \<times> SigningKey)
   \<Rightarrow> custody_op \<Rightarrow> ('i, 'f) custody \<Rightarrow> ('i, 'f) custody" where
  "custody_step L J S tv issue factory (EnsureActive now) c = fst (ensure_active L S issue factory c now)"
| "custody_step L J S tv issue factory (Reissue now) c = fst (reissue L S issue factory c now)"
| "custody_step L J S tv issue factory (SetEpoch epoch) c = set_trust_epoch c epoch"
| "custody_step L J S tv issue factory (SignResponse now response request ev) c =
     fst (fst (custody_sign_response L J S tv issue factory c now response request ev))"

definition custody_run ::
  "crypto_lib \<Rightarrow> json_lib \<Rightarrow> jws_lib \<Rightarrow> (HttpResponseEvidenceBlock \<Rightarrow> json)
   \<Rightarrow> ('i \<Rightarrow> DelegationHeader \<Rightarrow> DelegationClaims \<Rightarrow> 'i \<times> string option) \<Rightarrow> ('f \<Rightarrow> 'f \<times> SigningKey)
   \<Rightarrow> custody_op list \<Rightarrow> ('i, 'f) custody \<Rightarrow> ('i, 'f) custody" where
  "custody_run L J S tv issue factory ops c = fold (custody_step L J S tv issue factory) ops c"

text \<open>
  Every operation changes the custody through one attempt at issuance and the bookkeeping around it:
  whatever the attempt and the bookkeeping keep, every run keeps.
\<close>

locale custody_property =
  fixes L :: crypto_lib and S :: jws_lib
    and issue :: "'i \<Rightarrow> DelegationHeader \<Rightarrow> DelegationClaims \<Rightarrow> 'i \<times> string option"
    and factory :: "'f \<Rightarrow> 'f \<times> SigningKey"
    and P :: "('i, 'f) custody \<Rightarrow> bool"
  assumes attempt: "P c \<Longrightarrow> P (fst (attempt_issuance L S issue factory c now))"
    and pacing: "P c \<Longrightarrow> P (c\<lparr>cu_next_attempt_at := None\<rparr>)"
    and logging: "P c \<Longrightarrow> P (c\<lparr>cu_audit := cu_audit c @ [e]\<rparr>)"
    and epoch: "P c \<Longrightarrow> P (set_trust_epoch c s)"
begin

lemma issue_if_keeps: "P c \<Longrightarrow> P (fst (issue_if L S issue factory c needs now))"
  using attempt [of c now] by (auto simp: issue_if_def split: sum.splits prod.splits)

lemma ensure_active_keeps: "P c \<Longrightarrow> P (fst (ensure_active L S issue factory c now))"
  by (simp add: ensure_active_def Let_def issue_if_keeps)

lemma reissue_keeps:
  assumes "P c"
  shows "P (fst (reissue L S issue factory c now))"
proof -
  have "P (fst (issue_now L S issue factory c now))"
    using assms by (simp add: issue_now_def issue_if_keeps pacing)
  then show ?thesis
    using logging by (auto simp: reissue_def Let_def split: sum.splits prod.splits option.splits)
qed

lemma sign_keeps: "P c \<Longrightarrow> P (fst (fst (custody_sign_response L J S tv issue factory c now r q ev)))"
  using ensure_active_keeps [of c now]
  by (auto simp: custody_sign_response_def split: sum.splits prod.splits option.splits)

lemma run_keeps: "P c \<Longrightarrow> P (custody_run L J S tv issue factory ops c)"
proof (induction ops arbitrary: c)
  case (Cons op ops)
  have "P (custody_step L J S tv issue factory op c)"
    using Cons.prems by (cases op) (simp_all add: ensure_active_keeps reissue_keeps sign_keeps epoch)
  with Cons.IH show ?case by (simp add: custody_run_def)
qed (simp add: custody_run_def)

end

text \<open>
  A key the custody may sign with: its credential parses, delegates to exactly the key held, names
  the signer that goes into the response block and its key id, is for response signing, and has a
  window whose end is the one the custody goes by.
\<close>

definition key_wf :: "crypto_lib \<Rightarrow> jws_lib \<Rightarrow> CustodyConfig \<Rightarrow> ActiveDelegatedKey \<Rightarrow> bool" where
  "key_wf L S cfg a \<longleftrightarrow>
     (\<exists>header claims. parse_credential L S (ak_credential a) = Ok (header, claims)
       \<and> delegated_key L claims = Ok (public_key L (ak_key a))
       \<and> cl_server_signer claims = identity_actor_id (ak_server_signer a)
       \<and> keyid (ak_server_signer a) = cl_delegated_kid claims \<and> ak_delegated_kid a = cl_delegated_kid claims
       \<and> ak_jti a = cl_jti claims \<and> cl_nbf claims = ak_nbf a \<and> cl_exp claims = ak_exp a \<and> ak_nbf a < ak_exp a
       \<and> dh_typ header = DELEGATION_TYP \<and> dh_alg header = DELEGATION_ALG
       \<and> dh_kid header = cc_issuer_kid cfg \<and> cl_issuer_kid claims = cc_issuer_kid cfg
       \<and> cl_aud claims = One (cc_aud cfg) \<and> cl_profile claims = cc_profile cfg
       \<and> cl_audience_hash claims = cc_audience_hash cfg \<and> cl_key_use claims = KEY_USE_RESPONSE_SIGNING)"

definition logged :: "KeyLifecycleEvent list \<Rightarrow> ActiveDelegatedKey \<Rightarrow> bool" where
  "logged audit a \<longleftrightarrow>
     (\<exists>e\<in>set audit. ev_event_type e \<in> {DELEGATED_KEY_ISSUED, DELEGATED_KEY_ROTATED}
       \<and> ev_delegated_kid e = ak_delegated_kid a \<and> ev_jti e = ak_jti a \<and> ev_nbf e = ak_nbf a \<and> ev_exp e = ak_exp a)"

definition custody_inv :: "crypto_lib \<Rightarrow> jws_lib \<Rightarrow> CustodyConfig \<Rightarrow> ('i, 'f) custody \<Rightarrow> bool" where
  "custody_inv L S cfg c \<longleftrightarrow>
     (\<exists>epoch. cu_cfg c = cfg\<lparr>cc_trust_epoch := epoch\<rparr>)
     \<and> (\<forall>a. cu_active c = Some a \<longrightarrow> key_wf L S cfg a \<and> logged (cu_audit c) a)"

lemma window_update:
  assumes "got = claims\<lparr>cl_iat := iat, cl_nbf := nbf, cl_exp := ex\<rparr>"
  shows "cl_issuer_kid got = cl_issuer_kid claims" "cl_aud got = cl_aud claims" "cl_profile got = cl_profile claims"
    "cl_audience_hash got = cl_audience_hash claims" "cl_key_use got = cl_key_use claims" "cl_jti got = cl_jti claims"
    "cl_trust_epoch got = cl_trust_epoch claims"
  by (simp_all add: assms)

lemma issued_wf:
  assumes "issued L S key signer (header, claims) credential = Ok a"
    and "build_claims L c now exp key = (signer, header, claims)" "cu_cfg c = cfg\<lparr>cc_trust_epoch := epoch\<rparr>"
  shows "key_wf L S cfg a" "ak_key a = key"
proof -
  from assms(1) obtain got dk where got: "parse_credential L S credential = Ok (header, got)" "delegated_key L got = Ok dk"
    "vk_inner dk = vk_inner (public_key L key)" "cl_server_signer got = identity_actor_id signer"
    "keyid signer = cl_delegated_kid got"
    "got = claims\<lparr>cl_iat := cl_iat got, cl_nbf := cl_nbf got, cl_exp := cl_exp got\<rparr>" "cl_nbf got < cl_exp got"
    "a = \<lparr>ak_key = key, ak_server_signer = signer, ak_credential = credential,
          ak_delegated_kid = cl_delegated_kid got, ak_jti = cl_jti got, ak_nbf = cl_nbf got, ak_exp = cl_exp got\<rparr>"
    by (auto simp: issued_def Let_def try_bind_Ok_iff split: if_splits)
  have "dk = public_key L key" using got(3) by (cases dk) (simp add: public_key_def)
  moreover have "cl_issuer_kid got = cc_issuer_kid cfg \<and> cl_aud got = One (cc_aud cfg) \<and> cl_profile got = cc_profile cfg
      \<and> cl_audience_hash got = cc_audience_hash cfg \<and> cl_key_use got = KEY_USE_RESPONSE_SIGNING
      \<and> dh_typ header = DELEGATION_TYP \<and> dh_alg header = DELEGATION_ALG \<and> dh_kid header = cc_issuer_kid cfg"
    using window_update [OF got(6)] assms(2,3) by (auto simp: build_claims_def Let_def)
  ultimately show "key_wf L S cfg a"
    unfolding key_wf_def using got by (intro exI [of _ header] exI [of _ got]) simp
  show "ak_key a = key" using got(8) by simp
qed

text \<open>What one attempt does to the custody: nothing, adoption of a well-formed key, or a hold-off.\<close>

lemma attempt_issuance_cases:
  assumes "attempt_issuance L S issue factory c now = (c', r)"
  obtains (unmintable) "c' = c" "r = Err FailClosedIssuance"
  | (adopted) c1 exp key signer header claims credential a rot where
      "mintable now (kw_ttl (cc_window (cu_cfg c))) (cu_counter c) = Ok (exp, cu_counter c1)"
      "build_claims L c1 now exp key = (signer, header, claims)" "cu_cfg c1 = cu_cfg c" "cu_audit c1 = cu_audit c"
      "cu_active c1 = cu_active c" "cu_counter c1 = cu_counter c + 1"
      "cu_root_invocations c1 \<le> cu_root_invocations c + 1"
      "issue (cu_issuer c) header claims = (cu_issuer c1, Some credential)"
      "issued L S key signer (header, claims) credential = Ok a" "c' = adopt c1 a rot now" "r = Ok ()"
  | (refused) c1 exp key signer header claims answer where
      "mintable now (kw_ttl (cc_window (cu_cfg c))) (cu_counter c) = Ok (exp, cu_counter c1)"
      "build_claims L c1 now exp key = (signer, header, claims)" "cu_cfg c1 = cu_cfg c" "cu_audit c1 = cu_audit c"
      "cu_active c1 = cu_active c" "cu_counter c1 = cu_counter c + 1"
      "cu_root_invocations c1 \<le> cu_root_invocations c + 1"
      "issue (cu_issuer c) header claims = (cu_issuer c1, answer)" "hold_off c1 now = (c', r)"
proof -
  show thesis
  proof (cases "mintable now (kw_ttl (cc_window (cu_cfg c))) (cu_counter c)")
    case (Inl e)
    then have "e = FailClosedIssuance" by (auto simp: mintable_def split: option.splits if_splits)
    with Inl assms unmintable show thesis by (simp add: attempt_issuance_def Let_def)
  next
    case (Inr m)
    obtain exp next_counter where m: "m = (exp, next_counter)" by (cases m)
    then have next_eq: "next_counter = cu_counter c + 1"
      using Inr by (auto simp: mintable_def split: option.splits if_splits)
    obtain fac key where fac: "factory (cu_factory c) = (fac, key)" by (cases "factory (cu_factory c)")
    define c1 where "c1 = c\<lparr>cu_factory := fac, cu_counter := next_counter\<rparr>"
    obtain signer header claims where b: "build_claims L c1 now exp key = (signer, header, claims)"
      by (cases "build_claims L c1 now exp key")
    obtain iss answer where i: "issue (cu_issuer c) header claims = (iss, answer)" by (cases "issue (cu_issuer c) header claims")
    define c2 where "c2 = c1\<lparr>cu_root_invocations := min u64_max (cu_root_invocations c1 + 1), cu_issuer := iss\<rparr>"
    have b2: "build_claims L c2 now exp key = (signer, header, claims)"
      using b by (simp add: build_claims_def c2_def)
    have run: "(c', r) = (case (case answer of None \<Rightarrow> None
                 | Some credential \<Rightarrow> (case issued L S key signer (header, claims) credential of
                                         Inl _ \<Rightarrow> None | Inr active \<Rightarrow> Some active)) of
             Some active \<Rightarrow> (adopt c2 active (case cu_active c of None \<Rightarrow> False | Some a \<Rightarrow> now < ak_exp a) now, Ok ())
           | None \<Rightarrow> hold_off c2 now)"
      using assms Inr m fac b i by (simp add: attempt_issuance_def Let_def c1_def c2_def cong: option.case_cong)
    show thesis
    proof (cases "\<exists>credential a. answer = Some credential \<and> issued L S key signer (header, claims) credential = Ok a")
      case True
      then obtain credential a where "answer = Some credential" "issued L S key signer (header, claims) credential = Ok a" by blast
      with run i b2 next_eq Inr m show thesis
        by (intro adopted [of exp c2 key signer header claims credential a "case cu_active c of None \<Rightarrow> False | Some a \<Rightarrow> now < ak_exp a"])
          (simp_all add: c1_def c2_def)
    next
      case False
      with run i b2 next_eq Inr m show thesis
        by (intro refused [of exp c2 key signer header claims answer]) (auto simp: c1_def c2_def split: option.splits sum.splits)
    qed
  qed
qed

section \<open>The key invariant\<close>

lemma logged_append: "logged audit a \<Longrightarrow> logged (audit @ es) a"
  by (auto simp: logged_def)

lemma hold_off_keeps:
  "custody_inv L S cfg c \<Longrightarrow> hold_off c now = (c', r) \<Longrightarrow> custody_inv L S cfg c'"
  by (auto simp: custody_inv_def hold_off_def Let_def split: option.splits if_splits)

lemma adopt_inv:
  "key_wf L S cfg a \<Longrightarrow> custody_inv L S cfg c \<Longrightarrow> custody_inv L S cfg (adopt c a rot now)"
  by (auto simp: custody_inv_def adopt_def logged_def)

lemma attempt_issuance_inv:
  assumes "custody_inv L S cfg c"
  shows "custody_inv L S cfg (fst (attempt_issuance L S issue factory c now))"
proof (cases "attempt_issuance L S issue factory c now")
  case (Pair c' r)
  then show ?thesis
  proof (cases rule: attempt_issuance_cases)
    case unmintable
    with Pair assms show ?thesis by simp
  next
    case (adopted c1 exp key signer header claims credential a rot)
    with assms have c1: "custody_inv L S cfg c1" by (simp add: custody_inv_def)
    then obtain epoch where "cu_cfg c1 = cfg\<lparr>cc_trust_epoch := epoch\<rparr>" by (auto simp: custody_inv_def)
    with adopted have "key_wf L S cfg a" by (intro issued_wf(1) [of L S key signer header claims credential a c1 now exp])
    with c1 Pair adopted show ?thesis by (simp add: adopt_inv)
  next
    case (refused c1 exp key signer header claims answer)
    with assms have "custody_inv L S cfg c1" by (simp add: custody_inv_def)
    with refused Pair show ?thesis by (simp add: hold_off_keeps)
  qed
qed

interpretation held: custody_property L S issue factory "custody_inv L S cfg" for L S issue factory cfg
proof unfold_locales
  show "custody_inv L S cfg c \<Longrightarrow> custody_inv L S cfg (fst (attempt_issuance L S issue factory c now))" for c now
    by (rule attempt_issuance_inv)
  show "custody_inv L S cfg c \<Longrightarrow> custody_inv L S cfg (c\<lparr>cu_next_attempt_at := None\<rparr>)" for c
    by (simp add: custody_inv_def)
  show "custody_inv L S cfg c \<Longrightarrow> custody_inv L S cfg (c\<lparr>cu_audit := cu_audit c @ [e]\<rparr>)" for c e
    by (auto simp: custody_inv_def logged_append)
  show "custody_inv L S cfg c \<Longrightarrow> custody_inv L S cfg (set_trust_epoch c s)" for c s
    by (auto simp: custody_inv_def set_trust_epoch_def)
qed

lemma custody_inv_new: "custody_inv L S cfg (custody_new cfg i f)"
  by (auto simp: custody_inv_def custody_new_def intro: exI [of _ "cc_trust_epoch cfg"])

lemma ensure_active_Ok:
  assumes "ensure_active L S issue factory c now = (c', Ok ())"
  shows "\<exists>a. cu_active c' = Some a \<and> now < ak_exp a"
  using assms by (auto simp: ensure_active_def issue_if_def Let_def split: if_splits sum.splits prod.splits option.splits)

lemma signature_valid_until_le: "signature_valid_until now ttl exp \<le> exp"
  by (auto simp: signature_valid_until_def split: option.splits)


section \<open>Credential ids never repeat\<close>

text \<open>A root that also writes down the id of every credential it is asked for.\<close>

definition recording ::
  "('i \<Rightarrow> DelegationHeader \<Rightarrow> DelegationClaims \<Rightarrow> 'i \<times> string option)
   \<Rightarrow> 'i \<times> string list \<Rightarrow> DelegationHeader \<Rightarrow> DelegationClaims \<Rightarrow> ('i \<times> string list) \<times> string option" where
  "recording issue st header claims =
     (case issue (fst st) header claims of (i, answer) \<Rightarrow> ((i, snd st @ [cl_jti claims]), answer))"

definition jti_of :: "string \<Rightarrow> nat \<Rightarrow> bool" where
  "jti_of jti n \<longleftrightarrow> (\<exists>p. jti = p @ CHR ''#'' # show_nat n)"

definition jtis_inv :: "('i \<times> string list, 'f) custody \<Rightarrow> bool" where
  "jtis_inv c \<longleftrightarrow> (\<exists>ns. list_all2 jti_of (snd (cu_issuer c)) ns \<and> distinct ns \<and> (\<forall>n\<in>set ns. n \<le> cu_counter c))"

lemma hash_not_in_show_nat: "CHR ''#'' \<notin> set (show_nat n)"
  using show_nat_digits by (fastforce simp: is_ascii_digit_def)

lemma last_split_on: "c \<notin> set s \<Longrightarrow> last (split_on c (p @ c # s)) = s"
proof -
  assume "c \<notin> set s"
  then have "last (split_on c (p @ c # s)) = s \<and> 2 \<le> length (split_on c (p @ c # s))"
    by (induction p) (auto simp: split_on_no_sep split: list.splits)
  then show ?thesis ..
qed

lemma jti_of_unique: "jti_of j m \<Longrightarrow> jti_of j n \<Longrightarrow> m = n"
  by (metis jti_of_def last_split_on hash_not_in_show_nat show_nat_inj)

lemma list_all2_distinct:
  "list_all2 jti_of js ns \<Longrightarrow> distinct ns \<Longrightarrow> distinct js"
proof (induction rule: list_all2_induct)
  case (Cons j js n ns)
  have "j \<notin> set js"
  proof
    assume "j \<in> set js"
    with Cons.hyps(2) obtain m where "m \<in> set ns" "jti_of j m" by (auto simp: list_all2_conv_all_nth in_set_conv_nth) blast
    with Cons show False using jti_of_unique by auto
  qed
  with Cons show ?case by simp
qed simp

lemma built_jti: "build_claims L c now exp key = (signer, header, claims) \<Longrightarrow> jti_of (cl_jti claims) (cu_counter c)"
proof -
  have "jti_of (k @ ''#'' @ kid @ ''#'' @ show_nat n) n" for k kid n
    unfolding jti_of_def by (rule exI [of _ "k @ ''#'' @ kid"]) simp
  then show "build_claims L c now exp key = (signer, header, claims) \<Longrightarrow> jti_of (cl_jti claims) (cu_counter c)"
    by (auto simp: build_claims_def Let_def)
qed

lemma jtis_inv_issue:
  assumes "jtis_inv c" "recording issue (cu_issuer c) header claims = (cu_issuer c1, answer)"
    and "build_claims L c1 now exp key = (signer, header, claims)" "cu_counter c1 = cu_counter c + 1"
  shows "jtis_inv c1"
proof -
  from assms(1) obtain ns where ns: "list_all2 jti_of (snd (cu_issuer c)) ns" "distinct ns" "\<forall>n\<in>set ns. n \<le> cu_counter c"
    by (auto simp: jtis_inv_def)
  have "snd (cu_issuer c1) = snd (cu_issuer c) @ [cl_jti claims]"
    using arg_cong [OF assms(2), of "\<lambda>x. snd (fst x)"] by (simp add: recording_def case_prod_beta)
  then have "list_all2 jti_of (snd (cu_issuer c1)) (ns @ [cu_counter c1])"
    using ns(1) built_jti [OF assms(3)] by (auto intro!: list_all2_appendI)
  with ns assms(4) show ?thesis
    unfolding jtis_inv_def by (intro exI [of _ "ns @ [cu_counter c1]"]) auto
qed

lemma adopt_kept: "cu_issuer (adopt c a rot now) = cu_issuer c" "cu_counter (adopt c a rot now) = cu_counter c"
  by (simp_all add: adopt_def)

lemma hold_off_kept: "hold_off c now = (c', r) \<Longrightarrow> cu_issuer c' = cu_issuer c \<and> cu_counter c' = cu_counter c
    \<and> cu_root_invocations c' = cu_root_invocations c \<and> cu_cfg c' = cu_cfg c
    \<and> cu_next_attempt_at c' = Some (next_attempt_after now (kw_overlap (cc_window (cu_cfg c))))"
  by (auto simp: hold_off_def Let_def split: option.splits if_splits)

lemma attempt_issuance_jtis:
  assumes "jtis_inv c"
  shows "jtis_inv (fst (attempt_issuance L S (recording issue) factory c now))"
proof (cases "attempt_issuance L S (recording issue) factory c now")
  case (Pair c' r)
  then show ?thesis
  proof (cases rule: attempt_issuance_cases)
    case unmintable
    with Pair assms show ?thesis by simp
  next
    case (adopted c1)
    from jtis_inv_issue [OF assms adopted(8,2,6)] Pair adopted show ?thesis by (simp add: jtis_inv_def adopt_kept)
  next
    case (refused c1)
    from jtis_inv_issue [OF assms refused(8,2,6)] Pair hold_off_kept [OF refused(9)] show ?thesis
      by (simp add: jtis_inv_def)
  qed
qed

interpretation ids: custody_property L S "recording issue" factory jtis_inv for L S issue factory
  by unfold_locales (simp_all add: attempt_issuance_jtis, simp_all add: jtis_inv_def set_trust_epoch_def)

text \<open>
  No credential id is used twice. Over any run of a custody, the ids of the credentials it asked
  its root for are pairwise distinct, whatever keys the factory makes and whatever the root answers:
  a revoked credential id never names a later credential.
\<close>

theorem credential_ids_distinct:
  "distinct (snd (cu_issuer (custody_run L J S tv (recording issue) factory ops (custody_new cfg (i, []) f))))"
proof -
  have "jtis_inv (custody_new cfg (i, []) f)" by (simp add: jtis_inv_def custody_new_def)
  then have "jtis_inv (custody_run L J S tv (recording issue) factory ops (custody_new cfg (i, []) f))"
    by (rule ids.run_keeps)
  then show ?thesis by (auto simp: jtis_inv_def intro: list_all2_distinct)
qed

section \<open>Attempts are paced\<close>

lemma retry_interval_pos: "1 \<le> retry_interval overlap"
  by (simp add: retry_interval_def MIN_ISSUANCE_RETRY_SECS_def)

lemma ensure_active_denied:
  assumes "cu_next_attempt_at c = Some at" "now < at"
  shows "fst (ensure_active L S issue factory c now) = c"
  using assms by (auto simp: ensure_active_def issue_if_def attempt_allowed_def Let_def split: sum.splits)

lemma refused_attempt:
  assumes "\<And>i h cl. snd (issue i h cl) = None"
    and "attempt_issuance L S issue factory c now = (c', r)"
  shows "c' = c \<or> cu_root_invocations c' \<le> cu_root_invocations c + 1 \<and> cu_cfg c' = cu_cfg c
    \<and> cu_next_attempt_at c' = Some (next_attempt_after now (kw_overlap (cc_window (cu_cfg c))))"
  using assms(2)
proof (cases rule: attempt_issuance_cases)
  case (adopted c1 exp key signer header claims credential)
  with assms(1) [of "cu_issuer c" header claims] show ?thesis by simp
next
  case (refused c1)
  with hold_off_kept [OF refused(9)] show ?thesis by simp
qed simp

text \<open>The operations that use the key, with the clock reading each takes.\<close>

fun op_time :: "custody_op \<Rightarrow> int option" where
  "op_time (EnsureActive now) = Some now"
| "op_time (SignResponse now response request ev) = Some now"
| "op_time op = None"

lemma use_step:
  assumes "op_time op = Some now"
  shows "custody_step L J S tv issue factory op c = fst (ensure_active L S issue factory c now)"
  using assms by (cases op) (auto simp: custody_sign_response_def split: sum.splits option.splits prod.splits)

lemma denied_run:
  assumes "cu_next_attempt_at c = Some at" "\<forall>op\<in>set ops. \<exists>now. op_time op = Some now \<and> now < at"
  shows "custody_run L J S tv issue factory ops c = c"
  using assms(2)
proof (induction ops)
  case (Cons op ops)
  then obtain now where now: "op_time op = Some now" "now < at" by auto
  have "custody_step L J S tv issue factory op c = c"
    using use_step [OF now(1)] ensure_active_denied [OF assms(1) now(2)] by metis
  with Cons show ?case by (simp add: custody_run_def)
qed (simp add: custody_run_def)

lemma refused_use:
  assumes "\<And>i h cl. snd (issue i h cl) = None"
  shows "fst (ensure_active L S issue factory c now) = c
    \<or> cu_root_invocations (fst (ensure_active L S issue factory c now)) \<le> cu_root_invocations c + 1
      \<and> cu_next_attempt_at (fst (ensure_active L S issue factory c now))
          = Some (next_attempt_after now (kw_overlap (cc_window (cu_cfg c))))"
proof (cases "attempt_issuance L S issue factory c now")
  case (Pair c' r)
  from refused_attempt [OF assms this] Pair show ?thesis
    by (auto simp: ensure_active_def issue_if_def Let_def split: sum.splits if_splits)
qed

text \<open>
  A refusing root is not stormed. While the root refuses, the operations that need the key, any
  number of them and in any order of their clock readings, ask it at most once within one retry
  interval.
\<close>

theorem refused_root_is_paced:
  assumes "\<forall>i h cl. snd (issue i h cl) = None"
    and "d = retry_interval (kw_overlap (cc_window (cu_cfg c)))" "is_i64 (t + d)"
    and "\<forall>op\<in>set ops. \<exists>now. op_time op = Some now \<and> t \<le> now \<and> now < t + d"
  shows "cu_root_invocations (custody_run L J S tv issue factory ops c) \<le> cu_root_invocations c + 1"
  using assms(4)
proof (induction ops)
  case (Cons op ops)
  then obtain now where now: "op_time op = Some now" "t \<le> now" "now < t + d" by auto
  let ?c = "custody_step L J S tv issue factory op c"
  from refused_use [of issue L S factory c now] assms(1) use_step [OF now(1)]
  consider "?c = c" | "cu_root_invocations ?c \<le> cu_root_invocations c + 1"
      "cu_next_attempt_at ?c = Some (next_attempt_after now (kw_overlap (cc_window (cu_cfg c))))"
    by metis
  then show ?case
  proof cases
    case 1
    with Cons show ?thesis by (simp add: custody_run_def)
  next
    case 2
    have "t + d \<le> next_attempt_after now (kw_overlap (cc_window (cu_cfg c)))"
      using now(2) assms(2,3) by (simp add: next_attempt_after_def i64_defs)
    with Cons.prems have "\<forall>op\<in>set ops. \<exists>now'. op_time op = Some now'
        \<and> now' < next_attempt_after now (kw_overlap (cc_window (cu_cfg c)))" by fastforce
    from denied_run [OF 2(2) this] 2(1) show ?thesis by (simp add: custody_run_def)
  qed
qed (simp add: custody_run_def)

section \<open>An honest root keeps the custody live\<close>

text \<open>A root that issues exactly the header and the claims it is asked for, and a factory of 32-byte keys.\<close>

definition honest_root ::
  "crypto_lib \<Rightarrow> jws_lib \<Rightarrow> ('i \<Rightarrow> DelegationHeader \<Rightarrow> DelegationClaims \<Rightarrow> 'i \<times> string option) \<Rightarrow> bool" where
  "honest_root L S issue \<longleftrightarrow>
     (\<forall>i header claims. \<exists>i' credential. issue i header claims = (i', Some credential)
        \<and> parse_credential L S credential = Ok (header, claims))"

definition key_factory :: "('f \<Rightarrow> 'f \<times> SigningKey) \<Rightarrow> bool" where
  "key_factory factory \<longleftrightarrow> (\<forall>f. length (sk_inner (snd (factory f))) = 32)"

lemma built_claims_issued:
  assumes "build_claims L c now exp key = (signer, header, claims)" "parse_credential L S credential = Ok (header, claims)"
    and "b64_ok L" "ed25519_ok L" "length (sk_inner key) = 32" "now < exp"
  shows "\<exists>a. issued L S key signer (header, claims) credential = Ok a \<and> ak_exp a = exp \<and> ak_credential a = credential
    \<and> ak_key a = key \<and> ak_server_signer a = signer"
proof -
  have "vk_from_b64url L (vk_to_b64url L (public_key L key)) = Ok (public_key L key)"
    using vk_b64url_roundtrip [OF assms(3), of "seed_public L (sk_inner key)"] assms(4,5)
    by (simp add: public_key_def ed25519_ok_def)
  then have "delegated_key L claims = Ok (public_key L key)"
    using assms(1) by (auto simp: build_claims_def delegated_key_def Let_def)
  with assms(1,2,6) show ?thesis
    by (auto simp: issued_def build_claims_def Let_def)
qed

lemma honest_attempt:
  assumes "honest_root L S issue" "key_factory factory" "b64_ok L" "ed25519_ok L"
    and "0 < kw_ttl (cc_window (cu_cfg c))" "attempt_issuance L S issue factory c now = (c', r)"
  shows "c' = c \<and> (\<not> is_i64 (now + kw_ttl (cc_window (cu_cfg c))) \<or> \<not> cu_counter c < u64_max)
    \<or> (\<exists>a. cu_active c' = Some a \<and> ak_exp a = now + kw_ttl (cc_window (cu_cfg c)))
      \<and> cu_next_attempt_at c' = None \<and> cu_cfg c' = cu_cfg c \<and> r = Ok ()"
proof (cases "is_i64 (now + kw_ttl (cc_window (cu_cfg c))) \<and> cu_counter c < u64_max")
  case True
  let ?exp = "now + kw_ttl (cc_window (cu_cfg c))"
  obtain fac key where fac: "factory (cu_factory c) = (fac, key)" by (cases "factory (cu_factory c)")
  define c1 where "c1 = c\<lparr>cu_factory := fac, cu_counter := cu_counter c + 1\<rparr>"
  obtain signer header claims where b: "build_claims L c1 now ?exp key = (signer, header, claims)"
    by (cases "build_claims L c1 now ?exp key")
  obtain i' credential where i: "issue (cu_issuer c) header claims = (i', Some credential)"
    "parse_credential L S credential = Ok (header, claims)"
    using assms(1) unfolding honest_root_def by blast
  have "length (sk_inner key) = 32" using assms(2) fac unfolding key_factory_def by (metis snd_conv)
  from built_claims_issued [OF b i(2) assms(3,4) this] assms(5)
  obtain a where "issued L S key signer (header, claims) credential = Ok a" "ak_exp a = ?exp" by auto
  with True fac b i assms(6) show ?thesis
    by (auto simp: attempt_issuance_def mintable_def Let_def c1_def adopt_def checked_add_def checked_i64_def)
next
  case False
  then have "mintable now (kw_ttl (cc_window (cu_cfg c))) (cu_counter c) = Err FailClosedIssuance"
    by (auto simp: mintable_def checked_add_def checked_i64_def)
  with False assms(6) show ?thesis by (auto simp: attempt_issuance_def Let_def)
qed

definition live_inv ::
  "crypto_lib \<Rightarrow> jws_lib \<Rightarrow> ('i \<Rightarrow> DelegationHeader \<Rightarrow> DelegationClaims \<Rightarrow> 'i \<times> string option) \<Rightarrow> ('f \<Rightarrow> 'f \<times> SigningKey)
   \<Rightarrow> DelegatedKeyWindow \<Rightarrow> ('i, 'f) custody \<Rightarrow> bool" where
  "live_inv L S issue factory w c \<longleftrightarrow>
     honest_root L S issue \<and> key_factory factory \<and> b64_ok L \<and> ed25519_ok L
     \<and> cc_window (cu_cfg c) = w \<and> 0 < kw_overlap w \<and> 0 < kw_ttl w \<and> cu_next_attempt_at c = None"

interpretation live: custody_property L S issue factory "live_inv L S issue factory w" for L S issue factory w
proof unfold_locales
  show "live_inv L S issue factory w c \<Longrightarrow> live_inv L S issue factory w (fst (attempt_issuance L S issue factory c now))" for c now
    using honest_attempt [of L S issue factory c now]
    by (cases "attempt_issuance L S issue factory c now") (auto simp: live_inv_def)
qed (simp_all add: live_inv_def set_trust_epoch_def)

lemma ensure_active_live:
  assumes "live_inv L S issue factory w c" "is_i64 (now + kw_ttl w)" "cu_counter c < u64_max"
  shows "\<exists>c' a. ensure_active L S issue factory c now = (c', Ok ()) \<and> cu_active c' = Some a \<and> now < ak_exp a"
proof (cases "case cu_active c of None \<Rightarrow> True | Some a \<Rightarrow> rotation_due (ak_exp a) (kw_overlap w) now")
  case True
  obtain c' r where step: "attempt_issuance L S issue factory c now = (c', r)" by (cases "attempt_issuance L S issue factory c now")
  with honest_attempt [of L S issue factory c now c' r] assms
  obtain a where "cu_active c' = Some a" "ak_exp a = now + kw_ttl w" "r = Ok ()" by (auto simp: live_inv_def)
  with True assms(1) step show ?thesis
    by (auto simp: ensure_active_def issue_if_def attempt_allowed_def live_inv_def)
next
  case False
  then obtain a where "cu_active c = Some a" "\<not> rotation_due (ak_exp a) (kw_overlap w) now" by (auto split: option.splits)
  moreover from this(2) assms(1) have "now < ak_exp a" by (auto simp: rotation_due_def live_inv_def split: option.splits)
  ultimately show ?thesis
    using assms(1) by (auto simp: ensure_active_def issue_if_def live_inv_def)
qed

text \<open>
  C27. Under an honest root the custody never fails closed. If the root issues what it is asked for
  and the configured window is one the constructor accepts, then after any run, at whatever clock
  readings, the custody has a key that has not expired whenever it is asked for one, as long as the
  next expiry is representable and the credential counter is not exhausted.
\<close>

theorem honest_root_keeps_custody_live:
  assumes "honest_root L S issue" "key_factory factory" "b64_ok L" "ed25519_ok L"
    and "window_of ttl overlap = Ok w" "cc_window cfg = w" "is_i64 (now + ttl)"
    and "c = custody_run L J S tv issue factory ops (custody_new cfg i f)" "cu_counter c < u64_max"
  shows "\<exists>c' a. ensure_active L S issue factory c now = (c', Ok ()) \<and> cu_active c' = Some a
    \<and> key_wf L S cfg a \<and> now < ak_exp a"
proof -
  have w: "kw_ttl w = ttl" "0 < kw_overlap w" "0 < kw_ttl w" using assms(5) by (auto simp: window_of_def split: if_splits)
  then have "live_inv L S issue factory w (custody_new cfg i f)"
    using assms(1-4,6) by (simp add: live_inv_def custody_new_def)
  then have "live_inv L S issue factory w c" unfolding assms(8) by (rule live.run_keeps)
  from ensure_active_live [OF this, of now] assms(7,9) w(1) obtain c' a where
    step: "ensure_active L S issue factory c now = (c', Ok ())" "cu_active c' = Some a" "now < ak_exp a" by auto
  have "custody_inv L S cfg c" unfolding assms(8) by (intro held.run_keeps custody_inv_new)
  then have "custody_inv L S cfg c'" using held.ensure_active_keeps [of L S cfg c issue factory now] step by simp
  with step show ?thesis by (simp add: custody_inv_def)
qed

section \<open>Concrete custodies\<close>

definition sample_window :: DelegatedKeyWindow where "sample_window = \<lparr>kw_ttl = 600, kw_overlap = 60\<rparr>"

definition sample_custody_config :: CustodyConfig where
  "sample_custody_config = \<lparr>cc_issuer_kid = ''root'', cc_iss = ''issuer'', cc_profile = PROFILE_TAG, cc_aud = ''client'',
     cc_audience_hash = ''hash'', cc_trust_epoch = ''e1'', cc_server_role = ''server'', cc_server_trust_domain = ''example.com'',
     cc_server_subject = ''s'', cc_window = sample_window\<rparr>"

definition sample_factory :: "unit \<Rightarrow> unit \<times> SigningKey" where
  "sample_factory u = (u, SigningKey (pad32 ''delegated''))"

lemma sample_factory_ok: "key_factory sample_factory"
  by (simp add: key_factory_def sample_factory_def)

theorem refused_root_is_paced_witness:
  "\<forall>J S tv. cu_root_invocations (custody_run demo_lib J S tv (\<lambda>i h cl. (i, None)) sample_factory
      [EnsureActive 100, EnsureActive 104, EnsureActive 105] (custody_new sample_custody_config () ())) \<le> 1"
proof (intro allI)
  fix J S tv
  let ?c = "custody_new sample_custody_config () ()"
  have d: "retry_interval (kw_overlap (cc_window (cu_cfg ?c))) = 6"
    by (simp add: retry_interval_def custody_new_def sample_custody_config_def sample_window_def
        ISSUANCE_ATTEMPTS_PER_OVERLAP_def MIN_ISSUANCE_RETRY_SECS_def sdiv_nonneg)
  have "cu_root_invocations (custody_run demo_lib J S tv (\<lambda>i h cl. (i, None)) sample_factory
      [EnsureActive 100, EnsureActive 104, EnsureActive 105] ?c) \<le> cu_root_invocations ?c + 1"
    by (rule refused_root_is_paced [of _ 6 ?c 100]) (simp_all add: d i64_defs)
  then show "cu_root_invocations (custody_run demo_lib J S tv (\<lambda>i h cl. (i, None)) sample_factory
      [EnsureActive 100, EnsureActive 104, EnsureActive 105] ?c) \<le> 1" by (simp add: custody_new_def)
qed

end
