(* ===== verification/Json_Strip.thy ===== *)
theory Json_Strip
  imports Json_Body "HOL-Library.Countable"
begin

text \<open>
  The reserved-key strip of \<open>mcp-re-http-profile/src/context/reserved_key_strip.rs\<close>, the positions it
  reports (\<open>seeded_meta_positions.rs\<close>) and the insertion of the proxy's own block
  (\<open>context/verified.rs\<close>, \<open>context/policy.rs\<close>). The lemmas show that no \<open>_meta\<close> of a stripped body
  holds a reserved key at any depth, that stripping again changes nothing, and that after the
  proxy's insertion the only verified-context block of the forwarded body is the proxy's.
\<close>

section \<open>Definitions\<close>

record SeededMetaPositions =
  smp_paths :: "string list"

definition positions_any :: "SeededMetaPositions \<Rightarrow> bool" where
  "positions_any p \<longleftrightarrow> smp_paths p \<noteq> []"

definition positions_names :: "SeededMetaPositions \<Rightarrow> string list \<Rightarrow> bool" where
  "positions_names p wanted \<longleftrightarrow> list_ex (\<lambda>path. path \<in> set wanted) (smp_paths p)"

definition positions_top_level :: "SeededMetaPositions \<Rightarrow> bool" where
  "positions_top_level p \<longleftrightarrow> positions_names p [''_meta'']"

definition positions_params_object :: "SeededMetaPositions \<Rightarrow> bool" where
  "positions_params_object p \<longleftrightarrow> positions_names p [''params._meta'']"

definition positions_display :: "SeededMetaPositions \<Rightarrow> string" where
  "positions_display p = (let named = join_with '', '' (smp_paths p) in if named = [] then ''none'' else named)"

record StrippedBody =
  sb_body :: bytes
  sb_seeded :: SeededMetaPositions

definition refuse_unwalkable_shape :: "json \<Rightarrow> HttpProfileError + unit" where
  "refuse_unwalkable_shape v =
     try_bind (ok_or (as_object v) (MalformedEvidence ''request body is not a JSON object'')) (\<lambda>obj.
     case map_of obj ''params'' of
       None \<Rightarrow> Ok ()
     | Some (JObject _) \<Rightarrow> Ok ()
     | Some (JArray _) \<Rightarrow> Ok ()
     | Some _ \<Rightarrow> Err (MalformedEvidence ''request params is neither an object nor an array''))"

definition strip_proxy_owned_meta :: "json_lib \<Rightarrow> bytes \<Rightarrow> HttpProfileError + StrippedBody" where
  "strip_proxy_owned_meta J body =
     try_bind (ok_or (from_slice J body) (MalformedEvidence ''request body is not JSON'')) (\<lambda>v.
     try_bind (refuse_unwalkable_shape v) (\<lambda>_.
     case strip_descendant_meta [] v of (v', found) \<Rightarrow>
     Ok \<lparr>sb_body = to_vec J v', sb_seeded = \<lparr>smp_paths = found\<rparr>\<rparr>))"

datatype VerifiedContextPolicy = Disabled | Trusted

definition trusted_inner_channel :: "VerifiedContextPolicy \<Rightarrow> unit option" where
  "trusted_inner_channel p = (case p of Disabled \<Rightarrow> None | Trusted \<Rightarrow> Some ())"

text \<open>The token of the trusted channel is an argument that carries nothing; the context is the value it serializes to.\<close>

definition insert_verified_context :: "json_lib \<Rightarrow> StrippedBody \<Rightarrow> json \<Rightarrow> unit \<Rightarrow> HttpProfileError + bytes" where
  "insert_verified_context J stripped context channel =
     insert_meta_block J (sb_body stripped) VERIFIED_CONTEXT_BLOCK_KEY context"

section \<open>Clean values\<close>

definition meta_lacks :: "string \<Rightarrow> (string \<times> json) list \<Rightarrow> bool" where
  "meta_lacks key m \<longleftrightarrow> (case map_of m ''_meta'' of Some (JObject meta) \<Rightarrow> map_of meta key = None | _ \<Rightarrow> True)"

fun lacks :: "string \<Rightarrow> json \<Rightarrow> bool"
  and members_lack :: "string \<Rightarrow> (string \<times> json) list \<Rightarrow> bool"
  and elements_lack :: "string \<Rightarrow> json list \<Rightarrow> bool"
where
  "lacks key (JObject m) \<longleftrightarrow> meta_lacks key m \<and> members_lack key m"
| "lacks key (JArray es) \<longleftrightarrow> elements_lack key es"
| "lacks key _ \<longleftrightarrow> True"
| "members_lack key [] \<longleftrightarrow> True"
| "members_lack key ((k, v) # m) \<longleftrightarrow> lacks key v \<and> members_lack key m"
| "elements_lack key [] \<longleftrightarrow> True"
| "elements_lack key (v # es) \<longleftrightarrow> lacks key v \<and> elements_lack key es"

lemma map_of_strip_members:
  "map_of (fst (strip_members path m)) k = map_option (\<lambda>v. fst (strip_descendant_meta (member_path path k) v)) (map_of m k)"
  by (induction m) (auto split: prod.splits)

lemma strip_object_fst:
  "fst (strip_descendant_meta path (JObject m)) = JObject (fst (strip_members path (fst (strip_meta_of m))))"
  by (simp split: prod.splits)

lemma strip_to_object:
  "fst (strip_descendant_meta path v) = JObject m \<Longrightarrow> \<exists>m0. v = JObject m0 \<and> m = fst (strip_members path (fst (strip_meta_of m0)))"
  by (cases v) (auto split: prod.splits)

definition reserved :: "string \<Rightarrow> bool" where
  "reserved key \<longleftrightarrow> key = REQUEST_EVIDENCE_BLOCK_KEY \<or> key = VERIFIED_CONTEXT_BLOCK_KEY"

lemma reserved_not_meta: "reserved key \<Longrightarrow> key \<noteq> ''_meta''"
  by (auto simp: reserved_def REQUEST_EVIDENCE_BLOCK_KEY_def VERIFIED_CONTEXT_BLOCK_KEY_def)

lemma strip_meta_of_lacks: "reserved key \<Longrightarrow> meta_lacks key (fst (strip_meta_of m))"
proof (cases "\<exists>meta. map_of m ''_meta'' = Some (JObject meta)")
  case True
  assume "reserved key"
  with True show ?thesis
    by (auto simp: strip_meta_of_def meta_lacks_def reserved_def Let_def delete_conv' update_conv'
        split: option.splits json.splits)
next
  case False
  then have "strip_meta_of m = (m, False)" by (auto simp: strip_meta_of_def split: option.splits json.splits)
  with False show ?thesis by (auto simp: meta_lacks_def split: option.splits json.splits)
qed

lemma map_of_strip_meta_of: "k \<noteq> ''_meta'' \<Longrightarrow> map_of (fst (strip_meta_of m)) k = map_of m k"
  by (auto simp: strip_meta_of_def Let_def delete_conv' update_conv' split: option.splits json.splits)

lemma meta_lacks_strip_members:
  assumes "reserved key" "meta_lacks key m"
  shows "meta_lacks key (fst (strip_members path m))"
proof -
  have "map_of meta' key = None"
    if "map_of m ''_meta'' = Some v" "fst (strip_descendant_meta (member_path path ''_meta'') v) = JObject meta'" for v meta'
  proof -
    from strip_to_object [OF that(2)] obtain meta where meta: "v = JObject meta"
      "meta' = fst (strip_members (member_path path ''_meta'') (fst (strip_meta_of meta)))" by blast
    with that(1) assms(2) have "map_of meta key = None" by (simp add: meta_lacks_def)
    with meta(2) reserved_not_meta [OF assms(1)] show ?thesis
      by (simp add: map_of_strip_members map_of_strip_meta_of)
  qed
  then show ?thesis
    by (auto simp: meta_lacks_def map_of_strip_members split: option.splits json.splits)
qed

lemma strip_lacks:
  assumes "reserved key"
  shows "lacks key (fst (strip_descendant_meta path v))"
    and "members_lack key (fst (strip_members path m))"
    and "elements_lack key (fst (strip_elements path i es))"
proof (induction path v and path m and path i es
    rule: strip_descendant_meta_strip_members_strip_elements.induct)
  case (1 path m)
  obtain m' seeded where m': "strip_meta_of m = (m', seeded)" by (cases "strip_meta_of m")
  have "meta_lacks key m'" using strip_meta_of_lacks [OF assms, of m] by (simp add: m')
  then have "meta_lacks key (fst (strip_members path m'))" by (rule meta_lacks_strip_members [OF assms])
  with 1 m' show ?case by (cases "strip_members path m'") simp
qed (auto split: prod.splits)

lemma update_same: "map_of m k = Some v \<Longrightarrow> AList.update k v m = m"
  by (induction m) (auto split: if_splits)

lemma delete_absent: "map_of m k = None \<Longrightarrow> AList.delete k m = m"
  by (simp add: delete_id map_of_eq_None_iff)

lemma strip_meta_of_id:
  assumes "meta_lacks REQUEST_EVIDENCE_BLOCK_KEY m" "meta_lacks VERIFIED_CONTEXT_BLOCK_KEY m"
  shows "strip_meta_of m = (m, False)"
proof (cases "\<exists>meta. map_of m ''_meta'' = Some (JObject meta)")
  case True
  with assms show ?thesis by (auto simp: strip_meta_of_def meta_lacks_def Let_def delete_absent update_same)
next
  case False
  then show ?thesis by (auto simp: strip_meta_of_def split: option.splits json.splits)
qed

lemma strip_clean_id:
  "lacks REQUEST_EVIDENCE_BLOCK_KEY v \<Longrightarrow> lacks VERIFIED_CONTEXT_BLOCK_KEY v \<Longrightarrow> strip_descendant_meta path v = (v, [])"
  "members_lack REQUEST_EVIDENCE_BLOCK_KEY m \<Longrightarrow> members_lack VERIFIED_CONTEXT_BLOCK_KEY m \<Longrightarrow> strip_members path m = (m, [])"
  "elements_lack REQUEST_EVIDENCE_BLOCK_KEY es \<Longrightarrow> elements_lack VERIFIED_CONTEXT_BLOCK_KEY es \<Longrightarrow> strip_elements path i es = (es, [])"
proof (induction path v and path m and path i es
    rule: strip_descendant_meta_strip_members_strip_elements.induct)
  case (1 path m)
  then have "strip_meta_of m = (m, False)" by (simp add: strip_meta_of_id)
  moreover from this 1 have "strip_members path m = (m, [])" by auto
  ultimately show ?case by simp
qed auto

text \<open>
  Stripping is complete and idempotent: at no depth of a stripped value does an object hold a
  \<open>_meta\<close> object with the request-evidence or the verified-context key, and stripping it again
  changes nothing and reports nothing.
\<close>

theorem strip_complete:
  "(\<forall>key\<in>{REQUEST_EVIDENCE_BLOCK_KEY, VERIFIED_CONTEXT_BLOCK_KEY}. lacks key (fst (strip_descendant_meta path v)))
   \<and> strip_descendant_meta path' (fst (strip_descendant_meta path v)) = (fst (strip_descendant_meta path v), [])"
  by (simp add: strip_lacks(1) reserved_def strip_clean_id)

theorem strip_complete_witness:
  "let v = JObject [(''params'', JArray [JObject [(''_meta'', JObject [(VERIFIED_CONTEXT_BLOCK_KEY, JNull), (''a'', JNull)])]])]
   in strip_descendant_meta [] v = (JObject [(''params'', JArray [JObject [(''_meta'', JObject [(''a'', JNull)])]])], [''params[0]._meta''])
      \<and> \<not> lacks VERIFIED_CONTEXT_BLOCK_KEY v \<and> lacks VERIFIED_CONTEXT_BLOCK_KEY (fst (strip_descendant_meta [] v))"
proof -
  define v where "v = JObject [(''params'', JArray [JObject [(''_meta'', JObject [(VERIFIED_CONTEXT_BLOCK_KEY, JNull), (''a'', JNull)])]])]"
  have "strip_descendant_meta [] v = (JObject [(''params'', JArray [JObject [(''_meta'', JObject [(''a'', JNull)])]])], [''params[0]._meta''])"
    "\<not> lacks VERIFIED_CONTEXT_BLOCK_KEY v"
    unfolding v_def by code_simp+
  with strip_complete [of "[]" v "[]"] show ?thesis
    unfolding Let_def v_def [symmetric] by simp
qed

section \<open>The forwarded body\<close>

lemma members_lack_value: "members_lack key m \<Longrightarrow> map_of m k = Some v \<Longrightarrow> lacks key v"
  by (induction m) (auto split: if_splits)

lemma members_lack_others:
  "members_lack key m \<longleftrightarrow> (\<forall>(k, v)\<in>set m. lacks key v)"
  by (induction m) auto

lemma set_update: "set (AList.update k v m) \<subseteq> insert (k, v) (set m)"
  by (induction m) auto

text \<open>
  C37. After stripping a request body and inserting the verified context, the forwarded body holds
  the proxy's block under the verified-context key of its top-level \<open>_meta\<close>, and no other member of
  it holds a verified-context block at any depth: a client cannot seed one.
\<close>

theorem only_proxy_context:
  assumes "json_roundtrip J" and "strip_proxy_owned_meta J body = Ok stripped"
    and "insert_verified_context J stripped ctx channel = Ok forwarded"
  shows "\<exists>obj meta. from_slice J forwarded = Some (JObject obj) \<and> map_of obj ''_meta'' = Some (JObject meta)
    \<and> map_of meta VERIFIED_CONTEXT_BLOCK_KEY = Some ctx
    \<and> (\<forall>(k, v)\<in>set obj. k \<noteq> ''_meta'' \<longrightarrow> lacks VERIFIED_CONTEXT_BLOCK_KEY v)
    \<and> (\<forall>(k, v)\<in>set meta. k \<noteq> VERIFIED_CONTEXT_BLOCK_KEY \<longrightarrow> lacks VERIFIED_CONTEXT_BLOCK_KEY v)"
proof -
  have rt: "from_slice J (to_vec J v) = Some v" for v using assms(1) by (simp add: json_roundtrip_def)
  from assms(2) obtain v where v: "sb_body stripped = to_vec J (fst (strip_descendant_meta [] v))"
    by (auto simp: strip_proxy_owned_meta_def try_bind_Ok_iff case_prod_beta)
  define w where "w = fst (strip_descendant_meta [] v)"
  have clean: "lacks VERIFIED_CONTEXT_BLOCK_KEY w" by (simp add: w_def strip_lacks(1) reserved_def)
  from assms(3) obtain obj meta where w: "w = JObject obj"
    and meta: "(case map_of obj ''_meta'' of Some m \<Rightarrow> m | None \<Rightarrow> JObject []) = JObject meta"
    and fwd: "forwarded = to_vec J (JObject (AList.update ''_meta'' (JObject (AList.update VERIFIED_CONTEXT_BLOCK_KEY ctx meta)) obj))"
    by (auto simp: insert_verified_context_def insert_meta_block_def v rt try_bind_Ok_iff w_def [symmetric]
        META_KEY_def Let_def)
  have obj: "\<forall>(k, v)\<in>set obj. lacks VERIFIED_CONTEXT_BLOCK_KEY v"
    using clean by (simp add: w members_lack_others)
  have "lacks VERIFIED_CONTEXT_BLOCK_KEY (JObject meta)"
    using clean meta members_lack_value [of VERIFIED_CONTEXT_BLOCK_KEY obj "''_meta''"]
    by (auto simp: w meta_lacks_def split: option.splits)
  then have "\<forall>(k, v)\<in>set meta. lacks VERIFIED_CONTEXT_BLOCK_KEY v" by (simp add: members_lack_others)
  with obj show ?thesis
    using set_update [of "''_meta''" "JObject (AList.update VERIFIED_CONTEXT_BLOCK_KEY ctx meta)" obj]
      set_update [of VERIFIED_CONTEXT_BLOCK_KEY ctx meta]
    by (intro exI [of _ "AList.update ''_meta'' (JObject (AList.update VERIFIED_CONTEXT_BLOCK_KEY ctx meta)) obj"]
        exI [of _ "AList.update VERIFIED_CONTEXT_BLOCK_KEY ctx meta"])
      (auto simp: fwd rt update_conv')
qed

text \<open>
  A concrete parser and printer that round-trip: a value is printed as an opening quote and the
  decimal of its code in an enumeration of all values.
\<close>

instance serde_number :: countable
  by countable_datatype

instance json :: countable
  by countable_datatype

definition demo_json :: json_lib where
  "demo_json = \<lparr>from_slice = (\<lambda>b. case b of [] \<Rightarrow> None | c # ds \<Rightarrow> if c = CHR ''\"'' then Some (from_nat (read_nat ds)) else None),
     to_vec = (\<lambda>v. ''\"'' @ show_nat (to_nat v)), from_slice_string = Some, from_utf8 = Some, f64_reemit = Some\<rparr>"

lemma demo_json_roundtrip: "json_roundtrip demo_json"
  by (simp add: json_roundtrip_def demo_json_def)

lemma take_string_digits: "list_all is_ascii_digit ds \<Longrightarrow> take_string ds = (ds, [])"
  by (induction ds rule: take_string.induct) (auto simp: is_ascii_digit_def)

lemma demo_json_representable: "reject_unrepresentable_json demo_json (to_vec demo_json v) = Ok ()"
proof -
  have "take_string (show_nat (to_nat v)) = (show_nat (to_nat v), [])"
    using show_nat_digits by (intro take_string_digits) (auto simp: list_all_iff)
  then show ?thesis
    by (simp add: reject_unrepresentable_json_def demo_json_def scan_string_def starts_with_def)
qed

theorem only_proxy_context_witness:
  "\<exists>forwarded obj meta. from_slice demo_json forwarded = Some (JObject obj) \<and> map_of obj ''_meta'' = Some (JObject meta)
    \<and> map_of meta VERIFIED_CONTEXT_BLOCK_KEY = Some (JString ''ctx'')"
proof -
  note rt = demo_json_roundtrip [unfolded json_roundtrip_def, rule_format]
  define body where "body = to_vec demo_json (JObject [(''_meta'', JObject [(VERIFIED_CONTEXT_BLOCK_KEY, JNull)])])"
  define stripped where "stripped = \<lparr>sb_body = to_vec demo_json (JObject []), sb_seeded = \<lparr>smp_paths = [''_meta'']\<rparr>\<rparr>"
  define forwarded where "forwarded = to_vec demo_json
    (JObject [(''_meta'', JObject [(VERIFIED_CONTEXT_BLOCK_KEY, JString ''ctx'')])])"
  have "strip_descendant_meta [] (JObject [(''_meta'', JObject [(VERIFIED_CONTEXT_BLOCK_KEY, JNull)])])
      = (JObject [], [''_meta''])"
    by code_simp
  then have "strip_proxy_owned_meta demo_json body = Ok stripped"
    by (simp add: strip_proxy_owned_meta_def body_def stripped_def rt refuse_unwalkable_shape_def)
  moreover have "insert_verified_context demo_json stripped (JString ''ctx'') () = Ok forwarded"
    by (simp add: insert_verified_context_def insert_meta_block_def stripped_def forwarded_def rt
        demo_json_representable META_KEY_def)
  ultimately show ?thesis
    using only_proxy_context [OF demo_json_roundtrip] by blast
qed

end
