(* ===== verification/Sign_Accepted.thy ===== *)
theory Sign_Accepted
  imports Sign Json_Strip
begin

text \<open>
  What the signer emits, the verifier accepts: a request signed by \<open>Sign\<close> passes the floor of
  \<open>Floor\<close> within its window, and both sides compute the same evidence.
\<close>

section \<open>Headers after \<open>set_header\<close>\<close>

abbreviation header_values :: "headers \<Rightarrow> string \<Rightarrow> string list" where
  "header_values hs name \<equiv> map snd (filter (header_named name) hs)"

lemma header_values_set_header:
  "header_values (set_header hs name v) n =
     (if to_ascii_lowercase n = to_ascii_lowercase name then [v] else header_values hs n)"
proof -
  have "filter (header_named n) (filter (\<lambda>(k, _). \<not> eq_ignore_ascii_case k name) hs) =
      (if to_ascii_lowercase n = to_ascii_lowercase name then [] else filter (header_named n) hs)"
    by (auto simp: header_named_def eq_ignore_ascii_case_def filter_empty_conv case_prod_beta intro!: filter_cong)
  then show ?thesis
    by (auto simp: set_header_def header_named_def eq_ignore_ascii_case_def)
qed

lemma single_header_cong: "header_values hs n = header_values hs' n \<Longrightarrow> single_header hs n = single_header hs' n"
  by (simp add: single_header_eq)

lemma required_header_cong: "header_values hs n = header_values hs' n \<Longrightarrow> required_header hs n = required_header hs' n"
  by (simp add: required_header_def single_header_eq)

lemma covered_header_loop_eq:
  "covered_header_loop name found hs =
     (case header_values hs name of
        [] \<Rightarrow> Ok found
      | v # vs \<Rightarrow> if found \<noteq> None \<or> vs \<noteq> [] then Err (MissingCoveredComponent name) else Ok (Some (trim v)))"
  by (induction name found hs rule: covered_header_loop.induct)
    (auto simp: header_named_def split: list.splits)

text \<open>A covered value depends on the message only through the header it names.\<close>

lemma component_value_headers:
  assumes "header_values hs (cc_name c) = header_values (rq_headers r) (cc_name c)"
  shows "component_value c (Request (r\<lparr>rq_headers := hs\<rparr>)) = component_value c (Request r)"
  using assms
  by (simp add: component_value_def resolve_component_value_def component_source_def covered_header_loop_eq
      split: option.splits)

lemma base_lines_cong:
  "(\<And>c. c \<in> set cs \<Longrightarrow> component_value c s = component_value c s') \<Longrightarrow> base_lines cs s = base_lines cs s'"
  by (induction cs) simp_all

lemma reject_content_encoding_set_header:
  assumes "reject_content_encoding hs = Ok ()" "\<not> eq_ignore_ascii_case name ''content-encoding''"
  shows "reject_content_encoding (set_header hs name v) = Ok ()"
  using assms unfolding reject_content_encoding_Ok_iff by (auto simp: set_header_def)

section \<open>Dictionaries with one member\<close>

definition calm :: "char \<Rightarrow> string \<Rightarrow> bool" where
  "calm sep s \<longleftrightarrow> (\<forall>r. scan_split sep False False (s @ r) = pre s (scan_split sep False False r))"

lemma calm_append: "calm sep s \<Longrightarrow> calm sep t \<Longrightarrow> calm sep (s @ t)"
  by (simp add: calm_def pre_append)

lemma calm_plain: "list_all (\<lambda>c. c \<noteq> CHR ''\"'' \<and> c \<noteq> sep) s \<Longrightarrow> calm sep s"
  unfolding calm_def by (induction s) auto

lemma calm_quoted: "list_all sf_char s \<Longrightarrow> calm sep (quoted s)"
  by (simp add: calm_def quoted_def scan_in_quotes)

lemma calm_join: "list_all (calm sep) ps \<Longrightarrow> calm sep s \<Longrightarrow> calm sep (join_with s ps)"
  by (induction ps rule: induct_list012) (auto intro: calm_append simp: calm_plain)

lemma calm_concat: "list_all (calm sep) ps \<Longrightarrow> calm sep (concat ps)"
  by (induction ps) (auto intro: calm_append simp: calm_plain)

lemma member_value_single:
  assumes "calm CHR '','' (label @ ''='' @ v)" "label \<noteq> []" "visible (hd label)"
    and "v \<noteq> []" "visible (hd v)" "visible (last v)"
  shows "member_value (label @ ''='' @ v) label = Ok v"
proof -
  have "scan_split CHR '','' False False ((label @ ''='' @ v) @ []) = pre (label @ ''='' @ v) [[]]"
    using assms(1) [unfolded calm_def, rule_format, of "[]"] by simp
  then have "scan_split CHR '','' False False (label @ ''='' @ v) = [label @ ''='' @ v]"
    unfolding pre_Cons by simp
  moreover have "trim (label @ ''='' @ v) = label @ ''='' @ v" "trim v = v"
    using assms by (auto intro!: trim_visible)
  moreover have "strip_prefix label (label @ CHR ''='' # v) = Some (CHR ''='' # v)"
    "strip_prefix ''='' (CHR ''='' # v) = Some v"
    using strip_prefix_append [of label] strip_prefix_append [of "''=''"] by simp_all
  ultimately show ?thesis
    using assms(2) by (simp add: member_value_def split_dictionary_def)
qed

lemma known_sf: "known c \<Longrightarrow> list_all sf_char (cc_name c)"
  by (auto simp: known_def KNOWN_COMPONENTS_def sf_char_def)

lemma calm_identifier:
  assumes "known c"
  shows "calm CHR '','' (cc_identifier c)"
proof -
  have "calm CHR '','' (quoted (cc_name c))" by (rule calm_quoted [OF known_sf [OF assms]])
  moreover have "calm CHR '','' '';req''" by (rule calm_plain) simp
  ultimately show ?thesis
    using calm_append [of "CHR '',''" "quoted (cc_name c)" "'';req''"] by (simp add: cc_identifier_def quoted_def)
qed

lemma calm_int_seg: "CHR ''\"'' \<notin> set k \<Longrightarrow> CHR '','' \<notin> set k \<Longrightarrow> calm CHR '','' (tail_of (int_seg k i))"
proof (cases i)
  case (Some j)
  have "c \<noteq> CHR ''\"'' \<and> c \<noteq> CHR '',''" if "c \<in> set (show_int j)" for c
    using that quiet_show_int [of j] show_nat_digits [of c]
    by (auto simp: show_int_def is_ascii_digit_def split: if_splits)
  then have "CHR ''\"'' \<notin> set (show_int j)" "CHR '','' \<notin> set (show_int j)" by blast+
  then show "CHR ''\"'' \<notin> set k \<Longrightarrow> CHR '','' \<notin> set k \<Longrightarrow> calm CHR '','' (tail_of (int_seg k i))"
    by (auto simp: Some tail_of_segs list_all_iff intro!: calm_plain)
qed (simp add: tail_of_segs calm_plain)

lemma calm_str_seg:
  assumes "CHR ''\"'' \<notin> set k" "CHR '','' \<notin> set k" "\<And>s. v = Some s \<Longrightarrow> list_all sf_char s"
  shows "calm CHR '','' (tail_of (str_seg k v))"
proof (cases v)
  case (Some s)
  have "calm CHR '','' ('';'' @ k @ ''='')" using assms(1,2) by (auto simp: list_all_iff intro!: calm_plain)
  moreover have "calm CHR '','' (quoted s)" using assms(3) Some by (intro calm_quoted) simp
  ultimately show ?thesis
    using calm_append [of "CHR '',''" "'';'' @ k @ ''=''" "quoted s"] by (simp add: Some tail_of_segs quoted_def)
qed (simp add: tail_of_segs calm_plain)

lemma calm_serialized:
  assumes "serialize_with p cs = Ok s" "list_all known cs"
  shows "calm CHR '','' s"
proof -
  have s: "s = ''('' @ component_list cs @ '')'' @ tail_of (params_segs p)" "strings_ok p"
    using assms(1) by (simp_all add: serialize_with_Ok_iff)
  have "calm CHR '','' (component_list cs)"
    unfolding component_list_def
    by (rule calm_join) (use assms(2) calm_identifier in \<open>auto simp: list_all_iff calm_plain\<close>)
  moreover have "calm CHR '','' (tail_of (params_segs p))"
    using s(2) unfolding params_segs_def tail_of_append
    by (intro calm_append calm_int_seg calm_str_seg) (auto simp: strings_ok_def)
  moreover have "calm CHR '','' ''(''" "calm CHR '','' '')''" by (simp_all add: calm_plain)
  ultimately show ?thesis unfolding s(1) by (intro calm_append)
qed

lemma serialized_ends: "serialize_with p cs = Ok s \<Longrightarrow> s \<noteq> [] \<and> hd s = CHR ''('' \<and> visible (last s)"
proof -
  assume "serialize_with p cs = Ok s"
  then have s: "s = ''('' @ component_list cs @ '')'' @ tail_of (params_segs p)" "strings_ok p"
    by (simp_all add: serialize_with_Ok_iff)
  have "visible (last s)"
    using tail_of_visible_end [OF seg_ok_params [OF s(2)] params_segs_end]
    by (cases "params_segs p = []") (simp_all add: s visible_def tail_of_def)
  with s show ?thesis by simp
qed

section \<open>Acceptance\<close>

text \<open>The alphabet of standard base64, as far as a dictionary member is sensitive to it.\<close>

definition b64_alphabet :: "crypto_lib \<Rightarrow> bool" where
  "b64_alphabet L \<longleftrightarrow> (\<forall>b. list_all (\<lambda>c. visible c \<and> c \<noteq> CHR ''\"'' \<and> c \<noteq> CHR '','') (std_encode L b))"

lemma conditional_components_Ok:
  "conditional_components hs names = Ok cs \<Longrightarrow>
     (\<forall>c\<in>set cs. \<exists>n\<in>set names. c = cc_new n) \<and> (distinct names \<longrightarrow> distinct cs)
     \<and> (\<forall>n\<in>set names. \<exists>v. single_header hs n = Ok v \<and> (v \<noteq> None \<longrightarrow> cc_new n \<in> set cs))"
proof (induction names arbitrary: cs)
  case (Cons n names)
  then obtain v cs' where v: "single_header hs n = Ok v" "conditional_components hs names = Ok cs'"
    "cs = (if v \<noteq> None then [cc_new n] else []) @ cs'"
    by (auto simp: try_bind_Ok_iff)
  have "cc_new n \<notin> set cs'" if "n \<notin> set names"
    using Cons.IH [OF v(2)] that by (auto simp: cc_new_def)
  with Cons.IH [OF v(2)] v show ?case by auto
qed simp

lemmas covered_names = conditionally_covered_request_headers_def MCP_COVERABLE_TRANSPORT_HEADERS_def MCP_METHOD_HEADER_def
  MCP_NAME_HEADER_def MCP_PROTOCOL_VERSION_HEADER_def REQUIRED_REQUEST_COMPONENTS_def

lemma sign_components_Ok:
  assumes "sign_request_components r = Ok cs"
  shows "list_all known cs" "distinct cs" "\<not> list_ex cc_req cs" "\<forall>n\<in>set REQUIRED_REQUEST_COMPONENTS. cc_new n \<in> set cs"
    "\<forall>n\<in>set conditionally_covered_request_headers. \<exists>v. single_header (rq_headers r) n = Ok v \<and> (v \<noteq> None \<longrightarrow> cc_new n \<in> set cs)"
    "\<forall>c\<in>set cs. \<exists>n\<in>set (REQUIRED_REQUEST_COMPONENTS @ conditionally_covered_request_headers). c = cc_new n"
proof -
  note names = covered_names
  from assms obtain cond where cond: "conditional_components (rq_headers r) conditionally_covered_request_headers = Ok cond"
    and cs: "cs = map cc_new REQUIRED_REQUEST_COMPONENTS @ cond"
    by (auto simp: sign_request_components_def conditional_request_components_def try_bind_Ok_iff)
  note c = conditional_components_Ok [OF cond]
  show new: "\<forall>c\<in>set cs. \<exists>n\<in>set (REQUIRED_REQUEST_COMPONENTS @ conditionally_covered_request_headers). c = cc_new n"
    using c cs by auto
  have "known (cc_new n)" if "n \<in> set (REQUIRED_REQUEST_COMPONENTS @ conditionally_covered_request_headers)" for n
    using that by (auto simp: names known_def cc_new_def KNOWN_COMPONENTS_def)
  with new show "list_all known cs" by (auto simp: list_all_iff)
  show "\<not> list_ex cc_req cs" using new by (auto simp: list_ex_iff cc_new_def)
  have "distinct cond" using c by (simp add: names)
  moreover have "distinct (map cc_new REQUIRED_REQUEST_COMPONENTS)" by (simp add: names cc_new_def)
  moreover have "set (map cc_new REQUIRED_REQUEST_COMPONENTS) \<inter> set cond = {}"
  proof -
    have "set REQUIRED_REQUEST_COMPONENTS \<inter> set conditionally_covered_request_headers = {}" by (simp add: names)
    with c show ?thesis by (fastforce simp: cc_new_def)
  qed
  ultimately show "distinct cs" by (simp add: cs)
  show "\<forall>n\<in>set REQUIRED_REQUEST_COMPONENTS. cc_new n \<in> set cs" by (simp add: cs)
  show "\<forall>n\<in>set conditionally_covered_request_headers. \<exists>v. single_header (rq_headers r) n = Ok v \<and> (v \<noteq> None \<longrightarrow> cc_new n \<in> set cs)"
    using c cs by auto
qed

lemma sign_request_steps:
  assumes "sign_request_with_signer L request sign_base key_id created expires nonce = (signed, Ok ev)"
  obtains r components params base sig s where
    "reject_content_encoding (rq_headers request) = Ok ()"
    "r = request\<lparr>rq_headers := set_header (rq_headers request) ''Content-Digest'' (content_digest_sha256 L (rq_body request))\<rparr>"
    "params = \<lparr>sp_created = Some created, sp_expires = Some expires, sp_nonce = Some nonce,
                sp_keyid = Some key_id, sp_alg = Some ALG_ED25519, sp_tag = Some PROFILE_TAG\<rparr>"
    "sign_request_components r = Ok components" "signature_base components params (Request r) = Ok base"
    "sign_base base = Ok sig" "length sig = 64" "serialize_with params components = Ok s"
    "signed = r\<lparr>rq_headers := set_header (set_header (rq_headers r) ''Signature-Input'' (REQUEST_LABEL @ ''='' @ s))
       ''Signature'' (REQUEST_LABEL @ ''=:'' @ std_encode L sig @ '':'')\<rparr>"
    "ev = from_signature_base L base"
  using assms
  by (auto simp: sign_request_with_signer_def emit_signature_def Let_def
      ED25519_SIGNATURE_LEN_def base64_standard_encode_def split: sum.splits prod.splits if_splits)

lemma content_digest_verifies:
  assumes "b64_alphabet L"
  shows "verify_content_digest_sha256 L (content_digest_sha256 L body) body = Ok ()"
proof -
  have "list_all (\<lambda>c. visible c \<and> c \<noteq> CHR ''\"'' \<and> c \<noteq> CHR '','') (std_encode L (sha256 L body))"
    using assms by (simp add: b64_alphabet_def)
  then have "CHR '','' \<notin> set (content_digest_sha256 L body)" by (auto simp: content_digest_sha256_def list_all_iff)
  moreover have "trim (content_digest_sha256 L body) = content_digest_sha256 L body"
    by (rule trim_visible) (simp_all add: content_digest_sha256_def visible_def)
  ultimately show ?thesis
    by (simp add: verify_content_digest_Ok_iff split_on_no_sep) (simp add: content_digest_sha256_def starts_with_def)
qed

lemma signature_value_emitted:
  assumes lib: "b64_ok L" "b64_alphabet L"
    and label: "label = REQUEST_LABEL \<or> label = RESPONSE_LABEL"
    and hs: "header_values hs ''signature'' = [label @ ''=:'' @ std_encode L sig @ '':'']"
  shows "signature_value_b64url L hs e label = Ok (b64url_encode L sig)"
proof -
  let ?v = "'':'' @ std_encode L sig @ '':''"
  have plain: "list_all (\<lambda>c. c \<noteq> CHR ''\"'' \<and> c \<noteq> CHR '','') (std_encode L sig)"
    using lib(2) by (auto simp: b64_alphabet_def list_all_iff)
  have "member_value (label @ ''='' @ ?v) label = Ok ?v"
    by (rule member_value_single, rule calm_plain)
      (use plain label in \<open>auto simp: REQUEST_LABEL_def RESPONSE_LABEL_def visible_def\<close>)
  moreover have "strip_prefix '':'' ?v = Some (std_encode L sig @ '':'')"
    by (rule strip_prefix_append)
  moreover have "strip_suffix '':'' (std_encode L sig @ '':'') = Some (std_encode L sig)"
    by (simp add: strip_suffix_def)
  ultimately show ?thesis
    using hs lib(1)
    by (simp add: signature_value_b64url_def required_header_Ok_iff [THEN iffD2] base64_standard_decode_def b64_ok_def)
qed

text \<open>Headers the signer adds after the base is computed are not covered, so the verifier rebuilds the same base.\<close>

lemma signature_base_after_emit:
  assumes "sign_request_components r = Ok cs"
    and "signed = r\<lparr>rq_headers := set_header (set_header (rq_headers r) ''Signature-Input'' x) ''Signature'' y\<rparr>"
  shows "signature_base cs params (Request signed) = signature_base cs params (Request r)"
proof -
  have "component_value c (Request signed) = component_value c (Request r)" if "c \<in> set cs" for c
  proof -
    from sign_components_Ok(6) [OF assms(1)] that obtain n
      where "n \<in> set (REQUIRED_REQUEST_COMPONENTS @ conditionally_covered_request_headers)" "c = cc_new n" by blast
    then have "to_ascii_lowercase (cc_name c) \<noteq> to_ascii_lowercase ''Signature-Input''"
      "to_ascii_lowercase (cc_name c) \<noteq> to_ascii_lowercase ''Signature''"
      by (auto simp: covered_names cc_new_def to_ascii_lowercase_def to_ascii_lower_def)
    then show ?thesis
      unfolding assms(2) by (intro component_value_headers) (simp add: header_values_set_header)
  qed
  then show ?thesis by (simp add: signature_base_def base_lines_cong [of cs "Request signed" "Request r"])
qed

lemma lowercase_names:
  "to_ascii_lowercase ''Content-Digest'' = ''content-digest''" "to_ascii_lowercase ''content-digest'' = ''content-digest''"
  "to_ascii_lowercase ''Signature-Input'' = ''signature-input''" "to_ascii_lowercase ''signature-input'' = ''signature-input''"
  "to_ascii_lowercase ''Signature'' = ''signature''" "to_ascii_lowercase ''signature'' = ''signature''"
  "to_ascii_lowercase ''content-type'' = ''content-type''" "to_ascii_lowercase ''Content-Type'' = ''content-type''"
  "to_ascii_lowercase ''authorization'' = ''authorization''"
  "to_ascii_lowercase ''dpop'' = ''dpop''" "to_ascii_lowercase ''mcp-method'' = ''mcp-method''"
  "to_ascii_lowercase ''mcp-name'' = ''mcp-name''" "to_ascii_lowercase ''mcp-protocol-version'' = ''mcp-protocol-version''"
  by code_simp+

lemma signed_header_values:
  assumes "hs = set_header (set_header (set_header hs0 ''Content-Digest'' d) ''Signature-Input'' x) ''Signature'' y"
  shows "header_values hs ''content-digest'' = [d]" "header_values hs ''signature-input'' = [x]"
    "header_values hs ''signature'' = [y]" "header_values hs ''content-type'' = header_values hs0 ''content-type''"
    "n \<in> set conditionally_covered_request_headers \<Longrightarrow> header_values hs n = header_values hs0 n"
  by (auto simp: assms header_values_set_header covered_names lowercase_names)

lemma signed_request_accepted:
  assumes signed: "sign_request_with_signer L request sign_base key_id created expires nonce = (signed, Ok ev)"
    and lib: "b64_ok L" "b64_alphabet L"
    and signer: "\<And>base sig. sign_base base = Ok sig \<Longrightarrow> verify_strict L (vk_inner (verification_key actor)) base sig"
    and shape: "require_json_media_type (rq_headers request) ''request content-type'' = Ok ()"
      "header_values (rq_headers request) MCP_METHOD_HEADER = []"
    and policy: "policy_mcp_transport policy = None" "Ed25519 \<in> set (algorithms policy)"
    and window: "is_i64 created" "is_i64 expires" "window_admits created expires now (max_clock_skew policy)"
      "saturating_sub expires created \<le> max_signature_validity policy"
    and actor: "resolve key_id RequestSlot = Resolved actor" "slot actor = RequestSlot"
  shows "\<exists>fl. floor_request L J signed resolve policy now = Ok fl \<and> fl_evidence fl = ev
    \<and> fl_resolved_actor fl = actor \<and> fl_nonce fl = nonce \<and> fl_created fl = created \<and> fl_expires fl = expires"
  using signed
proof (rule sign_request_steps)
  fix r components params base sig s
  assume enc: "reject_content_encoding (rq_headers request) = Ok ()"
    and r: "r = request\<lparr>rq_headers := set_header (rq_headers request) ''Content-Digest'' (content_digest_sha256 L (rq_body request))\<rparr>"
    and params: "params = \<lparr>sp_created = Some created, sp_expires = Some expires, sp_nonce = Some nonce,
                sp_keyid = Some key_id, sp_alg = Some ALG_ED25519, sp_tag = Some PROFILE_TAG\<rparr>"
    and comps: "sign_request_components r = Ok components" and base: "signature_base components params (Request r) = Ok base"
    and sig: "sign_base base = Ok sig" "length sig = 64" and ser: "serialize_with params components = Ok s"
    and sgn: "signed = r\<lparr>rq_headers := set_header (set_header (rq_headers r) ''Signature-Input'' (REQUEST_LABEL @ ''='' @ s))
       ''Signature'' (REQUEST_LABEL @ ''=:'' @ std_encode L sig @ '':'')\<rparr>"
    and ev: "ev = from_signature_base L base"
  note c = sign_components_Ok [OF comps]
  have hs: "rq_headers signed = set_header (set_header (set_header (rq_headers request) ''Content-Digest''
      (content_digest_sha256 L (rq_body request))) ''Signature-Input'' (REQUEST_LABEL @ ''='' @ s))
      ''Signature'' (REQUEST_LABEL @ ''=:'' @ std_encode L sig @ '':'')" and body: "rq_body signed = rq_body request"
    by (simp_all add: sgn r)
  note h = signed_header_values [OF hs]
  have "member_value (REQUEST_LABEL @ ''='' @ s) REQUEST_LABEL = Ok s"
    using calm_serialized [OF ser c(1)] serialized_ends [OF ser]
    by (intro member_value_single calm_append) (auto simp: REQUEST_LABEL_def visible_def calm_plain)
  moreover have "parse_signature_input s = Ok \<lparr>ps_components = components, ps_params = params\<rparr>"
    by (rule parse_serialized [OF ser _ c(1,2)]) (use window in \<open>simp add: ints_ok_def params\<close>)
  moreover have "reject_content_encoding (rq_headers signed) = Ok ()"
    using enc unfolding hs by (intro reject_content_encoding_set_header) (simp_all add: eq_ignore_ascii_case_def to_ascii_lowercase_def to_ascii_lower_def)
  moreover have "require_json_media_type (rq_headers signed) ''request content-type'' = Ok ()"
    using shape(1) required_header_cong [OF h(4)] by (simp add: require_json_media_type_def)
  moreover have "require_conditional_coverage (rq_headers signed) components = Ok ()"
  proof -
    have "single_header (rq_headers signed) n = single_header (rq_headers r) n"
      if "n \<in> set conditionally_covered_request_headers" for n
      using h(5) [OF that] that
      by (intro single_header_cong) (auto simp: r header_values_set_header covered_names lowercase_names)
    then show ?thesis
      using c(5) by (auto simp: require_conditional_coverage_def require_conditional_Ok_iff covered_plain_iff)
  qed
  moreover have "check_params params policy now True = Ok (created, expires, nonce, key_id, Ed25519)"
    using policy(2) window
    by (simp add: check_params_def params accepted_algorithm_def from_token_def ALG_ED25519_def)
  moreover have "resolve_actor_for_slot resolve key_id RequestSlot = Ok actor"
    using actor by (simp add: resolve_actor_Ok_iff)
  moreover have "signature_base components params (Request signed) = Ok base"
    using base signature_base_after_emit [OF comps sgn] by simp
  moreover have "verify_under L Ed25519 base (b64url_encode L sig) (verification_key actor) mcp_re_error.InvalidSignature = Ok ()"
    using sig lib(1) signer by (auto simp: verify_under_Ok_iff b64url_encode_def b64_ok_def)
  moreover have "reject_mcp_method_divergence J signed = Ok ()"
    using shape(2) h(5) [of MCP_METHOD_HEADER]
    by (simp add: reject_mcp_method_divergence_def single_header_eq covered_names)
  moreover have "require_components components REQUIRED_REQUEST_COMPONENTS [] = Ok ()"
    using c(4) by (simp add: require_components_Ok_iff covered_plain_iff)
  ultimately show ?thesis
    using c(3) content_digest_verifies [OF lib(2)] h(1-3) signature_value_emitted [OF lib(1,2) _ h(3)]
    unfolding floor_request_def
    by (simp add: policy(1) required_header_Ok_iff [THEN iffD2] body ev require_def)
qed

lemma local_sig_verifies:
  assumes "b64_ok L" "ed25519_ok L" "length (sk_inner key) = 32" "local_sig L key base = Ok sig"
  shows "verify_strict L (vk_inner (public_key L key)) base sig"
  using assms by (auto simp: local_sig_def b64url_decode_def b64_ok_def b64url_encode_def sign_b64url_def ed25519_ok_def
      public_key_def ok_or_def)

text \<open>
  C4. What the signer emits, the verifier accepts. A JSON request without an \<open>Mcp-Method\<close> header,
  signed with a key in memory, passes the request floor of a verifier that resolves the key id to
  the public half of that key, as long as the signed window admits the present and is no longer
  than the policy allows; and both sides compute the same evidence digest.
\<close>

theorem sign_then_floor_accepts:
  assumes "sign_request L request key key_id created expires nonce = (signed, Ok ev)"
    and "b64_ok L" "b64_alphabet L" "ed25519_ok L" "length (sk_inner key) = 32"
    and "require_json_media_type (rq_headers request) ''request content-type'' = Ok ()"
      "header_values (rq_headers request) MCP_METHOD_HEADER = []"
    and "policy_mcp_transport policy = None" "Ed25519 \<in> set (algorithms policy)"
    and "is_i64 created" "is_i64 expires" "window_admits created expires now (max_clock_skew policy)"
      "saturating_sub expires created \<le> max_signature_validity policy"
    and "resolve key_id RequestSlot = Resolved actor" "slot actor = RequestSlot"
      "verification_key actor = public_key L key"
  shows "\<exists>fl. floor_request L J signed resolve policy now = Ok fl \<and> fl_evidence fl = ev
    \<and> fl_resolved_actor fl = actor \<and> fl_nonce fl = nonce \<and> fl_created fl = created \<and> fl_expires fl = expires"
  by (rule signed_request_accepted [OF assms(1) [unfolded sign_request_def]])
    (use assms local_sig_verifies in simp_all)

section \<open>An accepted request\<close>

text \<open>
  A request that is signed and accepted. The signature scheme has a readable wire form: two letters
  for each byte stand for standard base64.
\<close>

definition letters :: "char \<Rightarrow> string" where
  "letters c = [char_of (97 + of_char c div 16 :: nat), char_of (97 + of_char c mod 16 :: nat)]"

fun unletters :: "string \<Rightarrow> bytes option" where
  "unletters [] = Some []"
| "unletters [a] = None"
| "unletters (a # b # r) = map_option ((#) (char_of ((of_char a - 97) * 16 + (of_char b - 97) :: nat))) (unletters r)"

definition floor_lib :: crypto_lib where
  "floor_lib = demo_lib\<lparr>std_encode := \<lambda>b. concat (map letters b), std_decode := unletters\<rparr>"

lemma of_char_letter: "n < 16 \<Longrightarrow> of_char (char_of (97 + n :: nat)) = (97 + n :: nat)"
  by simp

lemma unletters_letters: "unletters (concat (map letters b)) = Some b"
proof (induction b)
  case (Cons c b)
  have "of_char c div 16 < (16 :: nat)" using nat_of_char_less_256 [of c] by linarith
  moreover have "of_char c mod 16 < (16 :: nat)" by simp
  ultimately show ?case
    using Cons by (simp add: letters_def of_char_letter div_mult_mod_eq del: of_char_of)
qed simp

lemma letters_plain: "x \<in> set (letters c) \<Longrightarrow> visible x \<and> x \<noteq> CHR ''\"'' \<and> x \<noteq> CHR '',''"
proof -
  have plain: "visible x \<and> x \<noteq> CHR ''\"'' \<and> x \<noteq> CHR '',''" if "x = char_of (97 + n :: nat)" "n < 16" for n x
  proof -
    have "ord x = 97 + n" using that by (simp add: of_char_letter)
    with that(2) show ?thesis by (auto simp: visible_def)
  qed
  have "of_char c div 16 < (16 :: nat)" using nat_of_char_less_256 [of c] by linarith
  then show "x \<in> set (letters c) \<Longrightarrow> ?thesis"
    using plain [of x "of_char c div 16"] plain [of x "of_char c mod 16"] by (auto simp: letters_def)
qed

lemma floor_lib_ok: "b64_ok floor_lib" "b64_alphabet floor_lib" "ed25519_ok floor_lib"
  using letters_plain unletters_letters
  by (auto simp: floor_lib_def b64_ok_def b64_alphabet_def ed25519_ok_def demo_lib_def list_all_iff)

definition sample_unsigned :: HttpRequest where
  "sample_unsigned = \<lparr>rq_method = ''POST'', rq_target_uri = ''https://example.com/mcp'',
     rq_headers = [(''Content-Type'', ''application/json'')], rq_body = ''{}''\<rparr>"

definition sample_key :: SigningKey where
  "sample_key = from_seed_bytes (pad32 ''seed'')"

definition sample_actor :: ResolvedActor where
  "sample_actor = \<lparr>identity = \<lparr>role = ''client'', trust_domain = ''example.com'', subject = ''a'', keyid = ''k''\<rparr>,
     verification_key = public_key floor_lib sample_key, slot = RequestSlot\<rparr>"

definition sample_resolver :: resolver where
  "sample_resolver key_id slot0 = (if key_id = ''k'' then Resolved sample_actor else NotTrusted)"

definition sample_sp :: SignatureParams where
  "sample_sp = \<lparr>sp_created = Some 100, sp_expires = Some 200, sp_nonce = Some ''n'',
     sp_keyid = Some ''k'', sp_alg = Some ALG_ED25519, sp_tag = Some PROFILE_TAG\<rparr>"

lemma sample_signs:
  obtains signed ev where "sign_request floor_lib sample_unsigned sample_key ''k'' 100 200 ''n'' = (signed, Ok ev)"
proof -
  let ?cs = "map cc_new REQUIRED_REQUEST_COMPONENTS"
  let ?r = "sample_unsigned\<lparr>rq_headers := set_header (rq_headers sample_unsigned) ''Content-Digest''
    (content_digest_sha256 floor_lib (rq_body sample_unsigned))\<rparr>"
  have "reject_content_encoding (rq_headers sample_unsigned) = Ok ()"
    unfolding sample_unsigned_def by code_simp
  moreover have "single_header (rq_headers ?r) n = Ok None" if "n \<in> set conditionally_covered_request_headers" for n
    using that
    by (auto simp: single_header_eq header_values_set_header header_named_def eq_ignore_ascii_case_def sample_unsigned_def
        covered_names lowercase_names split: list.splits)
  then have "conditional_components (rq_headers ?r) conditionally_covered_request_headers = Ok []"
    by (simp add: covered_names)
  then have "sign_request_components ?r = Ok ?cs"
    by (simp add: sign_request_components_def conditional_request_components_def)
  moreover obtain base where "signature_base ?cs sample_sp (Request ?r) = Ok base"
  proof -
    have "case signature_base ?cs sample_sp (Request ?r) of Inl _ \<Rightarrow> False | Inr _ \<Rightarrow> True" by code_simp
    with that show thesis by (auto split: sum.splits)
  qed
  moreover from calculation(3) obtain s where "serialize_with sample_sp ?cs = Ok s"
    by (auto simp: signature_base_def try_bind_Ok_iff)
  moreover have "local_sig floor_lib sample_key b = Ok (pad32 (sk_inner sample_key) @ pad32 b)" for b
    by (simp add: local_sig_def b64url_decode_def b64url_encode_def sign_b64url_def floor_lib_def demo_lib_def ok_or_def)
  ultimately show thesis
    by (intro that) (simp add: sign_request_def sign_request_with_signer_def Let_def emit_signature_def
        sample_sp_def [symmetric] ED25519_SIGNATURE_LEN_def)
qed

lemma sample_request_shape:
  "require_json_media_type (rq_headers sample_unsigned) ''request content-type'' = Ok ()"
  "header_values (rq_headers sample_unsigned) MCP_METHOD_HEADER = []"
  "window_admits 100 200 150 (max_clock_skew policy_default)"
  "saturating_sub 200 100 \<le> max_signature_validity policy_default"
  "policy_mcp_transport policy_default = None" "Ed25519 \<in> set (algorithms policy_default)"
  "is_i64 100" "is_i64 200" "is_i64 150"
  unfolding sample_unsigned_def by code_simp+

lemma sample_actor_resolved:
  "sample_resolver ''k'' RequestSlot = Resolved sample_actor" "slot sample_actor = RequestSlot"
  "verification_key sample_actor = public_key floor_lib sample_key" "length (sk_inner sample_key) = 32"
  by (simp_all add: sample_resolver_def sample_actor_def sample_key_def from_seed_bytes_def)

theorem sign_then_floor_accepts_witness:
  "\<exists>signed ev fl. sign_request floor_lib sample_unsigned sample_key ''k'' 100 200 ''n'' = (signed, Ok ev)
     \<and> floor_request floor_lib demo_json signed sample_resolver policy_default 150 = Ok fl \<and> fl_evidence fl = ev"
proof -
  obtain signed ev where "sign_request floor_lib sample_unsigned sample_key ''k'' 100 200 ''n'' = (signed, Ok ev)"
    by (rule sample_signs)
  with sign_then_floor_accepts [where resolve = sample_resolver and actor = sample_actor, OF this floor_lib_ok sample_actor_resolved(4) sample_request_shape(1,2,5-8,3,4)
      sample_actor_resolved(1-3), of demo_json]
  show ?thesis by blast
qed

theorem floor_request_sound_witness:
  "\<exists>signed fl. floor_request floor_lib demo_json signed sample_resolver policy_default 150 = Ok fl
     \<and> verify_content_digest_sha256 floor_lib (fl_content_digest fl) (rq_body signed) = Ok ()
     \<and> fl_evidence fl = from_signature_base floor_lib (fl_request_signature_base fl)"
proof -
  obtain signed ev where "sign_request floor_lib sample_unsigned sample_key ''k'' 100 200 ''n'' = (signed, Ok ev)"
    by (rule sample_signs)
  from signed_request_accepted [where resolve = sample_resolver and actor = sample_actor, OF this [unfolded sign_request_def] floor_lib_ok(1,2) _ sample_request_shape(1,2,5-8,3,4)
      sample_actor_resolved(1,2), of demo_json] local_sig_verifies [OF floor_lib_ok(1,3) sample_actor_resolved(4)]
  obtain fl where "floor_request floor_lib demo_json signed sample_resolver policy_default 150 = Ok fl"
    by (auto simp: sample_actor_resolved)
  with floor_request_sound [OF this policy_default_ok sample_request_shape(9)] show ?thesis
    by (auto simp: covers_body_def)
qed

end
