(* ===== verification/Delegation_Accepted.thy ===== *)
theory Delegation_Accepted
  imports Custody Sign_Accepted
begin

text \<open>
  What a custody signs, a client accepts. A response signed by the key of \<open>Custody\<close>, under a
  credential the root issued with \<open>Delegation\<close>, passes the delegated verifier of a client that trusts
  that root.
\<close>

section \<open>Credentials\<close>

lemma issued_credential:
  assumes "issue_delegation_credential L S root header claims = Some credential"
    and lib: "b64_ok L" "url_alphabet L" "ed25519_ok L" "length (sk_inner root) = 32"
    and serde: "serde_ok (header_to_vec S) (header_from_slice S)" "serde_ok (claims_to_vec S) (claims_from_slice S)"
  obtains h p s where "split_compact_jws credential = Ok (h, p, s)"
    "decode_json L (header_from_slice S) h = Ok header" "decode_json L (claims_from_slice S) p = Ok claims"
    "verify_ed25519_with L (h @ ''.'' @ p) s (public_key L root) e = Ok ()"
proof -
  from assms(1) obtain hb pb sig where b: "header_to_vec S header = Some hb" "claims_to_vec S claims = Some pb"
    and sig: "b64url_decode L (sign_b64url L root (b64url_encode L hb @ ''.'' @ b64url_encode L pb)) = Ok sig" "length sig = 64"
    and cred: "credential = b64url_encode L hb @ ''.'' @ b64url_encode L pb @ ''.'' @ b64url_encode L sig"
    by (auto simp: issue_delegation_credential_def issue_delegation_credential_with_signer_def try_bind_Ok_iff Let_def
        JWS_SIGNATURE_LEN_def split: sum.splits if_splits)
  have "hb \<noteq> []" "header_from_slice S hb = Some header" "pb \<noteq> []" "claims_from_slice S pb = Some claims"
    using b serde by (auto simp: serde_ok_def)
  moreover have "sig = seed_sign L (sk_inner root) (b64url_encode L hb @ ''.'' @ b64url_encode L pb)" "sig \<noteq> []"
    using sig lib(1) by (auto simp: sign_b64url_def)
  ultimately show thesis
    using credential_jws.split_encoded [OF lib(2)] lib
    by (intro that [of "b64url_encode L hb" "b64url_encode L pb" "b64url_encode L sig"])
      (auto simp: cred decode_json_Ok_iff verify_ed25519_with_Ok_iff b64url_encode_def b64_ok_def ed25519_ok_def public_key_def)
qed

lemma parse_credential_unique:
  "parse_credential L S credential = Ok (header', claims') \<Longrightarrow> split_compact_jws credential = Ok (h, p, s)
   \<Longrightarrow> decode_json L (header_from_slice S) h = Ok header \<Longrightarrow> decode_json L (claims_from_slice S) p = Ok claims
   \<Longrightarrow> header' = header \<and> claims' = claims"
  by (simp add: parse_credential_def)

text \<open>When the verifier's checks hold of the claims, the credential verifies and delegates to the key in them.\<close>

lemma credential_verifies:
  assumes seg: "split_compact_jws credential = Ok (h, p, s)" "decode_json L (header_from_slice S) h = Ok header"
      "decode_json L (claims_from_slice S) p = Ok claims"
    and root: "verify_ed25519_with L (h @ ''.'' @ p) s root mcp_re_error.DelegationCredentialInvalid = Ok ()"
      "resolve_root st (cl_issuer_kid claims) = (st', Some root)"
    and header: "dh_typ header = DELEGATION_TYP" "dh_alg header = DELEGATION_ALG" "dh_kid header = cl_issuer_kid claims"
    and checks: "check_freshness claims params = Ok ()" "check_scope claims params = Ok ()"
      "check_epoch_and_revocation claims params is_revoked = Ok ()" "delegated_key L claims = Ok key"
  shows "verify_delegation_credential L S credential params resolve_root is_revoked st =
    (st', Ok \<lparr>vd_delegated_key = key, vd_delegated_kid = cl_delegated_kid claims,
              vd_server_signer = cl_server_signer claims, vd_issuer_kid = cl_issuer_kid claims,
              vd_nbf = cl_nbf claims, vd_exp = cl_exp claims, vd_trust_epoch = cl_trust_epoch claims\<rparr>)"
  using assms by (simp add: verify_delegation_credential_def check_root_signature_def)

section \<open>Signed responses\<close>

lemma sign_response_steps:
  assumes "sign_response_with_signer L response request sign_base key_id created expires = (signed, Ok base)"
  obtains r sig s where
    "reject_content_encoding (rsp_headers response) = Ok ()"
    "r = response\<lparr>rsp_headers := set_header (rsp_headers response) ''Content-Digest'' (content_digest_sha256 L (rsp_body response))\<rparr>"
    "signature_base (map cc_new REQUIRED_RESPONSE_COMPONENTS @ map cc_new_req REQUIRED_RESPONSE_REQ_COMPONENTS)
       (response_params key_id created expires) (Response r request) = Ok base"
    "sign_base base = Ok sig" "length sig = 64"
    "serialize_with (response_params key_id created expires)
       (map cc_new REQUIRED_RESPONSE_COMPONENTS @ map cc_new_req REQUIRED_RESPONSE_REQ_COMPONENTS) = Ok s"
    "signed = r\<lparr>rsp_headers := set_header (set_header (rsp_headers r) ''Signature-Input'' (RESPONSE_LABEL @ ''='' @ s))
       ''Signature'' (RESPONSE_LABEL @ ''=:'' @ std_encode L sig @ '':'')\<rparr>"
  using assms
  by (auto simp: sign_response_with_signer_def emit_signature_def Let_def
      ED25519_SIGNATURE_LEN_def base64_standard_encode_def split: sum.splits prod.splits if_splits)

lemma response_component_value_headers:
  assumes "\<not> cc_req c \<Longrightarrow> header_values hs (cc_name c) = header_values (rsp_headers r) (cc_name c)"
  shows "component_value c (Response (r\<lparr>rsp_headers := hs\<rparr>) q) = component_value c (Response r q)"
  using assms
  by (simp add: component_value_def resolve_component_value_def component_source_def covered_header_loop_eq
      split: option.splits)

lemmas response_names = REQUIRED_RESPONSE_COMPONENTS_def REQUIRED_RESPONSE_REQ_COMPONENTS_def

lemma response_base_after_emit:
  assumes "signed = r\<lparr>rsp_headers := set_header (set_header (rsp_headers r) ''Signature-Input'' x) ''Signature'' y\<rparr>"
    and "cs = map cc_new REQUIRED_RESPONSE_COMPONENTS @ map cc_new_req REQUIRED_RESPONSE_REQ_COMPONENTS"
  shows "signature_base cs params (Response signed q) = signature_base cs params (Response r q)"
proof -
  have "component_value c (Response signed q) = component_value c (Response r q)" if "c \<in> set cs" for c
    unfolding assms(1)
  proof (rule response_component_value_headers)
    assume "\<not> cc_req c"
    with that obtain n where "n \<in> set REQUIRED_RESPONSE_COMPONENTS" "c = cc_new n"
      by (auto simp: assms(2) cc_new_req_def)
    then have "to_ascii_lowercase (cc_name c) \<noteq> to_ascii_lowercase ''Signature-Input''"
      "to_ascii_lowercase (cc_name c) \<noteq> to_ascii_lowercase ''Signature''"
      by (auto simp: response_names cc_new_def to_ascii_lowercase_def to_ascii_lower_def)
    then show "header_values (set_header (set_header (rsp_headers r) ''Signature-Input'' x) ''Signature'' y) (cc_name c)
        = header_values (rsp_headers r) (cc_name c)"
      by (simp add: header_values_set_header)
  qed
  then show ?thesis by (simp add: signature_base_def base_lines_cong [of cs "Response signed q" "Response r q"])
qed

lemma response_components_known:
  assumes "cs = map cc_new REQUIRED_RESPONSE_COMPONENTS @ map cc_new_req REQUIRED_RESPONSE_REQ_COMPONENTS"
  shows "list_all known cs" "distinct cs"
    "require_components cs REQUIRED_RESPONSE_COMPONENTS REQUIRED_RESPONSE_REQ_COMPONENTS = Ok ()"
  unfolding assms by (simp_all add: response_names known_def cc_new_def cc_new_req_def KNOWN_COMPONENTS_def
      require_components_Ok_iff)

lemma delegated_response_accepted:
  assumes signed: "sign_response_with_signer L response request sign_base key_id created expires = (signed, Ok base)"
    and lib: "b64_ok L" "b64_alphabet L"
    and signer: "\<And>base sig. sign_base base = Ok sig \<Longrightarrow> verify_strict L (vk_inner (vd_delegated_key verified)) base sig"
    and shape: "require_json_media_type (rsp_headers response) ''response content-type'' = Ok ()"
    and policy: "Ed25519 \<in> set (algorithms policy)"
    and window: "is_i64 created" "is_i64 expires" "window_admits created expires now (max_clock_skew policy)"
      "saturating_sub expires created \<le> max_signature_validity policy"
    and block: "extract_meta_block J from_value (rsp_body response) RESPONSE_EVIDENCE_BLOCK_KEY ''response evidence block'' = Ok block"
      "response_block_validate block PROFILE_TAG = Ok ()" "server_delegation block = Some credential"
    and chain: "chain_to_root L S credential block resolve expect is_revoked now = Ok verified"
      "key_id = vd_delegated_kid verified" "keyid (server_signer block) = vd_delegated_kid verified"
    and bound: "request_evidence_of L request = Ok bound" "red_alg (rsp_request_evidence block) = digest_alg bound"
      "red_value (rsp_request_evidence block) = digest_value bound"
  shows "\<exists>v. delegated_bound_response L J S from_value signed request resolve policy expect is_revoked now = Ok v
    \<and> as_identity (accepted_signer (vdr_signature_facts v)) = server_signer block
    \<and> bound_request_evidence (vdr_request_evidence_agreement v) = bound
    \<and> vdr_delegation_issuer_kid v = vd_issuer_kid verified"
  using signed
proof (rule sign_response_steps)
  let ?cs = "map cc_new REQUIRED_RESPONSE_COMPONENTS @ map cc_new_req REQUIRED_RESPONSE_REQ_COMPONENTS"
  let ?params = "response_params key_id created expires"
  fix r sig s
  assume enc: "reject_content_encoding (rsp_headers response) = Ok ()"
    and r: "r = response\<lparr>rsp_headers := set_header (rsp_headers response) ''Content-Digest'' (content_digest_sha256 L (rsp_body response))\<rparr>"
    and base: "signature_base ?cs ?params (Response r request) = Ok base"
    and sig: "sign_base base = Ok sig" "length sig = 64" and ser: "serialize_with ?params ?cs = Ok s"
    and sgn: "signed = r\<lparr>rsp_headers := set_header (set_header (rsp_headers r) ''Signature-Input'' (RESPONSE_LABEL @ ''='' @ s))
       ''Signature'' (RESPONSE_LABEL @ ''=:'' @ std_encode L sig @ '':'')\<rparr>"
  note c = response_components_known [OF refl]
  have hs: "rsp_headers signed = set_header (set_header (set_header (rsp_headers response) ''Content-Digest''
      (content_digest_sha256 L (rsp_body response))) ''Signature-Input'' (RESPONSE_LABEL @ ''='' @ s))
      ''Signature'' (RESPONSE_LABEL @ ''=:'' @ std_encode L sig @ '':'')" and body: "rsp_body signed = rsp_body response"
    by (simp_all add: sgn r)
  note h = signed_header_values [OF hs]
  have "member_value (RESPONSE_LABEL @ ''='' @ s) RESPONSE_LABEL = Ok s"
    using calm_serialized [OF ser c(1)] serialized_ends [OF ser]
    by (intro member_value_single calm_append) (auto simp: RESPONSE_LABEL_def visible_def calm_plain)
  moreover have "parse_signature_input s = Ok \<lparr>ps_components = ?cs, ps_params = ?params\<rparr>"
    by (rule parse_serialized [OF ser _ c(1,2)]) (use window in \<open>simp add: ints_ok_def response_params_def\<close>)
  moreover have "reject_content_encoding (rsp_headers signed) = Ok ()"
    using enc unfolding hs by (intro reject_content_encoding_set_header) (simp_all add: eq_ignore_ascii_case_def to_ascii_lowercase_def to_ascii_lower_def)
  moreover have "require_json_media_type (rsp_headers signed) ''response content-type'' = Ok ()"
    using shape required_header_cong [OF h(4)] by (simp add: require_json_media_type_def)
  moreover have "\<exists>nonce. check_params ?params policy now False = Ok (created, expires, nonce, key_id, Ed25519)"
    using policy window
    by (simp add: check_params_def response_params_def accepted_algorithm_def from_token_def ALG_ED25519_def)
  moreover have "signature_base ?cs ?params (Response signed request) = Ok base"
    using base response_base_after_emit [OF sgn refl] by simp
  moreover have "verify_under L Ed25519 base (b64url_encode L sig) (vd_delegated_key verified) ResponseSigInvalid = Ok ()"
    using sig lib(1) signer by (auto simp: verify_under_Ok_iff b64url_encode_def b64_ok_def)
  ultimately show ?thesis
    using c(3) content_digest_verifies [OF lib(2)] h(1-3) signature_value_emitted [OF lib(1,2) _ h(3)] block chain bound
    unfolding delegated_bound_response_def
    by (auto simp: required_header_Ok_iff [THEN iffD2] body block_agreement_def)
qed

section \<open>What a custody signs\<close>

text \<open>The root of a custody: the in-process issuer under a root key.\<close>

definition root_issue ::
  "crypto_lib \<Rightarrow> jws_lib \<Rightarrow> SigningKey \<Rightarrow> 'i \<Rightarrow> DelegationHeader \<Rightarrow> DelegationClaims \<Rightarrow> 'i \<times> string option" where
  "root_issue L S root i header claims = (i, issue_delegation_credential L S root header claims)"

definition vouched :: "crypto_lib \<Rightarrow> jws_lib \<Rightarrow> SigningKey \<Rightarrow> ('i, 'f) custody \<Rightarrow> bool" where
  "vouched L S root c \<longleftrightarrow>
     (\<forall>a. cu_active c = Some a \<longrightarrow> (\<exists>header claims. issue_delegation_credential L S root header claims = Some (ak_credential a)))"

lemma issued_credential_eq: "issued L S key signer requested credential = Ok a \<Longrightarrow> ak_credential a = credential"
  by (auto simp: issued_def Let_def try_bind_Ok_iff split: prod.splits if_splits)

interpretation rooted: custody_property L S "root_issue L S root" factory "vouched L S root" for L S root factory
proof unfold_locales
  show "vouched L S root c \<Longrightarrow> vouched L S root (fst (attempt_issuance L S (root_issue L S root) factory c now))"
    for c now
  proof (cases "attempt_issuance L S (root_issue L S root) factory c now")
    case (Pair c' r)
    assume inv: "vouched L S root c"
    from Pair show ?thesis
    proof (cases rule: attempt_issuance_cases)
      case unmintable
      with Pair inv show ?thesis by simp
    next
      case (adopted c1 exp key signer header claims credential a rot)
      with Pair issued_credential_eq [OF adopted(9)] show ?thesis by (auto simp: vouched_def root_issue_def adopt_def)
    next
      case (refused c1)
      from refused(9) refused(5) inv Pair show ?thesis
        by (auto simp: vouched_def hold_off_def Let_def split: option.splits if_splits) blast+
    qed
  qed
qed (simp_all add: vouched_def set_trust_epoch_def)

lemma extract_inserted_block:
  assumes "insert_meta_block J body key block = Ok body'" "json_roundtrip J"
  shows "extract_meta_block J from_value body' key what = ok_or (from_value block) (MalformedEvidence what)"
proof -
  from assms(1) obtain obj meta where
    "body' = to_vec J (JObject (AList.update META_KEY (JObject (AList.update key block meta)) obj))"
    by (auto simp: insert_meta_block_def try_bind_Ok_iff Let_def)
  with assms(2) show ?thesis
    by (simp add: extract_meta_block_def json_roundtrip_def json_get_def AList.update_conv')
qed

lemma sign_delegated_steps:
  assumes "sign_delegated_response_full L J tv response request ev signer delegation key kid created expires = (signed, Ok base)"
  obtains body where
    "insert_meta_block J (rsp_body response) RESPONSE_EVIDENCE_BLOCK_KEY (tv (delegated_block signer delegation ev)) = Ok body"
    "sign_response_with_signer L (response\<lparr>rsp_body := body\<rparr>) request (local_sig L key) kid created expires = (signed, Ok base)"
  using assms by (auto simp: sign_delegated_response_full_def split: sum.splits)

text \<open>What a client must expect for a credential to be acceptable to it.\<close>

definition expects ::
  "CustodyConfig \<Rightarrow> DelegationExpectations \<Rightarrow> (string \<Rightarrow> bool) \<Rightarrow> int \<Rightarrow> DelegationClaims \<Rightarrow> bool" where
  "expects cfg expect is_revoked now claims \<longleftrightarrow>
     cc_profile cfg = PROFILE_TAG \<and> cc_aud cfg \<in> set (de_verifier_audiences expect)
     \<and> cc_audience_hash cfg = de_expected_audience_hash expect
     \<and> cl_trust_epoch claims \<in> set (de_accepted_epochs expect)
     \<and> \<not> is_revoked (cl_delegated_kid claims) \<and> \<not> is_revoked (cl_issuer_kid claims) \<and> \<not> is_revoked (cl_jti claims)
     \<and> cl_nbf claims \<le> now + bounded_skew (de_max_clock_skew expect) \<and> now \<le> cl_exp claims + bounded_skew (de_max_clock_skew expect)
     \<and> is_i64 (now + bounded_skew (de_max_clock_skew expect)) \<and> is_i64 (now - bounded_skew (de_max_clock_skew expect))"

lemma expects_checks:
  assumes "expects cfg expect is_revoked now claims"
    and "cl_aud claims = One (cc_aud cfg)" "cl_profile claims = cc_profile cfg"
      "cl_audience_hash claims = cc_audience_hash cfg" "cl_key_use claims = KEY_USE_RESPONSE_SIGNING"
    and "params = \<lparr>dv_now = now, dv_max_clock_skew = de_max_clock_skew expect,
                    dv_verifier_audiences = de_verifier_audiences expect, dv_expected_profile = PROFILE_TAG,
                    dv_expected_audience_hash = de_expected_audience_hash expect,
                    dv_expected_server_signer = cl_server_signer claims,
                    dv_accepted_epochs = de_accepted_epochs expect\<rparr>"
  shows "check_freshness claims params = Ok ()" "check_scope claims params = Ok ()"
    "check_epoch_and_revocation claims params is_revoked = Ok ()"
  using assms
  by (auto simp: expects_def check_freshness_def check_scope_def check_epoch_and_revocation_def Let_def list_ex_iff
      checked_add_def checked_sub_def checked_i64_def)

lemma expected_chain:
  assumes cred: "issue_delegation_credential L S root h0 cl0 = Some (ak_credential a)" and wf: "key_wf L S cfg a"
    and lib: "b64_ok L" "url_alphabet L" "ed25519_ok L" "length (sk_inner root) = 32"
    and serde: "serde_ok (header_to_vec S) (header_from_slice S)" "serde_ok (claims_to_vec S) (claims_from_slice S)"
    and client: "\<And>header claims. parse_credential L S (ak_credential a) = Ok (header, claims) \<Longrightarrow> expects cfg expect is_revoked now claims"
    and trusted: "resolve (cc_issuer_kid cfg) ResponseSlot = Resolved actor" "slot actor = ResponseSlot"
      "verification_key actor = public_key L root"
    and block: "server_signer block = ak_server_signer a"
  shows "\<exists>verified. chain_to_root L S (ak_credential a) block resolve expect is_revoked now = Ok verified
    \<and> vd_delegated_key verified = public_key L (ak_key a) \<and> vd_delegated_kid verified = ak_delegated_kid a
    \<and> vd_issuer_kid verified = cc_issuer_kid cfg"
proof -
  from wf obtain header claims where wf: "parse_credential L S (ak_credential a) = Ok (header, claims)"
    "delegated_key L claims = Ok (public_key L (ak_key a))" "cl_server_signer claims = identity_actor_id (ak_server_signer a)"
    "ak_delegated_kid a = cl_delegated_kid claims" "dh_typ header = DELEGATION_TYP" "dh_alg header = DELEGATION_ALG"
    "dh_kid header = cc_issuer_kid cfg" "cl_issuer_kid claims = cc_issuer_kid cfg" "cl_aud claims = One (cc_aud cfg)"
    "cl_profile claims = cc_profile cfg" "cl_audience_hash claims = cc_audience_hash cfg"
    "cl_key_use claims = KEY_USE_RESPONSE_SIGNING"
    by (auto simp: key_wf_def)
  from cred lib serde obtain h p s where seg: "split_compact_jws (ak_credential a) = Ok (h, p, s)"
    "decode_json L (header_from_slice S) h = Ok h0" "decode_json L (claims_from_slice S) p = Ok cl0"
    "verify_ed25519_with L (h @ ''.'' @ p) s (public_key L root) mcp_re_error.DelegationCredentialInvalid = Ok ()"
    by (rule issued_credential)
  note same = parse_credential_unique [OF wf(1) seg(1-3)]
  note checks = expects_checks [OF client [OF wf(1)] wf(9-12) refl]
  have "root_resolver resolve None (cl_issuer_kid claims) = (None, Some (public_key L root))"
    using trusted by (simp add: root_resolver_def wf(8) resolve_actor_for_slot_def)
  from credential_verifies [OF seg(1-4), of "root_resolver resolve", unfolded conjunct1 [OF same, symmetric] conjunct2 [OF same, symmetric],
      OF this _ _ _ checks wf(2)] wf block
  show ?thesis by (simp add: chain_to_root_def Let_def)
qed

lemma custody_accept:
  assumes "custody_sign_response L J S tv (root_issue L S root) factory
      (custody_run L J' S tv' (root_issue L S root) factory ops (custody_new cfg i f)) now response request ev = ((c, signed), Ok ())"
    and "cu_active c = Some a" "length (sk_inner (ak_key a)) = 32"
    and "b64_ok L" "b64_alphabet L" "url_alphabet L" "ed25519_ok L" "length (sk_inner root) = 32"
    and "serde_ok (header_to_vec S) (header_from_slice S)" "serde_ok (claims_to_vec S) (claims_from_slice S)"
    and "json_roundtrip J" "\<forall>b. from_value (tv b) = Some b"
    and "require_json_media_type (rsp_headers response) ''response content-type'' = Ok ()"
    and "request_evidence_of L request = Ok ev"
    and "resolve (cc_issuer_kid cfg) ResponseSlot = Resolved actor" "slot actor = ResponseSlot"
      "verification_key actor = public_key L root"
    and "\<forall>header claims. parse_credential L S (ak_credential a) = Ok (header, claims) \<longrightarrow> expects cfg expect is_revoked now' claims"
    and "Ed25519 \<in> set (algorithms policy)" "expires = signature_valid_until now (kw_ttl (cc_window cfg)) (ak_exp a)"
      "is_i64 now" "is_i64 expires" "window_admits now expires now' (max_clock_skew policy)"
      "saturating_sub expires now \<le> max_signature_validity policy"
  shows "\<exists>v. delegated_bound_response L J S from_value signed request resolve policy expect is_revoked now' = Ok v
    \<and> as_identity (accepted_signer (vdr_signature_facts v)) = ak_server_signer a
    \<and> bound_request_evidence (vdr_request_evidence_agreement v) = ev
    \<and> vdr_delegation_issuer_kid v = cc_issuer_kid cfg"
proof -
  define c0 where "c0 = custody_run L J' S tv' (root_issue L S root) factory ops (custody_new cfg i f)"
  have "custody_inv L S cfg c0" unfolding c0_def by (intro held.run_keeps custody_inv_new)
  moreover have "vouched L S root c0" unfolding c0_def by (rule rooted.run_keeps) (simp add: vouched_def custody_new_def)
  ultimately have inv: "custody_inv L S cfg c" "vouched L S root c"
    using held.sign_keeps [of L S cfg c0 J tv "root_issue L S root" factory now response request ev]
      rooted.sign_keeps [of L S root c0 J tv factory now response request ev] assms(1) by (simp_all add: c0_def)
  have cfg: "cc_window (cu_cfg c) = cc_window cfg" using inv(1) by (auto simp: custody_inv_def)
  have wf: "key_wf L S cfg a" using inv(1) assms(2) by (simp add: custody_inv_def)
  from inv(2) assms(2) obtain h0 cl0 where cred: "issue_delegation_credential L S root h0 cl0 = Some (ak_credential a)"
    by (auto simp: vouched_def)
  from assms(1,2) obtain base where sgn: "sign_delegated_response_full L J tv response request ev (ak_server_signer a)
      (ak_credential a) (ak_key a) (ak_delegated_kid a) now expires = (signed, Ok base)"
    by (auto simp: custody_sign_response_def cfg assms(20) split: sum.splits option.splits prod.splits)
  let ?block = "delegated_block (ak_server_signer a) (ak_credential a) ev"
  from expected_chain [where resolve = resolve and expect = expect and is_revoked = is_revoked and now = now' and block = ?block,
      OF cred wf assms(4,6,7,8,9,10) _ assms(15-17)] assms(18)
  obtain verified where chain: "chain_to_root L S (ak_credential a) ?block resolve expect is_revoked now' = Ok verified"
    "vd_delegated_key verified = public_key L (ak_key a)" "vd_delegated_kid verified = ak_delegated_kid a"
    "vd_issuer_kid verified = cc_issuer_kid cfg" by (auto simp: delegated_block_def)
  from wf have kid: "keyid (ak_server_signer a) = ak_delegated_kid a" by (auto simp: key_wf_def)
  from sgn show ?thesis
  proof (rule sign_delegated_steps)
    fix body
    assume ins: "insert_meta_block J (rsp_body response) RESPONSE_EVIDENCE_BLOCK_KEY (tv ?block) = Ok body"
      and sr: "sign_response_with_signer L (response\<lparr>rsp_body := body\<rparr>) request (local_sig L (ak_key a)) (ak_delegated_kid a)
        now expires = (signed, Ok base)"
    have ext: "extract_meta_block J from_value body RESPONSE_EVIDENCE_BLOCK_KEY ''response evidence block'' = Ok ?block"
      by (simp add: extract_inserted_block [OF ins assms(11)] assms(12))
    have "\<And>base sig. local_sig L (ak_key a) base = Ok sig \<Longrightarrow> verify_strict L (vk_inner (vd_delegated_key verified)) base sig"
      using local_sig_verifies [OF assms(4,7,3)] by (simp add: chain(2))
    from delegated_response_accepted [where J = J and from_value = from_value and block = ?block and verified = verified,
        OF sr assms(4,5) this _ assms(19,21-24) _ _ _ chain(1) _ _ assms(14)]
      assms(13) ext chain(3,4) kid
    show ?thesis by (simp add: delegated_block_def response_block_validate_def)
  qed
qed

text \<open>
  C25. What a custody signs, a client accepts. Take any run of a custody whose root is the in-process
  issuer, and let it sign a JSON response to a request. A client that resolves the configured issuer
  key id to the root's public key, and whose expectations the active credential meets, accepts the
  response as the answer to that request as long as the signature's window admits the present; and
  it attributes the response to the signer of the custody.
\<close>

theorem custody_response_accepted:
  assumes "custody_sign_response L J S tv (root_issue L S root) factory
      (custody_run L J' S tv' (root_issue L S root) factory ops (custody_new cfg i f)) now response request ev = ((c, signed), Ok ())"
    and "cu_active c = Some a" "length (sk_inner (ak_key a)) = 32"
    and "b64_ok L" "b64_alphabet L" "url_alphabet L" "ed25519_ok L" "length (sk_inner root) = 32"
    and "serde_ok (header_to_vec S) (header_from_slice S)" "serde_ok (claims_to_vec S) (claims_from_slice S)"
    and "json_roundtrip J" "\<forall>b. from_value (tv b) = Some b"
    and "require_json_media_type (rsp_headers response) ''response content-type'' = Ok ()"
    and "request_evidence_of L request = Ok ev"
    and "resolve (cc_issuer_kid cfg) ResponseSlot = Resolved actor" "slot actor = ResponseSlot"
      "verification_key actor = public_key L root"
    and "\<forall>header claims. parse_credential L S (ak_credential a) = Ok (header, claims) \<longrightarrow> expects cfg expect is_revoked now' claims"
    and "Ed25519 \<in> set (algorithms policy)" "expires = signature_valid_until now (kw_ttl (cc_window cfg)) (ak_exp a)"
      "is_i64 now" "is_i64 expires" "window_admits now expires now' (max_clock_skew policy)"
      "saturating_sub expires now \<le> max_signature_validity policy"
  shows "\<exists>v. delegated_bound_response L J S from_value signed request resolve policy expect is_revoked now' = Ok v
    \<and> as_identity (accepted_signer (vdr_signature_facts v)) = ak_server_signer a
    \<and> bound_request_evidence (vdr_request_evidence_agreement v) = ev
    \<and> vdr_delegation_issuer_kid v = cc_issuer_kid cfg"
  by (rule custody_accept [where resolve = resolve and from_value = from_value and expect = expect and now' = now', OF assms])

end
