(* ===== verification/Delegation_Sample.thy ===== *)
theory Delegation_Sample
  imports Delegation_Accepted "HOL-Library.Countable"
begin

text \<open>
  A custody, its root, a request and a response to it, on which the statements of \<open>Delegation\<close>,
  \<open>Custody\<close> and \<open>Delegation_Accepted\<close> are instantiated. The codecs write two letters for each byte;
  headers and claims are serialized as the number that the type's enumeration gives them.
\<close>

instance DelegationHeader_ext :: (countable) countable
  by (rule countable_classI [of "\<lambda>r. to_nat (dh_typ r, dh_alg r, dh_kid r, DelegationHeader.more r)"]) simp

instance DelegatedJwk_ext :: (countable) countable
  by (rule countable_classI [of "\<lambda>r. to_nat (jwk_kty r, jwk_crv r, jwk_kid r, jwk_x r, DelegatedJwk.more r)"]) simp

instance Cnf_ext :: (countable) countable
  by (rule countable_classI [of "\<lambda>r. to_nat (cnf_jwk r, Cnf.more r)"]) simp

instance Audience :: countable
  by countable_datatype

instance DelegationClaims_ext :: (countable) countable
  by (rule countable_classI [of "\<lambda>r. to_nat (cl_iss r, cl_iat r, cl_nbf r, cl_exp r, cl_jti r, cl_aud r, cl_profile r,
        cl_audience_hash r, cl_server_signer r, cl_key_use r, cl_delegated_kid r, cl_issuer_kid r, cl_trust_epoch r,
        cl_cnf r, DelegationClaims.more r)"]) simp

instance ActorIdentity_ext :: (countable) countable
  by (rule countable_classI [of "\<lambda>r. to_nat (role r, trust_domain r, subject r, keyid r, ActorIdentity.more r)"]) simp

instance RequestEvidenceDigest_ext :: (countable) countable
  by (rule countable_classI [of "\<lambda>r. to_nat (red_alg r, red_value r, RequestEvidenceDigest.more r)"]) simp

instance HttpResponseEvidenceBlock_ext :: (countable) countable
  by (rule countable_classI [of "\<lambda>r. to_nat (rsp_block_profile r, server_signer r, server_delegation r,
        rsp_request_evidence r, HttpResponseEvidenceBlock.more r)"]) simp

definition sample_jws :: jws_lib where
  "sample_jws = \<lparr>header_to_vec = \<lambda>h. Some (show_nat (to_nat h)), header_from_slice = \<lambda>b. Some (from_nat (read_nat b)),
     claims_to_vec = \<lambda>c. Some (show_nat (to_nat c)), claims_from_slice = \<lambda>b. Some (from_nat (read_nat b))\<rparr>"

lemma sample_jws_ok:
  "serde_ok (header_to_vec sample_jws) (header_from_slice sample_jws)"
  "serde_ok (claims_to_vec sample_jws) (claims_from_slice sample_jws)"
  by (simp_all add: serde_ok_def sample_jws_def)

definition letter_lib :: crypto_lib where
  "letter_lib = floor_lib\<lparr>url_encode := \<lambda>b. concat (map letters b), url_decode := unletters\<rparr>"

lemma letters_range: "x \<in> set (letters c) \<Longrightarrow> 97 \<le> ord x \<and> ord x \<le> 112"
proof -
  have "of_char c div 16 < (16 :: nat)" "of_char c mod 16 < (16 :: nat)" using nat_of_char_less_256 [of c] by linarith+
  with this [THEN of_char_letter] show "x \<in> set (letters c) \<Longrightarrow> ?thesis" by (auto simp: letters_def simp del: of_char_of)
qed

lemma letter_lib_ok:
  "b64_ok letter_lib" "b64_alphabet letter_lib" "ed25519_ok letter_lib" "url_alphabet letter_lib" "sha256_ok letter_lib"
proof -
  have "CHR ''.'' \<notin> set (letters c)" for c using letters_range by fastforce
  moreover have "concat (map letters b) = [] \<longleftrightarrow> b = []" for b by (auto simp: letters_def)
  ultimately show "url_alphabet letter_lib" by (auto simp: url_alphabet_def letter_lib_def)
  show "b64_ok letter_lib" "b64_alphabet letter_lib" "ed25519_ok letter_lib" "sha256_ok letter_lib"
    using floor_lib_ok demo_lib_ok(2) unletters_letters
    by (simp_all add: letter_lib_def b64_ok_def b64_alphabet_def ed25519_ok_def sha256_ok_def floor_lib_def demo_lib_def)
qed

definition sample_root :: SigningKey where
  "sample_root = SigningKey (pad32 ''root'')"

lemma sample_issues: "\<exists>credential. issue_delegation_credential letter_lib sample_jws sample_root header claims = Some credential"
  using letter_lib_ok(1,3)
  by (simp add: issue_delegation_credential_def issue_delegation_credential_with_signer_def sample_jws_def Let_def
      sign_b64url_def sample_root_def JWS_SIGNATURE_LEN_def ed25519_ok_def)

lemma sample_root_honest: "honest_root letter_lib sample_jws (root_issue letter_lib sample_jws sample_root)"
  unfolding honest_root_def
proof (intro allI)
  fix i :: 'a and header claims
  obtain credential where cred: "issue_delegation_credential letter_lib sample_jws sample_root header claims = Some credential"
    using sample_issues by blast
  have "length (sk_inner sample_root) = 32" by (simp add: sample_root_def)
  from cred letter_lib_ok(1,4,3) this sample_jws_ok have "parse_credential letter_lib sample_jws credential = Ok (header, claims)"
    by (rule issued_credential) (simp add: parse_credential_def)
  with cred show "\<exists>i' credential. root_issue letter_lib sample_jws sample_root i header claims = (i', Some credential)
      \<and> parse_credential letter_lib sample_jws credential = Ok (header, claims)"
    by (simp add: root_issue_def)
qed

lemma sample_window_ok: "window_of 600 60 = Ok sample_window" "cc_window sample_custody_config = sample_window"
  by (simp_all add: window_of_def sample_window_def sample_custody_config_def)

theorem honest_root_keeps_custody_live_witness:
  "\<exists>c' a. ensure_active letter_lib sample_jws (root_issue letter_lib sample_jws sample_root) sample_factory
      (custody_new sample_custody_config () ()) 1000 = (c', Ok ()) \<and> cu_active c' = Some a \<and> 1000 < ak_exp a"
proof -
  have "cu_counter (custody_new sample_custody_config () ()) < u64_max" by (simp add: custody_new_def u64_max_def)
  from honest_root_keeps_custody_live [OF sample_root_honest sample_factory_ok letter_lib_ok(1,3) sample_window_ok(1,2) _ _ this,
      of 1000 undefined undefined "[]"]
  show ?thesis by (auto simp: custody_run_def i64_defs)
qed

section \<open>A signed response\<close>

definition block_value :: "HttpResponseEvidenceBlock \<Rightarrow> json" where
  "block_value b = JString (show_nat (to_nat b))"

definition value_block :: "json \<Rightarrow> HttpResponseEvidenceBlock option" where
  "value_block v = (case v of JString s \<Rightarrow> Some (from_nat (read_nat s)) | _ \<Rightarrow> None)"

lemma value_block_value: "value_block (block_value b) = Some b"
  by (simp add: value_block_def block_value_def)

definition sample_posted :: HttpRequest where
  "sample_posted = \<lparr>rq_method = ''POST'', rq_target_uri = ''https://example.com/mcp'',
     rq_headers = [(''Content-Digest'', ''d''), (''Content-Type'', ''application/json''),
       (''Signature-Input'', REQUEST_LABEL @ ''=(\"@method\");created=1'')], rq_body = ''{}''\<rparr>"

definition sample_answer :: HttpResponse where
  "sample_answer = \<lparr>rsp_status = 200, rsp_headers = [(''Content-Type'', ''application/json'')],
     rsp_body = to_vec demo_json (JObject [])\<rparr>"

abbreviation sample_kid :: string where
  "sample_kid \<equiv> jwk_thumbprint_ed25519 letter_lib (vk_to_b64url letter_lib (public_key letter_lib (SigningKey (pad32 ''delegated''))))"

lemma sample_posted_evidence: "\<exists>ev. request_evidence_of letter_lib sample_posted = Ok ev"
proof -
  have "case request_evidence_of demo_lib sample_posted of Inl _ \<Rightarrow> False | Inr _ \<Rightarrow> True" by code_simp
  then obtain ev where "request_evidence_of demo_lib sample_posted = Ok ev" by (auto split: sum.splits)
  then show ?thesis by (auto simp: request_evidence_of_def try_bind_Ok_iff)
qed

lemma sample_serializes: "\<exists>s. serialize_with (response_params sample_kid 1000 1600)
    (map cc_new REQUIRED_RESPONSE_COMPONENTS @ map cc_new_req REQUIRED_RESPONSE_REQ_COMPONENTS) = Ok s"
proof -
  have "sf_char x" if "x \<in> set (letters c)" for x c using letters_range [OF that] by (auto simp: sf_char_def)
  then have "list_all sf_char sample_kid"
    by (auto simp: list_all_iff jwk_thumbprint_ed25519_def b64url_encode_def letter_lib_def)
  moreover have "list_all sf_char ALG_ED25519" "list_all sf_char PROFILE_TAG" by code_simp+
  ultimately show ?thesis by (simp add: serialize_with_Ok_iff strings_ok_def response_params_def)
qed

lemma request_component_values:
  assumes "n \<in> set REQUIRED_RESPONSE_REQ_COMPONENTS"
  shows "\<exists>v. component_value (cc_new_req n) (Response r sample_posted) = Ok v"
proof -
  have "case component_value (cc_new n) (Request sample_posted) of Inl _ \<Rightarrow> False | Inr _ \<Rightarrow> True"
    if "n = ''@method'' \<or> n = ''@target-uri'' \<or> n = ''content-digest'' \<or> n = ''content-type''"
    using that by (elim disjE; simp only:) code_simp+
  then obtain v where "component_value (cc_new n) (Request sample_posted) = Ok v"
    using assms by (auto simp: REQUIRED_RESPONSE_REQ_COMPONENTS_def split: sum.splits)
  then show ?thesis
    by (simp add: component_value_def resolve_component_value_def component_source_def cc_new_def cc_new_req_def
        cong: option.case_cong if_cong)
qed

lemma content_digest_plain:
  assumes "b64_alphabet L"
  shows "trim (content_digest_sha256 L body) = content_digest_sha256 L body"
    "\<not> list_ex (\<lambda>b. b = CHR 0x0D \<or> b = CHR 0x0A) (content_digest_sha256 L body)"
proof -
  show "trim (content_digest_sha256 L body) = content_digest_sha256 L body"
    by (rule trim_visible) (simp_all add: content_digest_sha256_def visible_def)
  have "list_all visible (std_encode L (sha256 L body))" using assms by (auto simp: b64_alphabet_def list_all_iff)
  then show "\<not> list_ex (\<lambda>b. b = CHR 0x0D \<or> b = CHR 0x0A) (content_digest_sha256 L body)"
    by (auto simp: content_digest_sha256_def list_ex_iff list_all_iff visible_def)
qed

lemma response_component_values:
  assumes "n \<in> set REQUIRED_RESPONSE_COMPONENTS"
    and "r = sample_answer\<lparr>rsp_body := body, rsp_headers := set_header (rsp_headers sample_answer) ''Content-Digest''
      (content_digest_sha256 letter_lib body)\<rparr>"
  shows "\<exists>v. component_value (cc_new n) (Response r sample_posted) = Ok v"
proof -
  have "\<not> list_ex (\<lambda>b. b = CHR 0x0D \<or> b = CHR 0x0A) (show_nat 200)"
    "\<not> list_ex (\<lambda>b. b = CHR 0x0D \<or> b = CHR 0x0A) (trim ''application/json'')" by code_simp+
  with assms(1) content_digest_plain [OF letter_lib_ok(2), of body] show ?thesis
    by (auto simp: REQUIRED_RESPONSE_COMPONENTS_def assms(2) sample_answer_def component_value_def resolve_component_value_def
        component_source_def cc_new_def covered_header_loop_eq header_values_set_header lowercase_names strip_prefix_def
        header_named_def eq_ignore_ascii_case_def)
qed

lemma base_lines_Ok: "(\<And>c. c \<in> set cs \<Longrightarrow> \<exists>v. component_value c m = Ok v) \<Longrightarrow> \<exists>ls. base_lines cs m = Ok ls"
  by (induction cs) (fastforce simp: try_bind_Ok_iff)+

lemma sample_answer_signs:
  "\<exists>signed base. sign_delegated_response_full letter_lib demo_json block_value sample_answer sample_posted ev signer credential
     (SigningKey (pad32 ''delegated'')) sample_kid 1000 1600 = (signed, Ok base)"
proof -
  let ?cs = "map cc_new REQUIRED_RESPONSE_COMPONENTS @ map cc_new_req REQUIRED_RESPONSE_REQ_COMPONENTS"
  let ?params = "response_params sample_kid 1000 1600"
  obtain body where ins: "insert_meta_block demo_json (rsp_body sample_answer) RESPONSE_EVIDENCE_BLOCK_KEY
      (block_value (delegated_block signer credential ev)) = Ok body"
    using demo_json_roundtrip demo_json_representable
    by (simp add: insert_meta_block_def sample_answer_def json_roundtrip_def)
  define r where "r = sample_answer\<lparr>rsp_body := body, rsp_headers := set_header (rsp_headers sample_answer) ''Content-Digest''
      (content_digest_sha256 letter_lib body)\<rparr>"
  obtain ls where "base_lines ?cs (Response r sample_posted) = Ok ls"
    using base_lines_Ok [of ?cs "Response r sample_posted"] response_component_values [OF _ r_def] request_component_values
    by fastforce
  moreover obtain s where s: "serialize_with ?params ?cs = Ok s" using sample_serializes by blast
  ultimately obtain base where base: "signature_base ?cs ?params (Response r sample_posted) = Ok base"
    by (auto simp: signature_base_def)
  obtain sig where "local_sig letter_lib (SigningKey (pad32 ''delegated'')) base = Ok sig" "length sig = 64"
    using letter_lib_ok(1,3) by (simp add: local_sig_def sign_b64url_def ed25519_ok_def)
  moreover have "reject_content_encoding (rsp_headers sample_answer) = Ok ()"
    unfolding sample_answer_def by (simp add: reject_content_encoding_Ok_iff) code_simp
  ultimately show ?thesis
    using ins base s
    by (simp add: sign_delegated_response_full_def sign_response_with_signer_def Let_def emit_signature_def
        ED25519_SIGNATURE_LEN_def r_def)
qed

section \<open>The custody at work\<close>

abbreviation sample_issue :: "unit \<Rightarrow> DelegationHeader \<Rightarrow> DelegationClaims \<Rightarrow> unit \<times> string option" where
  "sample_issue \<equiv> root_issue letter_lib sample_jws sample_root"

abbreviation sample_run :: "(unit, unit) custody" where
  "sample_run \<equiv> custody_run letter_lib demo_json sample_jws block_value sample_issue sample_factory []
     (custody_new sample_custody_config () ())"

abbreviation answer_signed :: "RequestEvidence \<Rightarrow> (unit, unit) custody \<Rightarrow> HttpResponse \<Rightarrow> bool" where
  "answer_signed ev c signed \<equiv> custody_sign_response letter_lib demo_json sample_jws block_value sample_issue sample_factory
     sample_run 1000 sample_answer sample_posted ev = ((c, signed), Ok ())"


lemma sample_active:
  obtains c' a where
    "ensure_active letter_lib sample_jws sample_issue sample_factory
      (custody_new sample_custody_config () ()) 1000 = (c', Ok ())"
    "cu_active c' = Some a" "ak_key a = SigningKey (pad32 ''delegated'')" "ak_exp a = 1600" "ak_delegated_kid a = sample_kid"
    "cu_cfg c' = sample_custody_config"
proof -
  let ?c = "custody_new sample_custody_config () ()" and ?key = "SigningKey (pad32 ''delegated'')"
  define c1 where "c1 = ?c\<lparr>cu_counter := 1\<rparr>"
  obtain signer header claims where b: "build_claims letter_lib c1 1000 1600 ?key = (signer, header, claims)"
    by (cases "build_claims letter_lib c1 1000 1600 ?key")
  obtain credential where i: "root_issue letter_lib sample_jws sample_root () header claims = ((), Some credential)"
    "parse_credential letter_lib sample_jws credential = Ok (header, claims)"
    using sample_root_honest unfolding honest_root_def by (metis (full_types) unit.exhaust)
  from built_claims_issued [OF b i(2) letter_lib_ok(1,3)] obtain a where
    a: "issued letter_lib sample_jws ?key signer (header, claims) credential = Ok a" "ak_exp a = 1600" "ak_key a = ?key"
      "ak_server_signer a = signer" by auto
  have "key_wf letter_lib sample_jws sample_custody_config a"
    by (rule issued_wf(1) [where epoch = "cc_trust_epoch sample_custody_config", OF a(1) b]) (simp add: c1_def custody_new_def)
  then have "ak_delegated_kid a = keyid signer" by (auto simp: key_wf_def a(4))
  also have "keyid signer = sample_kid" using b by (auto simp: build_claims_def Let_def)
  finally have kid: "ak_delegated_kid a = sample_kid" .
  have step: "attempt_issuance letter_lib sample_jws sample_issue sample_factory ?c 1000
      = (adopt (c1\<lparr>cu_root_invocations := 1\<rparr>) a False 1000, Ok ())"
    using b i(1) a(1)
    by (simp add: attempt_issuance_def mintable_def Let_def c1_def custody_new_def sample_custody_config_def sample_window_def
        checked_add_def checked_i64_def i64_defs u64_max_def sample_factory_def)
  show thesis
    by (rule that [of "adopt (c1\<lparr>cu_root_invocations := 1\<rparr>) a False 1000" a])
      (use step a kid in \<open>simp_all add: ensure_active_def issue_if_def Let_def attempt_allowed_def adopt_def c1_def custody_new_def\<close>)
qed

lemma sample_custody_signs:
  obtains c signed a where
    "custody_sign_response letter_lib demo_json sample_jws block_value sample_issue sample_factory
      (custody_new sample_custody_config () ()) 1000 sample_answer sample_posted ev = ((c, signed), Ok ())"
    "cu_active c = Some a" "ak_key a = SigningKey (pad32 ''delegated'')" "ak_exp a = 1600"
proof (rule sample_active)
  fix c a
  assume a: "ensure_active letter_lib sample_jws sample_issue sample_factory
      (custody_new sample_custody_config () ()) 1000 = (c, Ok ())"
    "cu_active c = Some a" "ak_key a = SigningKey (pad32 ''delegated'')" "ak_exp a = 1600" "ak_delegated_kid a = sample_kid"
    "cu_cfg c = sample_custody_config"
  have "signature_valid_until 1000 (kw_ttl (cc_window sample_custody_config)) 1600 = 1600"
    by (simp add: signature_valid_until_def sample_custody_config_def sample_window_def checked_add_def checked_i64_def i64_defs)
  moreover obtain signed base where "sign_delegated_response_full letter_lib demo_json block_value sample_answer sample_posted ev
      (ak_server_signer a) (ak_credential a) (SigningKey (pad32 ''delegated'')) sample_kid 1000 1600 = (signed, Ok base)"
    using sample_answer_signs by blast
  ultimately show thesis
    using a by (intro that [of c signed a]) (simp_all add: custody_sign_response_def)
qed


definition sample_client :: resolver where
  "sample_client kid s = Resolved \<lparr>identity = \<lparr>role = ''root'', trust_domain = ''example.com'', subject = ''r'', keyid = kid\<rparr>,
     verification_key = public_key letter_lib sample_root, slot = s\<rparr>"

definition sample_expectations :: "string \<Rightarrow> DelegationExpectations" where
  "sample_expectations epoch = \<lparr>de_verifier_audiences = [''client''], de_expected_audience_hash = ''hash'',
     de_accepted_epochs = [epoch], de_max_clock_skew = 30\<rparr>"

lemma sample_response_accepted:
  obtains ev c signed a where
    "answer_signed ev c signed"
    "request_evidence_of letter_lib sample_posted = Ok ev" "cu_active c = Some a" "length (sk_inner (ak_key a)) = 32"
    "ak_exp a = 1600"
proof -
  obtain ev where ev: "request_evidence_of letter_lib sample_posted = Ok ev" using sample_posted_evidence by blast
  show thesis
  proof (rule sample_custody_signs [of ev])
    fix c signed a
    assume "custody_sign_response letter_lib demo_json sample_jws block_value sample_issue sample_factory
      (custody_new sample_custody_config () ()) 1000 sample_answer sample_posted ev = ((c, signed), Ok ())"
      "cu_active c = Some a" "ak_key a = SigningKey (pad32 ''delegated'')" "ak_exp a = 1600"
    with ev show thesis by (intro that [of ev c signed a]) (simp_all add: custody_run_def)
  qed
qed

lemma sample_shape:
  "require_json_media_type (rsp_headers sample_answer) ''response content-type'' = Ok ()"
  "Ed25519 \<in> set (algorithms policy_default)" "is_i64 1000" "is_i64 1600"
  "window_admits 1000 1600 1590 (max_clock_skew policy_default)"
  "saturating_sub 1600 1000 \<le> max_signature_validity policy_default"
proof -
  show "require_json_media_type (rsp_headers sample_answer) ''response content-type'' = Ok ()"
    unfolding sample_answer_def HttpResponse.simps by code_simp
  show "Ed25519 \<in> set (algorithms policy_default)" "is_i64 1000" "is_i64 1600"
    "window_admits 1000 1600 1590 (max_clock_skew policy_default)"
    "saturating_sub 1600 1000 \<le> max_signature_validity policy_default" by code_simp+
qed

lemma sample_expects:
  assumes "key_wf letter_lib sample_jws sample_custody_config a" "ak_exp a = 1600"
    "parse_credential letter_lib sample_jws (ak_credential a) = Ok (header, claims)"
  shows "expects sample_custody_config (sample_expectations (cl_trust_epoch claims)) (\<lambda>_. False) 1590 claims"
proof -
  from assms have "cl_exp claims = 1600" "cl_nbf claims < 1600" by (auto simp: key_wf_def)
  moreover have "bounded_skew 30 = 30" by (simp add: bounded_skew_def MAX_CLOCK_SKEW_BOUND_def)
  ultimately show ?thesis
    by (simp add: expects_def sample_expectations_def sample_custody_config_def i64_defs)
qed

lemma sample_acceptance_facts:
  assumes s: "answer_signed ev c signed"
    "cu_active c = Some a" "ak_exp a = 1600"
  obtains epoch where
    "\<forall>header claims. parse_credential letter_lib sample_jws (ak_credential a) = Ok (header, claims)
      \<longrightarrow> expects sample_custody_config (sample_expectations epoch) (\<lambda>_. False) 1590 claims"
    "1600 = signature_valid_until 1000 (kw_ttl (cc_window sample_custody_config)) (ak_exp a)"
proof -
  have wf: "key_wf letter_lib sample_jws sample_custody_config a"
    using held.sign_keeps [OF held.run_keeps [OF custody_inv_new]] s(1,2) by (metis custody_inv_def fst_conv)
  then obtain header claims where claims: "parse_credential letter_lib sample_jws (ak_credential a) = Ok (header, claims)"
    by (auto simp: key_wf_def)
  have "1600 = signature_valid_until 1000 (kw_ttl (cc_window sample_custody_config)) (ak_exp a)"
    by (simp add: s(3) signature_valid_until_def sample_custody_config_def sample_window_def checked_add_def checked_i64_def i64_defs)
  with sample_expects [OF wf s(3) claims] claims show thesis
    by (intro that [of "cl_trust_epoch claims"]) simp_all
qed

lemma sample_root_length: "length (sk_inner sample_root) = 32"
  by (simp add: sample_root_def)

lemma sample_client_resolves:
  "sample_client (cc_issuer_kid sample_custody_config) ResponseSlot = Resolved \<lparr>identity = \<lparr>role = ''root'',
      trust_domain = ''example.com'', subject = ''r'', keyid = ''root''\<rparr>, verification_key = public_key letter_lib sample_root,
      slot = ResponseSlot\<rparr>"
  by (simp add: sample_client_def sample_custody_config_def)

lemmas sample_acceptance = letter_lib_ok(1,2,4,3) sample_root_length sample_jws_ok demo_json_roundtrip

theorem custody_response_accepted_witness:
  "\<exists>c signed ev epoch v. answer_signed ev c signed
    \<and> delegated_bound_response letter_lib demo_json sample_jws value_block signed sample_posted sample_client policy_default
        (sample_expectations epoch) (\<lambda>_. False) 1590 = Ok v
    \<and> vdr_delegation_issuer_kid v = cc_issuer_kid sample_custody_config"
proof (rule sample_response_accepted)
  fix ev c signed a
  assume s: "answer_signed ev c signed"
    "request_evidence_of letter_lib sample_posted = Ok ev" "cu_active c = Some a" "length (sk_inner (ak_key a)) = 32"
    "ak_exp a = 1600"
  show ?thesis
  proof (rule sample_acceptance_facts [OF s(1,3,5)])
    fix epoch
    assume e: "\<forall>header claims. parse_credential letter_lib sample_jws (ak_credential a) = Ok (header, claims)
        \<longrightarrow> expects sample_custody_config (sample_expectations epoch) (\<lambda>_. False) 1590 claims"
      "1600 = signature_valid_until 1000 (kw_ttl (cc_window sample_custody_config)) (ak_exp a)"
    from custody_response_accepted [where from_value = value_block and resolve = sample_client and expect = "sample_expectations epoch"
        and is_revoked = "\<lambda>_. False" and policy = policy_default and now' = 1590 and expires = 1600,
        OF s(1,3,4) sample_acceptance _ sample_shape(1) s(2) sample_client_resolves _ _ e(1) sample_shape(2) e(2) sample_shape(3-6)]
      value_block_value s(1)
    show ?thesis by auto
  qed
qed

theorem delegated_bound_response_sound_witness:
  "\<exists>signed epoch v root. delegated_bound_response letter_lib demo_json sample_jws value_block signed sample_posted sample_client
      policy_default (sample_expectations epoch) (\<lambda>_. False) 1590 = Ok v
    \<and> sample_client (vdr_delegation_issuer_kid v) ResponseSlot = Resolved root
    \<and> request_evidence_of letter_lib sample_posted = Ok (bound_request_evidence (vdr_request_evidence_agreement v))"
proof (rule sample_response_accepted)
  fix ev c signed a
  assume s: "answer_signed ev c signed"
    "request_evidence_of letter_lib sample_posted = Ok ev" "cu_active c = Some a" "length (sk_inner (ak_key a)) = 32"
    "ak_exp a = 1600"
  show ?thesis
  proof (rule sample_acceptance_facts [OF s(1,3,5)])
    fix epoch
    assume e: "\<forall>header claims. parse_credential letter_lib sample_jws (ak_credential a) = Ok (header, claims)
        \<longrightarrow> expects sample_custody_config (sample_expectations epoch) (\<lambda>_. False) 1590 claims"
      "1600 = signature_valid_until 1000 (kw_ttl (cc_window sample_custody_config)) (ak_exp a)"
    from custody_accept [where from_value = value_block and resolve = sample_client and expect = "sample_expectations epoch"
        and is_revoked = "\<lambda>_. False" and policy = policy_default and now' = 1590 and expires = 1600,
        OF s(1,3,4) sample_acceptance _ sample_shape(1) s(2) sample_client_resolves _ _ e(1) sample_shape(2) e(2) sample_shape(3-6)]
      value_block_value
    obtain v where v: "delegated_bound_response letter_lib demo_json sample_jws value_block signed sample_posted sample_client policy_default
      (sample_expectations epoch) (\<lambda>_. False) 1590 = Ok v" by auto
    have "is_i64 1590" by (simp add: i64_defs)
    from delegated_bound_response_sound [OF v policy_default_ok this] v show ?thesis by blast
  qed
qed

end
