(* ===== verification/Admission_State.thy ===== *)
theory Admission_State
  imports Admission Delegation_Sample
begin

text \<open>
  The authority's own statement of an admission: \<open>authoritative_admission/record/\<close>. A record names an
  admission, its generation and status, and carries a revision that must not go back; a verifier
  takes it only inside a window whose length is bounded by its own budget. The last section puts the
  record and the assertion of \<open>Admission\<close> together and gives concrete documents.
\<close>

definition ADMISSION_STATE_TYP :: string where "ADMISSION_STATE_TYP = ''mcp-re-admission-state+jws''"
definition ADMISSION_STATE_ALG :: string where "ADMISSION_STATE_ALG = ''EdDSA''"
definition STATE_SIGNATURE_LEN :: nat where "STATE_SIGNATURE_LEN = 64"

datatype AdmissionRecordRefusal =
    RecordMalformed | RecordIssuerUntrusted | RecordSignatureInvalid | RecordProfileMismatch | SubjectMismatch
  | RecordExpired | WindowExceedsBudget | RevisionRewound

record AdmissionStateCurrentness =
  sc_max_record_age :: int
  sc_max_clock_skew :: int

record AdmissionStateHeader =
  sh_typ :: string
  sh_alg :: string
  sh_kid :: string

record AdmissionStateClaims =
  st_iss :: string
  st_iat :: int
  st_nbf :: int
  st_exp :: int
  st_profile :: string
  st_admission_id :: string
  st_generation :: nat
  st_status :: AdmissionStatus
  st_state_revision :: nat
  st_issuer_kid :: string

record CurrentAdmissionState =
  ca_state :: AuthoritativeAdmission
  ca_revision :: nat

record state_lib =
  state_header_to_vec :: "AdmissionStateHeader \<Rightarrow> bytes option"
  state_header_from_slice :: "bytes \<Rightarrow> AdmissionStateHeader option"
  state_claims_to_vec :: "AdmissionStateClaims \<Rightarrow> bytes option"
  state_claims_from_slice :: "bytes \<Rightarrow> AdmissionStateClaims option"

definition issue_admission_state_record ::
  "crypto_lib \<Rightarrow> state_lib \<Rightarrow> AdmissionStateClaims \<Rightarrow> (bytes \<Rightarrow> HttpProfileError + bytes) \<Rightarrow> HttpProfileError + string" where
  "issue_admission_state_record L R claims sign_root =
     (let header = \<lparr>sh_typ = ADMISSION_STATE_TYP, sh_alg = ADMISSION_STATE_ALG, sh_kid = st_issuer_kid claims\<rparr> in
      try_bind (ok_or (state_header_to_vec R header) (MalformedEvidence ''admission state header'')) (\<lambda>hb.
      try_bind (ok_or (state_claims_to_vec R claims) (MalformedEvidence ''admission state claims'')) (\<lambda>pb.
      let h = b64url_encode L hb; p = b64url_encode L pb; signing_input = h @ ''.'' @ p in
      try_bind (sign_root signing_input) (\<lambda>sig.
      if length sig \<noteq> STATE_SIGNATURE_LEN then Err (MalformedEvidence ''admission state signature length'')
      else Ok (h @ ''.'' @ p @ ''.'' @ b64url_encode L sig)))))"

definition check_currentness ::
  "AdmissionStateClaims \<Rightarrow> AdmissionStateCurrentness \<Rightarrow> int \<Rightarrow> AdmissionRecordRefusal + unit" where
  "check_currentness claims currentness now =
     (let skew = sc_max_clock_skew currentness in
      if saturating_sub (st_nbf claims) skew > now \<or> saturating_add (st_exp claims) skew \<le> now
         \<or> st_exp claims \<le> st_nbf claims \<or> st_iat claims > saturating_add now skew
      then Err RecordExpired
      else if saturating_sub (st_exp claims) (st_iat claims) > sc_max_record_age currentness then Err WindowExceedsBudget
      else Ok ())"

definition state_split_compact :: "string \<Rightarrow> AdmissionRecordRefusal + string \<times> string \<times> string" where
  "state_split_compact jws =
     (case split_on CHR ''.'' jws of
        [h, p, s] \<Rightarrow> if h \<noteq> [] \<and> p \<noteq> [] \<and> s \<noteq> [] then Ok (h, p, s) else Err RecordMalformed
      | _ \<Rightarrow> Err RecordMalformed)"

definition state_decode_json :: "crypto_lib \<Rightarrow> (bytes \<Rightarrow> 'a option) \<Rightarrow> string \<Rightarrow> AdmissionRecordRefusal + 'a" where
  "state_decode_json L read seg =
     try_bind (map_err (\<lambda>_. RecordMalformed) (b64url_decode L seg)) (\<lambda>b. ok_or (read b) RecordMalformed)"

definition normalize_signature :: "crypto_lib \<Rightarrow> string \<Rightarrow> AdmissionRecordRefusal + string" where
  "normalize_signature L s_seg =
     try_bind (map_err (\<lambda>_. RecordMalformed) (b64url_decode L s_seg)) (\<lambda>b. Ok (b64url_encode L b))"

definition verify_admission_state_record ::
  "crypto_lib \<Rightarrow> state_lib \<Rightarrow> string \<Rightarrow> string \<Rightarrow> string \<Rightarrow> AdmissionStateCurrentness \<Rightarrow> nat option \<Rightarrow> int
   \<Rightarrow> (string \<Rightarrow> VerificationKey option) \<Rightarrow> AdmissionRecordRefusal + CurrentAdmissionState" where
  "verify_admission_state_record L R compact_jws expected_admission_id expected_profile currentness
     observed_revision_floor now resolve_issuer =
     try_bind (state_split_compact compact_jws) (\<lambda>(h_seg, p_seg, s_seg).
     try_bind (state_decode_json L (state_header_from_slice R) h_seg) (\<lambda>header.
     if sh_typ header \<noteq> ADMISSION_STATE_TYP \<or> sh_alg header \<noteq> ADMISSION_STATE_ALG then Err RecordMalformed
     else try_bind (state_decode_json L (state_claims_from_slice R) p_seg) (\<lambda>claims.
     if sh_kid header \<noteq> st_issuer_kid claims then Err RecordMalformed
     else try_bind (ok_or (resolve_issuer (st_issuer_kid claims)) RecordIssuerUntrusted) (\<lambda>authority.
     try_bind (normalize_signature L s_seg) (\<lambda>sig.
     try_bind (map_err (\<lambda>_. RecordSignatureInvalid)
                 (verify_ed25519_with L (h_seg @ ''.'' @ p_seg) sig authority mcp_re_error.InvalidSignature)) (\<lambda>_.
     if st_profile claims \<noteq> expected_profile then Err RecordProfileMismatch
     else if st_admission_id claims \<noteq> expected_admission_id then Err SubjectMismatch
     else try_bind (check_currentness claims currentness now) (\<lambda>_.
     if (case observed_revision_floor of None \<Rightarrow> False | Some least \<Rightarrow> st_state_revision claims < least)
     then Err RevisionRewound
     else Ok \<lparr>ca_state = \<lparr>aa_admission_id = st_admission_id claims, aa_generation = st_generation claims,
                          aa_status = st_status claims\<rparr>,
              ca_revision = st_state_revision claims\<rparr>)))))))"

section \<open>What the authority vouched for\<close>

interpretation state_jws: compact_reader state_split_compact
  by unfold_locales (auto simp: state_split_compact_def split: list.splits if_splits)

lemma normalize_signature_verifies:
  "normalize_signature L s = Ok sig \<Longrightarrow> b64_ok L \<Longrightarrow> verify_ed25519_with L m sig root e = Ok ()
   \<Longrightarrow> verify_ed25519_with L m s root e' = Ok ()"
  by (auto simp: normalize_signature_def try_bind_Ok_iff b64url_decode_def verify_ed25519_with_Ok_iff b64url_encode_def b64_ok_def)

lemma verify_admission_state_record_Ok:
  assumes "verify_admission_state_record L R jws adm_id profile currentness least now resolve_issuer = Ok current" "b64_ok L"
  obtains claims authority where "resolve_issuer (st_issuer_kid claims) = Some authority"
    "jws_signed L (state_claims_from_slice R) jws claims authority" "st_profile claims = profile"
    "st_admission_id claims = adm_id" "check_currentness claims currentness now = Ok ()"
    "\<forall>f. least = Some f \<longrightarrow> f \<le> st_state_revision claims"
    "ca_state current = \<lparr>aa_admission_id = adm_id, aa_generation = st_generation claims, aa_status = st_status claims\<rparr>"
    "ca_revision current = st_state_revision claims"
proof -
  from assms(1) obtain h p s sig claims authority where steps: "state_split_compact jws = Ok (h, p, s)"
    "state_decode_json L (state_claims_from_slice R) p = Ok claims" "resolve_issuer (st_issuer_kid claims) = Some authority"
    "normalize_signature L s = Ok sig" "verify_ed25519_with L (h @ ''.'' @ p) sig authority mcp_re_error.InvalidSignature = Ok ()"
    and checks: "st_profile claims = profile" "st_admission_id claims = adm_id" "check_currentness claims currentness now = Ok ()"
    "\<forall>f. least = Some f \<longrightarrow> f \<le> st_state_revision claims"
    "ca_state current = \<lparr>aa_admission_id = adm_id, aa_generation = st_generation claims, aa_status = st_status claims\<rparr>"
    "ca_revision current = st_state_revision claims"
    unfolding verify_admission_state_record_def try_bind_Ok_iff
    by (auto simp: try_bind_Ok_iff not_less split: if_splits option.splits)
  from normalize_signature_verifies [OF steps(4) assms(2) steps(5)] steps(1,2)
  have "jws_signed L (state_claims_from_slice R) jws claims authority"
    by (auto simp: state_decode_json_def try_bind_Ok_iff b64url_decode_def intro: state_jws.signed_by)
  with steps(3) checks show thesis by (intro that)
qed

lemma check_currentness_Ok:
  assumes "check_currentness claims currentness now = Ok ()" "is_i64 now" "is_i64 (sc_max_record_age currentness)"
    "sc_max_record_age currentness < i64_max"
  shows "now < st_exp claims + sc_max_clock_skew currentness"
    "now - st_iat claims < sc_max_record_age currentness + sc_max_clock_skew currentness"
proof -
  from assms(1) have c: "\<not> saturating_sub (st_nbf claims) (sc_max_clock_skew currentness) > now"
    "\<not> saturating_add (st_exp claims) (sc_max_clock_skew currentness) \<le> now"
    "saturating_sub (st_exp claims) (st_iat claims) \<le> sc_max_record_age currentness"
    by (auto simp: check_currentness_def Let_def not_less split: if_splits)
  show "now < st_exp claims + sc_max_clock_skew currentness" by (rule saturating_window(1) [OF assms(2) c(1,2)])
  with saturating_sub_le [OF c(3) assms(3,4)]
  show "now - st_iat claims < sc_max_record_age currentness + sc_max_clock_skew currentness" by linarith
qed

text \<open>
  C29. A live admission is one the authority vouched for. When a request's admission is checked against
  the state read from an accepted record, and passes, the authority itself signed that this admission
  is admitted at exactly the generation the request is bound to; it did so less than the record
  budget plus the skew ago; and the record is not older than any revision seen before.
\<close>

theorem live_admission_vouched:
  assumes "verify_admission_state_record L R record_jws (adb_admission_id binding) profile currentness least now resolve_authority
      = Ok current"
    and "check_admission L A binding jws presenter (Some (ca_state current)) profile audiences policy now resolve_issuer = Ok verdict"
    and "b64_ok L" "is_i64 now" "is_i64 (sc_max_record_age currentness)" "sc_max_record_age currentness < i64_max"
  shows "\<exists>claims authority. resolve_authority (st_issuer_kid claims) = Some authority
    \<and> jws_signed L (state_claims_from_slice R) record_jws claims authority
    \<and> st_profile claims = profile
    \<and> st_admission_id claims = adb_admission_id binding \<and> st_generation claims = adb_generation binding
    \<and> st_status claims = Admitted
    \<and> now - st_iat claims < sc_max_record_age currentness + sc_max_clock_skew currentness
    \<and> (\<forall>f. least = Some f \<longrightarrow> f \<le> ca_revision current)
    \<and> verdict = Live \<lparr>va_admission_id = adb_admission_id binding, va_generation = adb_generation binding,
                      va_admitted_actor = presenter, va_status = Admitted\<rparr>"
  using assms(1,3)
proof (rule verify_admission_state_record_Ok)
  fix claims authority
  assume c: "resolve_authority (st_issuer_kid claims) = Some authority"
    "jws_signed L (state_claims_from_slice R) record_jws claims authority" "st_profile claims = profile"
    "st_admission_id claims = adb_admission_id binding" "check_currentness claims currentness now = Ok ()"
    "\<forall>f. least = Some f \<longrightarrow> f \<le> st_state_revision claims"
    "ca_state current = \<lparr>aa_admission_id = adb_admission_id binding, aa_generation = st_generation claims, aa_status = st_status claims\<rparr>"
    "ca_revision current = st_state_revision claims"
  have "st_generation claims = adb_generation binding \<and> st_status claims = Admitted
      \<and> verdict = Live \<lparr>va_admission_id = adb_admission_id binding, va_generation = adb_generation binding,
                      va_admitted_actor = presenter, va_status = Admitted\<rparr>"
    using assms(2) c(7) by (auto simp: check_admission_def try_bind_Ok_iff Let_def split: if_splits)
  with c check_currentness_Ok(2) [OF c(5) assms(4-6)] show ?thesis by auto
qed

section \<open>Concrete documents\<close>

definition sample_admission :: AdmissionClaims where
  "sample_admission = \<lparr>ac_iss = ''i'', ac_iat = 1000, ac_nbf = 1000, ac_exp = 2000, ac_jti = ''j'', ac_aud = One ''v'',
     ac_profile = PROFILE_TAG, ac_admission_id = ''adm'', ac_admitted_actor = ''actor'', ac_generation = 3,
     ac_admitted_state_digest = ''d'', ac_status = Admitted, ac_issuer_kid = ''root''\<rparr>"

definition sample_admission_lib :: admission_lib where
  "sample_admission_lib =
     (let header = \<lparr>ah_typ = ADMISSION_TYP, ah_alg = ADMISSION_ALG, ah_kid = ''root''\<rparr> in
      \<lparr>adm_header_to_vec = \<lambda>h. if h = header then Some ''h'' else None, adm_header_from_slice = \<lambda>_. Some header,
       adm_claims_to_vec = \<lambda>c. if c = sample_admission then Some ''p'' else None,
       adm_claims_from_slice = \<lambda>_. Some sample_admission\<rparr>)"

theorem issued_admission_accepted_witness:
  "\<exists>jws. issue_admission_assertion letter_lib sample_admission_lib sample_admission
        (\<lambda>m. Ok (seed_sign letter_lib (sk_inner sample_root) m)) = Ok jws
    \<and> check_admission letter_lib sample_admission_lib (opaque_from letter_lib sample_admission) jws ''actor''
        (Some \<lparr>aa_admission_id = ''adm'', aa_generation = 3, aa_status = Admitted\<rparr>) PROFILE_TAG [''v'']
        admission_policy_default 1100 (\<lambda>_. Some (public_key letter_lib sample_root))
      = Ok (Live \<lparr>va_admission_id = ''adm'', va_generation = 3, va_admitted_actor = ''actor'', va_status = Admitted\<rparr>)"
proof -
  obtain jws where jws: "issue_admission_assertion letter_lib sample_admission_lib sample_admission
        (\<lambda>m. Ok (seed_sign letter_lib (sk_inner sample_root) m)) = Ok jws"
    by (simp add: issue_admission_assertion_def sample_admission_lib_def Let_def) (simp add: sample_admission_def)
  have "check_admission letter_lib sample_admission_lib (opaque_from letter_lib sample_admission) jws (ac_admitted_actor sample_admission)
      (Some \<lparr>aa_admission_id = ac_admission_id sample_admission, aa_generation = ac_generation sample_admission, aa_status = Admitted\<rparr>)
      (ac_profile sample_admission) [''v''] admission_policy_default 1100 (\<lambda>_. Some (public_key letter_lib sample_root))
    = Ok (Live \<lparr>va_admission_id = ac_admission_id sample_admission, va_generation = ac_generation sample_admission,
               va_admitted_actor = ac_admitted_actor sample_admission, va_status = Admitted\<rparr>)"
    by (rule issued_admission_accepted [OF jws, where root = "public_key letter_lib sample_root" and a = "''v''"])
      (use letter_lib_ok sample_root_length in \<open>auto simp: ed25519_ok_def public_key_def serde_ok_def sample_admission_lib_def
        sample_admission_def Let_def admission_policy_default_def i64_defs\<close>)
  with jws show ?thesis by (simp add: sample_admission_def)
qed

text \<open>Documents over a library whose codecs are the identity and whose only valid signature is the key twice.\<close>

definition plain_lib :: crypto_lib where
  "plain_lib = demo_lib\<lparr>verify_strict := \<lambda>k m s. s = k @ k\<rparr>"

definition plain_key :: VerificationKey where "plain_key = VerificationKey (replicate 32 CHR ''k'')"

definition plain_jws :: string where "plain_jws = ''h.p.'' @ replicate 64 CHR ''k''"

lemma plain_lib_ok: "b64_ok plain_lib"
  by (simp add: plain_lib_def demo_lib_def b64_ok_def)

definition sample_state :: AdmissionStateClaims where
  "sample_state = \<lparr>st_iss = ''i'', st_iat = 1000, st_nbf = 1000, st_exp = 1200, st_profile = PROFILE_TAG,
     st_admission_id = ''adm'', st_generation = 3, st_status = Admitted, st_state_revision = 7, st_issuer_kid = ''authority''\<rparr>"

definition sample_state_lib :: state_lib where
  "sample_state_lib = \<lparr>state_header_to_vec = \<lambda>_. None,
     state_header_from_slice = \<lambda>_. Some \<lparr>sh_typ = ADMISSION_STATE_TYP, sh_alg = ADMISSION_STATE_ALG, sh_kid = ''authority''\<rparr>,
     state_claims_to_vec = \<lambda>_. None, state_claims_from_slice = \<lambda>_. Some sample_state\<rparr>"

definition sample_currentness :: AdmissionStateCurrentness where
  "sample_currentness = \<lparr>sc_max_record_age = 300, sc_max_clock_skew = 30\<rparr>"

definition sample_current :: CurrentAdmissionState where
  "sample_current = \<lparr>ca_state = \<lparr>aa_admission_id = ''adm'', aa_generation = 3, aa_status = Admitted\<rparr>, ca_revision = 7\<rparr>"

definition sample_binding :: AdmissionBinding where
  "sample_binding = opaque_from plain_lib sample_admission"

definition sample_verdict :: AdmissionVerdict where
  "sample_verdict = Live \<lparr>va_admission_id = ''adm'', va_generation = 3, va_admitted_actor = ''actor'', va_status = Admitted\<rparr>"

lemma plain_record: "verify_admission_state_record plain_lib sample_state_lib plain_jws (adb_admission_id sample_binding) PROFILE_TAG
    sample_currentness (Some 7) 1100 (\<lambda>_. Some plain_key) = Ok sample_current"
  by code_simp

lemma plain_admission: "check_admission plain_lib sample_admission_lib sample_binding plain_jws ''actor'' (Some (ca_state sample_current))
    PROFILE_TAG [''v''] admission_policy_default 1100 (\<lambda>_. Some plain_key) = Ok sample_verdict"
  by code_simp

theorem check_admission_sound_witness:
  "\<exists>claims. jws_signed plain_lib (adm_claims_from_slice sample_admission_lib) plain_jws claims plain_key
    \<and> ac_admitted_actor claims = ''actor''"
proof -
  have "is_i64 1100" "0 \<le> ap_max_clock_skew admission_policy_default" "0 \<le> ap_max_assertion_age admission_policy_default"
    "0 \<le> ap_degraded_propagation_bound admission_policy_default"
    by (simp_all add: i64_defs admission_policy_default_def)
  from check_admission_sound [OF plain_admission plain_lib_ok this] show ?thesis by auto
qed

theorem live_admission_vouched_witness:
  "\<exists>claims. jws_signed plain_lib (state_claims_from_slice sample_state_lib) plain_jws claims plain_key
    \<and> st_generation claims = adb_generation sample_binding"
proof -
  have "is_i64 1100" "is_i64 (sc_max_record_age sample_currentness)" "sc_max_record_age sample_currentness < i64_max"
    by (simp_all add: i64_defs sample_currentness_def)
  from live_admission_vouched [OF plain_record plain_admission plain_lib_ok this] show ?thesis by auto
qed

definition sample_decision :: PdpDecisionClaims where
  "sample_decision = \<lparr>pc_iss = ''i'', pc_iat = 1000, pc_nbf = 1000, pc_exp = 2000, pc_jti = ''j'', pc_aud = Many [''v''],
     pc_profile = PROFILE_TAG, pc_decided_actor = Principal ''example.com'' ''a'', pc_decided_operation = ''tools/call'',
     pc_decided_target = None, pc_decision = Permit, pc_policy_version = ''1'', pc_issuer_kid = ''pdp''\<rparr>"

definition sample_decision_lib :: decision_lib where
  "sample_decision_lib = \<lparr>dec_header_to_vec = \<lambda>_. None,
     dec_header_from_slice = \<lambda>_. Some \<lparr>ph_typ = PDP_DECISION_TYP, ph_alg = PDP_DECISION_ALG, ph_kid = ''pdp''\<rparr>,
     dec_claims_to_vec = \<lambda>_. None, dec_claims_from_slice = \<lambda>_. Some sample_decision\<rparr>"

theorem verify_authorization_decision_sound_witness:
  "verify_authorization_decision plain_lib sample_decision_lib plain_jws PROFILE_TAG [''v'']
      \<lparr>pf_max_clock_skew = 30, pf_max_decision_age = 300\<rparr> 1100 (\<lambda>_. Some plain_key) = Ok sample_decision
    \<and> jws_signed plain_lib (dec_claims_from_slice sample_decision_lib) plain_jws sample_decision plain_key"
proof -
  have v: "verify_authorization_decision plain_lib sample_decision_lib plain_jws PROFILE_TAG [''v'']
      \<lparr>pf_max_clock_skew = 30, pf_max_decision_age = 300\<rparr> 1100 (\<lambda>_. Some plain_key) = Ok sample_decision"
    by code_simp
  from verify_authorization_decision_sound [OF this] show ?thesis using v by (auto simp: i64_defs)
qed

end
