(* ===== verification/Rejection.thy ===== *)
theory Rejection
  imports Sign Delegation
begin

text \<open>
  Signed rejections, \<open>mcp-re-http-profile/src/rejection/\<close>: the retry contract a rejection discloses
  (\<open>retry_contract.rs\<close>), its body, the two delegated builders and the verifier (\<open>mod.rs\<close>). A JSON object
  literal is the list of its members; \<open>to_value\<close> is the derived serializer of the evidence block.
\<close>

section \<open>The retry contract\<close>

datatype ExecutionDisposition =
    Unstated | NothingExecuted | ApprovalSpentNothingExecuted | PossiblyExecuted | NothingExecutedRetentionUnresolved

definition rejection_retry_semantics :: "string \<Rightarrow> ExecutionDisposition \<Rightarrow> (string \<times> json) list option" where
  "rejection_retry_semantics code execution =
     (if execution = ApprovalSpentNothingExecuted
      then Some [(''execution_status'', JString ''not_executed''), (''continuation_status'', JString ''consumed''),
                 (''retry_safety'', JString ''unsafe_without_new_elicitation'')]
      else if execution = NothingExecutedRetentionUnresolved
      then Some [(''execution_status'', JString ''not_executed''), (''retention_status'', JString ''unresolved''),
                 (''retry_safety'', JString ''unsafe_without_reconciliation'')]
      else if code = wire_code EvidenceRetentionIndeterminate
      then Some [(''execution_status'', JString ''possibly_executed''), (''retention_status'', JString ''failed''),
                 (''retry_safety'', JString ''unsafe_without_reconciliation'')]
      else if execution = PossiblyExecuted
      then Some [(''execution_status'', JString ''possibly_executed''),
                 (''retry_safety'', JString ''unsafe_without_reconciliation'')]
      else None)"

section \<open>The body\<close>

definition JSON_RPC_ERROR_CODE :: int where "JSON_RPC_ERROR_CODE = - 31000"

record RejectionReason =
  rr_wire_code :: string
  rr_message :: string
  rr_execution :: ExecutionDisposition

definition mcp_re_error_member :: "string \<Rightarrow> ExecutionDisposition \<Rightarrow> json" where
  "mcp_re_error_member code execution =
     JObject (case rejection_retry_semantics code execution of
        Some extra \<Rightarrow> fold (\<lambda>(k, v) m. AList.update k v m) extra [(''wire_code'', JString code)]
      | None \<Rightarrow> [(''wire_code'', JString code)])"

definition rejection_body :: "json_lib \<Rightarrow> json \<Rightarrow> RejectionReason \<Rightarrow> bytes" where
  "rejection_body J rpc_id reason =
     to_vec J (JObject
       [(''jsonrpc'', JString ''2.0''), (''id'', rpc_id),
        (''error'', JObject
           [(''code'', JNumber (NegInt JSON_RPC_ERROR_CODE)), (''message'', JString (rr_message reason)),
            (''data'', JObject [(''mcp_re_error'', mcp_re_error_member (rr_wire_code reason) (rr_execution reason))])])])"

definition request_id :: "json_lib \<Rightarrow> HttpRequest \<Rightarrow> json" where
  "request_id J request =
     (case Option.bind (from_slice J (rq_body request)) (\<lambda>v. json_get v ''id'') of Some rpc_id \<Rightarrow> rpc_id | None \<Rightarrow> JNull)"

section \<open>Building\<close>

definition rejection_response :: "nat \<Rightarrow> bytes \<Rightarrow> HttpResponse" where
  "rejection_response code body = \<lparr>rsp_status = code, rsp_headers = [(''Content-Type'', ''application/json'')], rsp_body = body\<rparr>"

definition build_delegated_rejection ::
  "crypto_lib \<Rightarrow> json_lib \<Rightarrow> (HttpResponseEvidenceBlock \<Rightarrow> json) \<Rightarrow> HttpRequest \<Rightarrow> RequestEvidence \<Rightarrow> RejectionReason \<Rightarrow> nat
   \<Rightarrow> ActorIdentity \<Rightarrow> string \<Rightarrow> SigningKey \<Rightarrow> string \<Rightarrow> int \<Rightarrow> int \<Rightarrow> HttpProfileError + HttpResponse" where
  "build_delegated_rejection L J to_value request ev reason code signer delegation key kid created expires =
     (case sign_delegated_response_full L J to_value
             (rejection_response code (rejection_body J (request_id J request) reason)) request ev
             signer delegation key kid created expires of
        (_, Inl e) \<Rightarrow> Err e
      | (response, Inr _) \<Rightarrow> Ok response)"

definition received_diagnostic :: "crypto_lib \<Rightarrow> HttpRequest option \<Rightarrow> RequestEvidence" where
  "received_diagnostic L received =
     (case received of
        Some req \<Rightarrow> \<lparr>digest_alg = ''sha-256-received'', digest_value = content_digest_sha256 L (rq_body req)\<rparr>
      | None \<Rightarrow> \<lparr>digest_alg = ''none'', digest_value = []\<rparr>)"

definition build_delegated_rejection_preflight ::
  "crypto_lib \<Rightarrow> json_lib \<Rightarrow> (HttpResponseEvidenceBlock \<Rightarrow> json) \<Rightarrow> HttpRequest option \<Rightarrow> RejectionReason \<Rightarrow> nat
   \<Rightarrow> ActorIdentity \<Rightarrow> string \<Rightarrow> SigningKey \<Rightarrow> string \<Rightarrow> int \<Rightarrow> int \<Rightarrow> HttpProfileError + HttpResponse" where
  "build_delegated_rejection_preflight L J to_value received reason code signer delegation key kid created expires =
     (let rpc_id = (case received of Some req \<Rightarrow> request_id J req | None \<Rightarrow> JNull) in
      case sign_delegated_response_unbound L J to_value (rejection_response code (rejection_body J rpc_id reason))
             signer delegation (received_diagnostic L received) key kid created expires of
        (_, Inl e) \<Rightarrow> Err e
      | (response, Inr _) \<Rightarrow> Ok response)"

section \<open>Verifying\<close>

record SignedRejection =
  sr_wire_code :: string
  sr_status :: nat

definition extract_wire_code :: "json_lib \<Rightarrow> bytes \<Rightarrow> HttpProfileError + string" where
  "extract_wire_code J body =
     try_bind (ok_or (from_slice J body) (MalformedEvidence ''rejection body json'')) (\<lambda>v.
     ok_or (Option.bind (json_get v ''error'') (\<lambda>e.
            Option.bind (json_get e ''data'') (\<lambda>d.
            Option.bind (json_get d ''mcp_re_error'') (\<lambda>m.
            Option.bind (json_get m ''wire_code'') as_str))))
       (MalformedEvidence ''rejection wire_code''))"

definition verify_signed_rejection ::
  "crypto_lib \<Rightarrow> json_lib \<Rightarrow> HttpResponse \<Rightarrow> HttpRequest option \<Rightarrow> Verifier \<Rightarrow> int \<Rightarrow> HttpProfileError + SignedRejection" where
  "verify_signed_rejection L J response request verifier now =
     try_bind (case request of
                 Some req \<Rightarrow> try_bind (verify_bound_response_floor L verifier response req now) (\<lambda>_. Ok ())
               | None \<Rightarrow> try_bind (verify_unbound_response_floor L verifier response now) (\<lambda>_. Ok ())) (\<lambda>_.
     try_bind (extract_wire_code J (rsp_body response)) (\<lambda>code.
     Ok \<lparr>sr_wire_code = code, sr_status = rsp_status response\<rparr>))"

section \<open>What a rejection discloses\<close>

definition error_member :: "json_lib \<Rightarrow> bytes \<Rightarrow> string \<Rightarrow> json option" where
  "error_member J body key =
     Option.bind (from_slice J body) (\<lambda>v. Option.bind (json_get v ''error'') (\<lambda>e. Option.bind (json_get e ''data'') (\<lambda>d.
     Option.bind (json_get d ''mcp_re_error'') (\<lambda>m. json_get m key))))"

lemma extract_wire_code_iff: "extract_wire_code J body = Ok code \<longleftrightarrow> error_member J body ''wire_code'' = Some (JString code)"
proof -
  have as_str: "as_str v = Some code \<longleftrightarrow> v = JString code" for v by (cases v) auto
  show ?thesis
    by (auto simp: extract_wire_code_def error_member_def try_bind_Ok_iff bind_eq_Some_conv as_str)
qed

definition execution_claim :: "string \<Rightarrow> ExecutionDisposition \<Rightarrow> json option" where
  "execution_claim code execution =
     (if execution \<in> {ApprovalSpentNothingExecuted, NothingExecutedRetentionUnresolved} then Some (JString ''not_executed'')
      else if code = wire_code EvidenceRetentionIndeterminate \<or> execution = PossiblyExecuted
      then Some (JString ''possibly_executed'')
      else None)"

lemma mcp_re_error_member:
  "json_get (mcp_re_error_member code execution) ''wire_code'' = Some (JString code)"
  "json_get (mcp_re_error_member code execution) ''execution_status'' = execution_claim code execution"
  by (auto simp: mcp_re_error_member_def rejection_retry_semantics_def execution_claim_def json_get_def update_conv'
      split: option.splits)

lemma insert_meta_keeps:
  assumes "json_roundtrip J" "insert_meta_block J (to_vec J (JObject obj)) key block = Ok body" "k \<noteq> META_KEY"
  shows "\<exists>obj'. from_slice J body = Some (JObject obj') \<and> map_of obj' k = map_of obj k"
  using assms by (auto simp: insert_meta_block_def json_roundtrip_def try_bind_Ok_iff Let_def update_conv')

lemma signed_body:
  "sign_delegated_response_full L J tv response request ev signer delegation key kid created expires = (response', Ok base) \<Longrightarrow>
     insert_meta_block J (rsp_body response) RESPONSE_EVIDENCE_BLOCK_KEY (tv (delegated_block signer delegation ev)) = Ok (rsp_body response')
     \<and> rsp_status response' = rsp_status response"
  "sign_delegated_response_unbound L J tv response signer delegation ev key kid created expires = (response', Ok u) \<Longrightarrow>
     insert_meta_block J (rsp_body response) RESPONSE_EVIDENCE_BLOCK_KEY (tv (delegated_block signer delegation ev)) = Ok (rsp_body response')
     \<and> rsp_status response' = rsp_status response"
  by (auto simp: sign_delegated_response_full_def sign_response_with_signer_def sign_delegated_response_unbound_def
      sign_response_unbound_def Let_def split: sum.splits prod.splits)

lemma rejection_member:
  assumes "json_roundtrip J"
    and "insert_meta_block J (rejection_body J rpc_id reason) key block = Ok body \<or> body = rejection_body J rpc_id reason"
  shows "error_member J body ''wire_code'' = Some (JString (rr_wire_code reason))"
    "error_member J body ''execution_status'' = execution_claim (rr_wire_code reason) (rr_execution reason)"
proof -
  let ?error = "JObject [(''code'', JNumber (NegInt JSON_RPC_ERROR_CODE)), (''message'', JString (rr_message reason)),
     (''data'', JObject [(''mcp_re_error'', mcp_re_error_member (rr_wire_code reason) (rr_execution reason))])]"
  from assms(2) have "\<exists>obj. from_slice J body = Some (JObject obj) \<and> map_of obj ''error'' = Some ?error"
  proof
    assume "insert_meta_block J (rejection_body J rpc_id reason) key block = Ok body"
    from insert_meta_keeps [OF assms(1) this [unfolded rejection_body_def], of "''error''"] show ?thesis by (simp add: META_KEY_def)
  qed (use assms(1) in \<open>simp add: rejection_body_def json_roundtrip_def\<close>)
  then show "error_member J body ''wire_code'' = Some (JString (rr_wire_code reason))"
    "error_member J body ''execution_status'' = execution_claim (rr_wire_code reason) (rr_execution reason)"
    using mcp_re_error_member by (auto simp: error_member_def json_get_def)
qed

lemma built_rejection:
  assumes "json_roundtrip J"
    and "build_delegated_rejection L J tv request ev reason code signer delegation key kid created expires = Ok response
      \<or> build_delegated_rejection_preflight L J tv received reason code signer delegation key kid created expires = Ok response"
  shows "rsp_status response = code" "extract_wire_code J (rsp_body response) = Ok (rr_wire_code reason)"
    "error_member J (rsp_body response) ''execution_status'' = execution_claim (rr_wire_code reason) (rr_execution reason)"
proof -
  from assms(2) obtain rpc_id block where "insert_meta_block J (rejection_body J rpc_id reason) RESPONSE_EVIDENCE_BLOCK_KEY block = Ok (rsp_body response)"
    and "rsp_status response = code"
    by (auto simp: build_delegated_rejection_def build_delegated_rejection_preflight_def rejection_response_def Let_def
        split: prod.splits sum.splits dest!: signed_body)
  with rejection_member [OF assms(1) disjI1] show "rsp_status response = code" "extract_wire_code J (rsp_body response) = Ok (rr_wire_code reason)"
    "error_member J (rsp_body response) ''execution_status'' = execution_claim (rr_wire_code reason) (rr_execution reason)"
    by (auto simp: extract_wire_code_iff)
qed

end
