(* ===== verification/Bodyless.thy ===== *)
theory Bodyless
  imports Sign Delegation
begin

text \<open>
  Messages without a body, \<open>mcp-re-http-profile/src/bodyless/\<close>: bodyless requests, and the signed
  \<open>202 Accepted\<close> that acknowledges a notification. The acknowledgement carries its delegation
  credential and the evidence of the request in headers its signature covers (\<open>mod.rs\<close>,
  \<open>delegated_ack.rs\<close>, \<open>delegated_credential.rs\<close>, \<open>acknowledged.rs\<close>).
\<close>

section \<open>Shared steps\<close>

definition BODYLESS_REQUEST_COMPONENTS :: "string list" where
  "BODYLESS_REQUEST_COMPONENTS = [''@method'', ''@target-uri'', ''content-digest'']"

definition BODYLESS_DELEGATED_RESPONSE_COMPONENTS :: "string list" where
  "BODYLESS_DELEGATED_RESPONSE_COMPONENTS =
     [''@status'', ''content-digest'', MCP_RE_DELEGATION_HEADER, MCP_RE_REQUEST_EVIDENCE_HEADER]"

definition STATUS_ACCEPTED :: nat where "STATUS_ACCEPTED = 202"

definition require_bodyless :: "headers \<Rightarrow> bytes \<Rightarrow> HttpProfileError + unit" where
  "require_bodyless hs body =
     try_bind (single_header hs ''content-type'') (\<lambda>ct.
     try_bind (require (ct = None) (MalformedEvidence ''content-type on a bodyless message'')) (\<lambda>_.
     require (body = []) (MalformedEvidence ''content on a bodyless message'')))"

definition params_for :: "string \<Rightarrow> int \<Rightarrow> int \<Rightarrow> string option \<Rightarrow> SignatureParams" where
  "params_for key_id created expires nonce =
     \<lparr>sp_created = Some created, sp_expires = Some expires, sp_nonce = nonce, sp_keyid = Some key_id,
      sp_alg = Some ALG_ED25519, sp_tag = Some PROFILE_TAG\<rparr>"

text \<open>\<open>emit\<close> is the emission of \<open>sign.rs\<close> with a key in memory.\<close>

definition bodyless_emit ::
  "crypto_lib \<Rightarrow> headers \<Rightarrow> string \<Rightarrow> CoveredComponent list \<Rightarrow> SignatureParams \<Rightarrow> bytes \<Rightarrow> SigningKey
   \<Rightarrow> headers \<times> (HttpProfileError + unit)" where
  "bodyless_emit L hs label components params base key =
     (case local_sig L key base of
        Inl e \<Rightarrow> (hs, Err e)
      | Inr sig \<Rightarrow>
          if length sig \<noteq> 64 then (hs, Err HttpProfileError.InvalidSignature)
          else case serialize_with params components of
                 Inl e \<Rightarrow> (hs, Err e)
               | Inr s \<Rightarrow>
                   let hs = set_header hs ''Signature-Input'' (label @ ''='' @ s);
                       hs = set_header hs ''Signature'' (label @ ''=:'' @ base64_standard_encode L sig @ '':'')
                   in (hs, Ok ()))"

definition bodyless_request_evidence :: "crypto_lib \<Rightarrow> HttpRequest \<Rightarrow> HttpProfileError + RequestEvidence" where
  "bodyless_request_evidence L request =
     try_bind (parse_signature_input_for (rq_headers request) REQUEST_LABEL ''request signature-input'') (\<lambda>parsed.
     try_bind (signature_base (ps_components parsed) (ps_params parsed) (Request request)) (\<lambda>base.
     Ok (from_signature_base L base)))"

definition check_request_evidence :: "crypto_lib \<Rightarrow> headers \<Rightarrow> HttpRequest \<Rightarrow> HttpProfileError + unit" where
  "check_request_evidence L hs request =
     try_bind (map_err (\<lambda>_. MissingEvidence ''response request-evidence'')
                 (required_header hs MCP_RE_REQUEST_EVIDENCE_HEADER)) (\<lambda>claimed.
     try_bind (bodyless_request_evidence L request) (\<lambda>derived.
     require (claimed = digest_value derived) ResponseBindingMismatch))"

section \<open>Signing\<close>

definition sign_delegated_accepted_202 ::
  "crypto_lib \<Rightarrow> HttpRequest \<Rightarrow> string \<Rightarrow> SigningKey \<Rightarrow> string \<Rightarrow> int \<Rightarrow> int \<Rightarrow> HttpProfileError + HttpResponse" where
  "sign_delegated_accepted_202 L request delegation key kid created expires =
     (if length delegation > MAX_DELEGATION_HEADER_LEN then Err (MalformedEvidence ''delegation header too large'')
      else
        try_bind (bodyless_request_evidence L request) (\<lambda>ev.
        let response = \<lparr>rsp_status = STATUS_ACCEPTED,
                        rsp_headers = [(''Content-Digest'', content_digest_sha256 L []), (MCP_RE_DELEGATION_HEADER, delegation),
                                       (MCP_RE_REQUEST_EVIDENCE_HEADER, digest_value ev)],
                        rsp_body = []\<rparr>;
            components = map cc_new BODYLESS_DELEGATED_RESPONSE_COMPONENTS @ map cc_new_req REQUIRED_RESPONSE_REQ_COMPONENTS;
            params = params_for kid created expires None in
        try_bind (signature_base components params (Response response request)) (\<lambda>base.
        case bodyless_emit L (rsp_headers response) RESPONSE_LABEL components params base key of
          (_, Inl e) \<Rightarrow> Err e
        | (hs, Inr _) \<Rightarrow> Ok (response\<lparr>rsp_headers := hs\<rparr>))))"

definition sign_bodyless_request ::
  "crypto_lib \<Rightarrow> HttpRequest \<Rightarrow> SigningKey \<Rightarrow> string \<Rightarrow> int \<Rightarrow> int \<Rightarrow> string \<Rightarrow> HttpRequest \<times> (HttpProfileError + RequestEvidence)" where
  "sign_bodyless_request L request key key_id created expires nonce =
     (case reject_content_encoding (rq_headers request) of
        Inl e \<Rightarrow> (request, Err e)
      | Inr _ \<Rightarrow>
          let request = request\<lparr>rq_body := [],
                rq_headers := filter (\<lambda>(k, _). \<not> eq_ignore_ascii_case k ''content-type'') (rq_headers request)\<rparr>;
              request = request\<lparr>rq_headers := set_header (rq_headers request) ''Content-Digest'' (content_digest_sha256 L [])\<rparr> in
          case conditional_request_components (rq_headers request) of
            Inl e \<Rightarrow> (request, Err e)
          | Inr conditional \<Rightarrow>
              let components = map cc_new BODYLESS_REQUEST_COMPONENTS @ conditional;
                  params = params_for key_id created expires (Some nonce) in
              (case signature_base components params (Request request) of
                 Inl e \<Rightarrow> (request, Err e)
               | Inr base \<Rightarrow>
                   (case bodyless_emit L (rq_headers request) REQUEST_LABEL components params base key of
                      (hs, Inl e) \<Rightarrow> (request\<lparr>rq_headers := hs\<rparr>, Err e)
                    | (hs, Inr _) \<Rightarrow> (request\<lparr>rq_headers := hs\<rparr>, Ok (from_signature_base L base)))))"

section \<open>Verifying\<close>

definition verify_bodyless_request ::
  "crypto_lib \<Rightarrow> HttpRequest \<Rightarrow> resolver \<Rightarrow> VerifierPolicy \<Rightarrow> int \<Rightarrow> HttpProfileError + ResolvedActor \<times> RequestEvidence" where
  "verify_bodyless_request L request resolve_actor policy now =
     try_bind (reject_content_encoding (rq_headers request)) (\<lambda>_.
     try_bind (require_bodyless (rq_headers request) (rq_body request)) (\<lambda>_.
     try_bind (required_header (rq_headers request) ''content-digest'') (\<lambda>digest_header.
     try_bind (verify_content_digest_sha256 L digest_header (rq_body request)) (\<lambda>_.
     try_bind (parse_signature_input_for (rq_headers request) REQUEST_LABEL ''signature-input'') (\<lambda>parsed.
     try_bind (require_components (ps_components parsed) BODYLESS_REQUEST_COMPONENTS []) (\<lambda>_.
     try_bind (require (\<not> list_ex cc_req (ps_components parsed)) (MalformedEvidence ''req component on a request'')) (\<lambda>_.
     try_bind (require (\<not> list_ex (\<lambda>c. cc_name c = ''content-type'') (ps_components parsed))
                 (MalformedEvidence ''content-type covered on a bodyless message'')) (\<lambda>_.
     try_bind (require_conditional_coverage (rq_headers request) (ps_components parsed)) (\<lambda>_.
     try_bind (check_params (ps_params parsed) policy now True) (\<lambda>(_, _, _, key_id, algorithm).
     try_bind (resolve_actor_for_slot resolve_actor key_id RequestSlot) (\<lambda>actor.
     try_bind (signature_base (ps_components parsed) (ps_params parsed) (Request request)) (\<lambda>base.
     try_bind (signature_value_b64url L (rq_headers request) ''signature'' REQUEST_LABEL) (\<lambda>sig.
     try_bind (verify_under L algorithm base sig (verification_key actor) mcp_re_error.InvalidSignature) (\<lambda>_.
     try_bind (case policy_mcp_transport policy of None \<Rightarrow> Ok () | Some t \<Rightarrow> enforce_bodyless t request) (\<lambda>_.
     Ok (actor, from_signature_base L base))))))))))))))))"

definition check_envelope :: "crypto_lib \<Rightarrow> HttpResponse \<Rightarrow> HttpRequest \<Rightarrow> HttpProfileError + unit" where
  "check_envelope L response request =
     try_bind (reject_content_encoding (rsp_headers response)) (\<lambda>_.
     try_bind (require_bodyless (rsp_headers response) (rsp_body response)) (\<lambda>_.
     try_bind (require (rsp_status response = STATUS_ACCEPTED) (MalformedEvidence ''bodyless acknowledgement status'')) (\<lambda>_.
     try_bind (map_err (\<lambda>_. MissingEvidence ''response content-digest'')
                 (required_header (rsp_headers response) ''content-digest'')) (\<lambda>digest_header.
     try_bind (verify_content_digest_sha256 L digest_header (rsp_body response)) (\<lambda>_.
     check_request_evidence L (rsp_headers response) request)))))"

definition check_coverage ::
  "headers \<Rightarrow> VerifierPolicy \<Rightarrow> int \<Rightarrow> HttpProfileError + ParsedSignatureInput \<times> string \<times> ProfileAlgorithm" where
  "check_coverage hs policy now =
     try_bind (parse_signature_input_for hs RESPONSE_LABEL ''response signature-input'') (\<lambda>parsed.
     try_bind (require_components (ps_components parsed) BODYLESS_DELEGATED_RESPONSE_COMPONENTS REQUIRED_RESPONSE_REQ_COMPONENTS) (\<lambda>_.
     try_bind (require (\<not> list_ex (\<lambda>c. \<not> cc_req c \<and> cc_name c = ''content-type'') (ps_components parsed))
                 (MalformedEvidence ''content-type covered on a bodyless message'')) (\<lambda>_.
     try_bind (check_params (ps_params parsed) policy now False) (\<lambda>(_, _, _, key_id, algorithm).
     Ok (parsed, key_id, algorithm)))))"

definition read_credential :: "headers \<Rightarrow> HttpProfileError + string" where
  "read_credential hs =
     try_bind (single_header hs MCP_RE_DELEGATION_HEADER) (\<lambda>h.
     try_bind (ok_or h HttpProfileError.DelegationCredentialMissing) (\<lambda>credential.
     if length credential > MAX_DELEGATION_HEADER_LEN then Err (MalformedEvidence ''delegation header too large'')
     else Ok credential))"

definition credential_server_signer :: "crypto_lib \<Rightarrow> json_lib \<Rightarrow> string \<Rightarrow> HttpProfileError + string" where
  "credential_server_signer L J compact_jws =
     (case split_on CHR ''.'' compact_jws of
        _ # payload_seg # _ \<Rightarrow>
          try_bind (map_err (\<lambda>_. HttpProfileError.DelegationCredentialInvalid) (b64url_decode L payload_seg)) (\<lambda>b.
          try_bind (ok_or (from_slice J b) HttpProfileError.DelegationCredentialInvalid) (\<lambda>v.
          ok_or (Option.bind (json_get v ''mcp_re_server_signer'') as_str) HttpProfileError.DelegationCredentialInvalid))
      | _ \<Rightarrow> Err HttpProfileError.DelegationCredentialInvalid)"

definition verify_credential ::
  "crypto_lib \<Rightarrow> json_lib \<Rightarrow> jws_lib \<Rightarrow> string \<Rightarrow> Verifier \<Rightarrow> DelegationExpectations \<Rightarrow> (string \<Rightarrow> bool) \<Rightarrow> int
   \<Rightarrow> HttpProfileError + VerifiedDelegation \<times> string" where
  "verify_credential L J S credential verifier expect is_revoked now =
     try_bind (credential_server_signer L J credential) (\<lambda>signer.
     let params = \<lparr>dv_now = now, dv_max_clock_skew = de_max_clock_skew expect,
                   dv_verifier_audiences = de_verifier_audiences expect, dv_expected_profile = PROFILE_TAG,
                   dv_expected_audience_hash = de_expected_audience_hash expect, dv_expected_server_signer = signer,
                   dv_accepted_epochs = de_accepted_epochs expect\<rparr> in
     case verify_delegation_credential L S credential params (root_resolver (ve_resolve_actor verifier)) is_revoked None of
       (resolve_failure, verified) \<Rightarrow>
         try_bind (map_err (\<lambda>e. case resolve_failure of Some failure \<Rightarrow> failure | None \<Rightarrow> e) verified) (\<lambda>verified.
         Ok (verified, signer)))"

text \<open>\<open>str::replace\<close>: the occurrences of a pattern, from left to right and without overlap.\<close>

fun replace_str :: "string \<Rightarrow> string \<Rightarrow> string \<Rightarrow> string" where
  "replace_str p r [] = []"
| "replace_str p r (c # s) =
     (if p \<noteq> [] \<and> take (length p) (c # s) = p then r @ replace_str p r (drop (length p) (c # s))
      else c # replace_str p r s)"

definition unescape_actor_field :: "string \<Rightarrow> string" where
  "unescape_actor_field field = replace_str ''%25'' ''%'' (replace_str ''%3A'' '':'' (replace_str ''%1F'' [CHR 0x1F] field))"

definition check_scope_names_the_signing_key :: "string \<Rightarrow> string \<Rightarrow> string \<Rightarrow> HttpProfileError + unit" where
  "check_scope_names_the_signing_key key_id signer delegated_kid =
     (if key_id \<noteq> delegated_kid then Err HttpProfileError.DelegationKeyMismatch
      else if unescape_actor_field (last (split_on CHR '':'' signer)) \<noteq> delegated_kid
      then Err HttpProfileError.DelegationKeyMismatch
      else Ok ())"

record AcknowledgedDelegation =
  ack_actor :: ResolvedActor
  ack_issuer_kid :: string

definition ack_established :: "VerifiedDelegation \<Rightarrow> AcknowledgedDelegation" where
  "ack_established v =
     \<lparr>ack_actor = \<lparr>identity = \<lparr>role = ''server'', trust_domain = [], subject = vd_server_signer v, keyid = vd_delegated_kid v\<rparr>,
                    verification_key = vd_delegated_key v, slot = ResponseSlot\<rparr>,
      ack_issuer_kid = vd_issuer_kid v\<rparr>"

definition verify_delegated_accepted_202 ::
  "crypto_lib \<Rightarrow> json_lib \<Rightarrow> jws_lib \<Rightarrow> HttpResponse \<Rightarrow> HttpRequest \<Rightarrow> Verifier \<Rightarrow> DelegationExpectations \<Rightarrow> (string \<Rightarrow> bool) \<Rightarrow> int
   \<Rightarrow> HttpProfileError + AcknowledgedDelegation" where
  "verify_delegated_accepted_202 L J S response request verifier expect is_revoked now =
     try_bind (check_envelope L response request) (\<lambda>_.
     try_bind (read_credential (rsp_headers response)) (\<lambda>credential.
     try_bind (check_coverage (rsp_headers response) (ve_policy verifier) now) (\<lambda>(parsed, key_id, algorithm).
     try_bind (verify_credential L J S credential verifier expect is_revoked now) (\<lambda>(verified, signer).
     try_bind (check_scope_names_the_signing_key key_id signer (vd_delegated_kid verified)) (\<lambda>_.
     try_bind (signature_base (ps_components parsed) (ps_params parsed) (Response response request)) (\<lambda>base.
     try_bind (signature_value_b64url L (rsp_headers response) ''signature'' RESPONSE_LABEL) (\<lambda>sig.
     try_bind (map_err (\<lambda>_. HttpProfileError.DelegationKeyMismatch)
                 (verify_under L algorithm base sig (vd_delegated_key verified) ResponseSigInvalid)) (\<lambda>_.
     Ok (ack_established verified)))))))))"

section \<open>Unescaping\<close>

text \<open>Each replacement undoes one of the three escapes and leaves the others alone.\<close>

lemma replace_str_map:
  assumes "\<And>c t. replace_str p r (f c @ t) = g c @ replace_str p r t"
  shows "replace_str p r (concat (map f s)) = concat (map g s)"
  by (induction s) (simp_all add: assms)

lemma unescape_field_escape: "unescape_actor_field (field_escape s) = s"
proof -
  let ?e1 = "\<lambda>c. if c = CHR ''%'' then ''%25'' else if c = CHR '':'' then ''%3A'' else [c]"
    and ?e2 = "\<lambda>c. if c = CHR ''%'' then ''%25'' else [c]"
  have "replace_str ''%1F'' [CHR 0x1F] (concat (map escape_char s)) = concat (map ?e1 s)"
    by (rule replace_str_map) (auto simp: escape_char_def)
  moreover have "replace_str ''%3A'' '':'' (concat (map ?e1 s)) = concat (map ?e2 s)"
    by (rule replace_str_map) auto
  moreover have "replace_str ''%25'' ''%'' (concat (map ?e2 s)) = concat (map (\<lambda>c. [c]) s)"
    by (rule replace_str_map) auto
  ultimately show ?thesis by (simp add: unescape_actor_field_def field_escape_eq)
qed

lemma scoped_key_id: "unescape_actor_field (last (split_on CHR '':'' (identity_actor_id a))) = keyid a"
proof -
  have "split_on CHR '':'' (identity_actor_id a) = map field_escape [role a, trust_domain a, subject a, keyid a]"
    by (simp add: identity_actor_id_def split_on_append_sep split_on_no_sep field_escape_chars)
  then show ?thesis by (simp add: unescape_field_escape)
qed

section \<open>What an acknowledgement establishes\<close>

lemma parse_for_Ok:
  "parse_signature_input_for hs label what = Ok parsed \<Longrightarrow> \<exists>member. parse_signature_input member = Ok parsed"
  by (auto simp: parse_signature_input_for_def try_bind_Ok_iff)

lemma require_bodyless_Ok: "require_bodyless hs body = Ok () \<longleftrightarrow> single_header hs ''content-type'' = Ok None \<and> body = []"
  by (auto simp: require_bodyless_def try_bind_Ok_iff)

lemma verify_credential_Ok:
  assumes "verify_credential L J S credential verifier expect is_revoked now = Ok (verified, signer)"
  obtains claims root params where
    "ve_resolve_actor verifier (vd_issuer_kid verified) ResponseSlot = Resolved root" "slot root = ResponseSlot"
    "root_signed L S credential claims (verification_key root)" "delegates L claims params is_revoked (vd_delegated_key verified)"
    "dv_now params = now" "dv_verifier_audiences params = de_verifier_audiences expect"
    "dv_expected_profile params = PROFILE_TAG" "dv_expected_audience_hash params = de_expected_audience_hash expect"
    "dv_expected_server_signer params = signer" "dv_accepted_epochs params = de_accepted_epochs expect"
    "cl_delegated_kid claims = vd_delegated_kid verified" "cl_issuer_kid claims = vd_issuer_kid verified"
    "vd_server_signer verified = cl_server_signer claims"
proof -
  let ?params = "\<lparr>dv_now = now, dv_max_clock_skew = de_max_clock_skew expect,
                   dv_verifier_audiences = de_verifier_audiences expect, dv_expected_profile = PROFILE_TAG,
                   dv_expected_audience_hash = de_expected_audience_hash expect, dv_expected_server_signer = signer,
                   dv_accepted_epochs = de_accepted_epochs expect\<rparr>"
  obtain cell r where run: "verify_delegation_credential L S credential ?params (root_resolver (ve_resolve_actor verifier)) is_revoked None
      = (cell, r)" by fastforce
  with assms have "r = Ok verified" by (auto simp: verify_credential_def Let_def try_bind_Ok_iff case_prod_beta)
  with run have "verify_delegation_credential L S credential ?params (root_resolver (ve_resolve_actor verifier)) is_revoked None
      = (cell, Ok verified)" by simp
  then show thesis
  proof (rule verify_delegation_credential_Ok)
    fix claims key
    assume root: "root_resolver (ve_resolve_actor verifier) None (vd_issuer_kid verified) = (cell, Some key)"
      and claims: "root_signed L S credential claims key" "delegates L claims ?params is_revoked (vd_delegated_key verified)"
        "vd_delegated_kid verified = cl_delegated_kid claims" "vd_issuer_kid verified = cl_issuer_kid claims"
        "vd_server_signer verified = cl_server_signer claims"
    from root obtain actor where "ve_resolve_actor verifier (vd_issuer_kid verified) ResponseSlot = Resolved actor"
      "slot actor = ResponseSlot" "key = verification_key actor"
      by (auto simp: root_resolver_def resolve_actor_Ok_iff split: sum.splits if_splits)
    with claims show thesis by (intro that [of actor claims ?params]) simp_all
  qed
qed

text \<open>
  Soundness of acknowledgements. When a response is accepted as the acknowledgement of a
  notification, it is a \<open>202\<close> without content; the request evidence in its header is that of this
  request; it is signed, over a base that covers its status, the digest of the empty body, the
  credential and evidence headers and the request's components, by the key its credential delegates;
  the credential is signed by a root the resolver vouched for in the response slot and meets the same
  conditions as for a response with a body; and the actor the credential is scoped to is one whose key
  id is that of the signing key.
\<close>

theorem accepted_202_sound:
  assumes "verify_delegated_accepted_202 L J S response request verifier expect is_revoked now = Ok ack"
    and "policy_ok (ve_policy verifier)" "is_i64 now"
  shows "\<exists>claims root credential params cs sparams base sig created expires ev.
      rsp_status response = 202 \<and> rsp_body response = []
    \<and> bodyless_request_evidence L request = Ok ev
    \<and> required_header (rsp_headers response) MCP_RE_REQUEST_EVIDENCE_HEADER = Ok (digest_value ev)
    \<and> single_header (rsp_headers response) MCP_RE_DELEGATION_HEADER = Ok (Some credential)
    \<and> ve_resolve_actor verifier (ack_issuer_kid ack) ResponseSlot = Resolved root \<and> slot root = ResponseSlot
    \<and> root_signed L S credential claims (verification_key root) \<and> cl_issuer_kid claims = ack_issuer_kid ack
    \<and> delegates L claims params is_revoked (verification_key (ack_actor ack))
    \<and> dv_now params = now \<and> dv_verifier_audiences params = de_verifier_audiences expect
    \<and> dv_expected_profile params = PROFILE_TAG \<and> dv_expected_audience_hash params = de_expected_audience_hash expect
    \<and> dv_accepted_epochs params = de_accepted_epochs expect
    \<and> subject (identity (ack_actor ack)) = cl_server_signer claims
    \<and> keyid (identity (ack_actor ack)) = cl_delegated_kid claims
    \<and> (\<forall>a. cl_server_signer claims = identity_actor_id a \<longrightarrow> keyid a = cl_delegated_kid claims)
    \<and> sp_keyid sparams = Some (cl_delegated_kid claims) \<and> sp_tag sparams = Some PROFILE_TAG
    \<and> signature_base cs sparams (Response response request) = Ok base \<and> length sig = 64
    \<and> verify_strict L (vk_inner (verification_key (ack_actor ack))) base sig
    \<and> (\<forall>n\<in>set BODYLESS_DELEGATED_RESPONSE_COMPONENTS. cc_new n \<in> set cs)
    \<and> (\<forall>n\<in>set REQUIRED_RESPONSE_REQ_COMPONENTS. cc_new_req n \<in> set cs)
    \<and> sp_created sparams = Some created \<and> sp_expires sparams = Some expires
    \<and> created - max_clock_skew (ve_policy verifier) \<le> now \<and> now < expires + max_clock_skew (ve_policy verifier)"
proof -
  from assms(1) obtain credential parsed key_id alg verified signer base sig where steps:
      "check_envelope L response request = Ok ()" "read_credential (rsp_headers response) = Ok credential"
      "check_coverage (rsp_headers response) (ve_policy verifier) now = Ok (parsed, key_id, alg)"
    and cred: "verify_credential L J S credential verifier expect is_revoked now = Ok (verified, signer)"
    and scope: "check_scope_names_the_signing_key key_id signer (vd_delegated_kid verified) = Ok ()"
    and base: "signature_base (ps_components parsed) (ps_params parsed) (Response response request) = Ok base"
    and sig: "verify_under L alg base sig (vd_delegated_key verified) ResponseSigInvalid = Ok ()"
    and ack: "ack = ack_established verified"
    by (auto simp: verify_delegated_accepted_202_def try_bind_Ok_iff)
  from steps(3) obtain created expires nonce where parsed: "\<exists>member. parse_signature_input member = Ok parsed"
    and cover: "require_components (ps_components parsed) BODYLESS_DELEGATED_RESPONSE_COMPONENTS REQUIRED_RESPONSE_REQ_COMPONENTS = Ok ()"
    and params: "check_params (ps_params parsed) (ve_policy verifier) now False = Ok (created, expires, nonce, key_id, alg)"
    using parse_for_Ok by (fastforce simp: check_coverage_def try_bind_Ok_iff)
  from sig obtain b where b: "length b = 64" "verify_strict L (vk_inner (vd_delegated_key verified)) base b"
    by (auto simp: verify_under_Ok_iff)
  from steps(1) obtain ev where envelope: "rsp_status response = 202" "rsp_body response = []" "bodyless_request_evidence L request = Ok ev"
    "required_header (rsp_headers response) MCP_RE_REQUEST_EVIDENCE_HEADER = Ok (digest_value ev)"
    by (auto simp: check_envelope_def check_request_evidence_def require_bodyless_Ok STATUS_ACCEPTED_def try_bind_Ok_iff)
  from steps(2) have header: "single_header (rsp_headers response) MCP_RE_DELEGATION_HEADER = Ok (Some credential)"
    by (auto simp: read_credential_def try_bind_Ok_iff split: if_splits)
  from scope have kid: "key_id = vd_delegated_kid verified" "unescape_actor_field (last (split_on CHR '':'' signer)) = vd_delegated_kid verified"
    by (auto simp: check_scope_names_the_signing_key_def split: if_splits)
  note window = checked_window [OF parsed params assms(2,3)] and covered = require_response_components [OF cover]
    and p = check_params_Ok [OF params]
  from cred show ?thesis
  proof (rule verify_credential_Ok)
    fix claims root dparams
    assume claims: "ve_resolve_actor verifier (vd_issuer_kid verified) ResponseSlot = Resolved root" "slot root = ResponseSlot"
      "root_signed L S credential claims (verification_key root)" "delegates L claims dparams is_revoked (vd_delegated_key verified)"
      "dv_now dparams = now" "dv_verifier_audiences dparams = de_verifier_audiences expect"
      "dv_expected_profile dparams = PROFILE_TAG" "dv_expected_audience_hash dparams = de_expected_audience_hash expect"
      "dv_expected_server_signer dparams = signer" "dv_accepted_epochs dparams = de_accepted_epochs expect"
      "cl_delegated_kid claims = vd_delegated_kid verified" "cl_issuer_kid claims = vd_issuer_kid verified"
      "vd_server_signer verified = cl_server_signer claims"
    then have "cl_server_signer claims = signer" by (simp add: delegates_def)
    with kid(2) claims(11) have "\<forall>a. cl_server_signer claims = identity_actor_id a \<longrightarrow> keyid a = cl_delegated_kid claims"
      using scoped_key_id by metis
    with claims envelope header covered b base window kid(1) p ack show ?thesis
      by (intro exI [of _ claims] exI [of _ root] exI [of _ credential] exI [of _ dparams] exI [of _ "ps_components parsed"]
          exI [of _ "ps_params parsed"] exI [of _ base] exI [of _ b] exI [of _ created] exI [of _ expires] exI [of _ ev])
        (simp add: ack_established_def)
  qed
qed

end
