(* ===== verification/Continuation_Store.thy ===== *)
theory Continuation_Store
  imports Core_Crypto "HOL-Library.AList"
begin

text \<open>
  The continuation store, \<open>mcp-re-proxy/src/continuation_store/\<close>: the key of an open leg (\<open>key.rs\<close>), the
  in-process store (\<open>in_memory.rs\<close>) and the store interface (\<open>mod.rs\<close>). Each operation holds the lock of
  the map while it runs and reads the clock once; the reading is an argument.
\<close>

section \<open>Keys\<close>

definition CONTINUATION_KEY_PREFIX :: string where "CONTINUATION_KEY_PREFIX = ''mcp-re:cont:''"
definition CONTINUATION_KEY_DOMAIN :: string where "CONTINUATION_KEY_DOMAIN = ''mcp-re/continuation-key/v1''"

text \<open>The big-endian bytes of a number of \<open>k\<close> bytes; \<open>to_be_bytes\<close> of a \<open>u64\<close> has eight.\<close>

fun be_bytes :: "nat \<Rightarrow> nat \<Rightarrow> bytes" where
  "be_bytes 0 n = []"
| "be_bytes (Suc k) n = be_bytes k (n div 256) @ [char_of n]"

definition continuation_preimage :: "string \<Rightarrow> string \<Rightarrow> bytes \<Rightarrow> bytes" where
  "continuation_preimage audience_id actor_id request_state =
     CONTINUATION_KEY_DOMAIN @ be_bytes 8 (length audience_id) @ audience_id
       @ be_bytes 8 (length actor_id) @ actor_id @ request_state"

definition continuation_key :: "crypto_lib \<Rightarrow> string \<Rightarrow> string \<Rightarrow> bytes \<Rightarrow> string" where
  "continuation_key L audience_id actor_id request_state =
     CONTINUATION_KEY_PREFIX @ b64url_encode L (sha256 L (continuation_preimage audience_id actor_id request_state))"

section \<open>The store\<close>

record RetainedBases =
  rb_previous_request_base :: bytes
  rb_input_required_response_base :: bytes

datatype ContinuationStoreError = ContinuationUnavailable string

datatype Creation = Stored | Collision

record InMemoryContinuationStore =
  cs_entries :: "(string \<times> RetainedBases \<times> int) list"
  cs_poisoned :: bool

definition continuation_store_new :: InMemoryContinuationStore where
  "continuation_store_new = \<lparr>cs_entries = [], cs_poisoned = False\<rparr>"

definition continuation_poisoned :: ContinuationStoreError where
  "continuation_poisoned = ContinuationUnavailable ''in-process continuation map is poisoned''"

definition continuation_create ::
  "int \<Rightarrow> InMemoryContinuationStore \<Rightarrow> string \<Rightarrow> RetainedBases \<Rightarrow> int
   \<Rightarrow> InMemoryContinuationStore \<times> (ContinuationStoreError + Creation)" where
  "continuation_create clock s key bases ttl_secs =
     (if cs_poisoned s then (s, Err continuation_poisoned)
      else
        let s = s\<lparr>cs_entries := filter (\<lambda>(_, _, expires_at). expires_at > clock) (cs_entries s)\<rparr> in
        if map_of (cs_entries s) key \<noteq> None then (s, Ok Collision)
        else (s\<lparr>cs_entries := AList.update key (bases, saturating_add clock ttl_secs) (cs_entries s)\<rparr>, Ok Stored))"

definition continuation_peek ::
  "int \<Rightarrow> InMemoryContinuationStore \<Rightarrow> string \<Rightarrow> ContinuationStoreError + RetainedBases option" where
  "continuation_peek clock s key =
     (if cs_poisoned s then Err continuation_poisoned
      else Ok (case map_of (cs_entries s) key of
                 Some (bases, expires_at) \<Rightarrow> if expires_at > clock then Some bases else None
               | None \<Rightarrow> None))"

definition continuation_consume ::
  "int \<Rightarrow> InMemoryContinuationStore \<Rightarrow> string \<Rightarrow> InMemoryContinuationStore \<times> (ContinuationStoreError + bool)" where
  "continuation_consume clock s key =
     (if cs_poisoned s then (s, Err continuation_poisoned)
      else (s\<lparr>cs_entries := AList.delete key (cs_entries s)\<rparr>,
            Ok (case map_of (cs_entries s) key of Some (_, expires_at) \<Rightarrow> expires_at > clock | None \<Rightarrow> False)))"

section \<open>Keys of different legs\<close>

lemma length_be_bytes [simp]: "length (be_bytes k n) = k"
  by (induction k arbitrary: n) simp_all

lemma be_bytes_inj: "be_bytes k m = be_bytes k n \<Longrightarrow> m < 256 ^ k \<Longrightarrow> n < 256 ^ k \<Longrightarrow> m = n"
proof (induction k arbitrary: m n)
  case (Suc k)
  then have "be_bytes k (m div 256) = be_bytes k (n div 256)" and char: "(char_of m :: char) = char_of n" by simp_all
  with Suc have "m div 256 = n div 256" by (simp add: less_mult_imp_div_less mult.commute)
  moreover from char have "m mod 256 = n mod 256" using arg_cong [OF char, of of_char] by (simp add: of_char_of)
  ultimately show ?case by (metis div_mult_mod_eq)
qed simp

text \<open>
  Open legs of different audiences, actors or request states have different keys: two keys that
  agree come from the same triple, or two different byte strings with the same SHA-256 digest are at
  hand. Every length fits the eight bytes it is written in.
\<close>

lemma continuation_keys_separate:
  assumes "b64_ok L" "continuation_key L aud actor state = continuation_key L aud' actor' state'"
    and "length aud < 2 ^ 64" "length aud' < 2 ^ 64" "length actor < 2 ^ 64" "length actor' < 2 ^ 64"
  shows "(aud, actor, state) = (aud', actor', state')
    \<or> (continuation_preimage aud actor state \<noteq> continuation_preimage aud' actor' state'
       \<and> sha256 L (continuation_preimage aud actor state) = sha256 L (continuation_preimage aud' actor' state'))"
proof -
  have "sha256 L (continuation_preimage aud actor state) = sha256 L (continuation_preimage aud' actor' state')"
    using assms(1,2) by (metis append_same_eq b64_ok_def b64url_encode_def continuation_key_def option.inject same_append_eq)
  moreover have "(aud, actor, state) = (aud', actor', state')"
    if "continuation_preimage aud actor state = continuation_preimage aud' actor' state'"
  proof -
    have fits: "n < 2 ^ 64 \<Longrightarrow> n < 256 ^ 8" for n :: nat by simp
    from that have "be_bytes 8 (length aud) = be_bytes 8 (length aud')"
      and rest: "aud @ be_bytes 8 (length actor) @ actor @ state = aud' @ be_bytes 8 (length actor') @ actor' @ state'"
      by (auto simp: continuation_preimage_def append_eq_append_conv)
    with assms(3,4) have "length aud = length aud'" by (intro be_bytes_inj [OF _ fits fits])
    with rest have "aud = aud'" "be_bytes 8 (length actor) = be_bytes 8 (length actor')" "actor @ state = actor' @ state'"
      by (auto simp: append_eq_append_conv)
    with assms(5,6) have "length actor = length actor'" by (intro be_bytes_inj [OF _ fits fits])
    with \<open>aud = aud'\<close> \<open>actor @ state = actor' @ state'\<close> show ?thesis by (simp add: append_eq_append_conv)
  qed
  ultimately show ?thesis by blast
qed

section \<open>One answer for each leg\<close>

datatype continuation_op = CreateLeg string RetainedBases int int | PeekLeg string int | ConsumeLeg string int

datatype continuation_result =
    Created "ContinuationStoreError + Creation"
  | PeekedAt "ContinuationStoreError + RetainedBases option"
  | ConsumedLeg "ContinuationStoreError + bool"

primrec continuation_step :: "InMemoryContinuationStore \<Rightarrow> continuation_op \<Rightarrow> InMemoryContinuationStore \<times> continuation_result" where
  "continuation_step s (CreateLeg key bases ttl clock) = (case continuation_create clock s key bases ttl of (s, r) \<Rightarrow> (s, Created r))"
| "continuation_step s (PeekLeg key clock) = (s, PeekedAt (continuation_peek clock s key))"
| "continuation_step s (ConsumeLeg key clock) = (case continuation_consume clock s key of (s, r) \<Rightarrow> (s, ConsumedLeg r))"

text \<open>The operations of a run with their results, from a new store.\<close>

inductive continuation_run :: "(continuation_op \<times> continuation_result) list \<Rightarrow> InMemoryContinuationStore \<Rightarrow> bool" where
  leg_new: "continuation_run [] continuation_store_new"
| leg_step: "continuation_run log s \<Longrightarrow> continuation_step s op = (s', r) \<Longrightarrow> continuation_run (log @ [(op, r)]) s'"

definition leg_stored :: "string \<Rightarrow> continuation_op \<times> continuation_result \<Rightarrow> bool" where
  "leg_stored key e \<longleftrightarrow> (\<exists>bases ttl clock. e = (CreateLeg key bases ttl clock, Created (Ok Stored)))"

definition leg_answered :: "string \<Rightarrow> continuation_op \<times> continuation_result \<Rightarrow> bool" where
  "leg_answered key e \<longleftrightarrow> (\<exists>clock. e = (ConsumeLeg key clock, ConsumedLeg (Ok True)))"

definition leg_bases :: "string \<Rightarrow> continuation_op \<times> continuation_result \<Rightarrow> RetainedBases \<Rightarrow> bool" where
  "leg_bases key e bases \<longleftrightarrow> (\<exists>ttl clock. e = (CreateLeg key bases ttl clock, Created (Ok Stored)))"

text \<open>The entry a key has is the one its latest stored leg made, and none has been answered since.\<close>

definition leg_of :: "(continuation_op \<times> continuation_result) list \<Rightarrow> string \<Rightarrow> RetainedBases \<Rightarrow> bool" where
  "leg_of log key bases \<longleftrightarrow>
     (\<exists>before e since. log = before @ e # since \<and> leg_bases key e bases \<and> (\<forall>e'\<in>set since. \<not> leg_answered key e' \<and> \<not> leg_stored key e'))"

lemma leg_of_snoc:
  assumes "leg_of log key bases" "\<not> leg_answered key e" "\<not> leg_stored key e"
  shows "leg_of (log @ [e]) key bases"
proof -
  from assms(1) obtain before e0 since where "log @ [e] = before @ e0 # (since @ [e])" "leg_bases key e0 bases"
    "\<forall>e'\<in>set since. \<not> leg_answered key e' \<and> \<not> leg_stored key e'" by (auto simp: leg_of_def)
  moreover from this(3) assms(2,3) have "\<forall>e'\<in>set (since @ [e]). \<not> leg_answered key e' \<and> \<not> leg_stored key e'" by simp
  ultimately show ?thesis unfolding leg_of_def by blast
qed

lemma leg_of_stored: "leg_of (log @ [(CreateLeg key bases ttl clock, Created (Ok Stored))]) key bases"
  unfolding leg_of_def leg_bases_def
  by (rule exI [of _ log], rule exI [of _ "(CreateLeg key bases ttl clock, Created (Ok Stored))"], rule exI [of _ "[]"]) simp

lemma run_entries:
  "continuation_run log s \<Longrightarrow> \<not> cs_poisoned s \<and> distinct (map fst (cs_entries s))
     \<and> (\<forall>key bases t. map_of (cs_entries s) key = Some (bases, t) \<longrightarrow> leg_of log key bases)"
proof (induction rule: continuation_run.induct)
  case leg_new
  show ?case by (simp add: continuation_store_new_def)
next
  case (leg_step log s op s' r)
  show ?case
  proof (cases op)
    case (CreateLeg k b ttl clock)
    have live: "map_of (filter (\<lambda>(_, _, t). clock < t) (cs_entries s)) key = Some v \<Longrightarrow> map_of (cs_entries s) key = Some v" for key v
      using leg_step.IH by (auto simp: distinct_map_filter)
    have "leg_of (log @ [(op, r)]) key bases" if entry: "map_of (cs_entries s') key = Some (bases, t)" for key bases t
    proof (cases "key = k \<and> r = Created (Ok Stored)")
      case True
      with entry leg_step.hyps(2) CreateLeg show ?thesis
        by (auto simp: continuation_create_def update_conv' Let_def leg_of_stored split: if_splits)
    next
      case False
      with entry leg_step CreateLeg have "map_of (filter (\<lambda>(_, _, t). clock < t) (cs_entries s)) key = Some (bases, t)"
        by (auto simp: continuation_create_def update_conv' Let_def simp del: map_of_eq_Some_iff split: if_splits)
      with live leg_step.IH have "leg_of log key bases" by blast
      with False CreateLeg show ?thesis by (intro leg_of_snoc) (auto simp: leg_stored_def leg_answered_def)
    qed
    moreover from leg_step CreateLeg have "\<not> cs_poisoned s' \<and> distinct (map fst (cs_entries s'))"
      by (auto simp: continuation_create_def distinct_update distinct_map_filter Let_def split: if_splits)
    ultimately show ?thesis by blast
  next
    case (PeekLeg k clock)
    then have "leg_of (log @ [(op, r)]) key bases" if "leg_of log key bases" for key bases
      using that by (intro leg_of_snoc) (simp_all add: leg_stored_def leg_answered_def)
    moreover have "s' = s" using leg_step.hyps(2) PeekLeg by simp
    ultimately show ?thesis using leg_step.IH by blast
  next
    case (ConsumeLeg k clock)
    then have s': "cs_entries s' = AList.delete k (cs_entries s)" "\<not> cs_poisoned s'"
      using leg_step.hyps(2) leg_step.IH by (auto simp: continuation_consume_def simp del: map_of_eq_Some_iff)
    have "leg_of (log @ [(op, r)]) key bases" if "map_of (cs_entries s') key = Some (bases, t)" for key bases t
    proof -
      from that have "key \<noteq> k" "map_of (cs_entries s) key = Some (bases, t)"
        unfolding s' delete_conv' by (auto simp del: map_of_eq_Some_iff split: if_splits)
      with leg_step.IH have "leg_of log key bases" by blast
      with \<open>key \<noteq> k\<close> ConsumeLeg show ?thesis by (intro leg_of_snoc) (simp_all add: leg_stored_def leg_answered_def)
    qed
    moreover have "distinct (map fst (cs_entries s'))" using leg_step.IH by (simp add: s'(1) distinct_delete)
    ultimately show ?thesis using s'(2) by blast
  qed
qed



end
