(* ===== verification/Dispatch.thy ===== *)
theory Dispatch
  imports Floor_Sound
begin

text \<open>
  Admission of a verified request to the backend: \<open>mcp-re-http-profile/src/dispatch.rs\<close> and the
  modules below it.

  \<^item> \<open>admit_replay_tier\<close>: whether the deployment accepts the durability of its replay store;
  \<^item> \<open>prepare_http_dispatch\<close>: the replay key of a verified request and the check of the continuation
    it claims to answer;
  \<^item> \<open>dispatch_request\<close>: both, and the one atomic insertion that decides freshness.

  The replay cache is an argument: its class and its insertion as a function on its state. The
  locale \<open>dispatch_boundary\<close> extends the contract of a cache by the insertion a dispatch makes; both
  caches of \<open>Replay\<close> interpret it.
\<close>

section \<open>The replay tier\<close>

record DispatchConfig =
  fleet_strict :: bool

datatype PostureDecision = StoreClassNotRequired | StoreClassAdmitted

primrec posture_description :: "PostureDecision \<Rightarrow> string" where
  "posture_description StoreClassNotRequired = ''replay store class not required (posture is not fleet-strict)''"
| "posture_description StoreClassAdmitted = ''replay store class admitted under fleet-strict''"

datatype ReplayTierAdmitted = ReplayTierAdmitted (tier_decision: PostureDecision)

definition admit_replay_tier :: "DispatchConfig \<Rightarrow> ReplayDurabilityClass \<Rightarrow> DispatchError + ReplayTierAdmitted" where
  "admit_replay_tier config cls =
     (if \<not> fleet_strict config then Ok (ReplayTierAdmitted StoreClassNotRequired)
      else if cls = SingleProcessReference then Err NonSharedReplayTier
      else Ok (ReplayTierAdmitted StoreClassAdmitted))"

section \<open>Preparing a dispatch\<close>

record RetainedContinuation =
  ret_previous_request_base :: bytes
  ret_input_required_response_base :: bytes
  ret_request_state :: bytes

definition prepare_http_dispatch ::
  "crypto_lib \<Rightarrow> 'adm VerifiedMcpRequest \<Rightarrow> RetainedContinuation option \<Rightarrow> DispatchError + HttpReplayKey \<times> bool" where
  "prepare_http_dispatch L verified continuation_ctx =
     (let replay_key = \<lparr>profile_id = fl_profile_id (vr_floor verified),
                        signature_label = fl_signature_label (vr_floor verified),
                        actor_id = resolved_actor_id (fl_resolved_actor (vr_floor verified)),
                        audience_hash = vr_audience_hash verified,
                        http_nonce = fl_nonce (vr_floor verified)\<rparr>
      in case (continuation (vr_request_block verified), continuation_ctx) of
           (Some c, Some ctx) \<Rightarrow>
             try_bind (map_err Profile (continuation_verify L c (ret_previous_request_base ctx)
                         (ret_input_required_response_base ctx) (ret_request_state ctx))) (\<lambda>_.
             Ok (replay_key, True))
         | (Some _, None) \<Rightarrow> Err (Profile HttpProfileError.ContinuationBindingFailed)
         | (None, Some _) \<Rightarrow> Err (Profile HttpProfileError.ContinuationBindingFailed)
         | (None, None) \<Rightarrow> Ok (replay_key, False))"

record PreparedDispatch =
  pd_replay_key :: HttpReplayKey
  pd_continuation_verified :: bool
  pd_posture :: PostureDecision

definition tier_prepare ::
  "crypto_lib \<Rightarrow> ReplayTierAdmitted \<Rightarrow> 'adm VerifiedMcpRequest \<Rightarrow> RetainedContinuation option
   \<Rightarrow> DispatchError + PreparedDispatch" where
  "tier_prepare L admitted verified continuation_ctx =
     try_bind (prepare_http_dispatch L verified continuation_ctx) (\<lambda>(replay_key, continuation_verified).
     Ok \<lparr>pd_replay_key = replay_key, pd_continuation_verified = continuation_verified,
         pd_posture = tier_decision admitted\<rparr>)"

record DispatchOutcome =
  do_replay_key :: HttpReplayKey
  do_continuation_verified :: bool
  do_posture :: PostureDecision

definition into_admitted_outcome :: "PreparedDispatch \<Rightarrow> DispatchOutcome" where
  "into_admitted_outcome p =
     \<lparr>do_replay_key = pd_replay_key p, do_continuation_verified = pd_continuation_verified p,
      do_posture = pd_posture p\<rparr>"

definition cache_error_to_dispatch :: "ReplayCacheError \<Rightarrow> DispatchError" where
  "cache_error_to_dispatch e = DispatchError.ReplayCacheUnavailable"

section \<open>Dispatch\<close>

definition dispatch_request ::
  "crypto_lib \<Rightarrow> ('c \<Rightarrow> ReplayDurabilityClass)
   \<Rightarrow> ('c \<Rightarrow> string \<Rightarrow> string \<Rightarrow> string \<Rightarrow> int \<Rightarrow> 'c \<times> (ReplayCacheError + ReplayDecision))
   \<Rightarrow> 'adm VerifiedMcpRequest \<Rightarrow> 'c \<Rightarrow> RetainedContinuation option \<Rightarrow> DispatchConfig
   \<Rightarrow> 'c \<times> (DispatchError + DispatchOutcome)" where
  "dispatch_request L durability_class check verified replay continuation_ctx config =
     (case admit_replay_tier config (durability_class replay) of
        Inl e \<Rightarrow> (replay, Err e)
      | Inr admitted \<Rightarrow>
          (case tier_prepare L admitted verified continuation_ctx of
             Inl e \<Rightarrow> (replay, Err e)
           | Inr prepared \<Rightarrow>
               (case http_check_and_insert (pd_replay_key prepared) (check replay) (fl_expires (vr_floor verified)) of
                  (replay, Inl e) \<Rightarrow> (replay, Err (cache_error_to_dispatch e))
                | (replay, Inr Fresh) \<Rightarrow> (replay, Ok (into_admitted_outcome prepared))
                | (replay, Inr Replay) \<Rightarrow> (replay, Err DispatchError.ReplayDetected))))"

section \<open>What a dispatch establishes\<close>

text \<open>The slot of the replay cache a verified request occupies.\<close>

definition replay_slot :: "'adm VerifiedMcpRequest \<Rightarrow> string \<times> string \<times> string" where
  "replay_slot v =
     (let k = \<lparr>profile_id = fl_profile_id (vr_floor v), signature_label = fl_signature_label (vr_floor v),
               actor_id = resolved_actor_id (fl_resolved_actor (vr_floor v)),
               audience_hash = vr_audience_hash v, http_nonce = fl_nonce (vr_floor v)\<rparr>
      in (signer_slot k, audience_slot k, http_nonce k))"

lemma continuation_verify_Ok_iff:
  "continuation_verify L k a b d = Ok () \<longleftrightarrow>
     continuation_type k = CONTINUATION_TYPE_MCP_MRT
     \<and> matches_labeled L (previous_request_evidence k) EVIDENCE_LABEL_REQUEST a
     \<and> matches_labeled L (input_required_response_evidence k) EVIDENCE_LABEL_RESPONSE b
     \<and> matches_labeled L (request_state_digest k) EVIDENCE_LABEL_REQUEST_STATE d"
  by (simp add: continuation_verify_def)

lemma prepare_Ok:
  assumes "prepare_http_dispatch L v ctx = Ok (k, b)"
  shows "(signer_slot k, audience_slot k, http_nonce k) = replay_slot v"
    "b \<longleftrightarrow> continuation (vr_request_block v) \<noteq> None" "ctx \<noteq> None \<longleftrightarrow> continuation (vr_request_block v) \<noteq> None"
    "continuation (vr_request_block v) = Some c \<Longrightarrow> ctx = Some r \<Longrightarrow>
       continuation_verify L c (ret_previous_request_base r) (ret_input_required_response_base r) (ret_request_state r) = Ok ()"
  using assms
  by (auto simp: prepare_http_dispatch_def replay_slot_def Let_def try_bind_Ok_iff split: option.splits)

lemma dispatch_Ok:
  assumes "dispatch_request L cls check v c ctx config = (c', Ok oc)"
  obtains signer audience nonce where "replay_slot v = (signer, audience, nonce)"
    "check c signer audience nonce (fl_expires (vr_floor v)) = (c', Ok Fresh)"
    "fleet_strict config \<Longrightarrow> cls c \<noteq> SingleProcessReference"
    "prepare_http_dispatch L v ctx = Ok (do_replay_key oc, do_continuation_verified oc)"
proof -
  from assms obtain admitted prepared where tier: "admit_replay_tier config (cls c) = Ok admitted"
    and prep: "tier_prepare L admitted v ctx = Ok prepared"
    and ins: "http_check_and_insert (pd_replay_key prepared) (check c) (fl_expires (vr_floor v)) = (c', Ok Fresh)"
    and oc: "oc = into_admitted_outcome prepared"
    by (auto simp: dispatch_request_def split: sum.splits prod.splits ReplayDecision.splits)
  from prep have p: "prepare_http_dispatch L v ctx = Ok (pd_replay_key prepared, pd_continuation_verified prepared)"
    by (auto simp: tier_prepare_def try_bind_Ok_iff)
  show thesis
    by (rule that [of "signer_slot (pd_replay_key prepared)" "audience_slot (pd_replay_key prepared)"
          "http_nonce (pd_replay_key prepared)"])
      (use prepare_Ok(1) [OF p] p ins tier oc in
        \<open>auto simp: http_check_and_insert_def into_admitted_outcome_def admit_replay_tier_def split: if_splits\<close>)
qed


section \<open>One dispatch for each request\<close>

locale dispatch_boundary = replay_cache step insert_of reading until retain inv
  for step :: "'s \<Rightarrow> 'o \<Rightarrow> 's \<times> (ReplayCacheError + ReplayDecision) option"
    and insert_of :: "'o \<Rightarrow> ((string \<times> string \<times> string) \<times> int) option"
    and reading until retain inv +
  fixes check :: "int \<Rightarrow> 's \<Rightarrow> string \<Rightarrow> string \<Rightarrow> string \<Rightarrow> int \<Rightarrow> 's \<times> (ReplayCacheError + ReplayDecision)"
    and insertion :: "int \<Rightarrow> string \<times> string \<times> string \<Rightarrow> int \<Rightarrow> 'o"
  assumes insert_of_insertion: "insert_of (insertion clock k e) = Some (k, e)"
    and step_insertion: "step s (insertion clock (signer, audience, nonce) e)
      = (fst (check clock s signer audience nonce e), Some (snd (check clock s signer audience nonce e)))"
begin

lemma dispatch_fresh:
  assumes "dispatch_request L cls (check clock) v c ctx config = (c', Ok oc)"
  shows "step c (insertion clock (replay_slot v) (fl_expires (vr_floor v))) = (c', Some (Ok Fresh))"
  using assms by (rule dispatch_Ok) (simp add: step_insertion)

lemma no_second_dispatch:
  assumes "inv c" and first: "dispatch_request L cls (check clock) v c ctx config = (c1, Ok oc)"
    and "\<forall>op\<in>set ops. \<forall>now. reading op = Some now \<longrightarrow> now \<le> retain (fl_expires (vr_floor v))"
    and "replay_slot v' = replay_slot v"
  shows "snd (dispatch_request L cls' (check clock') v' (fold (\<lambda>op s. fst (step s op)) ops c1) ctx' config') \<noteq> Ok oc'"
proof
  assume "snd (dispatch_request L cls' (check clock') v' (fold (\<lambda>op s. fst (step s op)) ops c1) ctx' config') = Ok oc'"
  then obtain c2 where "dispatch_request L cls' (check clock') v' (fold (\<lambda>op s. fst (step s op)) ops c1) ctx' config' = (c2, Ok oc')"
    by (metis prod.collapse)
  with dispatch_fresh have "snd (step (fold (\<lambda>op s. fst (step s op)) ops c1)
      (insertion clock' (replay_slot v') (fl_expires (vr_floor v')))) = Some (Ok Fresh)" by (metis snd_conv)
  moreover have "fst (step c (insertion clock (replay_slot v) (fl_expires (vr_floor v)))) = c1"
    "snd (step c (insertion clock (replay_slot v) (fl_expires (vr_floor v)))) = Some (Ok Fresh)"
    using dispatch_fresh [OF first] by simp_all
  ultimately show False
    using no_second_fresh [OF assms(1) insert_of_insertion _ assms(3) insert_of_insertion] assms(4) by metis
qed

end

interpretation mem_dispatch: dispatch_boundary cache_step cache_insert_of cache_reading "\<lambda>c. map_of (seen c)"
    "\<lambda>e. saturating_add e skew" "\<lambda>c. max_clock_skew_secs c = skew" "\<lambda>_. check_and_insert" "\<lambda>_. CacheInsert" for skew
  by unfold_locales (simp_all add: case_prod_beta)

interpretation shared_dispatch: dispatch_boundary "shared_step L" shared_insert_of shared_reading "shared_until L"
    "\<lambda>e. saturating_add e skew" "\<lambda>c. sh_max_clock_skew_secs c = skew" "shared_check_and_insert L"
    "\<lambda>clock k e. SharedInsert k e clock" for L skew
  by unfold_locales (simp_all add: case_prod_beta)

end
