(* ===== verification/Async_Replay.thy ===== *)
theory Async_Replay
  imports Dispatch "HOL-Library.AList" "HOL-Library.Multiset"
begin

text \<open>
  The asynchronous replay tier, \<open>mcp-re-proxy/src/async_replay/\<close>: the retention ledger that charges
  every retained nonce to its actor (\<open>retention_ledger.rs\<close>, \<open>charge.rs\<close>, \<open>bounds.rs\<close>), the in-memory
  store behind it (\<open>in_memory.rs\<close>, \<open>retained_set.rs\<close>, \<open>local_refusals.rs\<close>), the first-level filter
  (\<open>l1_fast_reject.rs\<close>) and the tier itself (\<open>mod.rs\<close>), with \<open>config_state/freshness.rs\<close> and
  \<open>http_profile_dispatch.rs\<close>. A clock the code reads is an argument. Ledger and store change only
  under their locks, so each operation is one step; the concurrency of the tier is that reservations
  and settlements of different requests interleave, which the step relation \<open>ledger_run\<close> allows in
  every order.
\<close>

section \<open>Bounds\<close>

definition usize_max :: nat where "usize_max = 18446744073709551615"

definition usize_saturating_add :: "nat \<Rightarrow> nat \<Rightarrow> nat" where
  "usize_saturating_add a b = min usize_max (a + b)"

definition ASYNC_PRUNE_EVERY_N_INSERTS :: nat where "ASYNC_PRUNE_EVERY_N_INSERTS = 64"
definition ASYNC_MAX_ENTRIES :: nat where "ASYNC_MAX_ENTRIES = 1000000"
definition ASYNC_RESERVE_DIVISOR :: nat where "ASYNC_RESERVE_DIVISOR = 5"

definition per_actor_budget :: "nat \<Rightarrow> nat \<Rightarrow> nat" where
  "per_actor_budget cap actors =
     (let spendable = cap - cap div ASYNC_RESERVE_DIVISOR in max (spendable div max actors 1) 1)"

definition under_pressure :: "nat \<Rightarrow> nat \<Rightarrow> bool" where
  "under_pressure len cap \<longleftrightarrow> len \<ge> cap - cap div ASYNC_RESERVE_DIVISOR"

section \<open>Ordered and counting maps\<close>

text \<open>
  The expiry index is a map from a deadline to the entries that share it. \<open>push_at\<close> is
  \<open>entry(t).or_default().push(x)\<close>; \<open>split_off\<close> keeps the deadlines from \<open>now\<close> on and returns the others
  in order.
\<close>

definition push_at :: "int \<Rightarrow> 'a \<Rightarrow> (int \<times> 'a list) list \<Rightarrow> (int \<times> 'a list) list" where
  "push_at t x m = AList.map_default t [x] (\<lambda>xs. xs @ [x]) m"

definition split_off :: "int \<Rightarrow> (int \<times> 'a list) list \<Rightarrow> (int \<times> 'a list) list \<times> (int \<times> 'a list) list" where
  "split_off now m = (sort_key fst (filter (\<lambda>(t, _). t < now) m), filter (\<lambda>(t, _). t \<ge> now) m)"

definition flat :: "(int \<times> 'a list) list \<Rightarrow> (int \<times> 'a) list" where
  "flat m = concat (map (\<lambda>(t, xs). map (Pair t) xs) m)"

definition tally_held :: "(string \<times> nat) list \<Rightarrow> string \<Rightarrow> nat" where
  "tally_held m actor = (case map_of m actor of Some n \<Rightarrow> n | None \<Rightarrow> 0)"

definition tally_charge :: "string \<Rightarrow> (string \<times> nat) list \<Rightarrow> (string \<times> nat) list" where
  "tally_charge actor m = AList.map_default actor (usize_saturating_add 0 1) (\<lambda>n. usize_saturating_add n 1) m"

definition tally_discharge :: "string \<Rightarrow> (string \<times> nat) list \<Rightarrow> (string \<times> nat) list" where
  "tally_discharge actor m =
     (case map_of m actor of
        None \<Rightarrow> m
      | Some charged \<Rightarrow> if charged - 1 = 0 then AList.delete actor m else AList.update actor (charged - 1) m)"

section \<open>The retention ledger\<close>

record LedgerState =
  lg_per_actor :: "(string \<times> nat) list"
  lg_by_expiry :: "(int \<times> string list) list"
  lg_committed :: nat
  lg_outstanding :: nat
  lg_inserts_since_prune :: nat

record RetentionLedger =
  rl_state :: LedgerState
  rl_poisoned :: bool
  rl_max_entries :: nat

definition ledger_new :: "nat \<Rightarrow> RetentionLedger" where
  "ledger_new cap =
     \<lparr>rl_state = \<lparr>lg_per_actor = [], lg_by_expiry = [], lg_committed = 0, lg_outstanding = 0, lg_inserts_since_prune = 0\<rparr>,
      rl_poisoned = False, rl_max_entries = max cap 1\<rparr>"

definition discharge :: "string \<Rightarrow> LedgerState \<Rightarrow> LedgerState" where
  "discharge actor st = st\<lparr>lg_per_actor := tally_discharge actor (lg_per_actor st)\<rparr>"

definition ledger_prune :: "int \<Rightarrow> LedgerState \<Rightarrow> LedgerState" where
  "ledger_prune now st =
     (case split_off now (lg_by_expiry st) of (dead, live) \<Rightarrow>
      fold (\<lambda>actor st. discharge actor (st\<lparr>lg_committed := lg_committed st - 1\<rparr>)) (concat (map snd dead))
        (st\<lparr>lg_by_expiry := live\<rparr>))"

definition prune_when_due :: "int \<Rightarrow> LedgerState \<Rightarrow> LedgerState" where
  "prune_when_due now st =
     (let st = st\<lparr>lg_inserts_since_prune := usize_saturating_add (lg_inserts_since_prune st) 1\<rparr> in
      if lg_inserts_since_prune st \<ge> ASYNC_PRUNE_EVERY_N_INSERTS
      then ledger_prune now (st\<lparr>lg_inserts_since_prune := 0\<rparr>) else st)"

definition budget_refusal :: "string \<Rightarrow> nat \<Rightarrow> nat \<Rightarrow> nat \<Rightarrow> nat \<Rightarrow> ReplayStoreError" where
  "budget_refusal level held budget at cap =
     StoreUnavailable (level @ '': actor holds '' @ show_nat held @ '' of its '' @ show_nat budget @
       '' retained-entry budget while the '' @ level @ '' is at '' @ show_nat at @ '' of '' @ show_nat cap @ '' entries'')"

definition ledger_reserve :: "RetentionLedger \<Rightarrow> string \<Rightarrow> int \<Rightarrow> RetentionLedger \<times> (ReplayStoreError + string)" where
  "ledger_reserve l actor now =
     (if rl_poisoned l
      then (l, Err (StoreUnavailable (''async replay tier retention ledger lock poisoned: '' @ POISONED)))
      else
        let st = prune_when_due now (rl_state l); l = l\<lparr>rl_state := st\<rparr>;
            held = usize_saturating_add (lg_committed st) (lg_outstanding st);
            budget = per_actor_budget (rl_max_entries l) (length (lg_per_actor st));
            charged = tally_held (lg_per_actor st) actor in
        if under_pressure held (rl_max_entries l) \<and> charged \<ge> budget
        then (l, Err (budget_refusal ''async replay tier'' charged budget held (rl_max_entries l)))
        else if held \<ge> rl_max_entries l
        then (l, Err (StoreUnavailable (''async replay tier is at its '' @ show_nat (rl_max_entries l) @
                '' retained-entry ceiling'')))
        else (l\<lparr>rl_state := st\<lparr>lg_per_actor := tally_charge actor (lg_per_actor st),
                               lg_outstanding := usize_saturating_add (lg_outstanding st) 1\<rparr>\<rparr>, Ok actor))"

definition ledger_commit :: "RetentionLedger \<Rightarrow> string \<Rightarrow> int \<Rightarrow> RetentionLedger" where
  "ledger_commit l actor retain_until =
     (if rl_poisoned l then l
      else let st = rl_state l in
        l\<lparr>rl_state := st\<lparr>lg_outstanding := lg_outstanding st - 1,
                         lg_committed := usize_saturating_add (lg_committed st) 1,
                         lg_by_expiry := push_at retain_until actor (lg_by_expiry st)\<rparr>\<rparr>)"

definition ledger_release :: "RetentionLedger \<Rightarrow> string \<Rightarrow> RetentionLedger" where
  "ledger_release l actor =
     (if rl_poisoned l then l
      else l\<lparr>rl_state := discharge actor ((rl_state l)\<lparr>lg_outstanding := lg_outstanding (rl_state l) - 1\<rparr>)\<rparr>)"

text \<open>
  A charge is settled when it goes out of scope: \<open>commit\<close> and \<open>release_proven_absent\<close> settle it at
  once, and \<open>drop\<close> settles one that is still indeterminate as retained.
\<close>

datatype Settlement = Indeterminate | Retained | ProvenAbsent

definition charge_settle :: "Settlement \<Rightarrow> RetentionLedger \<Rightarrow> string \<Rightarrow> int \<Rightarrow> RetentionLedger" where
  "charge_settle s l actor retain_until =
     (case s of
        Retained \<Rightarrow> ledger_commit l actor retain_until
      | ProvenAbsent \<Rightarrow> ledger_release l actor
      | Indeterminate \<Rightarrow> ledger_commit l actor retain_until)"

section \<open>The in-memory store\<close>

record RetainedSet =
  rs_seen :: "(string \<times> string) list"
  rs_by_expiry :: "(int \<times> string list) list"
  rs_inserts_since_prune :: nat
  rs_per_actor :: "(string \<times> nat) list"

record InMemoryAsyncStore =
  as_inner :: RetainedSet
  as_poisoned :: bool
  as_max_entries :: nat

definition async_store_new :: "nat \<Rightarrow> InMemoryAsyncStore" where
  "async_store_new cap =
     \<lparr>as_inner = \<lparr>rs_seen = [], rs_by_expiry = [], rs_inserts_since_prune = 0, rs_per_actor = []\<rparr>,
      as_poisoned = False, as_max_entries = cap\<rparr>"

definition forget_key :: "string \<Rightarrow> RetainedSet \<Rightarrow> RetainedSet" where
  "forget_key key st =
     (case map_of (rs_seen st) key of
        None \<Rightarrow> st
      | Some actor \<Rightarrow> st\<lparr>rs_seen := AList.delete key (rs_seen st),
                         rs_per_actor := tally_discharge actor (rs_per_actor st)\<rparr>)"

definition prune_if_due :: "int \<Rightarrow> RetainedSet \<Rightarrow> RetainedSet" where
  "prune_if_due clock st =
     (let st = st\<lparr>rs_inserts_since_prune := usize_saturating_add (rs_inserts_since_prune st) 1\<rparr> in
      if rs_inserts_since_prune st \<ge> ASYNC_PRUNE_EVERY_N_INSERTS
      then case split_off clock (rs_by_expiry st) of (dead, live) \<Rightarrow>
             fold forget_key (concat (map snd dead)) (st\<lparr>rs_inserts_since_prune := 0, rs_by_expiry := live\<rparr>)
      else st)"

definition retained_record :: "string \<Rightarrow> string \<Rightarrow> int \<Rightarrow> RetainedSet \<Rightarrow> RetainedSet" where
  "retained_record key actor retain_until st =
     st\<lparr>rs_per_actor := tally_charge actor (rs_per_actor st),
        rs_by_expiry := push_at retain_until key (rs_by_expiry st),
        rs_seen := AList.update key actor (rs_seen st)\<rparr>"

definition refuse_stale_retain_until :: "int \<Rightarrow> int \<Rightarrow> ReplayStoreError + unit" where
  "refuse_stale_retain_until retain_until now =
     require (\<not> is_stale_pre_store retain_until now)
       (StoreUnavailable ''replay retain_until is already past; refusing to record a nonce that would not be retained'')"

definition over_fair_share :: "RetainedSet \<Rightarrow> string \<Rightarrow> nat \<Rightarrow> bool" where
  "over_fair_share st actor cap \<longleftrightarrow>
     under_pressure (length (rs_seen st)) cap
     \<and> tally_held (rs_per_actor st) actor \<ge> per_actor_budget cap (length (rs_per_actor st))"

definition refuse_over_ceiling :: "RetainedSet \<Rightarrow> nat \<Rightarrow> ReplayStoreError + unit" where
  "refuse_over_ceiling st cap =
     require (\<not> length (rs_seen st) \<ge> cap)
       (StoreUnavailable (''in-memory async replay store is at its '' @ show_nat cap @ '' entry ceiling''))"

record ReplayInsert =
  ri_key :: string
  ri_actor :: string
  ri_expires_at_unix :: int
  ri_now_unix :: int

definition insert_locked ::
  "int \<Rightarrow> InMemoryAsyncStore \<Rightarrow> ReplayInsert \<Rightarrow> InMemoryAsyncStore \<times> (ReplayStoreError + ReplayDecision)" where
  "insert_locked clock s i =
     (case refuse_stale_retain_until (ri_expires_at_unix i) (ri_now_unix i) of
        Inl e \<Rightarrow> (s, Err e)
      | Inr _ \<Rightarrow>
          if as_poisoned s
          then (s, Err (StoreUnavailable (''in-memory async replay store lock poisoned: '' @ POISONED)))
          else if map_of (rs_seen (as_inner s)) (ri_key i) \<noteq> None then (s, Ok Replay)
          else
            let st = prune_if_due clock (as_inner s); s = s\<lparr>as_inner := st\<rparr> in
            if over_fair_share st (ri_actor i) (as_max_entries s)
            then (s, Err (budget_refusal ''in-memory async replay store'' (tally_held (rs_per_actor st) (ri_actor i))
                    (per_actor_budget (as_max_entries s) (length (rs_per_actor st))) (length (rs_seen st)) (as_max_entries s)))
            else case refuse_over_ceiling st (as_max_entries s) of
                   Inl e \<Rightarrow> (s, Err e)
                 | Inr _ \<Rightarrow> (s\<lparr>as_inner := retained_record (ri_key i) (ri_actor i) (ri_expires_at_unix i) st\<rparr>, Ok Fresh))"

section \<open>The first-level filter\<close>

record BoundedKeySet =
  bk_set :: "string set"
  bk_order :: "string list"
  bk_cap :: nat

definition key_set_new :: "nat \<Rightarrow> BoundedKeySet" where
  "key_set_new cap = \<lparr>bk_set = {}, bk_order = [], bk_cap = max cap 1\<rparr>"

fun evict :: "nat \<Rightarrow> string set \<Rightarrow> string list \<Rightarrow> string set \<times> string list" where
  "evict cap keys [] = (keys, [])"
| "evict cap keys (k # ks) = (if length (k # ks) \<ge> cap then evict cap (keys - {k}) ks else (keys, k # ks))"

definition key_set_insert :: "string \<Rightarrow> BoundedKeySet \<Rightarrow> BoundedKeySet" where
  "key_set_insert key b =
     (if key \<in> bk_set b then b
      else case evict (bk_cap b) (bk_set b) (bk_order b) of (keys, order) \<Rightarrow>
        b\<lparr>bk_set := insert key keys, bk_order := order @ [key]\<rparr>)"

record 's L1FastRejectStore =
  l1_l2 :: 's
  l1_keys :: BoundedKeySet
  l1_poisoned :: bool

definition l1_lookup :: "'s L1FastRejectStore \<Rightarrow> string \<Rightarrow> ReplayDecision option" where
  "l1_lookup s key = (if l1_poisoned s then None else if key \<in> bk_set (l1_keys s) then Some Replay else None)"

definition l1_record :: "'s L1FastRejectStore \<Rightarrow> string \<Rightarrow> 's L1FastRejectStore" where
  "l1_record s key = (if l1_poisoned s then s else s\<lparr>l1_keys := key_set_insert key (l1_keys s)\<rparr>)"

definition l1_insert ::
  "('s \<Rightarrow> ReplayInsert \<Rightarrow> 's \<times> (ReplayStoreError + ReplayDecision)) \<Rightarrow> 's L1FastRejectStore \<Rightarrow> ReplayInsert
   \<Rightarrow> 's L1FastRejectStore \<times> (ReplayStoreError + ReplayDecision)" where
  "l1_insert l2_insert s i =
     (case l1_lookup s (ri_key i) of
        Some replay \<Rightarrow> (s, Ok replay)
      | None \<Rightarrow>
          (case l2_insert (l1_l2 s) i of
             (l2, Inl e) \<Rightarrow> (s\<lparr>l1_l2 := l2\<rparr>, Err e)
           | (l2, Inr decision) \<Rightarrow> (l1_record (s\<lparr>l1_l2 := l2\<rparr>) (ri_key i), Ok decision)))"

section \<open>The tier\<close>

datatype FreshnessWindow = FreshnessWindow (fw_max_clock_skew_secs: int)

definition freshness_new :: "int \<Rightarrow> FreshnessWindow option" where
  "freshness_new skew = (if 0 \<le> skew \<and> skew \<le> MAX_CLOCK_SKEW_BOUND then Some (FreshnessWindow skew) else None)"

definition replay_retain_until :: "FreshnessWindow \<Rightarrow> int \<Rightarrow> int" where
  "replay_retain_until w expires_at_unix = saturating_add expires_at_unix (fw_max_clock_skew_secs w)"

definition verifier_accepts_until :: "FreshnessWindow \<Rightarrow> int \<Rightarrow> int" where
  "verifier_accepts_until w expires_at_unix = saturating_add expires_at_unix (fw_max_clock_skew_secs w)"

record 's AsyncReplayTier =
  at_store :: 's
  at_freshness :: FreshnessWindow
  at_ledger :: RetentionLedger

definition tier_new_bounded :: "'s \<Rightarrow> FreshnessWindow \<Rightarrow> nat \<Rightarrow> 's AsyncReplayTier" where
  "tier_new_bounded store freshness cap = \<lparr>at_store = store, at_freshness = freshness, at_ledger = ledger_new cap\<rparr>"

definition tier_check_and_insert ::
  "crypto_lib \<Rightarrow> ('s \<Rightarrow> ReplayInsert \<Rightarrow> 's \<times> (ReplayStoreError + ReplayDecision)) \<Rightarrow> 's AsyncReplayTier \<Rightarrow> ReplayKey \<Rightarrow> int
   \<Rightarrow> 's AsyncReplayTier \<times> (ReplayCacheError + ReplayDecision)" where
  "tier_check_and_insert L put t key now =
     (let composite = composite_replay_key L (rk_signer key) (rk_audience key) (rk_nonce key);
          retain_until = replay_retain_until (at_freshness t) (rk_expires_at_unix key) in
      case ledger_reserve (at_ledger t) (rk_principal key) now of
        (l, Inl e) \<Rightarrow> (t\<lparr>at_ledger := l\<rparr>, Err (store_to_cache_error e))
      | (l, Inr actor) \<Rightarrow>
          (case put (at_store t) \<lparr>ri_key = composite, ri_actor = rk_principal key, ri_expires_at_unix = retain_until,
                                  ri_now_unix = now\<rparr> of
             (s, outcome) \<Rightarrow>
               let settle = (\<lambda>how. t\<lparr>at_store := s, at_ledger := charge_settle how l actor retain_until\<rparr>) in
               (case outcome of
                  Inr Fresh \<Rightarrow> (settle Settlement.Retained, Ok Fresh)
                | Inr Replay \<Rightarrow> (settle ProvenAbsent, Ok Replay)
                | Inl e \<Rightarrow> (settle Settlement.Indeterminate, Err (store_to_cache_error e)))))"

section \<open>Dispatch through the tier\<close>

datatype ReplayDurabilityTier =
    AsyncReplicatedBounded | QuorumAcknowledged nat nat | Linearizable | SingleStoreFailClosed

definition meets_strict_production_minimum :: "ReplayDurabilityTier \<Rightarrow> bool" where
  "meets_strict_production_minimum tier =
     (case tier of QuorumAcknowledged _ _ \<Rightarrow> True | Linearizable \<Rightarrow> True | _ \<Rightarrow> False)"

record ProxyDispatchConfig =
  pc_fleet_strict :: bool
  pc_tier :: "ReplayDurabilityTier option"

datatype ProxyDispatchError =
    SubMinimumReplayTier ReplayDurabilityTier | NoDeclaredReplayTier | ProxyDispatch DispatchError

definition deployment_tier_admits :: "ProxyDispatchConfig \<Rightarrow> ProxyDispatchError + unit" where
  "deployment_tier_admits config =
     (if \<not> pc_fleet_strict config then Ok ()
      else case pc_tier config of
             Some tier \<Rightarrow> if meets_strict_production_minimum tier then Ok () else Err (SubMinimumReplayTier tier)
           | None \<Rightarrow> Err NoDeclaredReplayTier)"

primrec proxy_dispatch_core :: "ProxyDispatchError \<Rightarrow> mcp_re_error" where
  "proxy_dispatch_core (SubMinimumReplayTier _) = mcp_re_error.ReplayCacheUnavailable"
| "proxy_dispatch_core NoDeclaredReplayTier = mcp_re_error.ReplayCacheUnavailable"
| "proxy_dispatch_core (ProxyDispatch e) = dispatch_core_projection e"

text \<open>\<open>check\<close> is the tier's \<open>check_and_insert\<close>, with the state it works on.\<close>

definition dispatch_request_with_async_tier ::
  "crypto_lib \<Rightarrow> ReplayDurabilityClass \<Rightarrow> ('t \<Rightarrow> ReplayKey \<Rightarrow> int \<Rightarrow> 't \<times> (ReplayCacheError + ReplayDecision))
   \<Rightarrow> 'adm VerifiedMcpRequest \<Rightarrow> 't \<Rightarrow> RetainedContinuation option \<Rightarrow> ProxyDispatchConfig \<Rightarrow> int
   \<Rightarrow> 't \<times> (ProxyDispatchError + DispatchOutcome)" where
  "dispatch_request_with_async_tier L cls check verified t continuation_ctx config now =
     (case (try_bind (deployment_tier_admits config) (\<lambda>_.
            map_err ProxyDispatch
              (try_bind (admit_replay_tier \<lparr>fleet_strict = pc_fleet_strict config\<rparr> cls) (\<lambda>admitted.
               tier_prepare L admitted verified continuation_ctx)))) of
        Inl e \<Rightarrow> (t, Err e)
      | Inr prepared \<Rightarrow>
          (case check t (to_core_replay_key (pd_replay_key prepared) (fl_expires (vr_floor verified))) now of
             (t, Inl _) \<Rightarrow> (t, Err (ProxyDispatch DispatchError.ReplayCacheUnavailable))
           | (t, Inr Fresh) \<Rightarrow> (t, Ok (into_admitted_outcome prepared))
           | (t, Inr Replay) \<Rightarrow> (t, Err (ProxyDispatch DispatchError.ReplayDetected))))"

section \<open>Counting\<close>

text \<open>A tally is well formed when it names an actor once and holds no zero.\<close>

definition tally_ok :: "(string \<times> nat) list \<Rightarrow> bool" where
  "tally_ok m \<longleftrightarrow> distinct (map fst m) \<and> (\<forall>a. map_of m a \<noteq> Some 0)"

lemma map_of_map_default: "map_of (AList.map_default k v f m) a
    = (if a = k then Some (case map_of m k of None \<Rightarrow> v | Some w \<Rightarrow> f w) else map_of m a)"
  by (induction k v f m rule: AList.map_default.induct) auto

lemma fst_map_default: "fst ` set (AList.map_default k v f m) = insert k (fst ` set m)"
  by (induction k v f m rule: AList.map_default.induct) auto

lemma distinct_map_default: "distinct (map fst m) \<Longrightarrow> distinct (map fst (AList.map_default k v f m))"
proof (induction k v f m rule: AList.map_default.induct)
  case (2 k v f p m)
  then show ?case using fst_map_default [of k v f m] by (cases p) (auto simp del: map_default.simps(2) simp: map_default.simps)
qed simp

lemma tally_charge_held:
  assumes "tally_held m actor < usize_max"
  shows "tally_held (tally_charge actor m) a = (if a = actor then tally_held m a + 1 else tally_held m a)"
  using assms
  by (auto simp: tally_held_def tally_charge_def map_of_map_default usize_saturating_add_def usize_max_def split: option.splits)

lemma tally_charge_ok: "tally_ok m \<Longrightarrow> tally_ok (tally_charge actor m)"
  by (auto simp: tally_ok_def tally_charge_def map_of_map_default distinct_map_default usize_saturating_add_def
      usize_max_def min_def split: option.splits)

lemma tally_discharge_held:
  assumes "tally_ok m"
  shows "tally_held (tally_discharge actor m) a = (if a = actor then tally_held m a - 1 else tally_held m a)"
  using assms
  by (auto simp: tally_held_def tally_discharge_def tally_ok_def delete_conv' update_conv'
      simp del: map_of_eq_Some_iff Some_eq_map_of_iff split: option.splits)

lemma tally_discharge_ok: "tally_ok m \<Longrightarrow> tally_ok (tally_discharge actor m)"
  by (auto simp: tally_ok_def tally_discharge_def delete_conv' update_conv' distinct_delete distinct_update
      simp del: map_of_eq_Some_iff Some_eq_map_of_iff split: option.splits)

subsection \<open>The expiry index\<close>

lemma flat_simps [simp]: "flat [] = []" "flat ((t, xs) # m) = map (Pair t) xs @ flat m"
  by (simp_all add: flat_def)

lemma mset_flat_push: "mset (flat (push_at t x m)) = add_mset (t, x) (mset (flat m))"
  unfolding push_at_def
  by (induction t "[x]" "\<lambda>xs. xs @ [x]" m rule: AList.map_default.induct) auto

lemma mset_flat_filter: "mset (flat m) = mset (flat (filter (\<lambda>(t, _). t < now) m)) + mset (flat (filter (\<lambda>(t, _). t \<ge> now) m))"
  by (induction m) auto

lemma mset_flat: "mset (flat m) = (\<Sum>(t, xs)\<in>#mset m. image_mset (Pair t) (mset xs))"
  by (induction m) auto

lemma snd_flat: "map snd (flat m) = concat (map snd m)"
  by (induction m) (auto simp: o_def)

lemma split_off_flat:
  assumes "split_off now m = (dead, live)"
  shows "mset (flat m) = mset (flat dead) + mset (flat live)"
    "\<And>t x. (t, x) \<in> set (flat dead) \<Longrightarrow> t < now" "\<And>t x. (t, x) \<in> set (flat live) \<Longrightarrow> now \<le> t"
    "mset (concat (map snd dead)) = image_mset snd (mset (flat dead))"
proof -
  have "mset (flat (sort_key fst xs)) = mset (flat xs)" for xs :: "(int \<times> 'a list) list"
    by (simp add: mset_flat)
  with assms show "mset (flat m) = mset (flat dead) + mset (flat live)"
    using mset_flat_filter [of m now] by (auto simp: split_off_def)
  show "\<And>t x. (t, x) \<in> set (flat dead) \<Longrightarrow> t < now" "\<And>t x. (t, x) \<in> set (flat live) \<Longrightarrow> now \<le> t"
    using assms by (auto simp: split_off_def flat_def)
  show "mset (concat (map snd dead)) = image_mset snd (mset (flat dead))"
    by (simp flip: snd_flat)
qed

section \<open>The ledger under concurrency\<close>

text \<open>
  The runs of a ledger with the charges that are still open: any number of requests reserve, are
  refused and settle, in any order. A charge is settled once, by the request that holds it.
\<close>

inductive ledger_run :: "nat \<Rightarrow> RetentionLedger \<Rightarrow> (string \<times> int) multiset \<Rightarrow> bool" for cap where
  run_new: "ledger_run cap (ledger_new cap) {#}"
| run_reserved: "ledger_run cap l open_charges \<Longrightarrow> ledger_reserve l actor now = (l', Ok charged)
    \<Longrightarrow> ledger_run cap l' (add_mset (charged, retain_until) open_charges)"
| run_refused: "ledger_run cap l open_charges \<Longrightarrow> ledger_reserve l actor now = (l', Err e) \<Longrightarrow> ledger_run cap l' open_charges"
| run_settled: "ledger_run cap l (add_mset (actor, retain_until) open_charges)
    \<Longrightarrow> ledger_run cap (charge_settle s l actor retain_until) open_charges"

definition ledger_wf :: "LedgerState \<Rightarrow> (string \<times> int) multiset \<Rightarrow> bool" where
  "ledger_wf st open_charges \<longleftrightarrow>
     tally_ok (lg_per_actor st)
     \<and> (\<forall>a. tally_held (lg_per_actor st) a
          = count (image_mset fst open_charges) a + count (image_mset snd (mset (flat (lg_by_expiry st)))) a)
     \<and> lg_committed st = length (flat (lg_by_expiry st)) \<and> lg_outstanding st = size open_charges"

definition ledger_inv :: "nat \<Rightarrow> RetentionLedger \<Rightarrow> (string \<times> int) multiset \<Rightarrow> bool" where
  "ledger_inv cap l open_charges \<longleftrightarrow>
     \<not> rl_poisoned l \<and> rl_max_entries l = max cap 1 \<and> ledger_wf (rl_state l) open_charges
     \<and> lg_committed (rl_state l) + lg_outstanding (rl_state l) \<le> max cap 1"

lemma discharge_loop:
  assumes "tally_ok (lg_per_actor st)" "\<And>a. count (mset actors) a \<le> tally_held (lg_per_actor st) a"
  shows "let st' = fold (\<lambda>actor st. discharge actor (st\<lparr>lg_committed := lg_committed st - 1\<rparr>)) actors st in
    tally_ok (lg_per_actor st') \<and> (\<forall>a. tally_held (lg_per_actor st') a = tally_held (lg_per_actor st) a - count (mset actors) a)
    \<and> lg_committed st' = lg_committed st - length actors \<and> lg_by_expiry st' = lg_by_expiry st
    \<and> lg_outstanding st' = lg_outstanding st"
  using assms
proof (induction actors arbitrary: st)
  case (Cons actor actors)
  define st1 where "st1 = discharge actor (st\<lparr>lg_committed := lg_committed st - 1\<rparr>)"
  have ok: "tally_ok (lg_per_actor st1)" using Cons.prems(1) by (simp add: st1_def discharge_def tally_discharge_ok)
  have held: "tally_held (lg_per_actor st1) a = (if a = actor then tally_held (lg_per_actor st) a - 1 else tally_held (lg_per_actor st) a)" for a
    using Cons.prems(1) by (simp add: st1_def discharge_def tally_discharge_held)
  have rest: "lg_committed st1 = lg_committed st - 1" "lg_by_expiry st1 = lg_by_expiry st" "lg_outstanding st1 = lg_outstanding st"
    by (simp_all add: st1_def discharge_def)
  have "count (mset actors) a \<le> tally_held (lg_per_actor st1) a" for a
    using Cons.prems(2) [of a] unfolding held by (auto split: if_splits)
  from Cons.IH [OF ok this] show ?case
    unfolding fold_Cons comp_def st1_def [symmetric] Let_def held rest by auto
qed simp

lemma prune_wf:
  assumes "ledger_wf st open_charges"
  shows "ledger_wf (ledger_prune now st) open_charges" "lg_committed (ledger_prune now st) \<le> lg_committed st"
proof -
  obtain dead live where split: "split_off now (lg_by_expiry st) = (dead, live)" by (cases "split_off now (lg_by_expiry st)")
  note parts = split_off_flat [OF split]
  let ?st = "st\<lparr>lg_by_expiry := live\<rparr>" and ?actors = "concat (map snd dead)"
  have len: "length (flat (lg_by_expiry st)) = length ?actors + length (flat live)"
    using parts(1) parts(4) by (metis size_image_mset size_mset size_union)
  have "count (mset ?actors) a \<le> tally_held (lg_per_actor ?st) a" for a
    using assms by (simp add: ledger_wf_def parts(1,4))
  with assms have "let st' = ledger_prune now st in tally_ok (lg_per_actor st')
      \<and> (\<forall>a. tally_held (lg_per_actor st') a = tally_held (lg_per_actor st) a - count (mset ?actors) a)
      \<and> lg_committed st' = lg_committed st - length ?actors \<and> lg_by_expiry st' = live \<and> lg_outstanding st' = lg_outstanding st"
    using discharge_loop [of ?st ?actors] by (simp add: ledger_prune_def split ledger_wf_def)
  with assms len show "ledger_wf (ledger_prune now st) open_charges" "lg_committed (ledger_prune now st) \<le> lg_committed st"
    by (auto simp: ledger_wf_def Let_def parts(1,4))
qed

lemma prune_when_due_wf:
  assumes "ledger_wf st open_charges"
  shows "ledger_wf (prune_when_due now st) open_charges" "lg_committed (prune_when_due now st) \<le> lg_committed st"
proof -
  have wf: "ledger_wf (st\<lparr>lg_inserts_since_prune := n\<rparr>) open_charges" for n using assms by (simp add: ledger_wf_def)
  show "ledger_wf (prune_when_due now st) open_charges" "lg_committed (prune_when_due now st) \<le> lg_committed st"
    using wf prune_wf(1) [OF wf] prune_wf(2) [OF wf, where now = now] by (auto simp: prune_when_due_def Let_def)
qed

text \<open>What an attempt to reserve does, with the state \<open>st\<close> it decides over.\<close>

lemma reserve_cases:
  assumes "ledger_inv cap l open_charges" "cap < usize_max" "ledger_reserve l actor now = (l', r)"
  obtains st where "ledger_wf st open_charges" "lg_committed st + lg_outstanding st \<le> max cap 1"
    "rl_max_entries l' = max cap 1" "\<not> rl_poisoned l'"
    "case r of
       Inl e \<Rightarrow> rl_state l' = st
         \<and> (under_pressure (lg_committed st + lg_outstanding st) (max cap 1)
              \<and> per_actor_budget (max cap 1) (length (lg_per_actor st)) \<le> tally_held (lg_per_actor st) actor
            \<or> lg_committed st + lg_outstanding st = max cap 1)
     | Inr charged \<Rightarrow> charged = actor \<and> lg_committed st + lg_outstanding st < max cap 1
         \<and> rl_state l' = st\<lparr>lg_per_actor := tally_charge actor (lg_per_actor st), lg_outstanding := lg_outstanding st + 1\<rparr>"
proof -
  let ?st = "prune_when_due now (rl_state l)"
  from assms(1) have inv: "\<not> rl_poisoned l" "rl_max_entries l = max cap 1" "ledger_wf (rl_state l) open_charges"
    "lg_committed (rl_state l) + lg_outstanding (rl_state l) \<le> max cap 1" by (simp_all add: ledger_inv_def)
  note wf = prune_when_due_wf [OF inv(3), of now]
  have out: "lg_outstanding ?st = lg_outstanding (rl_state l)" using wf(1) inv(3) by (simp add: ledger_wf_def)
  have bound: "lg_committed ?st + lg_outstanding ?st \<le> max cap 1" using wf(2) inv(4) out by linarith
  have "usize_saturating_add (lg_committed ?st) (lg_outstanding ?st) = lg_committed ?st + lg_outstanding ?st"
    "lg_outstanding ?st < max cap 1 \<Longrightarrow> usize_saturating_add (lg_outstanding ?st) 1 = lg_outstanding ?st + 1"
    using bound assms(2) by (simp_all add: usize_saturating_add_def usize_max_def max_def split: if_splits)
  with assms(3) inv bound show thesis
    by (intro that [of ?st] wf(1)) (auto simp: ledger_reserve_def Let_def split: if_splits)
qed

lemma charge_wf:
  assumes "ledger_wf st open_charges" "lg_committed st + lg_outstanding st < usize_max"
  shows "ledger_wf (st\<lparr>lg_per_actor := tally_charge actor (lg_per_actor st), lg_outstanding := lg_outstanding st + 1\<rparr>)
    (add_mset (actor, t) open_charges)"
proof -
  have "count (image_mset fst open_charges) actor + count (image_mset snd (mset (flat (lg_by_expiry st)))) actor
      \<le> lg_outstanding st + lg_committed st"
    using assms(1) count_le_size [of "image_mset fst open_charges" actor]
      count_le_size [of "image_mset snd (mset (flat (lg_by_expiry st)))" actor]
    by (simp add: ledger_wf_def)
  then have "tally_held (lg_per_actor st) actor < usize_max" using assms by (simp add: ledger_wf_def)
  with assms(1) show ?thesis by (auto simp: ledger_wf_def tally_charge_held tally_charge_ok)
qed

lemma settle_inv:
  assumes "ledger_inv cap l (add_mset (actor, t) open_charges)" "cap < usize_max"
  shows "ledger_inv cap (charge_settle s l actor t) open_charges"
proof -
  have "ledger_inv cap (ledger_release l actor) open_charges"
    using assms(1) by (auto simp: ledger_inv_def ledger_wf_def ledger_release_def discharge_def tally_discharge_ok tally_discharge_held)
  moreover have "ledger_inv cap (ledger_commit l actor t) open_charges"
  proof -
    have "usize_saturating_add (lg_committed (rl_state l)) 1 = lg_committed (rl_state l) + 1"
      using assms by (auto simp: ledger_inv_def ledger_wf_def usize_saturating_add_def usize_max_def)
    moreover have "length (flat (push_at t actor m)) = length (flat m) + 1" for m :: "(int \<times> string list) list"
      using arg_cong [OF mset_flat_push [of t actor m], of size] by simp
    ultimately show ?thesis
      using assms(1) by (auto simp: ledger_inv_def ledger_wf_def ledger_commit_def Let_def mset_flat_push)
  qed
  ultimately show ?thesis by (cases s) (simp_all add: charge_settle_def)
qed

lemma run_inv: "ledger_run cap l open_charges \<Longrightarrow> cap < usize_max \<Longrightarrow> ledger_inv cap l open_charges"
proof (induction rule: ledger_run.induct)
  case run_new
  show ?case by (simp add: ledger_inv_def ledger_wf_def ledger_new_def tally_ok_def tally_held_def)
next
  case (run_reserved l open_charges actor now l' charged t)
  from run_reserved.IH [OF run_reserved.prems] run_reserved.prems run_reserved.hyps(2) show ?case
  proof (rule reserve_cases, goal_cases)
    case (1 st)
    with charge_wf [of st open_charges actor t] run_reserved.prems show ?case
      by (auto simp: ledger_inv_def max_def split: if_splits)
  qed
next
  case (run_refused l open_charges actor now l' e)
  from run_refused.IH [OF run_refused.prems] run_refused.prems run_refused.hyps(2) show ?case
    by (rule reserve_cases) (simp add: ledger_inv_def)
next
  case (run_settled l actor t open_charges s)
  then show ?case by (intro settle_inv)
qed


lemmas ledger_defs = ledger_reserve_def ledger_new_def prune_when_due_def under_pressure_def per_actor_budget_def
  ASYNC_RESERVE_DIVISOR_def ASYNC_PRUNE_EVERY_N_INSERTS_def usize_saturating_add_def usize_max_def tally_held_def
  tally_charge_def Let_def


section \<open>The filter is bounded\<close>

definition key_set_ok :: "BoundedKeySet \<Rightarrow> bool" where
  "key_set_ok b \<longleftrightarrow> 1 \<le> bk_cap b \<and> distinct (bk_order b) \<and> set (bk_order b) = bk_set b \<and> length (bk_order b) \<le> bk_cap b"

lemma evict_ok:
  assumes "distinct order" "set order = keys" "evict cap keys order = (keys', order')" "1 \<le> cap"
  shows "distinct order' \<and> set order' = keys' \<and> set order' \<subseteq> set order \<and> length order' < cap"
  using assms by (induction cap keys order rule: evict.induct) (auto split: if_splits)

lemma key_set_insert_ok: "key_set_ok b \<Longrightarrow> key_set_ok (key_set_insert key b) \<and> key \<in> bk_set (key_set_insert key b)"
  using evict_ok [of "bk_order b" "bk_set b" "bk_cap b"]
  by (fastforce simp: key_set_ok_def key_set_insert_def split: prod.splits)

section \<open>The contract of an atomic store\<close>

text \<open>
  \<open>put\<close> is the store's atomic insertion at a reading of its clock, \<open>until\<close> the deadline up to which it
  retains a key. The in-memory store meets the contract, and the first-level filter passes it on.
\<close>

definition store_step ::
  "(int \<Rightarrow> 's \<Rightarrow> ReplayInsert \<Rightarrow> 's \<times> (ReplayStoreError + ReplayDecision)) \<Rightarrow> 's \<Rightarrow> int \<times> ReplayInsert
   \<Rightarrow> 's \<times> (ReplayCacheError + ReplayDecision) option" where
  "store_step put s op = (case put (fst op) s (snd op) of (s', r) \<Rightarrow> (s', Some (map_err store_to_cache_error r)))"

definition store_insert_of :: "int \<times> ReplayInsert \<Rightarrow> (string \<times> int) option" where
  "store_insert_of op = Some (ri_key (snd op), ri_expires_at_unix (snd op))"

locale atomic_store =
  fixes put :: "int \<Rightarrow> 's \<Rightarrow> ReplayInsert \<Rightarrow> 's \<times> (ReplayStoreError + ReplayDecision)"
    and until :: "'s \<Rightarrow> string \<Rightarrow> int option"
    and inv :: "'s \<Rightarrow> bool"
  assumes inv_put: "inv s \<Longrightarrow> put clock s i = (s', r) \<Longrightarrow> inv s'"
    and put_fresh: "inv s \<Longrightarrow> put clock s i = (s', Ok Fresh)
      \<Longrightarrow> until s (ri_key i) = None \<and> until s' (ri_key i) = Some (ri_expires_at_unix i)"
    and put_keep: "inv s \<Longrightarrow> put clock s i = (s', r) \<Longrightarrow> until s k = Some d \<Longrightarrow> clock \<le> d \<Longrightarrow> until s' k = Some d"

sublocale atomic_store \<subseteq> replay_cache "store_step put" store_insert_of "\<lambda>op. Some (fst op)" until "\<lambda>e. e" inv
proof (unfold_locales, goal_cases)
  case (1 s op)
  then show ?case using inv_put by (auto simp: store_step_def split: prod.splits)
next
  case (2 s op k e)
  then show ?case using put_fresh [of s "fst op" "snd op"] by (auto simp: store_step_def store_insert_of_def split: prod.splits)
next
  case (3 s k r op)
  then show ?case using put_keep by (auto simp: store_step_def split: prod.splits)
qed

context atomic_store
begin

lemma l1_store: "atomic_store (\<lambda>clock. l1_insert (put clock)) (\<lambda>s. until (l1_l2 s)) (\<lambda>s. inv (l1_l2 s))"
proof (unfold_locales, goal_cases)
  case (1 s clock i s' r)
  then show ?case using inv_put
    by (auto simp: l1_insert_def l1_lookup_def l1_record_def split: option.splits prod.splits sum.splits if_splits)
next
  case (2 s clock i s')
  then show ?case using put_fresh
    by (auto simp: l1_insert_def l1_lookup_def l1_record_def split: option.splits prod.splits sum.splits if_splits)
next
  case (3 s clock i s' r k d)
  then show ?case using put_keep
    by (auto simp: l1_insert_def l1_lookup_def l1_record_def split: option.splits prod.splits sum.splits if_splits)
qed

lemma tier_fresh:
  assumes "tier_check_and_insert L (put clock) t key now = (t', Ok Fresh)"
  obtains i where "store_step put (at_store t) (clock, i) = (at_store t', Some (Ok Fresh))"
    "ri_key i = composite_replay_key L (rk_signer key) (rk_audience key) (rk_nonce key)"
    "ri_expires_at_unix i = replay_retain_until (at_freshness t) (rk_expires_at_unix key)"
  using assms
  by (auto simp: tier_check_and_insert_def store_step_def Let_def
      split: prod.splits sum.splits ReplayDecision.splits
      intro!: that [of "\<lparr>ri_key = composite_replay_key L (rk_signer key) (rk_audience key) (rk_nonce key),
        ri_actor = rk_principal key, ri_expires_at_unix = replay_retain_until (at_freshness t) (rk_expires_at_unix key),
        ri_now_unix = now\<rparr>"])

lemma tier_accepts_once:
  assumes "inv (at_store t)" and first: "tier_check_and_insert L (put clock) t key now = (t1, Ok Fresh)"
    and "\<forall>op\<in>set ops. fst op \<le> replay_retain_until (at_freshness t) (rk_expires_at_unix key)"
    and "at_store t2 = fold (\<lambda>op s. fst (store_step put s op)) ops (at_store t1)"
    and "(rk_signer key', rk_audience key', rk_nonce key') = (rk_signer key, rk_audience key, rk_nonce key)"
  shows "snd (tier_check_and_insert L (put clock') t2 key' now') \<noteq> Ok Fresh"
proof
  assume "snd (tier_check_and_insert L (put clock') t2 key' now') = Ok Fresh"
  then obtain t3 where "tier_check_and_insert L (put clock') t2 key' now' = (t3, Ok Fresh)" by (metis prod.collapse)
  then obtain i' where i': "store_step put (at_store t2) (clock', i') = (at_store t3, Some (Ok Fresh))"
    "ri_key i' = composite_replay_key L (rk_signer key) (rk_audience key) (rk_nonce key)"
    by (rule tier_fresh) (use assms(5) in simp)
  from first obtain i where i: "store_step put (at_store t) (clock, i) = (at_store t1, Some (Ok Fresh))"
    "ri_key i = ri_key i'" "ri_expires_at_unix i = replay_retain_until (at_freshness t) (rk_expires_at_unix key)"
    by (rule tier_fresh) (simp add: i'(2))
  from no_second_fresh [of "at_store t" "(clock, i)" _ _ ops "(clock', i')"] assms(1,3,4) i i'(1) show False
    by (auto simp: store_insert_of_def)
qed

end

subsection \<open>The in-memory store\<close>

definition retained_until :: "RetainedSet \<Rightarrow> string \<Rightarrow> int option" where
  "retained_until st key = map_of (map prod.swap (flat (rs_by_expiry st))) key"

definition retained_ok :: "RetainedSet \<Rightarrow> bool" where
  "retained_ok st \<longleftrightarrow> distinct (map fst (rs_seen st)) \<and> mset (map snd (flat (rs_by_expiry st))) = mset (map fst (rs_seen st))"

lemma retained_ok_distinct: "retained_ok st \<Longrightarrow> distinct (map snd (flat (rs_by_expiry st)))"
  by (metis retained_ok_def mset_eq_imp_distinct_iff)

lemma retained_until_iff:
  "retained_ok st \<Longrightarrow> retained_until st key = Some t \<longleftrightarrow> (t, key) \<in># mset (flat (rs_by_expiry st))"
  using retained_ok_distinct [of st]
  by (force simp: retained_until_def o_def map_of_eq_Some_iff image_iff)

lemma retained_seen: "retained_ok st \<Longrightarrow> map_of (rs_seen st) key = None \<longleftrightarrow> retained_until st key = None"
proof -
  assume "retained_ok st"
  then have "fst ` set (rs_seen st) = snd ` set (flat (rs_by_expiry st))"
    by (metis retained_ok_def list.set_map set_mset_mset)
  then show ?thesis by (simp add: retained_until_def map_of_eq_None_iff image_image)
qed

lemma forget_keys:
  "rs_seen (fold forget_key keys st) = filter (\<lambda>(k, _). k \<notin> set keys) (rs_seen st)
   \<and> rs_by_expiry (fold forget_key keys st) = rs_by_expiry st"
proof (induction keys arbitrary: st)
  case (Cons key keys)
  have "rs_seen (forget_key key st) = filter (\<lambda>(k, _). k \<noteq> key) (rs_seen st) \<and> rs_by_expiry (forget_key key st) = rs_by_expiry st"
    by (force simp: forget_key_def AList.delete_eq map_of_eq_None_iff eq_commute [of key] split: option.splits
        intro!: filter_cong sym [OF filter_True])
  with Cons.IH [of "forget_key key st"] show ?case by (auto intro: filter_cong)
qed simp

lemma filter_other_part: "distinct (xs @ ys) \<Longrightarrow> filter_mset (\<lambda>k. k \<notin> set xs) (mset (xs @ ys)) = mset ys"
proof -
  assume "distinct (xs @ ys)"
  then have "filter (\<lambda>k. k \<notin> set xs) ys = ys" by (intro filter_True) auto
  moreover have "filter (\<lambda>k. k \<notin> set xs) xs = []" by (simp add: filter_empty_conv)
  ultimately show ?thesis by (simp flip: mset_filter)
qed

lemma prune_if_due_keeps:
  assumes "retained_ok st"
  shows "retained_ok (prune_if_due clock st)"
    "retained_until st k = Some d \<Longrightarrow> clock \<le> d \<Longrightarrow> retained_until (prune_if_due clock st) k = Some d"
    "retained_until st k = None \<Longrightarrow> retained_until (prune_if_due clock st) k = None"
proof -
  have ok: "retained_ok (prune_if_due clock st) \<and> (\<exists>dead. mset (flat (rs_by_expiry st))
      = mset (flat dead) + mset (flat (rs_by_expiry (prune_if_due clock st))) \<and> (\<forall>(t, x)\<in>set (flat dead). t < clock))"
  proof (cases "ASYNC_PRUNE_EVERY_N_INSERTS \<le> usize_saturating_add (rs_inserts_since_prune st) 1")
    case False
    with assms show ?thesis by (auto simp: prune_if_due_def retained_ok_def Let_def intro!: exI [of _ "[]"])
  next
    case True
    obtain dead live where split: "split_off clock (rs_by_expiry st) = (dead, live)" by (cases "split_off clock (rs_by_expiry st)")
    note parts = split_off_flat [OF split]
    define st' where "st' = prune_if_due clock st"
    have st': "rs_seen st' = filter (\<lambda>(k, _). k \<notin> set (concat (map snd dead))) (rs_seen st)" "rs_by_expiry st' = live"
      using forget_keys True by (simp_all add: st'_def prune_if_due_def split Let_def)
    let ?gone = "concat (map snd dead)" and ?kept = "map snd (flat live)"
    have keys: "mset (map fst (rs_seen st)) = mset (?gone @ ?kept)" "distinct (map fst (rs_seen st))"
      using assms parts(1,4) by (simp_all add: retained_ok_def)
    then have "distinct (?gone @ ?kept)" using mset_eq_imp_distinct_iff by blast
    have "mset (map fst (rs_seen st')) = filter_mset (\<lambda>k. k \<notin> set ?gone) (mset (map fst (rs_seen st)))"
      by (auto simp: st' filter_map o_def simp flip: mset_filter mset_map intro!: arg_cong [where f = mset] arg_cong [where f = "map fst"]
          filter_cong)
    also have "\<dots> = mset ?kept" unfolding keys(1) using \<open>distinct (?gone @ ?kept)\<close> by (rule filter_other_part)
    finally show ?thesis
      using keys(2) parts(1,2) by (auto simp: retained_ok_def st' distinct_map_filter simp flip: st'_def intro!: exI [of _ dead])
  qed
  then show "retained_ok (prune_if_due clock st)"
    "retained_until st k = Some d \<Longrightarrow> clock \<le> d \<Longrightarrow> retained_until (prune_if_due clock st) k = Some d"
    using assms by (fastforce simp: retained_until_iff)+
  show "retained_until (prune_if_due clock st) k = None" if "retained_until st k = None"
  proof (rule ccontr)
    assume "retained_until (prune_if_due clock st) k \<noteq> None"
    then obtain d where "(d, k) \<in># mset (flat (rs_by_expiry (prune_if_due clock st)))" using ok retained_until_iff by blast
    with ok have "(d, k) \<in># mset (flat (rs_by_expiry st))" by fastforce
    then have "retained_until st k = Some d" using assms retained_until_iff by blast
    with that show False by simp
  qed
qed

lemma retained_record_ok:
  assumes "retained_ok st" "retained_until st key = None"
  shows "retained_ok (retained_record key actor t st)" "retained_until (retained_record key actor t st) key = Some t"
    "retained_until st k = Some d \<Longrightarrow> retained_until (retained_record key actor t st) k = Some d"
proof -
  have new: "key \<notin> fst ` set (rs_seen st)"
    using retained_seen [OF assms(1), of key] assms(2) by (simp add: map_of_eq_None_iff)
  have "key \<notin> fst ` set m \<Longrightarrow> AList.update key actor m = m @ [(key, actor)]" for m :: "(string \<times> string) list"
    by (induction m) auto
  note this [OF new]
  with assms(1) new show ok: "retained_ok (retained_record key actor t st)"
    by (auto simp: retained_ok_def retained_record_def mset_flat_push)
  show "retained_until (retained_record key actor t st) key = Some t"
    "retained_until st k = Some d \<Longrightarrow> retained_until (retained_record key actor t st) k = Some d"
    using assms(1) unfolding retained_until_iff [OF ok] retained_until_iff [OF assms(1)]
    by (simp_all add: retained_record_def mset_flat_push)
qed

interpretation mem_store: atomic_store insert_locked "\<lambda>s. retained_until (as_inner s)" "\<lambda>s. retained_ok (as_inner s)"
proof (unfold_locales, goal_cases)
  case (1 s clock i s' r)
  then show ?case
    using prune_if_due_keeps [of "as_inner s"] retained_record_ok retained_seen
    by (auto simp: insert_locked_def Let_def split: sum.splits if_splits)
next
  case (2 s clock i s')
  then show ?case
    using prune_if_due_keeps [of "as_inner s"] retained_record_ok(2) retained_seen
    by (auto simp: insert_locked_def Let_def split: sum.splits if_splits)
next
  case (3 s clock i s' r k d)
  then show ?case
    using prune_if_due_keeps [of "as_inner s"] retained_record_ok(3) retained_seen
    by (auto simp: insert_locked_def Let_def split: sum.splits if_splits)
qed

interpretation fast_store: atomic_store "\<lambda>clock. l1_insert (insert_locked clock)" "\<lambda>s. retained_until (as_inner (l1_l2 s))"
    "\<lambda>s. retained_ok (as_inner (l1_l2 s))"
  by (rule mem_store.l1_store)

section \<open>Dispatch\<close>

lemma async_dispatch_Ok:
  assumes "dispatch_request_with_async_tier L cls check v t ctx config now = (t', Ok oc)"
  obtains key where "check t key now = (t', Ok Fresh)" "(rk_signer key, rk_audience key, rk_nonce key) = replay_slot v"
    "rk_expires_at_unix key = fl_expires (vr_floor v)"
    "pc_fleet_strict config \<Longrightarrow> cls \<noteq> SingleProcessReference \<and> (\<exists>tier. pc_tier config = Some tier \<and> meets_strict_production_minimum tier)"
    "prepare_http_dispatch L v ctx = Ok (do_replay_key oc, do_continuation_verified oc)"
proof -
  from assms obtain admitted prepared where tier: "deployment_tier_admits config = Ok ()"
      "admit_replay_tier \<lparr>fleet_strict = pc_fleet_strict config\<rparr> cls = Ok admitted"
    and prep: "tier_prepare L admitted v ctx = Ok prepared"
    and ins: "check t (to_core_replay_key (pd_replay_key prepared) (fl_expires (vr_floor v))) now = (t', Ok Fresh)"
    and oc: "oc = into_admitted_outcome prepared"
    by (auto simp: dispatch_request_with_async_tier_def try_bind_Ok_iff
        split: sum.splits prod.splits ReplayDecision.splits)
  from prep have p: "prepare_http_dispatch L v ctx = Ok (pd_replay_key prepared, pd_continuation_verified prepared)"
    by (auto simp: tier_prepare_def try_bind_Ok_iff)
  show thesis
    by (rule that [OF ins])
      (use prepare_Ok(1) [OF p] p tier oc in
        \<open>auto simp: to_core_replay_key_def into_admitted_outcome_def admit_replay_tier_def deployment_tier_admits_def
          split: if_splits option.splits\<close>)
qed

context atomic_store
begin

lemma no_second_async_dispatch:
  assumes "inv (at_store t)"
    and first: "dispatch_request_with_async_tier L cls (tier_check_and_insert L (put clock)) v t ctx config now = (t1, Ok oc)"
    and "\<forall>op\<in>set ops. fst op \<le> replay_retain_until (at_freshness t) (fl_expires (vr_floor v))"
    and "at_store t2 = fold (\<lambda>op s. fst (store_step put s op)) ops (at_store t1)"
    and "replay_slot v' = replay_slot v"
  shows "snd (dispatch_request_with_async_tier L cls' (tier_check_and_insert L (put clock')) v' t2 ctx' config' now') \<noteq> Ok oc'"
proof
  assume "snd (dispatch_request_with_async_tier L cls' (tier_check_and_insert L (put clock')) v' t2 ctx' config' now') = Ok oc'"
  then obtain t3 where "dispatch_request_with_async_tier L cls' (tier_check_and_insert L (put clock')) v' t2 ctx' config' now' = (t3, Ok oc')"
    by (metis prod.collapse)
  then obtain key' where key': "tier_check_and_insert L (put clock') t2 key' now' = (t3, Ok Fresh)"
    "(rk_signer key', rk_audience key', rk_nonce key') = replay_slot v" by (rule async_dispatch_Ok) (use assms(5) in simp)
  from first obtain key where key: "tier_check_and_insert L (put clock) t key now = (t1, Ok Fresh)"
    "(rk_signer key, rk_audience key, rk_nonce key) = replay_slot v" "rk_expires_at_unix key = fl_expires (vr_floor v)"
    by (rule async_dispatch_Ok)
  from tier_accepts_once [OF assms(1) key(1) _ assms(4), of key' clock' now'] assms(3) key key' show False by simp
qed

end

end
