(* ===== verification/Serve_Stages.thy ===== *)
theory Serve_Stages
  imports Exchange Rejection Bodyless Continuation_Store Async_Replay Custody Admission Json_Strip
begin

text \<open>
  The parts of the serving path of \<open>mcp-re-proxy/src/http_profile_serve/\<close> that do not depend on one
  another: refusals (\<open>refusal/\<close>), the signing window (\<open>signing_window.rs\<close>) over the published key
  (\<open>delegated_server_signer/\<close>), transport binding (\<open>transport/mod.rs\<close>,
  \<open>communication_assurance/request_peer_binding/\<close>), the admission enforcer (\<open>admission_enforcer/\<close>),
  authorization (\<open>authorization/\<close>), the forwarded body (\<open>body_boundary.rs\<close>) and the reply (\<open>reply.rs\<close>).
  The capabilities the proxy is wired with are trait objects in the code: here they are the fields of
  \<open>planes\<close>, each a function on a world \<open>'w\<close> that also stands for whatever other requests do meanwhile.
  Diagnostic lines on standard error and stage timers are left out.
\<close>

section \<open>Results that thread a state\<close>

definition and_then :: "'s \<times> ('e + 'a) \<Rightarrow> ('s \<Rightarrow> 'a \<Rightarrow> 's \<times> ('e + 'b)) \<Rightarrow> 's \<times> ('e + 'b)" where
  "and_then m f = (case m of (s, Inl e) \<Rightarrow> (s, Err e) | (s, Inr a) \<Rightarrow> f s a)"

lemma and_then_simps [simp]: "and_then (s, Inl e) f = (s, Err e)" "and_then (s, Inr a) f = f s a"
  by (simp_all add: and_then_def)

lemma and_then_Ok_iff: "and_then m f = (s', Ok b) \<longleftrightarrow> (\<exists>s a. m = (s, Ok a) \<and> f s a = (s', Ok b))"
  by (auto simp: and_then_def split: prod.splits sum.splits)

section \<open>Authorization\<close>

datatype PolicyError =
    AuthorizationBlockMissing | AuthorizationHashMismatch | AuthorizationProfileUnsupported | AuthorizationMalformed
  | AuthorizationSignatureInvalid | AuthorizationSignerMismatch | AuthorizationSubjectMismatch
  | AuthorizationAudienceMismatch | AuthorizationExpired | AuthorizationRevoked | AuthorizationRevocationUnavailable
  | AuthorizationScopeDenied | AuthorizationBindingProfileRequired

primrec policy_wire_code :: "PolicyError \<Rightarrow> string" where
  "policy_wire_code AuthorizationBlockMissing = ''mcp-re.authorization_block_missing''"
| "policy_wire_code AuthorizationHashMismatch = ''mcp-re.authorization_hash_mismatch''"
| "policy_wire_code AuthorizationProfileUnsupported = ''mcp-re.authorization_profile_unsupported''"
| "policy_wire_code AuthorizationMalformed = ''mcp-re.authorization_malformed''"
| "policy_wire_code AuthorizationSignatureInvalid = ''mcp-re.authorization_signature_invalid''"
| "policy_wire_code AuthorizationSignerMismatch = ''mcp-re.authorization_signer_mismatch''"
| "policy_wire_code AuthorizationSubjectMismatch = ''mcp-re.authorization_subject_mismatch''"
| "policy_wire_code AuthorizationAudienceMismatch = ''mcp-re.authorization_audience_mismatch''"
| "policy_wire_code AuthorizationExpired = ''mcp-re.authorization_expired''"
| "policy_wire_code AuthorizationRevoked = ''mcp-re.authorization_revoked''"
| "policy_wire_code AuthorizationRevocationUnavailable = ''mcp-re.authorization_revocation_unavailable''"
| "policy_wire_code AuthorizationScopeDenied = ''mcp-re.authorization_scope_denied''"
| "policy_wire_code AuthorizationBindingProfileRequired = ''mcp-re.authorization_binding_profile_required''"

datatype AuthorizationTarget = NotApplicableTarget | NamedTarget string | AbsentTarget

record VerifiedAuthorizationAction =
  aa_operation :: string
  aa_target :: AuthorizationTarget

datatype AuthorizationActionRefusal = BodyIsNotTheSignedBody | BodyIsNotJson | NoOperation

primrec action_refusal_core :: "AuthorizationActionRefusal \<Rightarrow> mcp_re_error" where
  "action_refusal_core BodyIsNotTheSignedBody = mcp_re_error.DigestMismatch"
| "action_refusal_core BodyIsNotJson = MalformedEnvelope"
| "action_refusal_core NoOperation = MalformedEnvelope"

definition interpret_authorization_action ::
  "crypto_lib \<Rightarrow> json_lib \<Rightarrow> 'adm VerifiedMcpRequest \<Rightarrow> bytes \<Rightarrow> AuthorizationActionRefusal + VerifiedAuthorizationAction" where
  "interpret_authorization_action L J verified body =
     (if \<not> covers_body L (vr_floor verified) body then Err BodyIsNotTheSignedBody
      else case from_slice J body of
             None \<Rightarrow> Err BodyIsNotJson
           | Some v \<Rightarrow>
               (case Option.bind (json_get v ''method'') as_str of
                  None \<Rightarrow> Err NoOperation
                | Some operation \<Rightarrow>
                    Ok \<lparr>aa_operation = operation,
                        aa_target = (case mcp_name_source operation of
                           None \<Rightarrow> NotApplicableTarget
                         | Some source \<Rightarrow>
                             (case Option.bind (json_get v ''params'') (name_extract source) of
                                Some named \<Rightarrow> NamedTarget named | None \<Rightarrow> AbsentTarget))\<rparr>))"

record 'peer RequestPeerBindingFacts =
  pb_peer :: 'peer
  pb_subject :: string

record ('adm, 'peer) AuthorizationRequest =
  az_actor :: ActorIdentity
  az_action :: VerifiedAuthorizationAction
  az_binding :: "'peer RequestPeerBindingFacts option"
  az_evidence :: RequestEvidence
  az_verified :: "'adm VerifiedMcpRequest"

definition interpret_authorization_actor :: "ResolvedActor \<Rightarrow> ActorIdentity" where
  "interpret_authorization_actor actor = identity actor"

definition authorization_request ::
  "crypto_lib \<Rightarrow> json_lib \<Rightarrow> 'adm VerifiedMcpRequest \<Rightarrow> bytes \<Rightarrow> 'peer RequestPeerBindingFacts option
   \<Rightarrow> AuthorizationActionRefusal + ('adm, 'peer) AuthorizationRequest" where
  "authorization_request L J verified body binding =
     try_bind (interpret_authorization_action L J verified body) (\<lambda>action.
     Ok \<lparr>az_actor = interpret_authorization_actor (fl_resolved_actor (vr_floor verified)), az_action = action, az_binding = binding,
         az_evidence = fl_evidence (vr_floor verified), az_verified = verified\<rparr>)"

record GrantAttribution =
  ga_authority :: string
  ga_version :: string
  ga_authority_decision_id :: string

record DecisionEvidenceIdentity =
  di_alg :: string
  di_value :: string

record AuthorizedDecision =
  ad_grant :: GrantAttribution
  ad_evidence :: DecisionEvidenceIdentity

datatype AuthorizationRefusal = ActionNotVerifiable AuthorizationActionRefusal | PolicyRefused PolicyError

datatype ('adm, 'peer) AuthorizationPosture =
    NoPolicyConfigured
  | Authorized "('adm, 'peer) AuthorizationRequest" AuthorizedDecision

record AuthorizationAttribution =
  at_authority :: string
  at_version :: string
  at_authority_decision_id :: string
  at_decision_evidence :: DecisionEvidenceIdentity
  at_action :: VerifiedAuthorizationAction
  at_attributable_to :: RequestEvidence

datatype AuthorizationRefusalFacet = BeforePolicy | ByPolicy PolicyError

datatype AuthorizationFacet =
  AuthorizationNotConfigured | AuthorizationAuthorized AuthorizationAttribution | AuthorizationRefused AuthorizationRefusalFacet

primrec posture_audit_facet :: "('adm, 'peer) AuthorizationPosture \<Rightarrow> AuthorizationFacet" where
  "posture_audit_facet NoPolicyConfigured = AuthorizationNotConfigured"
| "posture_audit_facet (Authorized request decision) =
     AuthorizationAuthorized
       \<lparr>at_authority = ga_authority (ad_grant decision), at_version = ga_version (ad_grant decision),
        at_authority_decision_id = ga_authority_decision_id (ad_grant decision),
        at_decision_evidence = ad_evidence decision, at_action = az_action request,
        at_attributable_to = az_evidence request\<rparr>"

definition authorize ::
  "crypto_lib \<Rightarrow> json_lib \<Rightarrow> ('w \<Rightarrow> ('adm, 'peer) AuthorizationRequest \<Rightarrow> 'w \<times> (PolicyError + AuthorizedDecision)) option \<Rightarrow> 'w
   \<Rightarrow> 'adm VerifiedMcpRequest \<Rightarrow> bytes \<Rightarrow> 'peer RequestPeerBindingFacts option
   \<Rightarrow> 'w \<times> (AuthorizationRefusal + ('adm, 'peer) AuthorizationPosture)" where
  "authorize L J evaluator w verified body binding =
     (case authorization_request L J verified body binding of
        Inl e \<Rightarrow> (w, Err (ActionNotVerifiable e))
      | Inr request \<Rightarrow>
          (case evaluator of
             None \<Rightarrow> (w, Ok NoPolicyConfigured)
           | Some evaluate \<Rightarrow>
               (case evaluate w request of
                  (w, Inr decision) \<Rightarrow> (w, Ok (Authorized request decision))
                | (w, Inl e) \<Rightarrow> (w, Err (PolicyRefused e)))))"

section \<open>Refusals\<close>

datatype CoreVerdict = Taxonomy mcp_re_error | Carrier HttpProfileError | DispatchVerdict ProxyDispatchError

primrec verdict_error :: "CoreVerdict \<Rightarrow> mcp_re_error" where
  "verdict_error (Taxonomy e) = e"
| "verdict_error (Carrier e) = core_projection e"
| "verdict_error (DispatchVerdict e) = proxy_dispatch_core e"

datatype RefusalCause = CoreCause CoreVerdict | AuthorizationCause AuthorizationRefusal

primrec refusal_wire_code :: "RefusalCause \<Rightarrow> string" where
  "refusal_wire_code (CoreCause v) = wire_code (verdict_error v)"
| "refusal_wire_code (AuthorizationCause r) =
     (case r of ActionNotVerifiable a \<Rightarrow> wire_code (action_refusal_core a) | PolicyRefused e \<Rightarrow> policy_wire_code e)"

primrec core_verdict :: "RefusalCause \<Rightarrow> mcp_re_error option" where
  "core_verdict (CoreCause v) = Some (verdict_error v)"
| "core_verdict (AuthorizationCause r) =
     (case r of ActionNotVerifiable a \<Rightarrow> Some (action_refusal_core a) | PolicyRefused _ \<Rightarrow> None)"

primrec cause_authorization_facet :: "RefusalCause \<Rightarrow> AuthorizationFacet option \<Rightarrow> AuthorizationFacet" where
  "cause_authorization_facet (CoreCause _) reached =
     (case reached of Some facet \<Rightarrow> facet | None \<Rightarrow> AuthorizationRefused BeforePolicy)"
| "cause_authorization_facet (AuthorizationCause r) reached =
     (case r of ActionNotVerifiable _ \<Rightarrow> AuthorizationRefused BeforePolicy | PolicyRefused e \<Rightarrow> AuthorizationRefused (ByPolicy e))"

datatype RefusalPosture = Preflight | BeforeAdmission | AfterAdmission

record Refusal =
  rf_cause :: RefusalCause
  rf_status :: nat
  rf_posture :: RefusalPosture
  rf_execution_refinement :: "ExecutionDisposition option"

definition refusal_at :: "RefusalPosture \<Rightarrow> RefusalCause \<Rightarrow> nat \<Rightarrow> Refusal" where
  "refusal_at posture cause code =
     \<lparr>rf_cause = cause, rf_status = code, rf_posture = posture, rf_execution_refinement = None\<rparr>"

abbreviation preflight :: "RefusalCause \<Rightarrow> nat \<Rightarrow> Refusal" where "preflight \<equiv> refusal_at Preflight"
abbreviation before_admission :: "RefusalCause \<Rightarrow> nat \<Rightarrow> Refusal" where "before_admission \<equiv> refusal_at BeforeAdmission"
abbreviation after_admission :: "RefusalCause \<Rightarrow> nat \<Rightarrow> Refusal" where "after_admission \<equiv> refusal_at AfterAdmission"
abbreviation taxonomy :: "mcp_re_error \<Rightarrow> RefusalCause" where "taxonomy e \<equiv> CoreCause (Taxonomy e)"
abbreviation carrier :: "HttpProfileError \<Rightarrow> RefusalCause" where "carrier e \<equiv> CoreCause (Carrier e)"

definition refining :: "Refusal \<Rightarrow> ExecutionDisposition \<Rightarrow> Refusal" where
  "refining r execution = r\<lparr>rf_execution_refinement := Some execution\<rparr>"

definition disposition :: "ExchangeProgress \<Rightarrow> ExecutionDisposition option \<Rightarrow> ExecutionDisposition" where
  "disposition p refined =
     (case retry_semantics p of
        SafeNothingExecuted \<Rightarrow> (case refined of Some r \<Rightarrow> r | None \<Rightarrow> NothingExecuted)
      | RequiresNewElicitation \<Rightarrow> ApprovalSpentNothingExecuted
      | NotRetrySafe \<Rightarrow> PossiblyExecuted)"

section \<open>The signing window\<close>

datatype Snapshot = SnapshotEmpty | SnapshotActive ActiveDelegatedKey | SnapshotTerminal

definition signer_publish :: "Snapshot \<Rightarrow> ActiveDelegatedKey \<Rightarrow> Snapshot" where
  "signer_publish s active = (if s = SnapshotTerminal then s else SnapshotActive active)"

definition signer_retire :: "Snapshot \<Rightarrow> Snapshot" where
  "signer_retire s = (if s = SnapshotTerminal then s else SnapshotEmpty)"

definition signer_current :: "Snapshot \<Rightarrow> int \<Rightarrow> ActiveDelegatedKey option" where
  "signer_current s now =
     (case s of SnapshotActive a \<Rightarrow> if ak_nbf a \<le> now \<and> now < ak_exp a then Some a else None | _ \<Rightarrow> None)"

record SigningWindow =
  sw_key :: ActiveDelegatedKey
  sw_created :: int
  sw_expires :: int

definition window_over :: "ActiveDelegatedKey \<Rightarrow> int \<Rightarrow> int \<Rightarrow> SigningWindow option" where
  "window_over key now ttl_secs =
     (let expires = min (saturating_add now ttl_secs) (ak_exp key) in
      if now < expires then Some \<lparr>sw_key = key, sw_created = now, sw_expires = expires\<rparr> else None)"

definition window_open :: "Snapshot \<Rightarrow> int \<Rightarrow> int \<Rightarrow> SigningWindow option" where
  "window_open s now ttl_secs = Option.bind (signer_current s now) (\<lambda>key. window_over key now ttl_secs)"

text \<open>A duration is its whole seconds and the nanoseconds beyond them.\<close>

datatype DispatchCompletionBound = Within nat nat | CompletionUnstated

definition whole_seconds :: "nat \<Rightarrow> nat \<Rightarrow> int" where
  "whole_seconds as_secs subsec_nanos =
     (let secs = min i64_max (int as_secs) in if subsec_nanos > 0 then saturating_add secs 1 else secs)"

definition latest_completion :: "DispatchCompletionBound \<Rightarrow> int \<Rightarrow> int option" where
  "latest_completion bound started =
     (case bound of
        Within as_secs subsec_nanos \<Rightarrow> Some (saturating_add started (whole_seconds as_secs subsec_nanos))
      | CompletionUnstated \<Rightarrow> None)"

definition window_covers :: "SigningWindow \<Rightarrow> DispatchCompletionBound \<Rightarrow> bool" where
  "window_covers win bound =
     (case latest_completion bound (sw_created win) of
        Some latest \<Rightarrow> window_admits (sw_created win) (sw_expires win) latest 0
      | None \<Rightarrow> False)"

section \<open>Transport binding\<close>

datatype RequestPeerBindingRefusal = DifferentPrincipals string string

definition verified_request_subject :: "ResolvedActor \<Rightarrow> string" where
  "verified_request_subject actor = subject (identity actor)"

text \<open>\<open>peer_identity\<close> reads the identity of an authenticated peer; how a peer is authenticated is not part of this.\<close>

definition bind_request_to_peer ::
  "('peer \<Rightarrow> string) \<Rightarrow> 'peer \<Rightarrow> string \<Rightarrow> RequestPeerBindingRefusal + 'peer RequestPeerBindingFacts" where
  "bind_request_to_peer peer_identity peer subj =
     (if peer_identity peer \<noteq> subj then Err (DifferentPrincipals (peer_identity peer) subj)
      else Ok \<lparr>pb_peer = peer, pb_subject = subj\<rparr>)"

definition exact_match_bind :: "('peer \<Rightarrow> string) \<Rightarrow> 'peer \<Rightarrow> string \<Rightarrow> mcp_re_error + 'peer RequestPeerBindingFacts" where
  "exact_match_bind peer_identity peer subj = map_err (\<lambda>_. TransportBindingFailed) (bind_request_to_peer peer_identity peer subj)"

definition transport_bind ::
  "('peer \<Rightarrow> string \<Rightarrow> mcp_re_error + 'peer RequestPeerBindingFacts) \<Rightarrow> 'peer option \<Rightarrow> string
   \<Rightarrow> mcp_re_error + 'peer RequestPeerBindingFacts" where
  "transport_bind policy peer subj = try_bind (ok_or peer TransportBindingFailed) (\<lambda>peer. policy peer subj)"

end
