(* ===== verification/Serve.thy ===== *)
theory Serve
  imports Serve_Stages
begin

text \<open>
  The serving path of the proxy, \<open>mcp-re-proxy/src/http_profile_serve/\<close>: \<open>HttpProfileProxy::handle\<close> and its
  stages, in the order the code runs them. \<open>HttpProfileProxy\<close> is the record of the capabilities the proxy
  is wired with, each a function on a world \<open>'w\<close>; a capability that is not configured is \<open>None\<close>. A stage
  threads the world and the progress of the exchange and returns its value or the response that ends the
  exchange, so an early return of the code is an \<open>Err\<close> here.
\<close>

section \<open>The proxy\<close>

datatype AdmissionFacet = NotReached | NotConfigured | LiveConfirmed | Degraded | AdmissionRefused

datatype AuditSubject =
    RequestSubject audit_event AuthorizationFacet AdmissionFacet
  | ResponseSubject audit_event

definition subject_request_accepted :: "AuthorizationFacet \<Rightarrow> AdmissionFacet \<Rightarrow> AuditSubject" where
  "subject_request_accepted authorization admission_facet = RequestSubject request_accepted authorization admission_facet"

definition subject_request_rejected :: "mcp_re_error option \<Rightarrow> AuthorizationFacet \<Rightarrow> AdmissionFacet \<Rightarrow> AuditSubject" where
  "subject_request_rejected verdict authorization admission_facet =
     RequestSubject (case verdict of Some e \<Rightarrow> request_rejected e | None \<Rightarrow> request_rejected_elsewhere)
       authorization admission_facet"

definition subject_response_signed :: AuditSubject where
  "subject_response_signed = ResponseSubject response_signed"

definition subject_response_rejected :: "mcp_re_error option \<Rightarrow> AuditSubject" where
  "subject_response_rejected verdict =
     ResponseSubject (case verdict of Some e \<Rightarrow> response_rejected e | None \<Rightarrow> response_rejected_elsewhere)"

record AuditRecord =
  ar_subject :: AuditSubject
  ar_actor_id :: "string option"
  ar_status :: nat
  ar_at_unix :: int

datatype DispatchedOutcome = Replied bytes | Indeterminate string | InvalidUpstream string

datatype NotAdmitted = NotAdmitted string

datatype RetentionError =
  RetentionStore string | RetentionMalformed string | AlreadyCompleted | Unresolved string | StoreRetired string

datatype AdmissionEnforcement = Optional | Required

datatype AdmissionSourceError = AdmissionUnavailable string

record 'w AdmissionEnforcer =
  en_source :: "'w \<Rightarrow> string \<Rightarrow> int \<Rightarrow> 'w \<times> (AdmissionSourceError + AuthoritativeAdmission option)"
  en_policy :: AdmissionPolicy
  en_enforcement :: AdmissionEnforcement
  en_resolve_authority :: "string \<Rightarrow> VerificationKey option"
  en_instant :: "'w \<Rightarrow> 'w \<times> nat"
  en_last_read :: "'w \<Rightarrow> nat option"
  en_set_last_read :: "nat option \<Rightarrow> 'w \<Rightarrow> 'w"

record 'w continuation_ops =
  co_peek :: "'w \<Rightarrow> string \<Rightarrow> 'w \<times> (ContinuationStoreError + RetainedBases option)"
  co_consume :: "'w \<Rightarrow> string \<Rightarrow> 'w \<times> (ContinuationStoreError + bool)"
  co_create :: "'w \<Rightarrow> string \<Rightarrow> RetainedBases \<Rightarrow> int \<Rightarrow> 'w \<times> (ContinuationStoreError + Creation)"

record ('w, 'r, 'x) retention_ops =
  re_reserve :: "'w \<Rightarrow> HttpRequest \<Rightarrow> 'w \<times> (RetentionError + 'r)"
  re_commit_to_dispatch :: "'w \<Rightarrow> 'r \<Rightarrow> 'w \<times> (RetentionError + 'x)"
  re_complete :: "'w \<Rightarrow> 'x \<Rightarrow> HttpResponse \<Rightarrow> 'w \<times> (RetentionError + unit)"

record ('w, 'peer, 'p, 'r, 'x) HttpProfileProxy =
  px_resolve_actor :: resolver
  px_expected_audience :: AudienceTuple
  px_policy :: VerifierPolicy
  px_signer :: "'w \<Rightarrow> 'w \<times> Snapshot"
  px_sig_ttl_secs :: int
  px_replay_class :: ReplayDurabilityClass
  px_replay_async :: "'w \<Rightarrow> ReplayKey \<Rightarrow> int \<Rightarrow> 'w \<times> (ReplayCacheError + ReplayDecision)"
  px_dispatch_cfg :: ProxyDispatchConfig
  px_inner_prepare :: "'w \<Rightarrow> bytes \<Rightarrow> 'w \<times> (NotAdmitted + 'p \<times> DispatchCompletionBound)"
  px_inner_transmit :: "'w \<Rightarrow> 'p \<Rightarrow> 'w \<times> DispatchedOutcome"
  px_transport_binding :: "('peer \<Rightarrow> string \<Rightarrow> mcp_re_error + 'peer RequestPeerBindingFacts) option"
  px_authorization :: "('w \<Rightarrow> (AdmissionBinding, 'peer) AuthorizationRequest \<Rightarrow> 'w \<times> (PolicyError + AuthorizedDecision)) option"
  px_continuations :: "'w continuation_ops option"
  px_continuation_ttl_secs :: int
  px_verified_context_policy :: VerifiedContextPolicy
  px_audit :: "('w \<Rightarrow> AuditRecord \<Rightarrow> 'w) option"
  px_admission :: "'w AdmissionEnforcer option"
  px_retention :: "('w, 'r, 'x) retention_ops option"

definition DEFAULT_CONTINUATION_TTL_SECS :: int where "DEFAULT_CONTINUATION_TTL_SECS = 300"

text \<open>\<open>verified/context.rs\<close>: what the inner server is told about the verified request.\<close>

record VerifiedContext =
  vc_profile :: string
  vc_actor_id :: string
  vc_key_id :: string
  vc_audience :: AudienceTuple
  vc_request_evidence :: RequestEvidence
  vc_verified_at :: int
  vc_request_expires :: int

text \<open>The libraries the path calls, with the derived (de)serializers of the blocks.\<close>

record serve_lib =
  sl_crypto :: crypto_lib
  sl_json :: json_lib
  sl_admission :: admission_lib
  sl_request_block :: "json \<Rightarrow> AdmissionBinding HttpRequestEvidenceBlock option"
  sl_response_block :: "HttpResponseEvidenceBlock \<Rightarrow> json"
  sl_context :: "VerifiedContext \<Rightarrow> json"

record AuthorityVerdicts =
  av_authorization :: "AuthorizationFacet option"
  av_admission :: "AdmissionFacet option"

text \<open>The struct \<open>Exchange\<close> of the serving path.\<close>

record ServeExchange =
  se_http_req :: HttpRequest
  se_verified :: "AdmissionBinding VerifiedMcpRequest"
  se_actor_id :: string
  se_now :: int
  se_key :: "ActiveDelegatedKey option"
  se_verdicts :: AuthorityVerdicts

record 'peer ServedHttpRequest =
  sq_http :: HttpRequest
  sq_peer :: "'peer option"

section \<open>Receipts\<close>

definition record_to ::
  "('w \<Rightarrow> AuditRecord \<Rightarrow> 'w) option \<Rightarrow> AuditSubject \<Rightarrow> string option \<Rightarrow> nat \<Rightarrow> int \<Rightarrow> 'w \<Rightarrow> 'w" where
  "record_to audit subj actor code now w =
     (case audit of
        Some sink \<Rightarrow> sink w \<lparr>ar_subject = subj, ar_actor_id = actor, ar_status = code, ar_at_unix = now\<rparr>
      | None \<Rightarrow> w)"

definition MCP_RE_JSON_RPC_ERROR_CODE :: int where "MCP_RE_JSON_RPC_ERROR_CODE = - 31000"

definition unsigned_error :: "json_lib \<Rightarrow> nat \<Rightarrow> string \<Rightarrow> ExecutionDisposition \<Rightarrow> HttpResponse" where
  "unsigned_error J code reason execution =
     \<lparr>rsp_status = code, rsp_headers = [(''content-type'', ''application/json'')],
      rsp_body = to_vec J (JObject
        [(''jsonrpc'', JString ''2.0''),
         (''error'', JObject
            [(''code'', JNumber (NegInt MCP_RE_JSON_RPC_ERROR_CODE)), (''message'', JString reason),
             (''data'', JObject [(''mcp_re_error'', mcp_re_error_member reason execution)])]),
         (''id'', JNull)])\<rparr>"

definition signed_rejection ::
  "serve_lib \<Rightarrow> ('w, 'peer, 'p, 'r, 'x) HttpProfileProxy \<Rightarrow> HttpRequest \<Rightarrow> string \<Rightarrow> nat \<Rightarrow> int \<Rightarrow> RequestEvidence option
   \<Rightarrow> ExecutionDisposition \<Rightarrow> ActiveDelegatedKey option \<Rightarrow> 'w \<Rightarrow> 'w \<times> HttpResponse" where
  "signed_rejection X px request code sts now bound execution snapshot w =
     (let reason = \<lparr>rr_wire_code = code, rr_message = ''mcp-re http-profile proxy rejected: '' @ code, rr_execution = execution\<rparr> in
      case (case snapshot of
              Some a \<Rightarrow> (w, window_over a now (px_sig_ttl_secs px))
            | None \<Rightarrow> (case px_signer px w of (w, s) \<Rightarrow> (w, window_open s now (px_sig_ttl_secs px)))) of
        (w, Some win) \<Rightarrow>
          (let a = sw_key win;
               built = (case bound of
                 Some ev \<Rightarrow>
                   build_delegated_rejection (sl_crypto X) (sl_json X) (sl_response_block X) request ev reason sts
                     (ak_server_signer a) (ak_credential a) (ak_key a) (ak_delegated_kid a) (sw_created win) (sw_expires win)
               | None \<Rightarrow>
                   build_delegated_rejection_preflight (sl_crypto X) (sl_json X) (sl_response_block X) (Some request) reason sts
                     (ak_server_signer a) (ak_credential a) (ak_key a) (ak_delegated_kid a) (sw_created win) (sw_expires win))
           in (w, case built of Inr rsp \<Rightarrow> rsp | Inl _ \<Rightarrow> unsigned_error (sl_json X) sts code execution))
      | (w, None) \<Rightarrow> (w, unsigned_error (sl_json X) sts code execution))"

definition rejection ::
  "serve_lib \<Rightarrow> ('w, 'peer, 'p, 'r, 'x) HttpProfileProxy \<Rightarrow> HttpRequest \<Rightarrow> RefusalCause \<Rightarrow> nat \<Rightarrow> int \<Rightarrow> RequestEvidence option
   \<Rightarrow> string option \<Rightarrow> ExecutionDisposition \<Rightarrow> ActiveDelegatedKey option \<Rightarrow> AuthorizationFacet option \<Rightarrow> AdmissionFacet option
   \<Rightarrow> 'w \<Rightarrow> 'w \<times> HttpResponse" where
  "rejection X px request cause sts now bound actor execution snapshot authorization admitted w =
     signed_rejection X px request (refusal_wire_code cause) sts now bound execution snapshot
       (record_to (px_audit px)
          (subject_request_rejected (core_verdict cause) (cause_authorization_facet cause authorization)
             (case admitted of Some f \<Rightarrow> f | None \<Rightarrow> NotReached))
          actor sts now w)"

definition response_rejection ::
  "serve_lib \<Rightarrow> ('w, 'peer, 'p, 'r, 'x) HttpProfileProxy \<Rightarrow> HttpRequest \<Rightarrow> RefusalCause \<Rightarrow> nat \<Rightarrow> int \<Rightarrow> RequestEvidence option
   \<Rightarrow> string option \<Rightarrow> ExecutionDisposition \<Rightarrow> ActiveDelegatedKey option \<Rightarrow> 'w \<Rightarrow> 'w \<times> HttpResponse" where
  "response_rejection X px request cause sts now bound actor execution snapshot w =
     signed_rejection X px request (refusal_wire_code cause) sts now bound execution snapshot
       (record_to (px_audit px) (subject_response_rejected (core_verdict cause)) actor sts now w)"

definition receipt_refuse ::
  "serve_lib \<Rightarrow> ('w, 'peer, 'p, 'r, 'x) HttpProfileProxy \<Rightarrow> ServeExchange \<Rightarrow> Refusal \<Rightarrow> ExecutionDisposition \<Rightarrow> 'w
   \<Rightarrow> 'w \<times> HttpResponse" where
  "receipt_refuse X px ex refusal execution w =
     (let (bound, actor) =
        (if rf_posture refusal = Preflight then (None, None)
         else (Some (fl_evidence (vr_floor (se_verified ex))), Some (se_actor_id ex))) in
      if rf_posture refusal = AfterAdmission
      then response_rejection X px (se_http_req ex) (rf_cause refusal) (rf_status refusal) (se_now ex) bound actor
             execution (se_key ex) w
      else rejection X px (se_http_req ex) (rf_cause refusal) (rf_status refusal) (se_now ex) bound actor
             execution (se_key ex) (av_authorization (se_verdicts ex)) (av_admission (se_verdicts ex)) w)"

definition refuse ::
  "serve_lib \<Rightarrow> ('w, 'peer, 'p, 'r, 'x) HttpProfileProxy \<Rightarrow> ServeExchange \<Rightarrow> Refusal \<Rightarrow> ExchangeProgress \<Rightarrow> 'w \<Rightarrow> 'w \<times> HttpResponse" where
  "refuse X px ex refusal progress w =
     receipt_refuse X px ex refusal (disposition progress (rf_execution_refinement refusal)) w"

definition sign_reply ::
  "serve_lib \<Rightarrow> ServeExchange \<Rightarrow> HttpResponse \<Rightarrow> SigningWindow \<Rightarrow> HttpResponse \<times> (Refusal + bytes Established)" where
  "sign_reply X ex response win =
     (let a = sw_key win in
      case sign_delegated_response_full (sl_crypto X) (sl_json X) (sl_response_block X) response (se_http_req ex)
             (fl_evidence (vr_floor (se_verified ex))) (ak_server_signer a) (ak_credential a) (ak_key a) (ak_delegated_kid a)
             (sw_created win) (sw_expires win) of
        (response, Inl e) \<Rightarrow> (response, Err (after_admission (carrier e) 500))
      | (response, Inr base) \<Rightarrow> (response, Ok \<lparr>est_value = base, est_event = ResponseSigned\<rparr>))"

section \<open>Admission of the request\<close>

subsection \<open>The degraded window\<close>

text \<open>Instants of the monotonic clock are nanoseconds; the difference of two of them saturates at zero.\<close>

definition record_read :: "'w AdmissionEnforcer \<Rightarrow> nat \<Rightarrow> 'w \<Rightarrow> 'w" where
  "record_read en at w =
     (if (case en_last_read en w of None \<Rightarrow> True | Some previous \<Rightarrow> at > previous)
      then en_set_last_read en (Some at) w else w)"

definition degraded_window_of :: "AdmissionPolicy \<Rightarrow> nat" where
  "degraded_window_of policy = nat (ap_degraded_propagation_bound policy) * 1000000000"

definition exhausted :: "'w AdmissionEnforcer \<Rightarrow> nat \<Rightarrow> 'w \<Rightarrow> bool" where
  "exhausted en now w =
     (if \<not> ap_allow_degraded_mode (en_policy en) then True
      else case en_last_read en w of
             None \<Rightarrow> True
           | Some since \<Rightarrow> now - since > degraded_window_of (en_policy en))"

definition enforcer_decide ::
  "serve_lib \<Rightarrow> 'w AdmissionEnforcer \<Rightarrow> AdmissionBinding VerifiedMcpRequest \<Rightarrow> string \<Rightarrow> string \<Rightarrow> int \<Rightarrow> 'w
   \<Rightarrow> 'w \<times> (HttpProfileError + AdmissionFacet)" where
  "enforcer_decide X en verified actor audience now w =
     (case (admission (vr_request_block verified), admission_assertion (vr_request_block verified)) of
        (Some binding, Some assertion) \<Rightarrow>
          (case en_instant en w of (w, elapsed_at) \<Rightarrow>
           let conclude = (\<lambda>authoritative w.
             (w, try_bind (check_admission (sl_crypto X) (sl_admission X) binding assertion actor authoritative PROFILE_TAG
                             [audience] (en_policy en) now (en_resolve_authority en)) (\<lambda>verdict.
                 case verdict of
                   Live _ \<Rightarrow> Ok LiveConfirmed
                 | DegradedCandidate _ \<Rightarrow>
                     if exhausted en elapsed_at w then Err AdmissionStateUnavailable else Ok Degraded))) in
           (case en_source en w (adb_admission_id binding) now of
              (w, Inr (Some state)) \<Rightarrow> conclude (Some state) (record_read en elapsed_at w)
            | (w, Inr None) \<Rightarrow> (record_read en elapsed_at w, Err AdmissionNotCurrent)
            | (w, Inl _) \<Rightarrow> conclude None w))
      | _ \<Rightarrow> if en_enforcement en = AdmissionEnforcement.Required then (w, Err AdmissionStateUnavailable)
             else (w, Ok NotConfigured))"

subsection \<open>The stages\<close>

text \<open>
  The value of a stage, or its refusal turned into the response that ends the exchange; \<open>establishing\<close>
  also advances the exchange by the event of the value.
\<close>

definition or_refuse ::
  "serve_lib \<Rightarrow> ('w, 'peer, 'p, 'r, 'x) HttpProfileProxy \<Rightarrow> ServeExchange \<Rightarrow> ExchangeProgress \<Rightarrow> 'w \<times> (Refusal + 'a)
   \<Rightarrow> ('w \<times> ExchangeProgress) \<times> (HttpResponse + 'a)" where
  "or_refuse X px ex progress result =
     (case result of
        (w, Inl refusal) \<Rightarrow> (case refuse X px ex refusal progress w of (w, rsp) \<Rightarrow> ((w, progress), Err rsp))
      | (w, Inr v) \<Rightarrow> ((w, progress), Ok v))"

definition establishing ::
  "('w \<times> ExchangeProgress) \<times> (HttpResponse + 'a Established) \<Rightarrow> ('w \<times> ExchangeProgress) \<times> (HttpResponse + 'a)" where
  "establishing result =
     and_then result (\<lambda>(w, progress) established. case establish established progress of (v, progress) \<Rightarrow> ((w, progress), Ok v))"

definition request_verify ::
  "serve_lib \<Rightarrow> ('w, 'peer, 'p, 'r, 'x) HttpProfileProxy \<Rightarrow> HttpRequest \<Rightarrow> int
   \<Rightarrow> Refusal + AdmissionBinding VerifiedMcpRequest Established" where
  "request_verify X px http_req now =
     (case full_request (sl_crypto X) (sl_json X) (sl_request_block X) http_req (px_expected_audience px) (\<lambda>_. None)
             (px_resolve_actor px) (px_policy px) now of
        Inr v \<Rightarrow> Ok \<lparr>est_value = v, est_event = SignatureVerified\<rparr>
      | Inl e \<Rightarrow> Err (preflight (carrier e) 403))"

definition validate_envelope :: "serve_lib \<Rightarrow> HttpRequest \<Rightarrow> Refusal + OutstandingId" where
  "validate_envelope X http_req =
     map_err (\<lambda>e. before_admission (carrier e) 400) (validate_request_envelope (sl_json X) (rq_body http_req))"

definition verify_stage ::
  "serve_lib \<Rightarrow> ('w, 'peer, 'p, 'r, 'x) HttpProfileProxy \<Rightarrow> HttpRequest \<Rightarrow> int \<Rightarrow> 'w \<Rightarrow> ExchangeProgress
   \<Rightarrow> ('w \<times> ExchangeProgress) \<times> (HttpResponse + AdmissionBinding VerifiedMcpRequest)" where
  "verify_stage X px http_req now w progress =
     (case request_verify X px http_req now of
        Inr verified \<Rightarrow> (case establish verified progress of (v, progress) \<Rightarrow> ((w, progress), Ok v))
      | Inl refusal \<Rightarrow>
          (case rejection X px http_req (rf_cause refusal) (rf_status refusal) now None None
                  (disposition progress None) None None None w of
             (w, rsp) \<Rightarrow> ((w, progress), Err rsp)))"

definition transport_binding_stage ::
  "('w, 'peer, 'p, 'r, 'x) HttpProfileProxy \<Rightarrow> ServeExchange \<Rightarrow> 'peer option
   \<Rightarrow> Refusal + 'peer RequestPeerBindingFacts option Established" where
  "transport_binding_stage px ex peer =
     (case px_transport_binding px of
        None \<Rightarrow> Ok \<lparr>est_value = None, est_event = TransportBindingChecked\<rparr>
      | Some binding \<Rightarrow>
          (case transport_bind binding peer (verified_request_subject (fl_resolved_actor (vr_floor (se_verified ex)))) of
             Inl _ \<Rightarrow> Err (before_admission (taxonomy TransportBindingFailed) 403)
           | Inr bound \<Rightarrow> Ok \<lparr>est_value = Some bound, est_event = TransportBindingChecked\<rparr>))"

definition admission_stage ::
  "serve_lib \<Rightarrow> ('w, 'peer, 'p, 'r, 'x) HttpProfileProxy \<Rightarrow> ServeExchange \<Rightarrow> 'peer RequestPeerBindingFacts option \<Rightarrow> 'w
   \<Rightarrow> 'w \<times> (Refusal + ('peer RequestPeerBindingFacts option \<times> AdmissionFacet) Established)" where
  "admission_stage X px ex bound w =
     (let admitted = (\<lambda>facet. \<lparr>est_value = (bound, facet), est_event = AdmissionCurrencyChecked\<rparr>) in
      case px_admission px of
        None \<Rightarrow> (w, Ok (admitted NotConfigured))
      | Some en \<Rightarrow>
          (case enforcer_decide X en (se_verified ex) (se_actor_id ex) (audience_id (px_expected_audience px)) (se_now ex) w of
             (w, Inr facet) \<Rightarrow> (w, Ok (admitted facet))
           | (w, Inl e) \<Rightarrow> (w, Err (before_admission (carrier e) 403))))"

definition authorization_stage ::
  "serve_lib \<Rightarrow> ('w, 'peer, 'p, 'r, 'x) HttpProfileProxy \<Rightarrow> ServeExchange \<Rightarrow> 'peer RequestPeerBindingFacts option \<Rightarrow> 'w
   \<Rightarrow> 'w \<times> (Refusal + (AdmissionBinding, 'peer) AuthorizationPosture)" where
  "authorization_stage X px ex binding w =
     (case authorize (sl_crypto X) (sl_json X) (px_authorization px) w (se_verified ex) (rq_body (se_http_req ex)) binding of
        (w, r) \<Rightarrow> (w, map_err (\<lambda>refusal. before_admission (AuthorizationCause refusal) 403) r))"

record 'peer AdmittedRequest =
  am_outstanding :: OutstandingId
  am_authorized :: "(AdmissionBinding, 'peer) AuthorizationPosture"

text \<open>The exchange is returned with the verdicts the stages reached.\<close>

definition admit_request ::
  "serve_lib \<Rightarrow> ('w, 'peer, 'p, 'r, 'x) HttpProfileProxy \<Rightarrow> ServeExchange \<Rightarrow> 'peer option \<Rightarrow> 'w \<Rightarrow> ExchangeProgress
   \<Rightarrow> ('w \<times> ExchangeProgress) \<times> (HttpResponse + ServeExchange \<times> 'peer AdmittedRequest)" where
  "admit_request X px ex peer w progress =
     and_then (or_refuse X px ex progress (w, validate_envelope X (se_http_req ex))) (\<lambda>(w, progress) outstanding.
     and_then (establishing (or_refuse X px ex progress (w, transport_binding_stage px ex peer))) (\<lambda>(w, progress) bound.
     and_then (establishing (or_refuse X px ex progress (admission_stage X px ex bound w))) (\<lambda>(w, progress) (decided_over, facet).
     let ex = ex\<lparr>se_verdicts := (se_verdicts ex)\<lparr>av_admission := Some facet\<rparr>\<rparr> in
     and_then (or_refuse X px ex progress (authorization_stage X px ex decided_over w)) (\<lambda>(w, progress) authorized.
     let ex = ex\<lparr>se_verdicts := (se_verdicts ex)\<lparr>av_authorization := Some (posture_audit_facet authorized)\<rparr>\<rparr> in
     ((w, progress), Ok (ex, \<lparr>am_outstanding = outstanding, am_authorized = authorized\<rparr>))))))"

definition record_request_accepted ::
  "('w, 'peer, 'p, 'r, 'x) HttpProfileProxy \<Rightarrow> 'peer AdmittedRequest \<Rightarrow> AdmissionFacet option \<Rightarrow> string \<Rightarrow> int \<Rightarrow> 'w \<Rightarrow> 'w" where
  "record_request_accepted px admitted facet actor now w =
     record_to (px_audit px)
       (subject_request_accepted (posture_audit_facet (am_authorized admitted)) (case facet of Some f \<Rightarrow> f | None \<Rightarrow> NotReached))
       (Some actor) 200 now w"

section \<open>Committing to an answer\<close>

definition extract_request_state :: "json_lib \<Rightarrow> bytes \<Rightarrow> string option" where
  "extract_request_state J body =
     Option.bind (from_slice J body) (\<lambda>v. Option.bind (json_get v ''params'') (\<lambda>params.
     Option.bind (json_get params ''requestState'') as_str))"

record ContinuationPrep =
  cp_answer_state :: "string option"
  cp_answer_key :: "string option"
  cp_retained :: "RetainedBases option"

definition peeked_or_refusal :: "ContinuationStoreError + RetainedBases option \<Rightarrow> Refusal + RetainedBases option" where
  "peeked_or_refusal peeked = map_err (\<lambda>_. before_admission (taxonomy mcp_re_error.ReplayCacheUnavailable) 503) peeked"

definition capability_absent :: Refusal where
  "capability_absent = before_admission (taxonomy mcp_re_error.ReplayCacheUnavailable) 503"

definition continuation_prepare ::
  "serve_lib \<Rightarrow> ('w, 'peer, 'p, 'r, 'x) HttpProfileProxy \<Rightarrow> ServeExchange \<Rightarrow> string \<Rightarrow> 'w
   \<Rightarrow> 'w \<times> (Refusal + ContinuationPrep Established)" where
  "continuation_prepare X px ex audience w =
     (let answer_state = (if continuation (vr_request_block (se_verified ex)) \<noteq> None
                          then extract_request_state (sl_json X) (rq_body (se_http_req ex)) else None);
          answer_key = map_option (continuation_key (sl_crypto X) audience (se_actor_id ex)) answer_state;
          prep = (\<lambda>retained. \<lparr>est_value = \<lparr>cp_answer_state = answer_state, cp_answer_key = answer_key, cp_retained = retained\<rparr>,
                              est_event = ExchangeEvent.ContinuationPrepared\<rparr>) in
      case (px_continuations px, answer_key) of
        (Some store, Some key) \<Rightarrow>
          (case co_peek store w key of
             (w, peeked) \<Rightarrow> (w, try_bind (peeked_or_refusal peeked) (\<lambda>retained. Ok (prep retained))))
      | (None, Some _) \<Rightarrow> (w, Err capability_absent)
      | _ \<Rightarrow> (w, Ok (prep None)))"

definition prep_binding :: "ContinuationPrep \<Rightarrow> RetainedContinuation option" where
  "prep_binding prep =
     (case (cp_retained prep, cp_answer_state prep) of
        (Some bases, Some state) \<Rightarrow>
          Some \<lparr>ret_previous_request_base = rb_previous_request_base bases,
                ret_input_required_response_base = rb_input_required_response_base bases, ret_request_state = state\<rparr>
      | _ \<Rightarrow> None)"

definition was_peeked :: "ContinuationPrep \<Rightarrow> bool" where
  "was_peeked prep \<longleftrightarrow> cp_retained prep \<noteq> None"

datatype Retirement = NotInvolved | Retired | AlreadyAnswered | Indeterminate

definition continuation_retire ::
  "('w, 'peer, 'p, 'r, 'x) HttpProfileProxy \<Rightarrow> string option \<Rightarrow> 'w \<Rightarrow> 'w \<times> Retirement" where
  "continuation_retire px answer_key w =
     (case (px_continuations px, answer_key) of
        (Some store, Some key) \<Rightarrow>
          (case co_consume store w key of
             (w, Inr True) \<Rightarrow> (w, Retired)
           | (w, Inr False) \<Rightarrow> (w, AlreadyAnswered)
           | (w, Inl _) \<Rightarrow> (w, Retirement.Indeterminate))
      | _ \<Rightarrow> (w, Retirement.NotInvolved))"

definition replay_admission_stage ::
  "serve_lib \<Rightarrow> ('w, 'peer, 'p, 'r, 'x) HttpProfileProxy \<Rightarrow> ServeExchange \<Rightarrow> RetainedContinuation option \<Rightarrow> 'w
   \<Rightarrow> 'w \<times> (Refusal + unit Established)" where
  "replay_admission_stage X px ex ctx w =
     (case dispatch_request_with_async_tier (sl_crypto X) (px_replay_class px) (px_replay_async px) (se_verified ex) w ctx
             (px_dispatch_cfg px) (se_now ex) of
        (w, Inr _) \<Rightarrow> (w, Ok \<lparr>est_value = (), est_event = ExchangeEvent.ReplayAdmitted\<rparr>)
      | (w, Inl e) \<Rightarrow> (w, Err (before_admission (CoreCause (DispatchVerdict e)) 409)))"

definition answerable_stage ::
  "('w, 'peer, 'p, 'r, 'x) HttpProfileProxy \<Rightarrow> ServeExchange \<Rightarrow> 'w \<Rightarrow> 'w \<times> (Refusal + SigningWindow Established)" where
  "answerable_stage px ex w =
     (case px_signer px w of
        (w, s) \<Rightarrow>
          (case window_open s (se_now ex) (px_sig_ttl_secs px) of
             Some win \<Rightarrow> (w, Ok \<lparr>est_value = win, est_event = DelegatedKeySnapshotted\<rparr>)
           | None \<Rightarrow> (w, Err (before_admission (taxonomy DelegatedSigningUnavailable) 503))))"

definition observe_retirement ::
  "serve_lib \<Rightarrow> ('w, 'peer, 'p, 'r, 'x) HttpProfileProxy \<Rightarrow> ServeExchange \<Rightarrow> Retirement \<Rightarrow> 'w \<Rightarrow> ExchangeProgress
   \<Rightarrow> ('w \<times> ExchangeProgress) \<times> (HttpResponse + unit)" where
  "observe_retirement X px ex retirement w progress =
     (case retirement of
        Retirement.NotInvolved \<Rightarrow> ((w, progress), Ok ())
      | Retired \<Rightarrow> ((w, observe_continuation Consumed progress), Ok ())
      | AlreadyAnswered \<Rightarrow>
          or_refuse X px ex progress (w, Err (before_admission (taxonomy mcp_re_error.ContinuationBindingFailed) 409))
      | Retirement.Indeterminate \<Rightarrow>
          or_refuse X px ex (observe_continuation Consumed progress)
            (w, Err (before_admission (taxonomy mcp_re_error.ReplayCacheUnavailable) 503)))"

definition commit_to_answering ::
  "serve_lib \<Rightarrow> ('w, 'peer, 'p, 'r, 'x) HttpProfileProxy \<Rightarrow> ServeExchange \<Rightarrow> 'w \<Rightarrow> ExchangeProgress
   \<Rightarrow> ('w \<times> ExchangeProgress) \<times> (HttpResponse + ServeExchange \<times> SigningWindow)" where
  "commit_to_answering X px ex w progress =
     and_then (establishing (or_refuse X px ex progress
                 (continuation_prepare X px ex (audience_id (px_expected_audience px)) w))) (\<lambda>(w, progress) prep.
     let progress = (if was_peeked prep then observe_continuation Peeked progress else progress) in
     and_then (establishing (or_refuse X px ex progress (replay_admission_stage X px ex (prep_binding prep) w))) (\<lambda>(w, progress) _.
     and_then (establishing (or_refuse X px ex progress (answerable_stage px ex w))) (\<lambda>(w, progress) win.
     let ex = ex\<lparr>se_key := Some (sw_key win)\<rparr> in
     case continuation_retire px (cp_answer_key prep) w of (w, retirement) \<Rightarrow>
     and_then (observe_retirement X px ex retirement w progress) (\<lambda>(w, progress) _.
     ((w, advance ExchangeEvent.ContinuationRetired progress), Ok (ex, win))))))"

section \<open>Committing to the dispatch\<close>

definition from_verified :: "'adm VerifiedMcpRequest \<Rightarrow> int \<Rightarrow> VerifiedContext" where
  "from_verified verified verified_at =
     (let fl = vr_floor verified in
      \<lparr>vc_profile = fl_profile_id fl, vc_actor_id = resolved_actor_id (fl_resolved_actor fl), vc_key_id = fl_key_id fl,
       vc_audience = vr_audience verified, vc_request_evidence = fl_evidence fl, vc_verified_at = verified_at,
       vc_request_expires = fl_expires fl\<rparr>)"

text \<open>The bytes of the forwarded body; the positions the caller seeded are only reported.\<close>

definition forwarded_body_prepare ::
  "serve_lib \<Rightarrow> bytes \<Rightarrow> AdmissionBinding VerifiedMcpRequest \<Rightarrow> VerifiedContextPolicy \<Rightarrow> int \<Rightarrow> HttpProfileError + bytes" where
  "forwarded_body_prepare X body verified policy now =
     (if \<not> covers_body (sl_crypto X) (vr_floor verified) body
      then Err (MalformedEvidence ''forwarded body is not the verified request body'')
      else
        try_bind (strip_proxy_owned_meta (sl_json X) body) (\<lambda>stripped.
        case trusted_inner_channel policy of
          None \<Rightarrow> Ok (sb_body stripped)
        | Some trusted_channel \<Rightarrow>
            insert_verified_context (sl_json X) stripped (sl_context X (from_verified verified now)) trusted_channel))"

definition forward_body_stage ::
  "serve_lib \<Rightarrow> ('w, 'peer, 'p, 'r, 'x) HttpProfileProxy \<Rightarrow> ServeExchange \<Rightarrow> Refusal + bytes Established" where
  "forward_body_stage X px ex =
     try_bind (map_err (\<lambda>e. after_admission (carrier e) 500)
       (forwarded_body_prepare X (rq_body (se_http_req ex)) (se_verified ex) (px_verified_context_policy px) (se_now ex)))
       (\<lambda>forwarded. Ok \<lparr>est_value = forwarded, est_event = ForwardBodyPrepared\<rparr>)"

definition posture_release :: "('adm, 'peer) AuthorizationPosture \<Rightarrow> bytes \<Rightarrow> bytes" where
  "posture_release authorized body = body"

definition inner_prepare ::
  "('w, 'peer, 'p, 'r, 'x) HttpProfileProxy \<Rightarrow> bytes \<Rightarrow> 'w \<Rightarrow> 'w \<times> (Refusal + ('p \<times> DispatchCompletionBound) Established)" where
  "inner_prepare px forwarded w =
     (case px_inner_prepare px w forwarded of
        (w, Inr prepared) \<Rightarrow> (w, Ok \<lparr>est_value = prepared, est_event = ExchangeEvent.InnerPlaneAccepted\<rparr>)
      | (w, Inl _) \<Rightarrow> (w, Err (after_admission (taxonomy InnerPlaneUnavailable) 503)))"

datatype ('w, 'r, 'x) PreDispatchRetention = RetentionNotConfigured | Reserved "('w, 'r, 'x) retention_ops" 'r

datatype ('w, 'r, 'x) RetentionDisposition = NothingOwed | Committed "('w, 'r, 'x) retention_ops" 'x

definition pre_dispatch_refusal :: "RetentionError \<Rightarrow> Refusal" where
  "pre_dispatch_refusal e =
     (let unavailable = (\<lambda>code. after_admission (taxonomy EvidenceRetentionUnavailable) code) in
      case e of
        Unresolved _ \<Rightarrow> refining (unavailable 500) NothingExecutedRetentionUnresolved
      | StoreRetired _ \<Rightarrow> unavailable 500
      | RetentionStore _ \<Rightarrow> unavailable 503
      | RetentionMalformed _ \<Rightarrow> unavailable 500
      | AlreadyCompleted \<Rightarrow> unavailable 500)"

definition retention_reserve ::
  "('w, 'peer, 'p, 'r, 'x) HttpProfileProxy \<Rightarrow> HttpRequest \<Rightarrow> 'w \<Rightarrow> 'w \<times> (Refusal + ('w, 'r, 'x) PreDispatchRetention)" where
  "retention_reserve px request w =
     (case px_retention px of
        None \<Rightarrow> (w, Ok RetentionNotConfigured)
      | Some store \<Rightarrow>
          (case re_reserve store w request of
             (w, Inr reservation) \<Rightarrow> (w, Ok (Reserved store reservation))
           | (w, Inl e) \<Rightarrow> (w, Err (pre_dispatch_refusal e))))"

definition retention_commit ::
  "('w, 'r, 'x) PreDispatchRetention \<Rightarrow> 'w \<Rightarrow> 'w \<times> (Refusal + ('w, 'r, 'x) RetentionDisposition Established)" where
  "retention_commit accepted w =
     (let committed = (\<lambda>d. \<lparr>est_value = d, est_event = ExchangeEvent.RetentionCommitted\<rparr>) in
      case accepted of
        RetentionNotConfigured \<Rightarrow> (w, Ok (committed NothingOwed))
      | Reserved store reservation \<Rightarrow>
          (case re_commit_to_dispatch store w reservation of
             (w, Inr crossing) \<Rightarrow> (w, Ok (committed (Committed store crossing)))
           | (w, Inl e) \<Rightarrow> (w, Err (pre_dispatch_refusal e))))"

datatype RetentionOutcome = OutcomeNotConfigured | OutcomeRetained | OutcomeFailed

definition is_accounted_for :: "RetentionOutcome \<Rightarrow> bool" where
  "is_accounted_for outcome \<longleftrightarrow> outcome = OutcomeRetained \<or> outcome = OutcomeNotConfigured"

definition retention_complete ::
  "('w, 'r, 'x) RetentionDisposition \<Rightarrow> HttpResponse \<Rightarrow> 'w \<Rightarrow> 'w \<times> RetentionOutcome" where
  "retention_complete owed response w =
     (case owed of
        NothingOwed \<Rightarrow> (w, OutcomeNotConfigured)
      | Committed store crossing \<Rightarrow>
          (case re_complete store w crossing response of
             (w, Inr _) \<Rightarrow> (w, OutcomeRetained)
           | (w, Inl _) \<Rightarrow> (w, OutcomeFailed)))"

definition commit_to_dispatch ::
  "serve_lib \<Rightarrow> ('w, 'peer, 'p, 'r, 'x) HttpProfileProxy \<Rightarrow> ServeExchange \<Rightarrow> (AdmissionBinding, 'peer) AuthorizationPosture
   \<Rightarrow> SigningWindow \<Rightarrow> 'w \<Rightarrow> ExchangeProgress
   \<Rightarrow> ('w \<times> ExchangeProgress) \<times> (HttpResponse + 'p \<times> ('w, 'r, 'x) RetentionDisposition)" where
  "commit_to_dispatch X px ex authorized win w progress =
     and_then (establishing (or_refuse X px ex progress (w, forward_body_stage X px ex))) (\<lambda>(w, progress) forwarded.
     and_then (establishing (or_refuse X px ex progress (inner_prepare px (posture_release authorized forwarded) w)))
       (\<lambda>(w, progress) (prepared, completion).
     and_then (or_refuse X px ex progress
                 (w, require (window_covers win completion) (after_admission (taxonomy DelegatedSigningUnavailable) 503)))
       (\<lambda>(w, progress) _.
     and_then (or_refuse X px ex progress (retention_reserve px (se_http_req ex) w)) (\<lambda>(w, progress) accepted.
     and_then (establishing (or_refuse X px ex progress (retention_commit accepted w))) (\<lambda>(w, progress) retention.
     ((w, progress), Ok (prepared, retention)))))))"

section \<open>The reply\<close>

definition observe_reply ::
  "DispatchedOutcome \<Rightarrow> ExchangeProgress \<Rightarrow> ExchangeProgress \<times> (Refusal + bytes Established)" where
  "observe_reply outcome progress =
     (case outcome of
        Replied body \<Rightarrow>
          (observe_origin BackendReplied progress, Ok \<lparr>est_value = body, est_event = ExchangeEvent.ResponseObserved\<rparr>)
      | DispatchedOutcome.Indeterminate _ \<Rightarrow>
          (observe_origin DispatchIndeterminate progress, Err (after_admission (taxonomy InnerDispatchIndeterminate) 504))
      | InvalidUpstream clause \<Rightarrow> (progress, Err (after_admission (carrier (UpstreamResponseInvalid clause)) 502)))"

definition observe_acknowledgement ::
  "DispatchedOutcome \<Rightarrow> ExchangeProgress \<Rightarrow> ExchangeProgress \<times> (Refusal + unit Established)" where
  "observe_acknowledgement outcome progress =
     (case outcome of
        DispatchedOutcome.Indeterminate _ \<Rightarrow>
          (observe_origin DispatchIndeterminate progress, Err (after_admission (taxonomy InnerDispatchIndeterminate) 504))
      | _ \<Rightarrow> (observe_origin BackendReplied progress, Ok \<lparr>est_value = (), est_event = NotificationAcknowledged\<rparr>))"

definition reply_invalid :: "string \<Rightarrow> Refusal" where
  "reply_invalid clause = after_admission (carrier (UpstreamResponseInvalid clause)) 502"

text \<open>A validated reply is the parsed body.\<close>

definition validated_reply :: "json_lib \<Rightarrow> HttpResponse \<Rightarrow> OutstandingId \<Rightarrow> Refusal + json" where
  "validated_reply J response outstanding =
     try_bind (map_err (\<lambda>e. case e of UpstreamResponseInvalid clause \<Rightarrow> reply_invalid clause | _ \<Rightarrow> reply_invalid ''response body'')
                 (parse_response_body J (rsp_body response))) (\<lambda>parsed.
     case validate_response_envelope parsed outstanding of
       Inr _ \<Rightarrow> Ok parsed
     | Inl (UpstreamResponseInvalid clause) \<Rightarrow> Err (reply_invalid clause)
     | Inl e \<Rightarrow> Err (after_admission (carrier e) 502))"

datatype ReplyClass = TerminalReply | OpenReply string

definition reply_classify :: "json \<Rightarrow> Refusal + ReplyClass" where
  "reply_classify parsed =
     (let result = json_get parsed ''result'' in
      case classify_result_type result of
        Complete \<Rightarrow> Ok TerminalReply
      | Unrecognized \<Rightarrow> Err (after_admission (carrier UnrecognizedResultType) 502)
      | InputRequired \<Rightarrow>
          (case input_required_state_of result of
             Inr (Some state) \<Rightarrow> Ok (OpenReply state)
           | _ \<Rightarrow> Err (after_admission (carrier (UpstreamResponseInvalid ''input_required requestState'')) 502)))"

definition read_reply ::
  "serve_lib \<Rightarrow> HttpResponse \<Rightarrow> OutstandingId \<Rightarrow> ExchangeProgress \<Rightarrow> ExchangeProgress \<times> (Refusal + ReplyClass)" where
  "read_reply X response outstanding progress =
     (case validated_reply (sl_json X) response outstanding of
        Inl e \<Rightarrow> (progress, Err e)
      | Inr parsed \<Rightarrow>
          (let progress = advance EnvelopeValidated progress in
           case reply_classify parsed of
             Inl e \<Rightarrow> (progress, Err e)
           | Inr cls \<Rightarrow>
               (observe_open_leg (case cls of TerminalReply \<Rightarrow> NotApplicable | OpenReply _ \<Rightarrow> OpenLeg.Required)
                  (advance ExchangeEvent.ResponseClassified progress), Ok cls)))"

definition RECORD_ATTEMPTS :: nat where "RECORD_ATTEMPTS = 3"

text \<open>The attempts at recording a leg: only an error of the store is tried again.\<close>

primrec create_attempts ::
  "nat \<Rightarrow> 'w continuation_ops \<Rightarrow> string \<Rightarrow> RetainedBases \<Rightarrow> int \<Rightarrow> 'w \<Rightarrow> 'w \<times> (Refusal + unit Established)" where
  "create_attempts 0 store key bases ttl w = (w, Err (after_admission (taxonomy mcp_re_error.ReplayCacheUnavailable) 503))"
| "create_attempts (Suc n) store key bases ttl w =
     (case co_create store w key bases ttl of
        (w, Inr Stored) \<Rightarrow> (w, Ok \<lparr>est_value = (), est_event = OpenLegRecorded\<rparr>)
      | (w, Inr Collision) \<Rightarrow> (w, Err (after_admission (taxonomy ContinuationConflict) 409))
      | (w, Inl _) \<Rightarrow> create_attempts n store key bases ttl w)"

definition record_open_leg ::
  "serve_lib \<Rightarrow> ('w, 'peer, 'p, 'r, 'x) HttpProfileProxy \<Rightarrow> ServeExchange \<Rightarrow> string \<Rightarrow> string \<Rightarrow> bytes \<Rightarrow> 'w
   \<Rightarrow> 'w \<times> (Refusal + unit Established)" where
  "record_open_leg X px ex audience state response_base w =
     (case px_continuations px of
        None \<Rightarrow> (w, Err (after_admission (taxonomy mcp_re_error.ReplayCacheUnavailable) 503))
      | Some store \<Rightarrow>
          create_attempts RECORD_ATTEMPTS store (continuation_key (sl_crypto X) audience (se_actor_id ex) state)
            \<lparr>rb_previous_request_base = fl_request_signature_base (vr_floor (se_verified ex)),
             rb_input_required_response_base = response_base\<rparr> (px_continuation_ttl_secs px) w)"

definition refuse_retained ::
  "serve_lib \<Rightarrow> ('w, 'peer, 'p, 'r, 'x) HttpProfileProxy \<Rightarrow> ServeExchange \<Rightarrow> Refusal \<Rightarrow> ExchangeProgress
   \<Rightarrow> ('w, 'r, 'x) RetentionDisposition \<Rightarrow> 'w \<Rightarrow> 'w \<times> HttpResponse" where
  "refuse_retained X px ex refusal progress owed w =
     (case refuse X px ex refusal progress w of
        (w, rsp) \<Rightarrow> (case retention_complete owed rsp w of (w, _) \<Rightarrow> (w, rsp)))"

definition retain_accepted ::
  "serve_lib \<Rightarrow> ('w, 'peer, 'p, 'r, 'x) HttpProfileProxy \<Rightarrow> HttpRequest \<Rightarrow> HttpResponse \<Rightarrow> int \<Rightarrow> RequestEvidence option
   \<Rightarrow> string \<Rightarrow> ('w, 'r, 'x) RetentionDisposition \<Rightarrow> ExecutionDisposition \<Rightarrow> ActiveDelegatedKey option \<Rightarrow> 'w
   \<Rightarrow> 'w \<times> HttpResponse option" where
  "retain_accepted X px request response now bound actor owed execution snapshot w =
     (case retention_complete owed response w of
        (w, outcome) \<Rightarrow>
          if is_accounted_for outcome then (w, None)
          else (case response_rejection X px request (taxonomy EvidenceRetentionIndeterminate) 500 now bound (Some actor)
                       execution snapshot w of
                  (w, rsp) \<Rightarrow> (w, Some rsp)))"

section \<open>Notifications\<close>

definition answer_notification ::
  "serve_lib \<Rightarrow> ('w, 'peer, 'p, 'r, 'x) HttpProfileProxy \<Rightarrow> HttpRequest \<Rightarrow> SigningWindow \<Rightarrow> int
   \<Rightarrow> AdmissionBinding VerifiedMcpRequest \<Rightarrow> string \<Rightarrow> ('w, 'r, 'x) RetentionDisposition \<Rightarrow> ExecutionDisposition \<Rightarrow> 'w
   \<Rightarrow> 'w \<times> HttpResponse" where
  "answer_notification X px http_req win now verified actor owed execution w =
     (let a = sw_key win in
      case sign_delegated_accepted_202 (sl_crypto X) http_req (ak_credential a) (ak_key a) (ak_delegated_kid a)
             (sw_created win) (sw_expires win) of
        Inr ack \<Rightarrow>
          (case retain_accepted X px http_req ack now (Some (fl_evidence (vr_floor verified))) actor owed execution
                  (Some (sw_key win)) w of
             (w, Some rsp) \<Rightarrow> (w, rsp)
           | (w, None) \<Rightarrow> (record_to (px_audit px) subject_response_signed (Some actor) 202 now w, ack))
      | Inl e \<Rightarrow>
          response_rejection X px http_req (carrier e) 500 now (Some (fl_evidence (vr_floor verified))) (Some actor)
            execution (Some (sw_key win)) w)"

definition answer_notification_terminal ::
  "serve_lib \<Rightarrow> ('w, 'peer, 'p, 'r, 'x) HttpProfileProxy \<Rightarrow> ServeExchange \<Rightarrow> DispatchedOutcome \<Rightarrow> SigningWindow
   \<Rightarrow> ('w, 'r, 'x) RetentionDisposition \<Rightarrow> 'w \<Rightarrow> ExchangeProgress \<Rightarrow> 'w \<times> HttpResponse" where
  "answer_notification_terminal X px ex outcome win owed w progress =
     (case observe_acknowledgement outcome progress of
        (progress, Inl refusal) \<Rightarrow> refuse_retained X px ex refusal progress owed w
      | (progress, Inr acknowledged) \<Rightarrow>
          (case establish_terminal acknowledged progress of
             (Inl _, progress) \<Rightarrow>
               refuse_retained X px ex (after_admission (taxonomy ExchangeInvariantViolation) 500) progress owed w
           | (Inr _, progress) \<Rightarrow>
               answer_notification X px (se_http_req ex) win (se_now ex) (se_verified ex) (se_actor_id ex) owed
                 (disposition progress None) w))"

section \<open>Replies\<close>

definition record_continuation_leg ::
  "serve_lib \<Rightarrow> ('w, 'peer, 'p, 'r, 'x) HttpProfileProxy \<Rightarrow> ServeExchange \<Rightarrow> ReplyClass \<Rightarrow> bytes \<Rightarrow> 'w \<Rightarrow> ExchangeProgress
   \<Rightarrow> ('w \<times> ExchangeProgress) \<times> (HttpResponse + unit)" where
  "record_continuation_leg X px ex cls response_base w progress =
     (case cls of
        TerminalReply \<Rightarrow> ((w, advance ContinuationNotRequired progress), Ok ())
      | OpenReply state \<Rightarrow>
          and_then (or_refuse X px ex progress
                      (record_open_leg X px ex (audience_id (px_expected_audience px)) state response_base w))
            (\<lambda>(w, progress) recorded.
             ((w, snd (establish recorded (observe_open_leg Recorded progress))), Ok ())))"

record SignedReply =
  sd_response :: HttpResponse
  sd_class :: ReplyClass

definition refusing_retained ::
  "serve_lib \<Rightarrow> ('w, 'peer, 'p, 'r, 'x) HttpProfileProxy \<Rightarrow> ServeExchange \<Rightarrow> ('w, 'r, 'x) RetentionDisposition \<Rightarrow> 'w
   \<Rightarrow> ExchangeProgress \<times> (Refusal + 'a) \<Rightarrow> ('w \<times> ExchangeProgress) \<times> (HttpResponse + 'a)" where
  "refusing_retained X px ex owed w result =
     (case result of
        (progress, Inl refusal) \<Rightarrow>
          (case refuse_retained X px ex refusal progress owed w of (w, rsp) \<Rightarrow> ((w, progress), Err rsp))
      | (progress, Inr v) \<Rightarrow> ((w, progress), Ok v))"

definition assemble_reply ::
  "serve_lib \<Rightarrow> ('w, 'peer, 'p, 'r, 'x) HttpProfileProxy \<Rightarrow> ServeExchange \<Rightarrow> DispatchedOutcome \<Rightarrow> OutstandingId
   \<Rightarrow> SigningWindow \<Rightarrow> ('w, 'r, 'x) RetentionDisposition \<Rightarrow> 'w \<Rightarrow> ExchangeProgress
   \<Rightarrow> ('w \<times> ExchangeProgress) \<times> (HttpResponse + SignedReply)" where
  "assemble_reply X px ex outcome outstanding win owed w progress =
     and_then (establishing (refusing_retained X px ex owed w (observe_reply outcome progress))) (\<lambda>(w, progress) inner_bytes.
     let response = \<lparr>rsp_status = 200, rsp_headers = [(''content-type'', ''application/json'')], rsp_body = inner_bytes\<rparr> in
     and_then (refusing_retained X px ex owed w (read_reply X response outstanding progress)) (\<lambda>(w, progress) cls.
     case sign_reply X ex response win of (response, signed) \<Rightarrow>
     and_then (establishing (or_refuse X px ex progress (w, signed))) (\<lambda>(w, progress) response_base.
     and_then (record_continuation_leg X px ex cls response_base w progress) (\<lambda>(w, progress) _.
     ((w, progress), Ok \<lparr>sd_response = response, sd_class = cls\<rparr>)))))"

definition serve_retained ::
  "serve_lib \<Rightarrow> ('w, 'peer, 'p, 'r, 'x) HttpProfileProxy \<Rightarrow> ServeExchange \<Rightarrow> SignedReply \<Rightarrow> ('w, 'r, 'x) RetentionDisposition
   \<Rightarrow> 'w \<Rightarrow> ExchangeProgress \<Rightarrow> ('w \<times> ExchangeProgress) \<times> HttpResponse" where
  "serve_retained X px ex reply owed w progress =
     (let success = (case sd_class reply of TerminalReply \<Rightarrow> Terminal | OpenReply _ \<Rightarrow> OpenLeg) in
      case may_publish success progress of
        (Inl _, progress) \<Rightarrow>
          (case refuse_retained X px ex (after_admission (taxonomy ExchangeInvariantViolation) 500) progress owed w of
             (w, rsp) \<Rightarrow> ((w, progress), rsp))
      | (Inr _, progress) \<Rightarrow>
          (case retain_accepted X px (se_http_req ex) (sd_response reply) (se_now ex)
                  (Some (fl_evidence (vr_floor (se_verified ex)))) (se_actor_id ex) owed (disposition progress None) (se_key ex) w of
             (w, Some rsp) \<Rightarrow> ((w, progress), rsp)
           | (w, None) \<Rightarrow>
               ((record_to (px_audit px) subject_response_signed (Some (se_actor_id ex)) (rsp_status (sd_response reply)) (se_now ex) w,
                 publish success progress), sd_response reply)))"

section \<open>One request\<close>

definition handle ::
  "serve_lib \<Rightarrow> ('w, 'peer, 'p, 'r, 'x) HttpProfileProxy \<Rightarrow> 'peer ServedHttpRequest \<Rightarrow> int \<Rightarrow> 'w \<Rightarrow> 'w \<times> HttpResponse" where
  "handle X px req now w =
     (case
       and_then (verify_stage X px (sq_http req) now w progress_new) (\<lambda>(w, progress) verified.
       let actor = resolved_actor_id (fl_resolved_actor (vr_floor verified));
           ex = \<lparr>se_http_req = sq_http req, se_verified = verified, se_actor_id = actor, se_now = now, se_key = None,
                 se_verdicts = \<lparr>av_authorization = None, av_admission = None\<rparr>\<rparr> in
       and_then (admit_request X px ex (sq_peer req) w progress) (\<lambda>(w, progress) (ex, admitted).
       and_then (commit_to_answering X px ex w progress) (\<lambda>(w, progress) (ex, win).
       let w = record_request_accepted px admitted (av_admission (se_verdicts ex)) actor now w in
       and_then (commit_to_dispatch X px ex (am_authorized admitted) win w progress) (\<lambda>(w, progress) (prepared, owed).
       let progress = advance BackendDispatched progress in
       case px_inner_transmit px w prepared of (w, outcome) \<Rightarrow>
       if am_outstanding admitted = Notification
       then (case answer_notification_terminal X px ex outcome win owed w progress of (w, rsp) \<Rightarrow> ((w, progress), Err rsp))
       else
         and_then (assemble_reply X px ex outcome (am_outstanding admitted) win owed w progress) (\<lambda>(w, progress) reply.
         case serve_retained X px ex reply owed w progress of (s, rsp) \<Rightarrow> (s, Ok rsp)))))) of
        ((w, _), Inl rsp) \<Rightarrow> (w, rsp)
      | ((w, _), Inr rsp) \<Rightarrow> (w, rsp))"

end
