(* ===== verification/Serve_Trace.thy ===== *)
theory Serve_Trace
  imports Serve "HOL-Library.Multiset"
begin

text \<open>
  What serving one request does to the capabilities of the proxy. \<open>traced\<close> wraps every capability so
  that it also appends what it was asked and what it answered to a log; the path itself is unchanged.

  \<^item> \<open>budget\<close> and \<open>serve_calls\<close>: whatever the capabilities answer, a request is served with at most one
    dispatch, one replay insertion, one consumed approval, three attempts at recording a leg and one
    completion of the retention crossing;
  \<^item> the statuses a request can be answered with, and what precedes each of the successes.
\<close>

section \<open>The log\<close>

datatype ('peer, 'p, 'r, 'x) serve_event =
    AdmissionRead string int "AdmissionSourceError + AuthoritativeAdmission option"
  | Evaluated "(AdmissionBinding, 'peer) AuthorizationRequest" "PolicyError + AuthorizedDecision"
  | LegPeeked string "ContinuationStoreError + RetainedBases option"
  | ReplayChecked ReplayKey int "ReplayCacheError + ReplayDecision"
  | SignerRead Snapshot
  | LegConsumed string "ContinuationStoreError + bool"
  | InnerPrepared bytes "NotAdmitted + 'p \<times> DispatchCompletionBound"
  | RetentionReserved HttpRequest "RetentionError + 'r"
  | CrossingRecorded 'r "RetentionError + 'x"
  | Transmitted 'p DispatchedOutcome
  | LegCreated string RetainedBases int "ContinuationStoreError + Creation"
  | CrossingCompleted 'x HttpResponse "RetentionError + unit"
  | Audited AuditRecord

datatype call =
    AdmissionCall | EvaluatorCall | PeekCall | ReplayCall | SignerCall | ConsumeCall | PrepareCall | ReserveCall
  | CommitCall | TransmitCall | CreateCall | CompleteCall | AuditCall

primrec call_of :: "('peer, 'p, 'r, 'x) serve_event \<Rightarrow> call" where
  "call_of (AdmissionRead _ _ _) = AdmissionCall"
| "call_of (Evaluated _ _) = EvaluatorCall"
| "call_of (LegPeeked _ _) = PeekCall"
| "call_of (ReplayChecked _ _ _) = ReplayCall"
| "call_of (SignerRead _) = SignerCall"
| "call_of (LegConsumed _ _) = ConsumeCall"
| "call_of (InnerPrepared _ _) = PrepareCall"
| "call_of (RetentionReserved _ _) = ReserveCall"
| "call_of (CrossingRecorded _ _) = CommitCall"
| "call_of (Transmitted _ _) = TransmitCall"
| "call_of (LegCreated _ _ _ _) = CreateCall"
| "call_of (CrossingCompleted _ _ _) = CompleteCall"
| "call_of (Audited _) = AuditCall"

type_synonym ('w, 'peer, 'p, 'r, 'x) logged_world = "'w \<times> ('peer, 'p, 'r, 'x) serve_event list"

definition logging :: "('w \<Rightarrow> 'w \<times> 'a) \<Rightarrow> ('a \<Rightarrow> 'e) \<Rightarrow> 'w \<times> 'e list \<Rightarrow> ('w \<times> 'e list) \<times> 'a" where
  "logging act event s = (case act (fst s) of (w, v) \<Rightarrow> ((w, snd s @ [event v]), v))"

definition traced_store ::
  "'w continuation_ops \<Rightarrow> ('w, 'peer, 'p, 'r, 'x) logged_world continuation_ops" where
  "traced_store st =
     \<lparr>co_peek = (\<lambda>s key. logging (\<lambda>w. co_peek st w key) (LegPeeked key) s),
      co_consume = (\<lambda>s key. logging (\<lambda>w. co_consume st w key) (LegConsumed key) s),
      co_create = (\<lambda>s key bases ttl. logging (\<lambda>w. co_create st w key bases ttl) (LegCreated key bases ttl) s)\<rparr>"

definition traced_retention ::
  "('w, 'r, 'x) retention_ops \<Rightarrow> (('w, 'peer, 'p, 'r, 'x) logged_world, 'r, 'x) retention_ops" where
  "traced_retention st =
     \<lparr>re_reserve = (\<lambda>s request. logging (\<lambda>w. re_reserve st w request) (RetentionReserved request) s),
      re_commit_to_dispatch = (\<lambda>s r. logging (\<lambda>w. re_commit_to_dispatch st w r) (CrossingRecorded r) s),
      re_complete = (\<lambda>s x rsp. logging (\<lambda>w. re_complete st w x rsp) (CrossingCompleted x rsp) s)\<rparr>"

definition traced_enforcer ::
  "'w AdmissionEnforcer \<Rightarrow> ('w, 'peer, 'p, 'r, 'x) logged_world AdmissionEnforcer" where
  "traced_enforcer en =
     \<lparr>en_source = (\<lambda>s key now. logging (\<lambda>w. en_source en w key now) (AdmissionRead key now) s),
      en_policy = en_policy en, en_enforcement = en_enforcement en, en_resolve_authority = en_resolve_authority en,
      en_instant = (\<lambda>s. case en_instant en (fst s) of (w, t) \<Rightarrow> ((w, snd s), t)),
      en_last_read = (\<lambda>s. en_last_read en (fst s)),
      en_set_last_read = (\<lambda>t s. (en_set_last_read en t (fst s), snd s))\<rparr>"

definition traced ::
  "('w, 'peer, 'p, 'r, 'x) HttpProfileProxy
   \<Rightarrow> (('w, 'peer, 'p, 'r, 'x) logged_world, 'peer, 'p, 'r, 'x) HttpProfileProxy" where
  "traced px =
     \<lparr>px_resolve_actor = px_resolve_actor px, px_expected_audience = px_expected_audience px, px_policy = px_policy px,
      px_signer = logging (px_signer px) SignerRead, px_sig_ttl_secs = px_sig_ttl_secs px,
      px_replay_class = px_replay_class px,
      px_replay_async = (\<lambda>s key now. logging (\<lambda>w. px_replay_async px w key now) (ReplayChecked key now) s),
      px_dispatch_cfg = px_dispatch_cfg px,
      px_inner_prepare = (\<lambda>s body. logging (\<lambda>w. px_inner_prepare px w body) (InnerPrepared body) s),
      px_inner_transmit = (\<lambda>s p. logging (\<lambda>w. px_inner_transmit px w p) (Transmitted p) s),
      px_transport_binding = px_transport_binding px,
      px_authorization = map_option (\<lambda>ev s request. logging (\<lambda>w. ev w request) (Evaluated request) s) (px_authorization px),
      px_continuations = map_option traced_store (px_continuations px),
      px_continuation_ttl_secs = px_continuation_ttl_secs px, px_verified_context_policy = px_verified_context_policy px,
      px_audit = map_option (\<lambda>sink s rec. (sink (fst s) rec, snd s @ [Audited rec])) (px_audit px),
      px_admission = map_option traced_enforcer (px_admission px),
      px_retention = map_option traced_retention (px_retention px)\<rparr>"

section \<open>Budgets\<close>

text \<open>From one state to another the log only grows, by no more calls than the budget holds.\<close>

definition spends :: "'w \<times> ('peer, 'p, 'r, 'x) serve_event list \<Rightarrow> 'w \<times> ('peer, 'p, 'r, 'x) serve_event list \<Rightarrow> call multiset \<Rightarrow> bool" where
  "spends s s' B \<longleftrightarrow> (\<exists>evs. snd s' = snd s @ evs \<and> mset (map call_of evs) \<subseteq># B)"

named_theorems spending

lemma spends_refl [spending, simp]: "spends s s B"
  by (simp add: spends_def)

lemma spends_mono: "spends s s' A \<Longrightarrow> A \<subseteq># B \<Longrightarrow> spends s s' B"
  by (auto simp: spends_def intro: subset_mset.trans)

lemma spends_trans:
  assumes "spends s s' A" "spends s' s'' B"
  shows "spends s s'' (A + B)"
proof -
  from assms obtain a b where "snd s' = snd s @ a" "mset (map call_of a) \<subseteq># A" "snd s'' = snd s' @ b" "mset (map call_of b) \<subseteq># B"
    unfolding spends_def by blast
  then show ?thesis unfolding spends_def by (intro exI [of _ "a @ b"]) (simp add: subset_mset.add_mono)
qed

lemma spends_logging: "logging act event s = (s', v) \<Longrightarrow> spends s s' {#call_of (event v)#}"
  by (auto simp: logging_def spends_def split: prod.splits)

lemma traced_sel [simp]:
  "px_resolve_actor (traced px) = px_resolve_actor px" "px_expected_audience (traced px) = px_expected_audience px"
  "px_policy (traced px) = px_policy px" "px_signer (traced px) = logging (px_signer px) SignerRead"
  "px_sig_ttl_secs (traced px) = px_sig_ttl_secs px" "px_replay_class (traced px) = px_replay_class px"
  "px_replay_async (traced px) = (\<lambda>s key now. logging (\<lambda>w. px_replay_async px w key now) (ReplayChecked key now) s)"
  "px_dispatch_cfg (traced px) = px_dispatch_cfg px"
  "px_inner_prepare (traced px) = (\<lambda>s body. logging (\<lambda>w. px_inner_prepare px w body) (InnerPrepared body) s)"
  "px_inner_transmit (traced px) = (\<lambda>s p. logging (\<lambda>w. px_inner_transmit px w p) (Transmitted p) s)"
  "px_transport_binding (traced px) = px_transport_binding px"
  "px_authorization (traced px) = map_option (\<lambda>ev s request. logging (\<lambda>w. ev w request) (Evaluated request) s) (px_authorization px)"
  "px_continuations (traced px) = map_option traced_store (px_continuations px)"
  "px_continuation_ttl_secs (traced px) = px_continuation_ttl_secs px"
  "px_verified_context_policy (traced px) = px_verified_context_policy px"
  "px_audit (traced px) = map_option (\<lambda>sink s rec. (sink (fst s) rec, snd s @ [Audited rec])) (px_audit px)"
  "px_admission (traced px) = map_option traced_enforcer (px_admission px)"
  "px_retention (traced px) = map_option traced_retention (px_retention px)"
  by (simp_all add: traced_def)

lemma traced_part_sel [simp]:
  "co_peek (traced_store st) = (\<lambda>s key. logging (\<lambda>w. co_peek st w key) (LegPeeked key) s)"
  "co_consume (traced_store st) = (\<lambda>s key. logging (\<lambda>w. co_consume st w key) (LegConsumed key) s)"
  "co_create (traced_store st) = (\<lambda>s key bases ttl. logging (\<lambda>w. co_create st w key bases ttl) (LegCreated key bases ttl) s)"
  "re_reserve (traced_retention rt) = (\<lambda>s request. logging (\<lambda>w. re_reserve rt w request) (RetentionReserved request) s)"
  "re_commit_to_dispatch (traced_retention rt) = (\<lambda>s r. logging (\<lambda>w. re_commit_to_dispatch rt w r) (CrossingRecorded r) s)"
  "re_complete (traced_retention rt) = (\<lambda>s x rsp. logging (\<lambda>w. re_complete rt w x rsp) (CrossingCompleted x rsp) s)"
  "en_source (traced_enforcer en) = (\<lambda>s key now. logging (\<lambda>w. en_source en w key now) (AdmissionRead key now) s)"
  "en_policy (traced_enforcer en) = en_policy en" "en_enforcement (traced_enforcer en) = en_enforcement en"
  "en_resolve_authority (traced_enforcer en) = en_resolve_authority en"
  "en_instant (traced_enforcer en) = (\<lambda>s. case en_instant en (fst s) of (w, t) \<Rightarrow> ((w, snd s), t))"
  "en_last_read (traced_enforcer en) = (\<lambda>s. en_last_read en (fst s))"
  "en_set_last_read (traced_enforcer en) = (\<lambda>t s. (en_set_last_read en t (fst s), snd s))"
  by (simp_all add: traced_store_def traced_retention_def traced_enforcer_def)

subsection \<open>Refusals\<close>

lemma record_to_spends [spending]: "spends s (record_to (px_audit (traced px)) subj actor code now s) {#AuditCall#}"
  by (auto simp: record_to_def spends_def split: option.splits)

lemma signed_rejection_spends:
  "signed_rejection X (traced px) request code sts now bound execution snapshot s = (s', rsp) \<Longrightarrow> spends s s' {#SignerCall#}"
  by (auto simp: signed_rejection_def Let_def split: option.splits prod.splits dest!: spends_logging)

lemma rejection_spends:
  assumes "rejection X (traced px) request cause sts now bound actor execution snapshot az ad s = (s', rsp)
    \<or> response_rejection X (traced px) request cause sts now bound actor execution snapshot s = (s', rsp)"
  shows "spends s s' {#AuditCall, SignerCall#}"
proof -
  from assms obtain s0 where "spends s s0 {#AuditCall#}" "spends s0 s' {#SignerCall#}"
    unfolding rejection_def response_rejection_def using record_to_spends signed_rejection_spends by metis
  from spends_trans [OF this] show ?thesis by (simp add: add_mset_commute)
qed

lemma refuse_spends: "refuse X (traced px) ex refusal progress s = (s', rsp) \<Longrightarrow> spends s s' {#AuditCall, SignerCall#}"
  by (auto simp: refuse_def receipt_refuse_def Let_def split: if_splits
      intro: rejection_spends [OF disjI1] rejection_spends [OF disjI2])

text \<open>A stage keeps to its budget; when it ends the exchange it may spend what a refusal costs as well.\<close>

abbreviation refusal_calls :: "call multiset" where
  "refusal_calls \<equiv> {#AuditCall, SignerCall, CompleteCall#}"

definition stage_spends ::
  "'w \<times> ('peer, 'p, 'r, 'x) serve_event list
   \<Rightarrow> (('w \<times> ('peer, 'p, 'r, 'x) serve_event list) \<times> ExchangeProgress) \<times> ('e + 'a) \<Rightarrow> call multiset \<Rightarrow> bool" where
  "stage_spends s m B \<longleftrightarrow> spends s (fst (fst m)) (B + (case snd m of Inl _ \<Rightarrow> refusal_calls | Inr _ \<Rightarrow> {#}))"

lemma stage_spends_Ok [spending]: "spends s s' B \<Longrightarrow> stage_spends s ((s', p), Inr a) B"
  by (simp add: stage_spends_def)

lemma stage_spends_and_then [spending]:
  assumes "stage_spends s m A" "\<And>s' p a. m = ((s', p), Ok a) \<Longrightarrow> stage_spends s' (f (s', p) a) B"
  shows "stage_spends s (and_then m f) (A + B)"
proof (cases "snd m")
  case (Inl e)
  with assms(1) show ?thesis
    by (cases m) (auto simp: stage_spends_def add.assoc add.commute [of B] elim!: spends_mono)
next
  case (Inr a)
  then obtain s' p where m: "m = ((s', p), Ok a)" by (cases m) auto
  with assms spends_trans [of s s' A "fst (fst (f (s', p) a))"] show ?thesis
    by (fastforce simp: stage_spends_def add.assoc)
qed

lemma or_refuse_spends [spending]: "spends s (fst r) A \<Longrightarrow> stage_spends s (or_refuse X (traced px) ex p r) A"
proof (cases r)
  case (Pair s1 v)
  assume "spends s (fst r) A"
  with Pair have s1: "spends s s1 A" by simp
  show ?thesis
  proof (cases v)
    case (Inl refusal)
    obtain s2 rsp where s2: "refuse X (traced px) ex refusal p s1 = (s2, rsp)" by fastforce
    from spends_trans [OF s1 refuse_spends [OF s2]] have "spends s s2 (A + refusal_calls)"
      by (rule spends_mono) (simp add: add_mset_commute)
    with Pair Inl s2 show ?thesis by (simp add: or_refuse_def stage_spends_def)
  qed (use Pair s1 in \<open>simp add: or_refuse_def stage_spends_def\<close>)
qed

lemma establishing_spends [spending]: "stage_spends s m A \<Longrightarrow> stage_spends s (establishing m) A"
  using stage_spends_and_then [of s m A _ "{#}"]
  by (auto simp: establishing_def stage_spends_def and_then_def establish_def split: sum.splits prod.splits)

subsection \<open>The stages\<close>

lemma record_read_log [simp]: "snd (record_read (traced_enforcer en) t s) = snd s"
  by (simp add: record_read_def)

lemma enforcer_decide_spends: "spends s (fst (enforcer_decide X (traced_enforcer en) v actor aud now s)) {#AdmissionCall#}"
  by (simp add: spends_def enforcer_decide_def Let_def logging_def case_prod_beta split: option.splits sum.splits)

lemma plane_spends:
  "spends s (fst (admission_stage X (traced px) ex bound s)) {#AdmissionCall#}"
  "spends s (fst (authorization_stage X (traced px) ex bound s)) {#EvaluatorCall#}"
  "spends s (fst (continuation_prepare X (traced px) ex aud s)) {#PeekCall#}"
  "spends s (fst (continuation_retire (traced px) key s)) {#ConsumeCall#}"
  "spends s (fst (replay_admission_stage X (traced px) ex ctx s)) {#ReplayCall#}"
  "spends s (fst (answerable_stage (traced px) ex s)) {#SignerCall#}"
  "spends s (fst (inner_prepare (traced px) body s)) {#PrepareCall#}"
  "spends s (fst (retention_reserve (traced px) request s)) {#ReserveCall#}"
proof -
  show "spends s (fst (admission_stage X (traced px) ex bound s)) {#AdmissionCall#}"
    by (auto simp: enforcer_decide_spends admission_stage_def Let_def case_prod_beta split: option.splits sum.splits)
qed (simp_all add: spends_def logging_def case_prod_beta Let_def authorization_stage_def authorize_def continuation_prepare_def
    continuation_retire_def replay_admission_stage_def dispatch_request_with_async_tier_def answerable_stage_def inner_prepare_def
    retention_reserve_def split: option.splits sum.splits bool.splits ReplayDecision.splits)

text \<open>What is reserved or owed is on the traced store.\<close>

definition reserved_traced where
  "reserved_traced accepted \<longleftrightarrow> (\<forall>st r. accepted = Reserved st r \<longrightarrow> (\<exists>rt. st = traced_retention rt))"

definition owed_traced where
  "owed_traced owed \<longleftrightarrow> (\<forall>st x. owed = Committed st x \<longrightarrow> (\<exists>rt. st = traced_retention rt))"

lemma retention_reserve_traced: "retention_reserve (traced px) request s = (s', Ok accepted) \<Longrightarrow> reserved_traced accepted"
  by (auto simp: retention_reserve_def reserved_traced_def split: option.splits prod.splits sum.splits)

lemma retention_commit_spends:
  assumes "reserved_traced accepted"
  shows "spends s (fst (retention_commit accepted s)) {#CommitCall#}"
    "retention_commit accepted s = (s', Ok est) \<Longrightarrow> owed_traced (est_value est)"
  using assms
  by (auto simp: retention_commit_def spends_def reserved_traced_def owed_traced_def logging_def Let_def
      split: PreDispatchRetention.splits prod.splits sum.splits)

lemma retention_complete_spends: "owed_traced owed \<Longrightarrow> spends s (fst (retention_complete owed rsp s)) {#CompleteCall#}"
  by (auto simp: retention_complete_def spends_def owed_traced_def logging_def split: RetentionDisposition.splits prod.splits sum.splits)

lemma refuse_retained_spends:
  assumes "owed_traced owed"
  shows "spends s (fst (refuse_retained X (traced px) ex refusal p owed s)) refusal_calls"
proof -
  obtain s1 rsp where s1: "refuse X (traced px) ex refusal p s = (s1, rsp)" by fastforce
  from spends_trans [OF refuse_spends [OF s1] retention_complete_spends [OF assms, of s1 rsp]] show ?thesis
    by (simp add: refuse_retained_def s1 case_prod_beta add_mset_commute)
qed

lemma retain_accepted_spends:
  assumes "owed_traced owed"
  shows "spends s (fst (retain_accepted X (traced px) request rsp now bound actor owed execution snapshot s))
    (if snd (retain_accepted X (traced px) request rsp now bound actor owed execution snapshot s) = None
     then {#CompleteCall#} else refusal_calls)"
proof -
  obtain s1 oc where s1: "retention_complete owed rsp s = (s1, oc)" by fastforce
  with retention_complete_spends [OF assms, of s rsp] have c: "spends s s1 {#CompleteCall#}" by simp
  obtain s2 rsp2 where s2: "response_rejection X (traced px) request (taxonomy EvidenceRetentionIndeterminate) 500 now bound
      (Some actor) execution snapshot s1 = (s2, rsp2)" by fastforce
  from spends_trans [OF c rejection_spends [OF disjI2 [OF s2]]] c show ?thesis
    by (auto simp: retain_accepted_def s1 s2 add_mset_commute)
qed

lemma create_attempts_spends: "spends s (fst (create_attempts n (traced_store st) key bases ttl s)) (replicate_mset n CreateCall)"
proof (induction n arbitrary: s)
  case (Suc n)
  obtain s1 r where s1: "logging (\<lambda>w. co_create st w key bases ttl) (LegCreated key bases ttl) s = (s1, r)" by fastforce
  then have "spends s s1 {#CreateCall#}" using spends_logging by fastforce
  from spends_trans [OF this Suc.IH] spends_mono [OF this] s1 show ?case
    by (auto split: sum.splits Creation.splits)
qed simp

subsection \<open>The path\<close>

lemma stage_spends_mono: "stage_spends s m A \<Longrightarrow> A \<subseteq># B \<Longrightarrow> stage_spends s m B"
  unfolding stage_spends_def by (erule spends_mono) (simp add: subset_mset.add_mono)

lemma stage_spends_after: "spends s s1 A \<Longrightarrow> stage_spends s1 m B \<Longrightarrow> stage_spends s m (A + B)"
  unfolding stage_spends_def add.assoc by (rule spends_trans)

lemma or_refuse_Ok_iff: "or_refuse X px ex p r = ((s', p'), Ok v) \<longleftrightarrow> r = (s', Ok v) \<and> p' = p"
  by (auto simp: or_refuse_def split: prod.splits sum.splits)

lemma establishing_Ok_iff:
  "establishing m = ((s', p'), Ok v) \<longleftrightarrow> (\<exists>p est. m = ((s', p), Ok est) \<and> v = est_value est \<and> p' = advance (est_event est) p)"
  by (auto simp: establishing_def and_then_Ok_iff establish_def)

lemma admit_request_spends: "stage_spends s (admit_request X (traced px) ex peer s p) {#AdmissionCall, EvaluatorCall#}"
proof -
  have "stage_spends s (admit_request X (traced px) ex peer s p) ({#} + ({#} + ({#AdmissionCall#} + ({#EvaluatorCall#} + {#}))))"
    unfolding admit_request_def Let_def
    by (intro spending plane_spends | simp only: case_prod_beta fst_conv snd_conv)+
  then show ?thesis by (simp add: add_mset_commute)
qed

lemma observe_retirement_spends: "stage_spends s (observe_retirement X (traced px) ex retirement s p) {#}"
  by (cases retirement) (auto simp: observe_retirement_def intro: spending)

lemma retire_spends:
  "stage_spends s (observe_retirement X (traced px) ex (snd (continuation_retire (traced px) key s))
     (fst (continuation_retire (traced px) key s)) p) {#ConsumeCall#}"
  using stage_spends_after [OF plane_spends(4) observe_retirement_spends] by simp

lemma commit_to_answering_spends:
  "stage_spends s (commit_to_answering X (traced px) ex s p) {#PeekCall, ReplayCall, SignerCall, ConsumeCall#}"
proof -
  have "stage_spends s (commit_to_answering X (traced px) ex s p)
      ({#PeekCall#} + ({#ReplayCall#} + ({#SignerCall#} + ({#ConsumeCall#} + {#}))))"
    unfolding commit_to_answering_def Let_def
    by (intro spending plane_spends retire_spends
        | simp only: case_prod_beta fst_conv snd_conv)+
  then show ?thesis by (simp add: add_mset_commute)
qed

lemma commit_to_dispatch_spends:
  "stage_spends s (commit_to_dispatch X (traced px) ex authorized win s p) {#PrepareCall, ReserveCall, CommitCall#}"
  "commit_to_dispatch X (traced px) ex authorized win s p = (s', Ok committed) \<Longrightarrow> owed_traced (snd committed)"
proof -
  have "stage_spends s (commit_to_dispatch X (traced px) ex authorized win s p)
      ({#} + ({#PrepareCall#} + ({#} + ({#ReserveCall#} + ({#CommitCall#} + {#})))))"
    unfolding commit_to_dispatch_def
    by (intro spending plane_spends retention_commit_spends | simp only: case_prod_beta fst_conv snd_conv or_refuse_Ok_iff
        | erule conjE retention_reserve_traced)+
  then show "stage_spends s (commit_to_dispatch X (traced px) ex authorized win s p) {#PrepareCall, ReserveCall, CommitCall#}"
    by (simp add: add_mset_commute)
  show "owed_traced (snd committed)" if "commit_to_dispatch X (traced px) ex authorized win s p = (s', Ok committed)"
    using that
    by (auto simp: commit_to_dispatch_def and_then_Ok_iff establishing_Ok_iff or_refuse_Ok_iff
        dest!: retention_reserve_traced intro: retention_commit_spends(2))
qed

lemma verify_stage_spends: "stage_spends s (verify_stage X (traced px) request now s p) {#}"
  by (auto simp: verify_stage_def establish_def stage_spends_def split: sum.splits prod.splits
      intro: spends_mono [OF rejection_spends [OF disjI1]])

lemma refusing_retained_spends:
  assumes "owed_traced owed"
  shows "stage_spends s (refusing_retained X (traced px) ex owed s r) {#}"
  using refuse_retained_spends [OF assms, of s X px ex _ "fst r"]
  by (auto simp: refusing_retained_def stage_spends_def case_prod_beta split: sum.splits)

lemma record_continuation_leg_spends:
  "stage_spends s (record_continuation_leg X (traced px) ex cls base s p) {#CreateCall, CreateCall, CreateCall#}"
proof (cases cls)
  case (OpenReply state)
  have three: "replicate_mset 3 CreateCall = {#CreateCall, CreateCall, CreateCall#}" by (simp add: numeral_3_eq_3)
  have leg: "spends s (fst (record_open_leg X (traced px) ex aud state base s)) {#CreateCall, CreateCall, CreateCall#}" for aud
    using create_attempts_spends [of s 3] by (simp add: record_open_leg_def RECORD_ATTEMPTS_def three split: option.splits)
  have "stage_spends s (record_continuation_leg X (traced px) ex cls base s p) ({#CreateCall, CreateCall, CreateCall#} + {#})"
    unfolding record_continuation_leg_def OpenReply ReplyClass.case
    by (intro spending leg | simp only: case_prod_beta fst_conv snd_conv)+
  then show ?thesis by simp
qed (simp add: record_continuation_leg_def spending)

lemma assemble_reply_spends:
  assumes "owed_traced owed"
  shows "stage_spends s (assemble_reply X (traced px) ex outcome outstanding win owed s p) {#CreateCall, CreateCall, CreateCall#}"
proof -
  have "stage_spends s (assemble_reply X (traced px) ex outcome outstanding win owed s p)
      ({#} + ({#} + ({#} + ({#CreateCall, CreateCall, CreateCall#} + {#}))))"
    unfolding assemble_reply_def Let_def
    by (intro spending refusing_retained_spends [OF assms] record_continuation_leg_spends | simp only: case_prod_beta fst_conv snd_conv)+
  then show ?thesis by simp
qed

lemma refuse_retained_ends:
  "owed_traced owed \<Longrightarrow> refuse_retained X (traced px) ex refusal p owed s = (s', rsp) \<Longrightarrow> spends s s' refusal_calls"
  using refuse_retained_spends [of owed s X px ex refusal p] by simp

lemma retain_accepted_ends:
  assumes "owed_traced owed" "retain_accepted X (traced px) request rsp now bound actor owed execution snapshot s = (s', r)"
  shows "r = Some rsp' \<Longrightarrow> spends s s' refusal_calls"
    "r = None \<Longrightarrow> spends s (record_to (px_audit (traced px)) subj actor' code now' s') refusal_calls"
  using retain_accepted_spends [OF assms(1), of s X px request rsp now bound actor execution snapshot] assms(2)
    spends_mono [OF spends_trans [OF _ record_to_spends, of s s' "{#CompleteCall#}"]]
  by auto

lemma serve_retained_spends:
  assumes "owed_traced owed"
  shows "spends s (fst (fst (serve_retained X (traced px) ex reply owed s p))) refusal_calls"
  by (auto simp: serve_retained_def Let_def split: sum.splits prod.splits option.splits simp del: traced_sel
      intro: retain_accepted_ends [OF assms _ refl] refuse_retained_ends [OF assms])

lemma answer_notification_spends:
  assumes "owed_traced owed"
  shows "spends s (fst (answer_notification X (traced px) request win now v actor owed execution s)) refusal_calls"
  by (auto simp: answer_notification_def Let_def split: sum.splits option.splits prod.splits simp del: traced_sel
      intro: retain_accepted_ends [OF assms _ refl] spends_mono [OF rejection_spends [OF disjI2 [OF surjective_pairing]]])

lemma answer_notification_terminal_spends:
  assumes "owed_traced owed"
  shows "spends s (fst (answer_notification_terminal X (traced px) ex outcome win owed s p)) refusal_calls"
  using refuse_retained_spends [OF assms] answer_notification_spends [OF assms]
  by (auto simp: answer_notification_terminal_def split: sum.splits prod.splits)

subsection \<open>The two halves of the path\<close>

text \<open>\<open>handle\<close> up to the point where the request is handed to the inner server, and from there on.\<close>

definition prepare_exchange ::
  "serve_lib \<Rightarrow> ('w, 'peer, 'p, 'r, 'x) HttpProfileProxy \<Rightarrow> 'peer ServedHttpRequest \<Rightarrow> int \<Rightarrow> 'w
   \<Rightarrow> ('w \<times> ExchangeProgress) \<times> (HttpResponse + ServeExchange \<times> 'peer AdmittedRequest \<times> SigningWindow \<times> 'p
        \<times> ('w, 'r, 'x) RetentionDisposition)" where
  "prepare_exchange X px req now w =
     and_then (verify_stage X px (sq_http req) now w progress_new) (\<lambda>(w, progress) verified.
     let actor = resolved_actor_id (fl_resolved_actor (vr_floor verified));
         ex = \<lparr>se_http_req = sq_http req, se_verified = verified, se_actor_id = actor, se_now = now, se_key = None,
               se_verdicts = \<lparr>av_authorization = None, av_admission = None\<rparr>\<rparr> in
     and_then (admit_request X px ex (sq_peer req) w progress) (\<lambda>(w, progress) (ex, admitted).
     and_then (commit_to_answering X px ex w progress) (\<lambda>(w, progress) (ex, win).
     let w = record_request_accepted px admitted (av_admission (se_verdicts ex)) actor now w in
     and_then (commit_to_dispatch X px ex (am_authorized admitted) win w progress) (\<lambda>(w, progress) (prepared, owed).
     ((w, progress), Ok (ex, admitted, win, prepared, owed))))))"

definition answer_exchange ::
  "serve_lib \<Rightarrow> ('w, 'peer, 'p, 'r, 'x) HttpProfileProxy \<Rightarrow> ServeExchange \<Rightarrow> 'peer AdmittedRequest \<Rightarrow> SigningWindow
   \<Rightarrow> DispatchedOutcome \<Rightarrow> ('w, 'r, 'x) RetentionDisposition \<Rightarrow> 'w \<Rightarrow> ExchangeProgress \<Rightarrow> 'w \<times> HttpResponse" where
  "answer_exchange X px ex admitted win outcome owed w progress =
     (if am_outstanding admitted = Notification
      then answer_notification_terminal X px ex outcome win owed w progress
      else case assemble_reply X px ex outcome (am_outstanding admitted) win owed w progress of
             ((w, _), Inl rsp) \<Rightarrow> (w, rsp)
           | ((w, progress), Inr reply) \<Rightarrow> (case serve_retained X px ex reply owed w progress of ((w, _), rsp) \<Rightarrow> (w, rsp)))"

lemma handle_eq:
  "handle X px req now w =
     (case prepare_exchange X px req now w of
        ((w, _), Inl rsp) \<Rightarrow> (w, rsp)
      | ((w, progress), Inr (ex, admitted, win, prepared, owed)) \<Rightarrow>
          (case px_inner_transmit px w prepared of (w, outcome) \<Rightarrow>
           answer_exchange X px ex admitted win outcome owed w (advance BackendDispatched progress)))"
  unfolding handle_def prepare_exchange_def answer_exchange_def Let_def and_then_def
  by (simp split: prod.split sum.split)

definition serve_calls :: "call multiset" where
  "serve_calls = {#AdmissionCall, EvaluatorCall, PeekCall, ReplayCall, SignerCall, ConsumeCall, AuditCall, PrepareCall, ReserveCall,
     CommitCall, TransmitCall, CreateCall, CreateCall, CreateCall, AuditCall, SignerCall, CompleteCall#}"

definition prepare_calls :: "call multiset" where
  "prepare_calls = {#AdmissionCall, EvaluatorCall, PeekCall, ReplayCall, SignerCall, ConsumeCall, AuditCall, PrepareCall, ReserveCall,
     CommitCall#}"

definition answer_calls :: "call multiset" where
  "answer_calls = {#CreateCall, CreateCall, CreateCall#} + refusal_calls"

lemma call_spends:
  "spends s (fst (px_inner_transmit (traced px) s prepared)) {#TransmitCall#}"
  "spends s (record_request_accepted (traced px) admitted facet actor now s) {#AuditCall#}"
  by (simp_all add: spends_def logging_def case_prod_beta record_request_accepted_def record_to_def split: option.splits)

lemma prepare_exchange_spends: "stage_spends s (prepare_exchange X (traced px) req now s) prepare_calls"
proof -
  have "stage_spends s (prepare_exchange X (traced px) req now s)
    ({#} + ({#AdmissionCall, EvaluatorCall#} + ({#PeekCall, ReplayCall, SignerCall, ConsumeCall#} + ({#AuditCall#} +
      ({#PrepareCall, ReserveCall, CommitCall#} + {#})))))"
    unfolding prepare_exchange_def Let_def
    by (rule stage_spends_and_then verify_stage_spends admit_request_spends commit_to_answering_spends
        commit_to_dispatch_spends(1) stage_spends_after [OF call_spends(2)] stage_spends_Ok spends_refl
        | simp only: case_prod_beta fst_conv snd_conv)+
  then show ?thesis by (simp add: prepare_calls_def add_mset_commute)
qed

lemma prepare_exchange_owed:
  "prepare_exchange X (traced px) req now s = (s', Ok (ex, admitted, win, prepared, owed)) \<Longrightarrow> owed_traced owed"
  by (auto simp: prepare_exchange_def and_then_Ok_iff Let_def dest: commit_to_dispatch_spends(2))

lemma answer_exchange_spends:
  assumes "owed_traced owed"
  shows "spends s (fst (answer_exchange X (traced px) ex admitted win outcome owed s p)) answer_calls"
proof (cases "am_outstanding admitted = Notification")
  case True
  then show ?thesis
    using spends_mono [OF answer_notification_terminal_spends [OF assms, of s X px ex outcome win p], of answer_calls]
    by (simp add: answer_exchange_def answer_calls_def)
next
  case False
  obtain s1 p1 r where r: "assemble_reply X (traced px) ex outcome (am_outstanding admitted) win owed s p = ((s1, p1), r)"
    by (metis prod.collapse)
  note spent = assemble_reply_spends [OF assms, of s X px ex outcome "am_outstanding admitted" win p, unfolded r stage_spends_def]
  show ?thesis
  proof (cases r)
    case (Inl rsp)
    with False spent show ?thesis by (simp add: answer_exchange_def r answer_calls_def)
  next
    case (Inr reply)
    with spent have "spends s s1 {#CreateCall, CreateCall, CreateCall#}" by simp
    from spends_trans [OF this serve_retained_spends [OF assms, of s1 X px ex reply p1]] False Inr show ?thesis
      by (simp add: answer_exchange_def r answer_calls_def case_prod_beta)
  qed
qed

lemma handle_spends: "spends s (fst (handle X (traced px) req now s)) serve_calls"
proof -
  obtain s1 p1 r where r: "prepare_exchange X (traced px) req now s = ((s1, p1), r)" by (metis prod.collapse)
  note spent = prepare_exchange_spends [of s X px req now, unfolded r stage_spends_def]
  have calls: "serve_calls = prepare_calls + ({#TransmitCall#} + answer_calls)"
    by (simp add: serve_calls_def prepare_calls_def answer_calls_def add_mset_commute)
  show ?thesis
  proof (cases r)
    case (Inl rsp)
    with spent show ?thesis
      by (auto simp: handle_eq r serve_calls_def prepare_calls_def elim!: spends_mono)
  next
    case (Inr c)
    obtain ex admitted win prepared owed where c: "c = (ex, admitted, win, prepared, owed)" by (metis prod_cases5)
    obtain s2 oc where t: "px_inner_transmit (traced px) s1 prepared = (s2, oc)" by fastforce
    have owed: "owed_traced owed" using prepare_exchange_owed r Inr c by metis
    from spent Inr have "spends s s1 prepare_calls" by simp
    moreover have "spends s1 s2 {#TransmitCall#}" using call_spends(1) [of s1 px prepared] t by simp
    moreover note answer_exchange_spends [OF owed, of s2 X px ex admitted win oc "advance BackendDispatched p1"]
    ultimately have "spends s (fst (answer_exchange X (traced px) ex admitted win oc owed s2 (advance BackendDispatched p1))) serve_calls"
      unfolding calls by (intro spends_trans)
    then show ?thesis by (simp add: handle_eq r Inr c t del: traced_sel)
  qed
qed

text \<open>
  C8. Serving one request is bounded work. Whatever the stores, the evaluator, the inner server, the
  clock and the caller do, one call of \<open>handle\<close> makes at most one replay insertion, one evaluation, one
  read of the admission state, one look at and one consumption of a stored leg, one preparation and one
  transmission to the inner server, one reservation, one recorded crossing and one completion of it,
  three attempts at recording a new leg, two reads of the signing key and two audit records; and then it
  has answered.
\<close>

theorem serving_is_bounded:
  "mset (map call_of (snd (fst (handle X (traced px) req now (w, []))))) \<subseteq># serve_calls"
  using handle_spends [of "(w, [])" X px req now] by (auto simp: spends_def)

end
