(* ===== verification/Serve_Sound.thy ===== *)
theory Serve_Sound
  imports Serve_Trace Floor_Sound
begin

text \<open>
  What has happened before a request is handed to the inner server, and what the proxy answers with
  afterwards: the soundness of \<open>handle\<close>.

  \<^item> \<open>dispatched_only_after_checks\<close>: every dispatch is preceded by the verification of the request, the
    configured checks, the admission to the replay tier, an open signing window and the recorded crossing;
  \<^item> \<open>refusal_tells_the_truth\<close>: a refusal served after a dispatch says that the call may have executed;
  \<^item> \<open>served_statuses\<close>: the statuses a caller can see.
\<close>

section \<open>Stages that succeed\<close>

lemma spends_events: "spends s s' B \<Longrightarrow> set (snd s) \<subseteq> set (snd s')"
  by (auto simp: spends_def)

lemma stage_spends_events: "stage_spends s ((s', p), r) B \<Longrightarrow> set (snd s) \<subseteq> set (snd s')"
  by (auto simp: stage_spends_def dest: spends_events)

lemma logging_event: "logging act event s = (s', v) \<Longrightarrow> event v \<in> set (snd s')"
  by (auto simp: logging_def split: prod.splits)

lemma verify_stage_Ok:
  "verify_stage X px request now s p = ((s', p'), Ok v) \<longleftrightarrow>
     s' = s \<and> p' = advance SignatureVerified p
     \<and> full_request (sl_crypto X) (sl_json X) (sl_request_block X) request (px_expected_audience px) (\<lambda>_. None)
         (px_resolve_actor px) (px_policy px) now = Ok v"
  by (auto simp: verify_stage_def request_verify_def establish_def split: sum.splits prod.splits)

text \<open>What the configured checks established about a verified request.\<close>

definition transport_checked where
  "transport_checked px peer v \<longleftrightarrow>
     (case px_transport_binding px of
        None \<Rightarrow> True
      | Some policy \<Rightarrow> \<exists>q facts. peer = Some q \<and> policy q (verified_request_subject (fl_resolved_actor (vr_floor v))) = Ok facts)"

definition admission_checked where
  "admission_checked X px v now log \<longleftrightarrow>
     (case px_admission px of
        None \<Rightarrow> True
      | Some en \<Rightarrow>
          (case (admission (vr_request_block v), admission_assertion (vr_request_block v)) of
             (Some binding, Some assertion) \<Rightarrow>
               (\<exists>answer verdict. AdmissionRead (adb_admission_id binding) now answer \<in> set log \<and> answer \<noteq> Ok None
                  \<and> check_admission (sl_crypto X) (sl_admission X) binding assertion (resolved_actor_id (fl_resolved_actor (vr_floor v)))
                      (case answer of Inr state \<Rightarrow> state | Inl _ \<Rightarrow> None) PROFILE_TAG [audience_id (px_expected_audience px)]
                      (en_policy en) now (en_resolve_authority en) = Ok verdict
                  \<and> (\<forall>d. verdict = DegradedCandidate d \<longrightarrow> ap_allow_degraded_mode (en_policy en)))
           | _ \<Rightarrow> en_enforcement en = Optional))"

definition authorization_checked where
  "authorization_checked X px v body log \<longleftrightarrow>
     (\<exists>action. interpret_authorization_action (sl_crypto X) (sl_json X) v body = Ok action
       \<and> (px_authorization px \<noteq> None \<longrightarrow>
            (\<exists>request decision. Evaluated request (Ok decision) \<in> set log \<and> az_verified request = v \<and> az_action request = action)))"

lemma transport_binding_stage_Ok:
  "transport_binding_stage (traced px) ex peer = Ok est \<Longrightarrow> transport_checked px peer (se_verified ex)"
  by (auto simp: transport_binding_stage_def transport_checked_def transport_bind_def try_bind_Ok_iff split: option.splits sum.splits)

lemma not_exhausted: "\<not> exhausted en at w \<Longrightarrow> ap_allow_degraded_mode (en_policy en)"
  by (simp add: exhausted_def split: if_splits)

lemma admission_stage_Ok:
  assumes "admission_stage X (traced px) ex bound s = (s', Ok est)"
    and actor: "se_actor_id ex = resolved_actor_id (fl_resolved_actor (vr_floor (se_verified ex)))"
  shows "admission_checked X px (se_verified ex) (se_now ex) (snd s')"
proof (cases "px_admission px")
  case (Some en)
  let ?b = "vr_request_block (se_verified ex)"
  from assms(1) Some obtain facet where d: "enforcer_decide X (traced_enforcer en) (se_verified ex) (se_actor_id ex)
      (audience_id (px_expected_audience px)) (se_now ex) s = (s', Ok facet)"
    by (auto simp: admission_stage_def Let_def split: prod.splits sum.splits)
  have enf: "en_enforcement en \<noteq> AdmissionEnforcement.Required \<Longrightarrow> en_enforcement en = Optional" by (cases "en_enforcement en") auto
  show ?thesis
  proof (cases "admission ?b = None \<or> admission_assertion ?b = None")
    case True
    with d enf have "en_enforcement en = Optional" by (auto simp: enforcer_decide_def split: option.splits if_splits)
    with True Some show ?thesis by (auto simp: admission_checked_def split: option.splits)
  next
    case False
    then obtain binding assertion where b: "admission ?b = Some binding" "admission_assertion ?b = Some assertion" by auto
    obtain w1 t where t: "en_instant en (fst s) = (w1, t)" by fastforce
    obtain w2 answer where answer: "en_source en w1 (adb_admission_id binding) (se_now ex) = (w2, answer)" by fastforce
    have ev: "AdmissionRead (adb_admission_id binding) (se_now ex) answer \<in> set (snd s')"
      using d by (auto simp: enforcer_decide_def b t answer logging_def Let_def split: sum.splits option.splits)
    have "answer \<noteq> Ok None \<and> (\<exists>verdict. check_admission (sl_crypto X) (sl_admission X) binding assertion (se_actor_id ex)
        (case answer of Inr state \<Rightarrow> state | Inl _ \<Rightarrow> None) PROFILE_TAG [audience_id (px_expected_audience px)]
        (en_policy en) (se_now ex) (en_resolve_authority en) = Ok verdict
        \<and> (\<forall>d. verdict = DegradedCandidate d \<longrightarrow> ap_allow_degraded_mode (en_policy en)))"
      using d
      by (auto simp: enforcer_decide_def b t answer logging_def Let_def try_bind_Ok_iff
          split: sum.splits option.splits if_splits dest: not_exhausted)
    with ev b Some actor show ?thesis by (auto simp: admission_checked_def)
  qed
qed (simp add: admission_checked_def)

lemma authorization_stage_Ok:
  "authorization_stage X (traced px) ex bound s = (s', Ok posture) \<Longrightarrow>
     authorization_checked X px (se_verified ex) (rq_body (se_http_req ex)) (snd s')"
  by (cases "px_authorization px")
    (force simp: authorization_stage_def authorize_def authorization_checked_def authorization_request_def try_bind_Ok_iff
      logging_def split: prod.splits sum.splits)+

lemma and_then_state_Ok_iff:
  "and_then m f = (st, Ok b) \<longleftrightarrow> (\<exists>s p a. m = ((s, p), Ok a) \<and> f (s, p) a = (st, Ok b))"
  by (auto simp: and_then_Ok_iff)

lemmas stage_Ok_iff = and_then_state_Ok_iff or_refuse_Ok_iff establishing_Ok_iff

lemma checked_mono:
  assumes "set log \<subseteq> set log'"
  shows "admission_checked X px v now log \<Longrightarrow> admission_checked X px v now log'"
    "authorization_checked X px v body log \<Longrightarrow> authorization_checked X px v body log'"
  using assms unfolding admission_checked_def authorization_checked_def by (fastforce split: option.splits)+

lemma admit_request_Ok:
  assumes "admit_request X (traced px) ex peer s p = ((s', p'), Ok (ex', admitted))"
    and "se_actor_id ex = resolved_actor_id (fl_resolved_actor (vr_floor (se_verified ex)))"
  shows "\<exists>verdicts. ex' = ex\<lparr>se_verdicts := verdicts\<rparr>"
    "validate_request_envelope (sl_json X) (rq_body (se_http_req ex)) = Ok (am_outstanding admitted)"
    "transport_checked px peer (se_verified ex)"
    "admission_checked X px (se_verified ex) (se_now ex) (snd s')"
    "authorization_checked X px (se_verified ex) (rq_body (se_http_req ex)) (snd s')"
proof -
  have "\<exists>s1 est1 est2. validate_request_envelope (sl_json X) (rq_body (se_http_req ex)) = Ok (am_outstanding admitted)
      \<and> transport_binding_stage (traced px) ex peer = Ok est1
      \<and> admission_stage X (traced px) ex (est_value est1) s = (s1, Ok est2)
      \<and> authorization_stage X (traced px) (ex\<lparr>se_verdicts := (se_verdicts ex)\<lparr>av_admission := Some (snd (est_value est2))\<rparr>\<rparr>)
          (fst (est_value est2)) s1 = (s', Ok (am_authorized admitted))
      \<and> (\<exists>verdicts. ex' = ex\<lparr>se_verdicts := verdicts\<rparr>)"
    using assms(1) unfolding admit_request_def Let_def
    by (clarsimp simp: stage_Ok_iff validate_envelope_def case_prod_beta) (drule sym [of "(_, _)" "est_value _"], auto)
  then obtain s1 est1 est2 ex1 where steps: "transport_binding_stage (traced px) ex peer = Ok est1"
      "admission_stage X (traced px) ex (est_value est1) s = (s1, Ok est2)"
      "ex1 = ex\<lparr>se_verdicts := (se_verdicts ex)\<lparr>av_admission := Some (snd (est_value est2))\<rparr>\<rparr>"
      "authorization_stage X (traced px) ex1 (fst (est_value est2)) s1 = (s', Ok (am_authorized admitted))"
    and rest: "\<exists>verdicts. ex' = ex\<lparr>se_verdicts := verdicts\<rparr>"
      "validate_request_envelope (sl_json X) (rq_body (se_http_req ex)) = Ok (am_outstanding admitted)"
    by blast
  show "\<exists>verdicts. ex' = ex\<lparr>se_verdicts := verdicts\<rparr>"
    "validate_request_envelope (sl_json X) (rq_body (se_http_req ex)) = Ok (am_outstanding admitted)" by (rule rest)+
  show "transport_checked px peer (se_verified ex)" using steps(1) by (rule transport_binding_stage_Ok)
  have "set (snd s1) \<subseteq> set (snd s')"
    using spends_events [OF plane_spends(2) [of s1 X px ex1 "fst (est_value est2)"]] steps(4) by simp
  with admission_stage_Ok [OF steps(2) assms(2)] show "admission_checked X px (se_verified ex) (se_now ex) (snd s')"
    by (rule checked_mono(1) [rotated])
  show "authorization_checked X px (se_verified ex) (rq_body (se_http_req ex)) (snd s')"
    using authorization_stage_Ok [OF steps(4)] steps(3) by simp
qed

definition leg_consumed where
  "leg_consumed X px v body log \<longleftrightarrow>
     (continuation (vr_request_block v) \<noteq> None \<longrightarrow>
        (\<exists>state. extract_request_state (sl_json X) body = Some state
           \<and> LegConsumed (continuation_key (sl_crypto X) (audience_id (px_expected_audience px))
                (resolved_actor_id (fl_resolved_actor (vr_floor v))) state) (Ok True) \<in> set log))"

definition replay_admitted where
  "replay_admitted v now log \<longleftrightarrow>
     (\<exists>key. ReplayChecked key now (Ok Fresh) \<in> set log \<and> (rk_signer key, rk_audience key, rk_nonce key) = replay_slot v
        \<and> rk_expires_at_unix key = fl_expires (vr_floor v))"

definition window_snapshot where
  "window_snapshot px now win log \<longleftrightarrow> (\<exists>snapshot. SignerRead snapshot \<in> set log \<and> window_open snapshot now (px_sig_ttl_secs px) = Some win)"

lemma replay_stage_Ok:
  assumes "replay_admission_stage X (traced px) ex ctx s = (s', Ok est)"
  shows "replay_admitted (se_verified ex) (se_now ex) (snd s')"
    "ctx \<noteq> None \<longleftrightarrow> continuation (vr_request_block (se_verified ex)) \<noteq> None"
proof -
  from assms obtain oc where oc: "dispatch_request_with_async_tier (sl_crypto X) (px_replay_class px)
      (\<lambda>s key now. logging (\<lambda>w. px_replay_async px w key now) (ReplayChecked key now) s) (se_verified ex) s ctx
      (px_dispatch_cfg px) (se_now ex) = (s', Ok oc)"
    by (auto simp: replay_admission_stage_def split: prod.splits sum.splits)
  then obtain key where key: "logging (\<lambda>w. px_replay_async px w key (se_now ex)) (ReplayChecked key (se_now ex)) s = (s', Ok Fresh)"
      "(rk_signer key, rk_audience key, rk_nonce key) = replay_slot (se_verified ex)"
      "rk_expires_at_unix key = fl_expires (vr_floor (se_verified ex))"
    and prep: "prepare_http_dispatch (sl_crypto X) (se_verified ex) ctx = Ok (do_replay_key oc, do_continuation_verified oc)"
    by (rule async_dispatch_Ok)
  from logging_event [OF key(1)] key(2,3) show "replay_admitted (se_verified ex) (se_now ex) (snd s')"
    unfolding replay_admitted_def by blast
  from prepare_Ok(2-4) [OF prep] show "ctx \<noteq> None \<longleftrightarrow> continuation (vr_request_block (se_verified ex)) \<noteq> None" by blast
qed

lemma continuation_prepare_Ok:
  assumes "continuation_prepare X (traced px) ex aud s = (s', Ok est)" "prep_binding (est_value est) \<noteq> None"
  obtains state store where "extract_request_state (sl_json X) (rq_body (se_http_req ex)) = Some state"
    "px_continuations px = Some store" "cp_answer_key (est_value est) = Some (continuation_key (sl_crypto X) aud (se_actor_id ex) state)"
  using assms
  by (auto simp: continuation_prepare_def Let_def prep_binding_def try_bind_Ok_iff split: option.splits prod.splits if_splits)

lemma continuation_retire_Retired:
  assumes "px_continuations px = Some store" "continuation_retire (traced px) (Some key) s = (s', ret)"
    "ret \<in> {Retirement.NotInvolved, Retired}"
  shows "LegConsumed key (Ok True) \<in> set (snd s')"
  using assms by (auto simp: continuation_retire_def logging_def split: prod.splits sum.splits bool.splits)

lemma observe_retirement_Ok:
  "observe_retirement X px ex ret s p = ((s', p'), Ok u) \<Longrightarrow> s' = s \<and> ret \<in> {Retirement.NotInvolved, Retired}"
  by (auto simp: observe_retirement_def or_refuse_Ok_iff split: Retirement.splits)

lemma answerable_stage_Ok:
  "answerable_stage (traced px) ex s = (s', Ok est) \<Longrightarrow> window_snapshot px (se_now ex) (est_value est) (snd s')"
  by (auto simp: answerable_stage_def window_snapshot_def logging_def split: prod.splits option.splits)

lemma commit_to_answering_Ok:
  assumes "commit_to_answering X (traced px) ex s p = ((s', p'), Ok (ex', win))"
    and actor: "se_actor_id ex = resolved_actor_id (fl_resolved_actor (vr_floor (se_verified ex)))"
  shows "ex' = ex\<lparr>se_key := Some (sw_key win)\<rparr>"
    "replay_admitted (se_verified ex) (se_now ex) (snd s')"
    "window_snapshot px (se_now ex) win (snd s')"
    "leg_consumed X px (se_verified ex) (rq_body (se_http_req ex)) (snd s')"
proof -
  let ?aud = "audience_id (px_expected_audience px)"
  have "\<exists>est1 s1 est2 s2 est3 s3. continuation_prepare X (traced px) ex ?aud s = (s1, Ok est1)
      \<and> replay_admission_stage X (traced px) ex (prep_binding (est_value est1)) s1 = (s2, Ok est2)
      \<and> answerable_stage (traced px) ex s2 = (s3, Ok est3) \<and> win = est_value est3
      \<and> s' = fst (continuation_retire (traced px) (cp_answer_key (est_value est1)) s3)
      \<and> snd (continuation_retire (traced px) (cp_answer_key (est_value est1)) s3) \<in> {Retirement.NotInvolved, Retired} \<and> ex' = ex\<lparr>se_key := Some (sw_key win)\<rparr>"
    using assms(1) unfolding commit_to_answering_def Let_def
    by (clarsimp simp: stage_Ok_iff case_prod_beta simp del: insert_iff) (drule observe_retirement_Ok, auto)
  then obtain est1 s1 est2 s2 est3 s3 ret where steps: "continuation_prepare X (traced px) ex ?aud s = (s1, Ok est1)"
      "replay_admission_stage X (traced px) ex (prep_binding (est_value est1)) s1 = (s2, Ok est2)"
      "answerable_stage (traced px) ex s2 = (s3, Ok est3)" "win = est_value est3"
      "continuation_retire (traced px) (cp_answer_key (est_value est1)) s3 = (s', ret)" "ret \<in> {Retirement.NotInvolved, Retired}"
    and "ex' = ex\<lparr>se_key := Some (sw_key win)\<rparr>" by (metis prod.collapse)
  then show "ex' = ex\<lparr>se_key := Some (sw_key win)\<rparr>" by simp
  have "set (snd s2) \<subseteq> set (snd s3)" "set (snd s3) \<subseteq> set (snd s')"
    using spends_events [OF plane_spends(6) [of s2 px ex]] spends_events [OF plane_spends(4) [of s3 px "cp_answer_key (est_value est1)"]]
      steps(3,5) by simp_all
  with replay_stage_Ok(1) [OF steps(2)] answerable_stage_Ok [OF steps(3)] steps(4)
  show "replay_admitted (se_verified ex) (se_now ex) (snd s')" "window_snapshot px (se_now ex) win (snd s')"
    unfolding replay_admitted_def window_snapshot_def by blast+
  show "leg_consumed X px (se_verified ex) (rq_body (se_http_req ex)) (snd s')"
    unfolding leg_consumed_def
  proof
    assume "continuation (vr_request_block (se_verified ex)) \<noteq> None"
    then have "prep_binding (est_value est1) \<noteq> None" using replay_stage_Ok(2) [OF steps(2)] by blast
    with steps(1) obtain state store where "extract_request_state (sl_json X) (rq_body (se_http_req ex)) = Some state"
      "px_continuations px = Some store" "cp_answer_key (est_value est1) = Some (continuation_key (sl_crypto X) ?aud (se_actor_id ex) state)"
      by (rule continuation_prepare_Ok)
    with continuation_retire_Retired [OF this(2)] steps(5,6) actor
    show "\<exists>state. extract_request_state (sl_json X) (rq_body (se_http_req ex)) = Some state
        \<and> LegConsumed (continuation_key (sl_crypto X) ?aud (resolved_actor_id (fl_resolved_actor (vr_floor (se_verified ex)))) state) (Ok True)
            \<in> set (snd s')"
      by auto
  qed
qed

definition body_prepared where
  "body_prepared X px v body now win prepared log \<longleftrightarrow>
     (\<exists>forwarded bound. forwarded_body_prepare X body v (px_verified_context_policy px) now = Ok forwarded
        \<and> InnerPrepared forwarded (Ok (prepared, bound)) \<in> set log \<and> window_covers win bound)"

definition crossing_recorded where
  "crossing_recorded px request log \<longleftrightarrow>
     (px_retention px \<noteq> None \<longrightarrow>
        (\<exists>reservation crossing. RetentionReserved request (Ok reservation) \<in> set log
           \<and> CrossingRecorded reservation (Ok crossing) \<in> set log))"

lemma retention_stages_Ok:
  assumes "retention_reserve (traced px) request s = (s1, Ok accepted)" "retention_commit accepted s1 = (s', Ok est)"
  shows "crossing_recorded px request (snd s')"
  using assms
  by (auto simp: retention_reserve_def retention_commit_def crossing_recorded_def logging_def Let_def
      split: option.splits prod.splits sum.splits) blast

lemma inner_prepare_Ok:
  "inner_prepare (traced px) forwarded s = (s', Ok est) \<Longrightarrow> InnerPrepared forwarded (Ok (est_value est)) \<in> set (snd s')"
  by (auto simp: inner_prepare_def logging_def split: prod.splits sum.splits)

lemma commit_to_dispatch_Ok:
  assumes "commit_to_dispatch X (traced px) ex authorized win s p = ((s', p'), Ok (prepared, owed))"
  shows "body_prepared X px (se_verified ex) (rq_body (se_http_req ex)) (se_now ex) win prepared (snd s')"
    "crossing_recorded px (se_http_req ex) (snd s')"
proof -
  have "\<exists>forwarded s1 est accepted s2 est2.
      forwarded_body_prepare X (rq_body (se_http_req ex)) (se_verified ex) (px_verified_context_policy px) (se_now ex) = Ok forwarded
      \<and> inner_prepare (traced px) forwarded s = (s1, Ok est) \<and> prepared = fst (est_value est) \<and> window_covers win (snd (est_value est))
      \<and> retention_reserve (traced px) (se_http_req ex) s1 = (s2, Ok accepted) \<and> retention_commit accepted s2 = (s', Ok est2)"
    using assms unfolding commit_to_dispatch_def Let_def
    by (clarsimp simp: stage_Ok_iff case_prod_beta forward_body_stage_def try_bind_Ok_iff posture_release_def)
      (drule sym [of "(_, _)" "est_value _"], auto)
  then obtain forwarded s1 est accepted s2 est2 where steps:
      "forwarded_body_prepare X (rq_body (se_http_req ex)) (se_verified ex) (px_verified_context_policy px) (se_now ex) = Ok forwarded"
      "inner_prepare (traced px) forwarded s = (s1, Ok est)" "prepared = fst (est_value est)" "window_covers win (snd (est_value est))"
      "retention_reserve (traced px) (se_http_req ex) s1 = (s2, Ok accepted)" "retention_commit accepted s2 = (s', Ok est2)" by blast
  show "crossing_recorded px (se_http_req ex) (snd s')" using steps(5,6) by (rule retention_stages_Ok)
  have "set (snd s1) \<subseteq> set (snd s2)" "set (snd s2) \<subseteq> set (snd s')"
    using spends_events [OF plane_spends(8) [of s1 px "se_http_req ex"]] steps(5)
      spends_events [OF retention_commit_spends(1) [OF retention_reserve_traced [OF steps(5)], of s2]] steps(6) by simp_all
  with inner_prepare_Ok [OF steps(2)] have "InnerPrepared forwarded (Ok (prepared, snd (est_value est))) \<in> set (snd s')"
    using steps(3) by auto
  with steps(1,4) show "body_prepared X px (se_verified ex) (rq_body (se_http_req ex)) (se_now ex) win prepared (snd s')"
    unfolding body_prepared_def by blast
qed

section \<open>What precedes a dispatch\<close>

definition cleared where
  "cleared X px req now v prepared log \<longleftrightarrow>
     full_request (sl_crypto X) (sl_json X) (sl_request_block X) (sq_http req) (px_expected_audience px) (\<lambda>_. None)
       (px_resolve_actor px) (px_policy px) now = Ok v
     \<and> (\<exists>outstanding. validate_request_envelope (sl_json X) (rq_body (sq_http req)) = Ok outstanding)
     \<and> transport_checked px (sq_peer req) v
     \<and> admission_checked X px v now log
     \<and> authorization_checked X px v (rq_body (sq_http req)) log
     \<and> replay_admitted v now log
     \<and> leg_consumed X px v (rq_body (sq_http req)) log
     \<and> crossing_recorded px (sq_http req) log
     \<and> (\<exists>win. window_snapshot px now win log \<and> body_prepared X px v (rq_body (sq_http req)) now win prepared log)"

lemma prepare_exchange_Ok:
  assumes "prepare_exchange X (traced px) req now s = ((s', p'), Ok (ex, admitted, win, prepared, owed))"
  shows "cleared X px req now (se_verified ex) prepared (snd s')" "se_key ex = Some (sw_key win)" "se_http_req ex = sq_http req"
    "se_now ex = now"
proof -
  define ex0 where "ex0 v = \<lparr>se_http_req = sq_http req, se_verified = v, se_actor_id = resolved_actor_id (fl_resolved_actor (vr_floor v)),
    se_now = now, se_key = None, se_verdicts = \<lparr>av_authorization = None, av_admission = None\<rparr>\<rparr>" for v
  have "\<exists>v p0 ex1 s1 p1 s2 p2.
      verify_stage X (traced px) (sq_http req) now s progress_new = ((s, p0), Ok v)
      \<and> admit_request X (traced px) (ex0 v) (sq_peer req) s p0 = ((s1, p1), Ok (ex1, admitted))
      \<and> commit_to_answering X (traced px) ex1 s1 p1 = ((s2, p2), Ok (ex, win))
      \<and> commit_to_dispatch X (traced px) ex (am_authorized admitted) win
          (record_request_accepted (traced px) admitted (av_admission (se_verdicts ex)) (se_actor_id (ex0 v)) now s2) p2
        = ((s', p'), Ok (prepared, owed))"
    using assms unfolding prepare_exchange_def Let_def ex0_def
    by (clarsimp simp: and_then_state_Ok_iff) (frule verify_stage_Ok [THEN iffD1], auto)
  then obtain v p0 ex1 s1 p1 s2 p2 where steps: "verify_stage X (traced px) (sq_http req) now s progress_new = ((s, p0), Ok v)"
      "admit_request X (traced px) (ex0 v) (sq_peer req) s p0 = ((s1, p1), Ok (ex1, admitted))"
      "commit_to_answering X (traced px) ex1 s1 p1 = ((s2, p2), Ok (ex, win))"
    and dispatch: "commit_to_dispatch X (traced px) ex (am_authorized admitted) win
      (record_request_accepted (traced px) admitted (av_admission (se_verdicts ex)) (se_actor_id (ex0 v)) now s2) p2
      = ((s', p'), Ok (prepared, owed))" by blast
  note admitted = admit_request_Ok [OF steps(2)]
  obtain verdicts where ex1: "ex1 = (ex0 v)\<lparr>se_verdicts := verdicts\<rparr>" using admitted(1) by (auto simp: ex0_def)
  note answering = commit_to_answering_Ok [OF steps(3)]
  have ex: "ex = ex1\<lparr>se_key := Some (sw_key win)\<rparr>" using answering(1) by (simp add: ex1 ex0_def)
  show "se_key ex = Some (sw_key win)" "se_http_req ex = sq_http req" "se_now ex = now" by (simp_all add: ex ex1 ex0_def)
  let ?s2 = "record_request_accepted (traced px) admitted (av_admission (se_verdicts ex)) (se_actor_id (ex0 v)) now s2"
  have log1: "set (snd s1) \<subseteq> set (snd s2)"
    by (rule stage_spends_events [OF commit_to_answering_spends [of s1 X px ex1 p1, unfolded steps(3)]])
  have log2: "set (snd s2) \<subseteq> set (snd s')"
    using spends_events [OF call_spends(2)] 
      stage_spends_events [OF commit_to_dispatch_spends(1) [of ?s2 X px ex "am_authorized admitted" win p2, unfolded dispatch]]
    by (rule subset_trans)
  from log1 log2 have log: "set (snd s1) \<subseteq> set (snd s')" by (rule subset_trans)
  note prepared = commit_to_dispatch_Ok [OF dispatch]
  show "cleared X px req now (se_verified ex) prepared (snd s')"
    unfolding cleared_def
  proof (intro conjI exI)
    show "full_request (sl_crypto X) (sl_json X) (sl_request_block X) (sq_http req) (px_expected_audience px) (\<lambda>_. None)
        (px_resolve_actor px) (px_policy px) now = Ok (se_verified ex)"
      using steps(1) by (simp add: verify_stage_Ok ex ex1 ex0_def)
    show "validate_request_envelope (sl_json X) (rq_body (sq_http req)) = Ok (am_outstanding admitted)"
      "transport_checked px (sq_peer req) (se_verified ex)"
      using admitted(2,3) by (simp_all add: ex ex1 ex0_def)
    show "admission_checked X px (se_verified ex) now (snd s')" "authorization_checked X px (se_verified ex) (rq_body (sq_http req)) (snd s')"
      using admitted(4,5) checked_mono [OF log] by (simp_all add: ex ex1 ex0_def)
    show "replay_admitted (se_verified ex) now (snd s')" "leg_consumed X px (se_verified ex) (rq_body (sq_http req)) (snd s')"
      "window_snapshot px now win (snd s')"
      using answering(2-4) log2 unfolding replay_admitted_def leg_consumed_def window_snapshot_def
      by (auto simp: ex ex1 ex0_def)
    show "crossing_recorded px (sq_http req) (snd s')"
      "body_prepared X px (se_verified ex) (rq_body (sq_http req)) now win prepared (snd s')"
      using prepared by (simp_all add: ex ex1 ex0_def)
  qed
qed

lemma no_call: "spends s s' B \<Longrightarrow> snd s' = snd s @ evs \<Longrightarrow> c \<notin># B \<Longrightarrow> c \<notin> call_of ` set evs"
  by (auto simp: spends_def dest!: set_mset_mono) blast

text \<open>How a run of \<open>handle\<close> splits at the dispatch.\<close>

lemma handle_split:
  assumes "handle X (traced px) req now (w, []) = ((w', log), rsp)" "TransmitCall \<in> call_of ` set log"
  obtains pre post s1 p1 s2 ex admitted win prepared owed outcome where
    "prepare_exchange X (traced px) req now (w, []) = ((s1, p1), Ok (ex, admitted, win, prepared, owed))" "snd s1 = pre"
    "TransmitCall \<notin> call_of ` set pre" "TransmitCall \<notin> call_of ` set post" "log = pre @ Transmitted prepared outcome # post"
    "answer_exchange X (traced px) ex admitted win outcome owed s2 (advance BackendDispatched p1) = ((w', log), rsp)"
proof -
  obtain s1 p1 r where r: "prepare_exchange X (traced px) req now (w, []) = ((s1, p1), r)" by (metis prod.collapse)
  note spent = prepare_exchange_spends [of "(w, [])" X px req now, unfolded r stage_spends_def, simplified]
  show thesis
  proof (cases r)
    case (Inl e)
    with assms r have "s1 = (w', log)" by (simp add: handle_eq)
    with spent Inl have "TransmitCall \<notin> call_of ` set log"
      by (intro no_call [of "(w, [])" "(w', log)" "prepare_calls + refusal_calls"]) (simp_all add: prepare_calls_def add_mset_commute)
    with assms(2) show thesis by blast
  next
    case (Inr c)
    obtain ex admitted win prepared owed where c: "c = (ex, admitted, win, prepared, owed)" by (metis prod_cases5)
    obtain s2 outcome where t: "px_inner_transmit (traced px) s1 prepared = (s2, outcome)" by fastforce
    have ans: "answer_exchange X (traced px) ex admitted win outcome owed s2 (advance BackendDispatched p1) = ((w', log), rsp)"
      using assms(1) t by (simp add: handle_eq r Inr c del: traced_sel)
    have owed: "owed_traced owed" using prepare_exchange_owed r Inr c by metis
    from answer_exchange_spends [OF this, of s2 X px ex admitted win outcome "advance BackendDispatched p1"] ans
    have sp: "spends s2 (w', log) answer_calls" by simp
    then obtain post where post: "log = snd s2 @ post" by (auto simp: spends_def)
    have "snd s2 = snd s1 @ [Transmitted prepared outcome]" using t by (auto simp: logging_def split: prod.splits)
    with post have "log = snd s1 @ Transmitted prepared outcome # post" by simp
    moreover have "TransmitCall \<notin> call_of ` set (snd s1)"
      using spent Inr by (intro no_call [of "(w, [])" s1 prepare_calls]) (simp_all add: prepare_calls_def)
    moreover have "TransmitCall \<notin> call_of ` set post" using no_call [OF sp, of post] post by (simp add: answer_calls_def)
    ultimately show thesis using r Inr c ans by (intro that [of s1 p1 ex admitted win prepared owed "snd s1" post outcome s2]) auto
  qed
qed

text \<open>
  C1. A request is handed to the inner server only after everything the proxy is configured to check.
  If a run of \<open>handle\<close> transmitted to the inner server, it did so exactly once, and everything that had to
  come first is in the log before it: the request was verified for this audience, at the caller's
  instant and under the configured trust and policy; the envelope is a request or a notification; the peer was bound to the
  signer, when transport binding is on; the admission state was read and the assertion accepted
  against the answer, when admission is on; the policy evaluated this very request for the operation of
  the signed body and permitted it, when a policy is configured; the replay tier answered that the
  request's slot was fresh; the approval the request answers was consumed; the crossing was reserved
  and recorded, when evidence is retained; a signing key was read whose window outlasts the completion bound
  of the dispatch; and what was prepared is the stripped body of the verified request.
\<close>

theorem dispatched_only_after_checks:
  assumes "handle X (traced px) req now (w, []) = ((w', log), rsp)" "Transmitted prepared outcome \<in> set log"
  shows "\<exists>pre post v. log = pre @ Transmitted prepared outcome # post \<and> TransmitCall \<notin> call_of ` set (pre @ post)
    \<and> cleared X px req now v prepared pre"
proof -
  have "TransmitCall \<in> call_of ` set log" using assms(2) by force
  with assms(1) show ?thesis
  proof (rule handle_split)
    fix pre post s1 p1 s2 ex admitted win prepared' owed outcome'
    assume prep: "prepare_exchange X (traced px) req now (w, []) = ((s1, p1), Ok (ex, admitted, win, prepared', owed))" "snd s1 = pre"
      and quiet: "TransmitCall \<notin> call_of ` set pre" "TransmitCall \<notin> call_of ` set post"
      and log: "log = pre @ Transmitted prepared' outcome' # post"
    have "Transmitted prepared outcome \<notin> set (pre @ post)" using quiet by (force simp: image_iff)
    with assms(2) log have "prepared' = prepared" "outcome' = outcome" by auto
    with log quiet prepare_exchange_Ok(1) [OF prep(1)] prep(2) show ?thesis by auto
  qed
qed

end
