(* ===== verification/Serve_Refusal.thy ===== *)
theory Serve_Refusal
  imports Serve_Sound
begin

text \<open>
  What the proxy says when it refuses (\<open>mcp-re-proxy/src/http_profile_serve/receipt/\<close>, \<open>refusal/\<close> and the
  refusal arms of the stages): which statuses it uses before and after the dispatch, and that the claim
  a refusal makes about execution agrees with what happened.
\<close>

section \<open>The body of a refusal\<close>

definition claims :: "serve_lib \<Rightarrow> HttpResponse \<Rightarrow> json option" where
  "claims X rsp = error_member (sl_json X) (rsp_body rsp) ''execution_status''"

lemma unsigned_error_claims:
  "json_roundtrip J \<Longrightarrow> error_member J (rsp_body (unsigned_error J sts code execution)) ''execution_status'' = execution_claim code execution"
  using mcp_re_error_member(2) [of code execution]
  by (simp add: unsigned_error_def error_member_def json_roundtrip_def json_get_def)

lemma built_status:
  "build_delegated_rejection L J tv request ev reason code signer delegation key kid created expires = Ok response \<Longrightarrow> rsp_status response = code"
  "build_delegated_rejection_preflight L J tv received reason code signer delegation key kid created expires = Ok response
     \<Longrightarrow> rsp_status response = code"
  by (auto simp: build_delegated_rejection_def build_delegated_rejection_preflight_def rejection_response_def Let_def
      split: prod.splits sum.splits dest!: signed_body)

lemma signed_rejection_status:
  "signed_rejection X px request code sts now bound execution snapshot s = (s', rsp) \<Longrightarrow> rsp_status rsp = sts"
  by (auto simp: signed_rejection_def Let_def unsigned_error_def split: option.splits prod.splits sum.splits dest: built_status)

lemma signed_rejection_claims:
  "json_roundtrip (sl_json X) \<Longrightarrow> signed_rejection X px request code sts now bound execution snapshot s = (s', rsp) \<Longrightarrow>
     claims X rsp = execution_claim code execution"
  using built_rejection(3) [OF _ disjI1] built_rejection(3) [OF _ disjI2]
  by (fastforce simp: signed_rejection_def claims_def Let_def unsigned_error_claims split: option.splits prod.splits sum.splits)

text \<open>A response that answers for a refusal under a given disposition.\<close>

definition refused_with :: "serve_lib \<Rightarrow> RefusalCause \<Rightarrow> nat \<Rightarrow> ExecutionDisposition \<Rightarrow> HttpResponse \<Rightarrow> bool" where
  "refused_with X cause sts execution rsp \<longleftrightarrow> rsp_status rsp = sts
     \<and> (json_roundtrip (sl_json X) \<longrightarrow> claims X rsp = execution_claim (refusal_wire_code cause) execution)"

lemma rejection_rsp:
  "rejection X px request cause sts now bound actor execution snapshot az ad s = (s', rsp) \<Longrightarrow> refused_with X cause sts execution rsp"
  "response_rejection X px request cause sts now bound actor execution snapshot s = (s', rsp) \<Longrightarrow> refused_with X cause sts execution rsp"
  by (auto simp: rejection_def response_rejection_def refused_with_def dest: signed_rejection_status signed_rejection_claims)

lemma refuse_rsp:
  "refuse X px ex refusal p s = (s', rsp) \<Longrightarrow>
     refused_with X (rf_cause refusal) (rf_status refusal) (disposition p (rf_execution_refinement refusal)) rsp"
  by (auto simp: refuse_def receipt_refuse_def Let_def split: if_splits dest: rejection_rsp)

section \<open>After the dispatch\<close>

definition late_refusal :: "serve_lib \<Rightarrow> HttpResponse \<Rightarrow> bool" where
  "late_refusal X rsp \<longleftrightarrow> rsp_status rsp \<in> {409, 500, 502, 503, 504}
     \<and> (json_roundtrip (sl_json X) \<longrightarrow> claims X rsp = Some (JString ''possibly_executed''))"

definition crossed :: "ExchangeProgress \<Rightarrow> bool" where
  "crossed p \<longleftrightarrow> retry_semantics p = NotRetrySafe \<and> ex_request p \<le> CompletedContinuationOpen"

lemma crossed_apply: "crossed p \<Longrightarrow> crossed (exchange_apply x p)"
  using retry_step [of p x] request_bounded [of p x]
  by (cases "retry_semantics (exchange_apply x p)") (auto simp: crossed_def less_eq_RetrySemantics_def)

lemmas crossed_steps =
  crossed_apply [of _ "Advance e", simplified] crossed_apply [of _ "ObserveOrigin r", simplified]
  crossed_apply [of _ "ObserveOpenLeg l", simplified] crossed_apply [of _ "CheckPublication t", simplified] for e r l t

lemma crossed_disposition: "crossed p \<Longrightarrow> disposition p refined = PossiblyExecuted"
  by (simp add: crossed_def disposition_def)

lemma refused_late:
  "refused_with X cause sts PossiblyExecuted rsp \<Longrightarrow> sts \<in> {409, 500, 502, 503, 504} \<Longrightarrow> late_refusal X rsp"
  by (auto simp: refused_with_def late_refusal_def execution_claim_def)

definition answered :: "serve_lib \<Rightarrow> HttpResponse \<Rightarrow> bool" where
  "answered X rsp \<longleftrightarrow> rsp_status rsp \<in> {200, 202} \<or> late_refusal X rsp"

lemma refuse_late:
  "crossed p \<Longrightarrow> rf_status refusal \<in> {409, 500, 502, 503, 504} \<Longrightarrow> refuse X px ex refusal p s = (s', rsp) \<Longrightarrow> late_refusal X rsp"
  by (drule refuse_rsp) (simp add: crossed_disposition refused_late)

lemma refuse_retained_late:
  "crossed p \<Longrightarrow> rf_status refusal \<in> {409, 500, 502, 503, 504} \<Longrightarrow> refuse_retained X px ex refusal p owed s = (s', rsp)
     \<Longrightarrow> late_refusal X rsp"
  by (auto simp: refuse_retained_def split: prod.splits intro: refuse_late)

lemma retain_accepted_late:
  "retain_accepted X px request response now bound actor owed PossiblyExecuted snapshot s = (s', Some rsp) \<Longrightarrow> late_refusal X rsp"
  by (auto simp: retain_accepted_def split: prod.splits if_splits dest!: rejection_rsp(2) intro: refused_late)

lemma case_emitted_Ok:
  "(case x of (_, Inl e) \<Rightarrow> Inl e | (hs, Inr _) \<Rightarrow> Inr (f hs)) = Inr a \<longleftrightarrow> (\<exists>hs u. x = (hs, Inr u) \<and> a = f hs)"
  by (auto split: prod.splits sum.splits)

lemma accepted_202_status:
  "sign_delegated_accepted_202 L request delegation key kid created expires = Ok ack \<Longrightarrow> rsp_status ack = 202"
  by (auto simp: sign_delegated_accepted_202_def STATUS_ACCEPTED_def try_bind_Ok_iff Let_def
      case_emitted_Ok split: if_splits)

lemma answer_notification_answered:
  assumes "answer_notification X px request win now v actor owed PossiblyExecuted s = (s', rsp)"
  shows "answered X rsp"
  using assms unfolding answered_def answer_notification_def Let_def
  by (auto split: sum.splits prod.splits option.splits dest: accepted_202_status retain_accepted_late rejection_rsp(2) intro: refused_late)

lemma establish_terminal_crossed: "crossed p \<Longrightarrow> establish_terminal est p = (r, p') \<Longrightarrow> crossed p'"
  using crossed_steps(4) [of p "[est_event est]"] crossed_steps(1)
  by (auto simp: establish_terminal_def establish_def split: prod.splits option.splits)

lemma answer_notification_terminal_answered:
  assumes "crossed p" "answer_notification_terminal X px ex outcome win owed s p = (s', rsp)"
  shows "answered X rsp"
proof -
  note [simp] = refusal_at_def
  obtain p1 r where r: "observe_acknowledgement outcome p = (p1, r)" by fastforce
  then have p1: "crossed p1" using assms(1) crossed_steps(2) by (auto simp: observe_acknowledgement_def split: DispatchedOutcome.splits)
  show ?thesis
  proof (cases r)
    case (Inl refusal)
    moreover from this r have "rf_status refusal = 504" by (auto simp: observe_acknowledgement_def split: DispatchedOutcome.splits)
    ultimately show ?thesis using assms(2) r
      by (auto simp: answer_notification_terminal_def answered_def dest: refuse_retained_late [OF p1, rotated])
  next
    case (Inr est)
    obtain q p2 where q: "establish_terminal est p1 = (q, p2)" by fastforce
    then have p2: "crossed p2" using p1 establish_terminal_crossed by blast
    show ?thesis
    proof (cases q)
      case (Inl e)
      with assms(2) r q Inr show ?thesis
        by (auto simp: answer_notification_terminal_def answered_def dest: refuse_retained_late [OF p2, rotated])
    next
      case (Inr u)
      with assms(2) r q \<open>r = Inr est\<close> crossed_disposition [OF p2] show ?thesis
        by (auto simp: answer_notification_terminal_def dest: answer_notification_answered)
    qed
  qed
qed

definition replies :: "serve_lib \<Rightarrow> ('w \<times> ExchangeProgress) \<times> (HttpResponse + 'a) \<Rightarrow> bool" where
  "replies X m \<longleftrightarrow> (case m of ((s, p), Inl rsp) \<Rightarrow> late_refusal X rsp | ((s, p), Inr _) \<Rightarrow> crossed p)"

lemma replies_and_then:
  "replies X m \<Longrightarrow> (\<And>s p a. m = ((s, p), Ok a) \<Longrightarrow> crossed p \<Longrightarrow> replies X (f (s, p) a)) \<Longrightarrow> replies X (and_then m f)"
  by (auto simp: replies_def and_then_def split: prod.splits sum.splits)

lemma replies_or_refuse:
  "crossed p \<Longrightarrow> (\<And>r. snd result = Inl r \<Longrightarrow> rf_status r \<in> {409, 500, 502, 503, 504}) \<Longrightarrow> replies X (or_refuse X px ex p result)"
  by (auto simp: replies_def or_refuse_def split: prod.splits sum.splits intro: refuse_late)

lemma replies_establishing: "replies X m \<Longrightarrow> replies X (establishing m)"
  by (auto simp: replies_def establishing_def and_then_def establish_def crossed_steps split: prod.splits sum.splits)

lemma replies_refusing_retained:
  "crossed (fst result) \<Longrightarrow> (\<And>r. snd result = Inl r \<Longrightarrow> rf_status r \<in> {409, 500, 502, 503, 504})
     \<Longrightarrow> replies X (refusing_retained X px ex owed s result)"
  by (auto simp: replies_def refusing_retained_def split: prod.splits sum.splits intro: refuse_retained_late)

lemma observe_reply_facts:
  "crossed p \<Longrightarrow> crossed (fst (observe_reply outcome p))"
  "snd (observe_reply outcome p) = Inl r \<Longrightarrow> rf_status r \<in> {409, 500, 502, 503, 504}"
  by (auto simp: observe_reply_def crossed_steps refusal_at_def split: DispatchedOutcome.splits)

lemma read_reply_facts:
  "crossed p \<Longrightarrow> crossed (fst (read_reply X response outstanding p))"
  "snd (read_reply X response outstanding p) = Inl r \<Longrightarrow> rf_status r \<in> {409, 500, 502, 503, 504}"
proof -
  show "crossed p \<Longrightarrow> crossed (fst (read_reply X response outstanding p))"
    by (auto simp: read_reply_def Let_def crossed_steps split: sum.splits)
  have v: "validated_reply J response outstanding = Inl r \<Longrightarrow> rf_status r = 502" for J r
    by (auto simp: validated_reply_def try_bind_def map_err_def reply_invalid_def refusal_at_def
        split: sum.splits HttpProfileError.splits)
  have c: "reply_classify parsed = Inl r \<Longrightarrow> rf_status r = 502" for parsed r
    by (auto simp: reply_classify_def Let_def refusal_at_def split: ResultTypeClass.splits sum.splits option.splits)
  show "snd (read_reply X response outstanding p) = Inl r \<Longrightarrow> rf_status r \<in> {409, 500, 502, 503, 504}"
    by (auto simp: read_reply_def Let_def split: sum.splits dest: v c)
qed

lemma sign_reply_facts:
  "sign_reply X ex response win = (response', r) \<Longrightarrow> r = Inl refusal \<Longrightarrow> rf_status refusal = 500"
  "snd (sign_reply X ex response win) = Inr est \<Longrightarrow> rsp_status (fst (sign_reply X ex response win)) = rsp_status response"
  by (auto simp: sign_reply_def Let_def refusal_at_def split: prod.splits sum.splits dest: signed_body(1))

lemma record_open_leg_facts:
  "snd (record_open_leg X px ex aud state base s) = Inl r \<Longrightarrow> rf_status r \<in> {409, 500, 502, 503, 504}"
proof -
  have "snd (create_attempts n store key bases ttl s) = Inl r \<Longrightarrow> rf_status r \<in> {409, 503}" for n store key bases ttl s
    by (induction n arbitrary: s) (auto simp: refusal_at_def split: prod.splits sum.splits Creation.splits)
  then show "snd (record_open_leg X px ex aud state base s) = Inl r \<Longrightarrow> rf_status r \<in> {409, 500, 502, 503, 504}"
    by (auto simp: record_open_leg_def refusal_at_def split: option.splits)
qed

lemma record_continuation_leg_replies: "crossed p \<Longrightarrow> replies X (record_continuation_leg X px ex cls base s p)"
proof (cases cls)
  case (OpenReply state)
  assume "crossed p"
  have "replies X (or_refuse X px ex p (record_open_leg X px ex (audience_id (px_expected_audience px)) state base s))"
    using \<open>crossed p\<close> record_open_leg_facts by (rule replies_or_refuse)
  then show ?thesis
    by (auto simp: record_continuation_leg_def OpenReply establish_def replies_def [where m = "(_, Inr _)"] crossed_steps
        intro!: replies_and_then)
qed (simp add: record_continuation_leg_def replies_def crossed_steps)

lemma assemble_reply_replies:
  assumes "crossed p"
  shows "replies X (assemble_reply X px ex outcome outstanding win owed s p)"
    "assemble_reply X px ex outcome outstanding win owed s p = (st, Ok reply) \<Longrightarrow> rsp_status (sd_response reply) = 200"
proof -
  show "replies X (assemble_reply X px ex outcome outstanding win owed s p)"
    unfolding assemble_reply_def Let_def
    by (rule replies_and_then replies_establishing replies_refusing_retained replies_or_refuse record_continuation_leg_replies
        observe_reply_facts(1) read_reply_facts(1) assms
        | erule observe_reply_facts(2) read_reply_facts(2)
        | assumption | simp only: case_prod_beta fst_conv snd_conv
        | (simp add: replies_def; fail)
        | (drule sign_reply_facts(1) [OF surjective_pairing]; simp))+
  show "rsp_status (sd_response reply) = 200" if "assemble_reply X px ex outcome outstanding win owed s p = (st, Ok reply)"
    using that unfolding assemble_reply_def Let_def
    by (auto simp: and_then_Ok_iff case_prod_beta stage_Ok_iff dest: sign_reply_facts(2))
qed

lemma serve_retained_answered:
  assumes "crossed p" "rsp_status (sd_response reply) = 200" "serve_retained X px ex reply owed s p = (st, rsp)"
  shows "answered X rsp"
proof -
  let ?success = "case sd_class reply of TerminalReply \<Rightarrow> Terminal | OpenReply _ \<Rightarrow> OpenLeg"
  obtain r p1 where r: "may_publish ?success p = (r, p1)" by fastforce
  have "crossed p1"
    using r crossed_steps(4) [OF assms(1), of "success_tail ?success"] by (auto simp: may_publish_def split: prod.splits option.splits)
  with assms(2,3) r show ?thesis
    by (auto simp: serve_retained_def Let_def answered_def crossed_disposition refusal_at_def split: sum.splits prod.splits option.splits
        dest: retain_accepted_late refuse_retained_late [rotated 2])
qed

lemma answer_exchange_answered:
  assumes "crossed p" "answer_exchange X px ex admitted win outcome owed s p = (s', rsp)"
  shows "answered X rsp"
proof (cases "am_outstanding admitted = Notification")
  case True
  with assms show ?thesis by (auto simp: answer_exchange_def intro: answer_notification_terminal_answered)
next
  case False
  obtain s1 p1 r where r: "assemble_reply X px ex outcome (am_outstanding admitted) win owed s p = ((s1, p1), r)"
    by (metis prod.collapse)
  show ?thesis
  proof (cases r)
    case (Inl e)
    with assemble_reply_replies(1) [OF assms(1), of X px ex outcome "am_outstanding admitted" win owed s] assms(2) False r
    show ?thesis by (simp add: answer_exchange_def replies_def answered_def)
  next
    case (Inr reply)
    with assemble_reply_replies [OF assms(1), of X px ex outcome "am_outstanding admitted" win owed s] r
    have "crossed p1" "rsp_status (sd_response reply) = 200" by (simp_all add: replies_def)
    with assms(2) False r Inr show ?thesis
      by (auto simp: answer_exchange_def split: prod.splits dest: serve_retained_answered)
  qed
qed

section \<open>Before the dispatch\<close>

definition early_refusal :: "serve_lib \<Rightarrow> HttpResponse \<Rightarrow> bool" where
  "early_refusal X rsp \<longleftrightarrow> rsp_status rsp \<in> {400, 403, 409, 500, 503}
     \<and> (json_roundtrip (sl_json X) \<longrightarrow> claims X rsp \<noteq> Some (JString ''possibly_executed''))"

text \<open>The refusals the stages before the dispatch mint.\<close>

definition tame :: "Refusal \<Rightarrow> bool" where
  "tame r \<longleftrightarrow> rf_status r \<in> {400, 403, 409, 500, 503}
     \<and> rf_execution_refinement r \<in> {None, Some NothingExecutedRetentionUnresolved}
     \<and> refusal_wire_code (rf_cause r) \<noteq> wire_code EvidenceRetentionIndeterminate"

lemma tame_codes:
  "wire_code (core_projection e) \<noteq> wire_code EvidenceRetentionIndeterminate"
  "policy_wire_code q \<noteq> wire_code EvidenceRetentionIndeterminate"
  "wire_code (action_refusal_core a) \<noteq> wire_code EvidenceRetentionIndeterminate"
  "wire_code (proxy_dispatch_core d) \<noteq> wire_code EvidenceRetentionIndeterminate"
proof -
  show carrier: "wire_code (core_projection e) \<noteq> wire_code EvidenceRetentionIndeterminate" for e by (cases e) simp_all
  show "policy_wire_code q \<noteq> wire_code EvidenceRetentionIndeterminate" by (cases q) simp_all
  show "wire_code (action_refusal_core a) \<noteq> wire_code EvidenceRetentionIndeterminate" by (cases a) simp_all
  show "wire_code (proxy_dispatch_core d) \<noteq> wire_code EvidenceRetentionIndeterminate"
  proof (cases d)
    case (ProxyDispatch x)
    then show ?thesis by (cases x) (use carrier in simp_all)
  qed simp_all
qed

lemma refuse_early:
  "retry_semantics p \<noteq> NotRetrySafe \<Longrightarrow> tame refusal \<Longrightarrow> refuse X px ex refusal p s = (s', rsp) \<Longrightarrow> early_refusal X rsp"
  by (drule refuse_rsp)
    (auto simp: early_refusal_def tame_def refused_with_def execution_claim_def disposition_def split: RetrySemantics.splits)

text \<open>The exchange is in a given state and nothing has gone wrong.\<close>

definition clean :: "ExchangeState \<Rightarrow> ExchangeProgress \<Rightarrow> bool" where
  "clean st p \<longleftrightarrow> ex_request p = st \<and> ex_anomaly p = None"

lemma advance_backend: "ex_backend (advance e p) = (if backend_may_have_executed (ex_request (advance e p)) then Dispatched else NotDispatched)"
  by (simp add: advance_def Let_def sync_backend_def split: option.splits sum.splits)

lemma clean_advance:
  assumes "clean st p" "((st, e), st') \<in> set legal_edges" "\<not> is_success_terminal st'"
  shows "clean st' (advance e p)"
proof -
  from legal_edge [OF assms(2)] have st': "establishes e = Some st'" "st < st'" "\<not> is_terminal st" by auto
  then have req: "ex_request (advance e p) = st'" using assms(1) by (simp add: clean_def advance_request max_absorb2)
  have "e \<noteq> Refused" using st'(1) by auto
  moreover have "distinct (map fst legal_edges)" by code_simp
  then have "map_of legal_edges (st, e) = Some st'" using assms(2) by (rule map_of_is_SomeI)
  ultimately have "transition st e = Ok st'" using st'(3) by (simp add: transition_def)
  moreover have "invariant_violation (advance e p) = None"
    using assms(3) by (auto simp: invariant_violation_def req advance_backend is_success_terminal_def)
  ultimately show ?thesis using assms(1) req by (auto simp: clean_def advance_anomaly_None_iff)
qed

lemma clean_observe [simp]: "clean st (observe_continuation c p) \<longleftrightarrow> clean st p"
  by (simp add: clean_def)

lemma clean_safe: "clean st p \<Longrightarrow> \<not> backend_may_have_executed st \<Longrightarrow> retry_semantics p \<noteq> NotRetrySafe"
  by (auto simp: clean_def retry_semantics_def split: ContinuationState.splits)

definition ends_early :: "serve_lib \<Rightarrow> ExchangeState \<Rightarrow> ('w \<times> ExchangeProgress) \<times> (HttpResponse + 'a) \<Rightarrow> bool" where
  "ends_early X st m \<longleftrightarrow> (case m of ((s, p), Inl rsp) \<Rightarrow> early_refusal X rsp | ((s, p), Inr _) \<Rightarrow> clean st p)"

lemma ends_early_and_then:
  "ends_early X st m \<Longrightarrow> (\<And>s p a. m = ((s, p), Ok a) \<Longrightarrow> clean st p \<Longrightarrow> ends_early X st' (f (s, p) a)) \<Longrightarrow> ends_early X st' (and_then m f)"
  by (auto simp: ends_early_def and_then_def split: prod.splits sum.splits)

lemma ends_early_or_refuse:
  assumes "clean st p" "\<not> backend_may_have_executed st" "\<And>r. snd result = Inl r \<Longrightarrow> tame r"
  shows "ends_early X st (or_refuse X px ex p result)"
  using assms(1,3) clean_safe [OF assms(1,2)]
  by (auto simp: ends_early_def or_refuse_def split: prod.splits sum.splits intro: refuse_early)

lemma ends_early_stage:
  assumes "clean st p" "((st, e), st') \<in> set legal_edges" "\<not> backend_may_have_executed st" "\<not> is_success_terminal st'"
    "\<And>r. snd result = Inl r \<Longrightarrow> tame r" "\<And>est. snd result = Inr est \<Longrightarrow> est_event est = e"
  shows "ends_early X st' (establishing (or_refuse X px ex p result))"
  using clean_safe [OF assms(1,3)] clean_advance [OF assms(1,2,4)] assms(5,6)
  by (auto simp: ends_early_def establishing_def or_refuse_def establish_def split: prod.splits sum.splits intro: refuse_early)

lemma stage_tame:
  "validate_envelope X request = Inl r \<Longrightarrow> tame r"
  "transport_binding_stage px ex peer = Inl r \<Longrightarrow> tame r"
  "snd (admission_stage X px ex bound s) = Inl r \<Longrightarrow> tame r"
  "snd (authorization_stage X px ex bound s) = Inl r \<Longrightarrow> tame r"
  "snd (continuation_prepare X px ex aud s) = Inl r \<Longrightarrow> tame r"
  "snd (replay_admission_stage X px ex ctx s) = Inl r \<Longrightarrow> tame r"
  "snd (answerable_stage px ex s) = Inl r \<Longrightarrow> tame r"
  "forward_body_stage X px ex = Inl r \<Longrightarrow> tame r"
  "snd (inner_prepare px body s) = Inl r \<Longrightarrow> tame r"
  "snd (retention_reserve px request s) = Inl r \<Longrightarrow> tame r"
  "snd (retention_commit accepted s) = Inl r \<Longrightarrow> tame r"
  "request_verify X px request now = Inl r \<Longrightarrow> tame r"
  by (auto simp: validate_envelope_def transport_binding_stage_def admission_stage_def authorization_stage_def continuation_prepare_def
      replay_admission_stage_def answerable_stage_def forward_body_stage_def inner_prepare_def retention_reserve_def retention_commit_def
      request_verify_def pre_dispatch_refusal_def peeked_or_refusal_def capability_absent_def tame_def refusal_at_def refining_def
      try_bind_def map_err_def tame_codes [simplified] Let_def
      split: sum.splits option.splits prod.splits RetentionError.splits PreDispatchRetention.splits AuthorizationRefusal.splits)

lemma stage_event:
  "transport_binding_stage px ex peer = Inr est1 \<Longrightarrow> est_event est1 = TransportBindingChecked"
  "snd (admission_stage X px ex bound s) = Inr est2 \<Longrightarrow> est_event est2 = AdmissionCurrencyChecked"
  "snd (continuation_prepare X px ex aud s) = Inr est3 \<Longrightarrow> est_event est3 = ExchangeEvent.ContinuationPrepared"
  "snd (replay_admission_stage X px ex ctx s) = Inr est4 \<Longrightarrow> est_event est4 = ExchangeEvent.ReplayAdmitted"
  "snd (answerable_stage px ex s) = Inr est5 \<Longrightarrow> est_event est5 = DelegatedKeySnapshotted"
  "forward_body_stage X px ex = Inr est6 \<Longrightarrow> est_event est6 = ForwardBodyPrepared"
  "snd (inner_prepare px body s) = Inr est7 \<Longrightarrow> est_event est7 = ExchangeEvent.InnerPlaneAccepted"
  "snd (retention_commit accepted s) = Inr est8 \<Longrightarrow> est_event est8 = ExchangeEvent.RetentionCommitted"
  by (auto simp: transport_binding_stage_def admission_stage_def continuation_prepare_def replay_admission_stage_def answerable_stage_def
      forward_body_stage_def inner_prepare_def retention_commit_def Let_def try_bind_Ok_iff
      split: sum.splits option.splits prod.splits PreDispatchRetention.splits)

lemma verify_stage_early:
  assumes "clean Received p"
  shows "ends_early X Verified (verify_stage X px request now s p)"
proof (cases "request_verify X px request now")
  case (Inl r)
  obtain s' rsp where rsp: "rejection X px request (rf_cause r) (rf_status r) now None None (disposition p None) None None None s = (s', rsp)"
    by fastforce
  have "retry_semantics p \<noteq> NotRetrySafe"
    using assms by (rule clean_safe) (simp add: backend_may_have_executed_def)
  with rejection_rsp(1) [OF rsp] stage_tame(12) [OF Inl] have "early_refusal X rsp"
    by (auto simp: early_refusal_def tame_def refused_with_def execution_claim_def disposition_def split: RetrySemantics.splits)
  then show ?thesis by (simp add: ends_early_def verify_stage_def Inl rsp)
next
  case (Inr est)
  then have "est_event est = SignatureVerified" by (auto simp: request_verify_def split: sum.splits)
  moreover have "clean Verified (advance SignatureVerified p)"
    using assms by (rule clean_advance) (auto simp: legal_edges_def is_success_terminal_def)
  ultimately show ?thesis by (simp add: ends_early_def verify_stage_def Inr establish_def)
qed

lemmas state_simps = backend_may_have_executed_def is_success_terminal_def legal_edges_def

lemmas early_steps =
  ends_early_stage [where st = Verified and e = TransportBindingChecked and st' = TransportBound]
  ends_early_stage [where st = TransportBound and e = AdmissionCurrencyChecked and st' = AdmissionChecked]
  ends_early_stage [where st = AdmissionChecked and e = ExchangeEvent.ContinuationPrepared and st' = ExchangeState.ContinuationPrepared]
  ends_early_stage [where st = ExchangeState.ContinuationPrepared and e = ExchangeEvent.ReplayAdmitted and st' = ExchangeState.ReplayAdmitted]
  ends_early_stage [where st = ExchangeState.ReplayAdmitted and e = DelegatedKeySnapshotted and st' = Answerable]
  ends_early_stage [where st = ExchangeState.ContinuationRetired and e = ForwardBodyPrepared and st' = Forwarded]
  ends_early_stage [where st = Forwarded and e = ExchangeEvent.InnerPlaneAccepted and st' = ExchangeState.InnerPlaneAccepted]
  ends_early_stage [where st = ExchangeState.InnerPlaneAccepted and e = ExchangeEvent.RetentionCommitted
    and st' = ExchangeState.RetentionCommitted]

lemma admit_request_early:
  assumes "clean Verified p"
  shows "ends_early X AdmissionChecked (admit_request X px ex peer s p)"
  unfolding admit_request_def Let_def
proof (rule ends_early_and_then [where st = Verified], goal_cases)
  case 1
  show ?case using assms by (rule ends_early_or_refuse) (auto simp: state_simps intro: stage_tame)
next
  case (2 s p outstanding)
  show ?case unfolding prod.case
  proof (rule ends_early_and_then [where st = TransportBound], goal_cases)
    case 1
    show ?case using \<open>clean Verified p\<close> by (rule early_steps(1)) (auto simp: state_simps intro: stage_tame stage_event)
  next
    case (2 s p bound)
    show ?case unfolding prod.case
    proof (rule ends_early_and_then [where st = AdmissionChecked], goal_cases)
      case 1
      show ?case using \<open>clean TransportBound p\<close> by (rule early_steps(2)) (auto simp: state_simps intro: stage_tame stage_event)
    next
      case (2 s p decided)
      show ?case unfolding case_prod_beta fst_conv snd_conv
        by (rule ends_early_and_then [OF ends_early_or_refuse [OF \<open>clean AdmissionChecked p\<close>]])
          (auto simp: state_simps ends_early_def intro: stage_tame)
    qed
  qed
qed

lemma observe_retirement_early:
  "clean Answerable p \<Longrightarrow> ends_early X Answerable (observe_retirement X px ex retirement s p)"
  by (cases retirement)
    (auto simp: observe_retirement_def ends_early_def [where m = "(_, Inr _)"] tame_def refusal_at_def state_simps
      intro!: ends_early_or_refuse)

lemma commit_to_answering_early:
  assumes "clean AdmissionChecked p"
  shows "ends_early X ExchangeState.ContinuationRetired (commit_to_answering X px ex s p)"
  unfolding commit_to_answering_def Let_def
proof (rule ends_early_and_then [where st = ExchangeState.ContinuationPrepared], goal_cases)
  case 1
  show ?case using assms by (rule early_steps(3)) (auto simp: state_simps intro: stage_tame stage_event)
next
  case (2 s p prep)
  then have "clean ExchangeState.ContinuationPrepared (if was_peeked prep then observe_continuation Peeked p else p)" by simp
  then show ?case unfolding prod.case
  proof (intro ends_early_and_then [where st = ExchangeState.ReplayAdmitted], goal_cases)
    case 1
    then show ?case by (rule early_steps(4)) (auto simp: state_simps intro: stage_tame stage_event)
  next
    case (2 s p u)
    show ?case unfolding prod.case
    proof (rule ends_early_and_then [where st = Answerable], goal_cases)
      case 1
      show ?case using \<open>clean ExchangeState.ReplayAdmitted p\<close>
        by (rule early_steps(5)) (auto simp: state_simps intro: stage_tame stage_event)
    next
      case (2 s p win)
      have "clean Answerable p \<Longrightarrow> clean ExchangeState.ContinuationRetired (advance ExchangeEvent.ContinuationRetired p)" for p
        by (erule clean_advance) (auto simp: state_simps)
      then show ?case unfolding case_prod_beta fst_conv snd_conv
        by (intro ends_early_and_then [OF observe_retirement_early [OF \<open>clean Answerable p\<close>]]) (simp add: ends_early_def)
    qed
  qed
qed

lemma commit_to_dispatch_early:
  assumes "clean ExchangeState.ContinuationRetired p"
  shows "ends_early X ExchangeState.RetentionCommitted (commit_to_dispatch X px ex authorized win s p)"
  unfolding commit_to_dispatch_def
proof (rule ends_early_and_then [where st = Forwarded], goal_cases)
  case 1
  show ?case using assms by (rule early_steps(6)) (auto simp: state_simps intro: stage_tame stage_event)
next
  case (2 s p forwarded)
  show ?case unfolding prod.case
  proof (rule ends_early_and_then [where st = ExchangeState.InnerPlaneAccepted], goal_cases)
    case 1
    show ?case using \<open>clean Forwarded p\<close> by (rule early_steps(7)) (auto simp: state_simps intro: stage_tame stage_event)
  next
    case (2 s p prepared)
    have covers: "snd (s, require b (after_admission (taxonomy DelegatedSigningUnavailable) 503)) = Inl r \<Longrightarrow> tame r" for b r and s :: 'a
      by (auto simp: require_def tame_def refusal_at_def split: if_splits)
    show ?case unfolding case_prod_beta fst_conv snd_conv
    proof (rule ends_early_and_then [where st = ExchangeState.InnerPlaneAccepted], goal_cases)
      case 1
      show ?case using \<open>clean ExchangeState.InnerPlaneAccepted p\<close> by (rule ends_early_or_refuse [OF _ _ covers]) (auto simp: state_simps)
    next
      case (2 s p u)
      show ?case unfolding case_prod_beta fst_conv snd_conv
      proof (rule ends_early_and_then [where st = ExchangeState.InnerPlaneAccepted], goal_cases)
        case 1
        show ?case using \<open>clean ExchangeState.InnerPlaneAccepted p\<close>
          by (rule ends_early_or_refuse) (auto simp: state_simps intro: stage_tame)
      next
        case (2 s p accepted)
        show ?case unfolding case_prod_beta fst_conv snd_conv
          by (rule ends_early_and_then [OF early_steps(8) [OF \<open>clean ExchangeState.InnerPlaneAccepted p\<close>]])
            (auto simp: state_simps ends_early_def intro: stage_tame stage_event)
      qed
    qed
  qed
qed

lemma prepare_exchange_early: "ends_early X ExchangeState.RetentionCommitted (prepare_exchange X px req now s)"
  unfolding prepare_exchange_def Let_def
proof (rule ends_early_and_then [where st = Verified], goal_cases)
  case 1
  show ?case by (rule verify_stage_early) (simp add: clean_def progress_new_def)
next
  case (2 s p v)
  show ?case unfolding prod.case
  proof (rule ends_early_and_then [OF admit_request_early [OF \<open>clean Verified p\<close>]], goal_cases)
    case (1 s p c)
    show ?case unfolding case_prod_beta fst_conv snd_conv
    proof (rule ends_early_and_then [OF commit_to_answering_early [OF \<open>clean AdmissionChecked p\<close>]], goal_cases)
      case (1 s p c)
      show ?case unfolding case_prod_beta fst_conv snd_conv
        by (rule ends_early_and_then [OF commit_to_dispatch_early [OF \<open>clean ExchangeState.ContinuationRetired p\<close>]])
          (simp add: ends_early_def)
    qed
  qed
qed

section \<open>The answers of the proxy\<close>

lemma handle_answers:
  assumes "handle X (traced px) req now (w, []) = ((w', log), rsp)"
  shows "TransmitCall \<in> call_of ` set log \<Longrightarrow> answered X rsp" "TransmitCall \<notin> call_of ` set log \<Longrightarrow> early_refusal X rsp"
proof -
  obtain s1 p1 r where r: "prepare_exchange X (traced px) req now (w, []) = ((s1, p1), r)" by (metis prod.collapse)
  note early = prepare_exchange_early [of X "traced px" req now "(w, [])", unfolded r ends_early_def, simplified]
  show "answered X rsp" if "TransmitCall \<in> call_of ` set log"
    using assms that
  proof (rule handle_split)
    fix pre post s1' p1' s2 ex admitted win prepared owed outcome
    assume p: "prepare_exchange X (traced px) req now (w, []) = ((s1', p1'), Ok (ex, admitted, win, prepared, owed))"
      and ans: "answer_exchange X (traced px) ex admitted win outcome owed s2 (advance BackendDispatched p1') = ((w', log), rsp)"
    from early p r have "clean ExchangeState.RetentionCommitted p1'" by simp
    then have "clean ExchangeState.Dispatched (advance BackendDispatched p1')" by (rule clean_advance) (auto simp: state_simps)
    then have "crossed (advance BackendDispatched p1')"
      by (auto simp: crossed_def clean_def retry_semantics_def backend_may_have_executed_def less_eq_ExchangeState_def)
    then show ?thesis using ans by (rule answer_exchange_answered)
  qed
  show "early_refusal X rsp" if quiet: "TransmitCall \<notin> call_of ` set log"
  proof (cases r)
    case (Inl e)
    with assms r early show ?thesis by (simp add: handle_eq)
  next
    case (Inr c)
    obtain ex admitted win prepared owed where c: "c = (ex, admitted, win, prepared, owed)" by (metis prod_cases5)
    obtain s2 outcome where t: "px_inner_transmit (traced px) s1 prepared = (s2, outcome)" by fastforce
    then have "Transmitted prepared outcome \<in> set (snd s2)" by (auto dest: logging_event)
    moreover have "answer_exchange X (traced px) ex admitted win outcome owed s2 (advance BackendDispatched p1) = ((w', log), rsp)"
      using assms t by (simp add: handle_eq r Inr c del: traced_sel)
    with spends_events [OF answer_exchange_spends [OF prepare_exchange_owed [OF r [unfolded Inr c]], of s2 X px ex admitted win outcome
        "advance BackendDispatched p1"]] have "set (snd s2) \<subseteq> set log" by simp
    ultimately have "Transmitted prepared outcome \<in> set log" by blast
    then have "TransmitCall \<in> call_of ` set log" by force
    with quiet show ?thesis by blast
  qed
qed

text \<open>
  C9. Every request is answered with one of nine statuses, and a success is served only for a request
  that was dispatched: if the request was handed to the inner server the status is 200, 202, 409, 500,
  502, 503 or 504, and if it was not, the status is 400, 403, 409, 500 or 503.
\<close>

theorem served_statuses:
  "let ((w', log), rsp) = handle X (traced px) req now (w, []) in
     rsp_status rsp \<in> (if TransmitCall \<in> call_of ` set log then {200, 202, 409, 500, 502, 503, 504} else {400, 403, 409, 500, 503})"
proof -
  obtain w' log rsp where h: "handle X (traced px) req now (w, []) = ((w', log), rsp)" by (metis prod.collapse)
  from handle_answers [OF h] show ?thesis
    by (auto simp: h answered_def late_refusal_def early_refusal_def)
qed

text \<open>
  C2. A refusal tells the truth about execution. When the proxy answers with anything but a success, the
  body says that the call may have executed exactly when the request was handed to the inner
  server: no refusal after the dispatch invites a blind retry, and none before it withholds one.
\<close>

theorem refusal_tells_the_truth:
  assumes "json_roundtrip (sl_json X)" "handle X (traced px) req now (w, []) = ((w', log), rsp)" "rsp_status rsp \<notin> {200, 202}"
  shows "claims X rsp = Some (JString ''possibly_executed'') \<longleftrightarrow> (\<exists>prepared outcome. Transmitted prepared outcome \<in> set log)"
proof -
  have "TransmitCall = call_of e \<longleftrightarrow> (\<exists>prepared outcome. e = Transmitted prepared outcome)" for e :: "('b, 'c, 'd, 'e) serve_event"
    by (cases e) auto
  then have "(\<exists>prepared outcome. Transmitted prepared outcome \<in> set log) \<longleftrightarrow> TransmitCall \<in> call_of ` set log"
    by (auto simp: image_iff)
  with handle_answers [OF assms(2)] assms(1,3) show ?thesis
    by (auto simp: answered_def late_refusal_def early_refusal_def)
qed

section \<open>A crossing left open\<close>


end
