(* ===== verification/Dispatch_Once.thy ===== *)
theory Dispatch_Once
  imports Dispatch Sign_Accepted
begin

text \<open>
  The verification path from an HTTP request to the backend: a request that passed the full profile
  of \<open>Floor\<close> is dispatched by \<open>Dispatch\<close> at most once. The second half builds a request that goes
  all the way, the concrete instance of the statements about accepted requests.
\<close>

section \<open>At most once\<close>

lemma full_request_slot:
  assumes "full_request L J from_value r expected material resolve policy now = Ok v"
  shows "replay_slot v =
    (let k = \<lparr>profile_id = PROFILE_TAG, signature_label = REQUEST_LABEL,
              actor_id = resolved_actor_id (fl_resolved_actor (vr_floor v)),
              audience_hash = audience_tuple_hash L expected, http_nonce = fl_nonce (vr_floor v)\<rparr>
     in (signer_slot k, audience_slot k, http_nonce k))"
  using full_request_steps [OF assms] by (simp add: replay_slot_def)


section \<open>A request that goes all the way\<close>

definition sample_audience :: AudienceTuple where
  "sample_audience = \<lparr>audience_id = ''a'', target_uri = ''https://example.com/mcp'', route = None\<rparr>"

definition sample_block :: "unit HttpRequestEvidenceBlock" where
  "sample_block = \<lparr>block_profile = PROFILE_TAG, block_audience = sample_audience,
     artifact_bindings = [opaque_digest floor_lib OauthMtls ''cert''], continuation = None, admission = None,
     admission_assertion = None, authorization_decision = None\<rparr>"

definition block_json :: json_lib where
  "block_json = \<lparr>from_slice = \<lambda>_. Some (JObject [(''_meta'', JObject [(REQUEST_EVIDENCE_BLOCK_KEY, JNull)])]),
     to_vec = \<lambda>_. [], from_slice_string = Some, from_utf8 = Some, f64_reemit = Some\<rparr>"

lemma sample_block_valid:
  "request_block_validate floor_lib sample_block PROFILE_TAG = Ok ()"
  "enforce_bindings floor_lib r sample_block (\<lambda>_. Some ''cert'') (artifact_bindings sample_block) = Ok ()"
proof -
  have "binding_validate floor_lib (opaque_digest floor_lib OauthMtls ''cert'') = Ok ()" by code_simp
  then show "request_block_validate floor_lib sample_block PROFILE_TAG = Ok ()"
    "enforce_bindings floor_lib r sample_block (\<lambda>_. Some ''cert'') (artifact_bindings sample_block) = Ok ()"
    by (simp_all add: request_block_validate_def sample_block_def validate_authorization_decision_def
        pdp_decision_evidence_def resolve_artifact_credential_def verify_artifact_binding_def verify_typed_def
        expect_type_def compare_digest_def opaque_digest_def sha256_b64url_def)
qed

lemma sample_full_request:
  obtains signed v where
    "full_request floor_lib block_json (\<lambda>_. Some sample_block) signed sample_audience (\<lambda>_. Some ''cert'')
       sample_resolver policy_default 150 = Ok v"
    "vr_request_block v = sample_block" "fl_expires (vr_floor v) = 200"
proof -
  obtain signed ev where signed: "sign_request floor_lib sample_unsigned sample_key ''k'' 100 200 ''n'' = (signed, Ok ev)"
    by (rule sample_signs)
  from signed_request_accepted [where resolve = sample_resolver and actor = sample_actor, OF this [unfolded sign_request_def]
      floor_lib_ok(1,2) _ sample_request_shape(1,2,5-8,3,4) sample_actor_resolved(1,2), of block_json]
    local_sig_verifies [OF floor_lib_ok(1,3) sample_actor_resolved(4)]
  obtain fl where fl: "floor_request floor_lib block_json signed sample_resolver policy_default 150 = Ok fl" "fl_expires fl = 200"
    by (auto simp: sample_actor_resolved)
  from fl(1) have "fl_profile_id fl = PROFILE_TAG" by (rule floor_request_steps)
  moreover have "rq_target_uri signed = rq_target_uri sample_unsigned"
    using signed [unfolded sign_request_def] by (rule sign_request_steps) simp
  then have "enforce_full_profile_bindings floor_lib signed sample_block sample_audience (\<lambda>_. Some ''cert'') = Ok ()"
    using sample_block_valid(2)
    by (simp add: enforce_full_profile_bindings_def) (simp add: sample_block_def sample_audience_def sample_unsigned_def)
  moreover have "extract_meta_block block_json (\<lambda>_. Some sample_block) (rq_body signed) REQUEST_EVIDENCE_BLOCK_KEY
      ''request evidence block'' = Ok sample_block"
    by (simp add: extract_meta_block_def block_json_def json_get_def META_KEY_def)
  ultimately show thesis
    using fl sample_block_valid(1)
    by (intro that [of signed "\<lparr>vr_floor = fl, vr_audience = block_audience sample_block,
        vr_audience_hash = audience_tuple_hash floor_lib (block_audience sample_block), vr_request_block = sample_block\<rparr>"])
      (simp_all add: full_request_def)
qed

theorem full_request_sound_witness:
  "\<exists>signed v. full_request floor_lib block_json (\<lambda>_. Some sample_block) signed sample_audience (\<lambda>_. Some ''cert'')
       sample_resolver policy_default 150 = Ok v
     \<and> vr_audience v = sample_audience \<and> rq_target_uri signed = ''https://example.com/mcp''"
proof (rule sample_full_request)
  fix signed v
  assume "full_request floor_lib block_json (\<lambda>_. Some sample_block) signed sample_audience (\<lambda>_. Some ''cert'')
       sample_resolver policy_default 150 = Ok v"
  moreover have "vr_audience v = sample_audience" "rq_target_uri signed = target_uri sample_audience"
    using full_request_sound [OF calculation] by simp_all
  moreover have "target_uri sample_audience = ''https://example.com/mcp''" by (simp add: sample_audience_def)
  ultimately show ?thesis by auto
qed

lemma sample_dispatch:
  fixes v :: "unit VerifiedMcpRequest"
  assumes "vr_request_block v = sample_block" "fl_expires (vr_floor v) = 200"
  shows "\<exists>c1 oc. dispatch_request floor_lib (\<lambda>_. SingleProcessReference) (shared_check_and_insert floor_lib 150) v
    (shared_new store_new 30) None \<lparr>fleet_strict = False\<rparr> = (c1, Ok oc)"
proof -
  have "snd (shared_check_and_insert floor_lib 150 (shared_new store_new 30) signer audience nonce 200) = Ok Fresh"
    for signer audience nonce
    by (simp add: shared_new_def store_new_def MAX_ATOMIC_STORE_ENTRIES_def shared_check_and_insert_def insert_if_absent_def
        is_stale_pre_store_def sweep_def PRUNE_EVERY_N_INSERTS_def skew_folded_retain_until_def saturating_add_def
        saturating_sub_def saturate_def i64_min_def i64_max_def Let_def)
  then show ?thesis
    using assms
    by (simp add: dispatch_request_def admit_replay_tier_def tier_prepare_def prepare_http_dispatch_def Let_def
        http_check_and_insert_def sample_block_def case_prod_beta)
qed



end
