(* ===== verification/Serve_Sample.thy ===== *)
theory Serve_Sample
  imports Serve_Refusal Dispatch_Once
begin

text \<open>
  One concrete exchange of the serving path: a proxy with no optional plane, a request signed over the libraries
  of the samples, and an inner server whose answer is lost after the request was handed to it. The claims about
  the path are applied to it.
\<close>

section \<open>The request\<close>

definition served_object :: json where
  "served_object = JObject
     [(''jsonrpc'', JString ''2.0''), (''method'', JString ''tools/list''), (''id'', JString ''1''),
      (''_meta'', JObject [(REQUEST_EVIDENCE_BLOCK_KEY, JNull)])]"

text \<open>The JSON library of the samples, which also reads the two bytes of the sample request as that object.\<close>

definition served_json :: json_lib where
  "served_json = demo_json\<lparr>from_slice := (\<lambda>b. if b = ''{}'' then Some served_object else from_slice demo_json b)\<rparr>"

definition served_block :: "AdmissionBinding HttpRequestEvidenceBlock" where
  "served_block = \<lparr>block_profile = PROFILE_TAG, block_audience = sample_audience,
     artifact_bindings = [opaque_digest floor_lib PdpDecision ''d''], continuation = None, admission = None,
     admission_assertion = None, authorization_decision = Some ''d''\<rparr>"

lemma served_json_roundtrip: "json_roundtrip served_json"
  using demo_json_roundtrip by (simp add: json_roundtrip_def served_json_def) (simp add: demo_json_def)

lemma served_json_read: "from_slice served_json ''{}'' = Some served_object"
  by (simp add: served_json_def)

lemma served_block_valid:
  "request_block_validate floor_lib served_block PROFILE_TAG = Ok ()"
  "enforce_bindings floor_lib r served_block (\<lambda>_. None) (artifact_bindings served_block) = Ok ()"
proof -
  have "binding_validate floor_lib (opaque_digest floor_lib PdpDecision ''d'') = Ok ()" by code_simp
  then show "request_block_validate floor_lib served_block PROFILE_TAG = Ok ()"
    "enforce_bindings floor_lib r served_block (\<lambda>_. None) (artifact_bindings served_block) = Ok ()"
    by (simp_all add: request_block_validate_def served_block_def validate_authorization_decision_def
        pdp_decision_evidence_def verify_pdp_decision_binding_def MAX_AUTHORIZATION_DECISION_LEN_def)
      (simp_all add: opaque_digest_def sha256_b64url_def)
qed

lemma served_full_request:
  obtains signed v where
    "full_request floor_lib served_json (\<lambda>_. Some served_block) signed sample_audience (\<lambda>_. None)
       sample_resolver policy_default 150 = Ok v"
    "vr_request_block v = served_block" "fl_expires (vr_floor v) = 200" "rq_body signed = ''{}''"
proof -
  obtain signed ev where signed: "sign_request floor_lib sample_unsigned sample_key ''k'' 100 200 ''n'' = (signed, Ok ev)"
    by (rule sample_signs)
  from signed_request_accepted [where resolve = sample_resolver and actor = sample_actor, OF this [unfolded sign_request_def]
      floor_lib_ok(1,2) _ sample_request_shape(1,2,5-8,3,4) sample_actor_resolved(1,2), of served_json]
    local_sig_verifies [OF floor_lib_ok(1,3) sample_actor_resolved(4)]
  obtain fl where fl: "floor_request floor_lib served_json signed sample_resolver policy_default 150 = Ok fl" "fl_expires fl = 200"
    by (auto simp: sample_actor_resolved)
  from fl(1) have "fl_profile_id fl = PROFILE_TAG" by (rule floor_request_steps)
  moreover have "rq_target_uri signed = rq_target_uri sample_unsigned" "rq_body signed = rq_body sample_unsigned"
    using signed [unfolded sign_request_def] by (rule sign_request_steps, simp)+
  then have body: "rq_body signed = ''{}''"
    and "enforce_full_profile_bindings floor_lib signed served_block sample_audience (\<lambda>_. None) = Ok ()"
    using served_block_valid(2)
    by (simp_all add: enforce_full_profile_bindings_def)
      (simp_all add: served_block_def sample_audience_def sample_unsigned_def)
  moreover have "extract_meta_block served_json (\<lambda>_. Some served_block) (rq_body signed) REQUEST_EVIDENCE_BLOCK_KEY
      ''request evidence block'' = Ok served_block"
    by (simp add: extract_meta_block_def body served_json_read served_object_def json_get_def META_KEY_def)
  ultimately show thesis
    using fl served_block_valid(1)
    by (intro that [of signed "\<lparr>vr_floor = fl, vr_audience = block_audience served_block,
        vr_audience_hash = audience_tuple_hash floor_lib (block_audience served_block), vr_request_block = served_block\<rparr>"])
      (simp_all add: full_request_def)
qed

section \<open>The proxy\<close>

definition served_lib :: serve_lib where
  "served_lib = \<lparr>sl_crypto = floor_lib, sl_json = served_json,
     sl_admission = \<lparr>adm_header_to_vec = (\<lambda>_. None), adm_header_from_slice = (\<lambda>_. None),
       adm_claims_to_vec = (\<lambda>_. None), adm_claims_from_slice = (\<lambda>_. None)\<rparr>,
     sl_request_block = (\<lambda>_. Some served_block), sl_response_block = (\<lambda>_. JNull), sl_context = (\<lambda>_. JNull)\<rparr>"

definition served_key :: ActiveDelegatedKey where
  "served_key = \<lparr>ak_key = sample_key, ak_server_signer = identity sample_actor, ak_credential = ''c'', ak_delegated_kid = ''k'',
     ak_jti = ''j'', ak_nbf = 0, ak_exp = 1000\<rparr>"

definition served_proxy :: "(unit, unit, unit, unit, unit) HttpProfileProxy" where
  "served_proxy = \<lparr>px_resolve_actor = sample_resolver, px_expected_audience = sample_audience, px_policy = policy_default,
     px_signer = (\<lambda>w. (w, SnapshotActive served_key)), px_sig_ttl_secs = 60, px_replay_class = SingleProcessReference,
     px_replay_async = (\<lambda>w _ _. (w, Ok Fresh)), px_dispatch_cfg = \<lparr>pc_fleet_strict = False, pc_tier = None\<rparr>,
     px_inner_prepare = (\<lambda>w _. (w, Ok ((), Within 0 0))),
     px_inner_transmit = (\<lambda>w _. (w, DispatchedOutcome.Indeterminate ''lost'')),
     px_transport_binding = None, px_authorization = None, px_continuations = None, px_continuation_ttl_secs = 300,
     px_verified_context_policy = Disabled, px_audit = None, px_admission = None, px_retention = None\<rparr>"

section \<open>The exchange\<close>

lemma served_sel:
  "sl_crypto served_lib = floor_lib" "sl_json served_lib = served_json" "sl_request_block served_lib = (\<lambda>_. Some served_block)"
  "px_resolve_actor served_proxy = sample_resolver" "px_expected_audience served_proxy = sample_audience"
  "px_policy served_proxy = policy_default" "px_signer served_proxy w = (w, SnapshotActive served_key)"
  "px_sig_ttl_secs served_proxy = 60" "px_replay_class served_proxy = SingleProcessReference"
  "px_replay_async served_proxy w key n = (w, Ok Fresh)" "px_dispatch_cfg served_proxy = \<lparr>pc_fleet_strict = False, pc_tier = None\<rparr>"
  "px_inner_prepare served_proxy w body = (w, Ok ((), Within 0 0))"
  "px_inner_transmit served_proxy w u = (w, DispatchedOutcome.Indeterminate ''lost'')"
  "px_transport_binding served_proxy = None" "px_authorization served_proxy = None" "px_continuations served_proxy = None"
  "px_verified_context_policy served_proxy = Disabled" "px_audit served_proxy = None" "px_admission served_proxy = None"
  "px_retention served_proxy = None"
  by (simp_all add: served_lib_def served_proxy_def)

lemma served_envelope:
  "\<exists>outstanding. validate_request_envelope served_json ''{}'' = Ok outstanding \<and> outstanding \<noteq> Notification"
proof -
  have "reject_unrepresentable_json served_json ''{}'' = Ok ()" by code_simp
  then show ?thesis
    by (simp add: validate_request_envelope_def served_json_read served_object_def JSON_RPC_VERSION_def)
qed

lemma served_action:
  "covers_body floor_lib (vr_floor v) ''{}'' \<Longrightarrow> \<exists>action. interpret_authorization_action floor_lib served_json v ''{}'' = Ok action"
  by (simp add: interpret_authorization_action_def served_json_read served_object_def json_get_def)

lemma served_stripped: "\<exists>stripped. strip_proxy_owned_meta served_json ''{}'' = Ok stripped"
  by (simp add: strip_proxy_owned_meta_def served_json_read served_object_def refuse_unwalkable_shape_def case_prod_beta)

lemma served_window: "window_open (SnapshotActive served_key) 150 60 = Some \<lparr>sw_key = served_key, sw_created = 150, sw_expires = 210\<rparr>"
  "window_covers \<lparr>sw_key = served_key, sw_created = 150, sw_expires = 210\<rparr> (Within 0 0)"
  by code_simp+

lemma served_refused:
  assumes "se_key ex = Some served_key" "se_now ex = 150" "rf_posture refusal = AfterAdmission"
  obtains rsp where "refuse served_lib (traced served_proxy) ex refusal p s = (s, rsp)" "rsp_status rsp = rf_status refusal"
proof -
  obtain s' rsp where r: "refuse served_lib (traced served_proxy) ex refusal p s = (s', rsp)" by fastforce
  moreover have "window_over served_key 150 60 = Some \<lparr>sw_key = served_key, sw_created = 150, sw_expires = 210\<rparr>" by code_simp
  then have "fst (refuse served_lib (traced served_proxy) ex refusal p s) = s"
    using assms by (simp add: refuse_def receipt_refuse_def response_rejection_def signed_rejection_def record_to_def served_proxy_def)
  ultimately show thesis using refuse_rsp [OF r] by (intro that [of rsp]) (simp_all add: refused_with_def)
qed

lemmas served_stage =
  and_then_simps or_refuse_def establishing_def establish_def served_sel traced_sel logging_def Let_def

lemma served_admit:
  assumes "rq_body (se_http_req ex) = ''{}''" "covers_body floor_lib (vr_floor (se_verified ex)) ''{}''"
  obtains admitted az ad p' where "admit_request served_lib (traced served_proxy) ex None s p
      = ((s, p'), Ok (ex\<lparr>se_verdicts := \<lparr>av_authorization = az, av_admission = ad\<rparr>\<rparr>, admitted))"
    "am_outstanding admitted \<noteq> Notification"
proof -
  from served_envelope obtain outstanding where "validate_request_envelope served_json ''{}'' = Ok outstanding" "outstanding \<noteq> Notification"
    by blast
  moreover from served_action assms(2) obtain action where
    "interpret_authorization_action floor_lib served_json (se_verified ex) ''{}'' = Ok action" by blast
  ultimately show thesis
    using assms(1)
    by (intro that [of _ "Some AuthorizationNotConfigured" "Some NotConfigured" "\<lparr>am_outstanding = outstanding, am_authorized = NoPolicyConfigured\<rparr>"])
      (simp_all add: admit_request_def validate_envelope_def transport_binding_stage_def admission_stage_def
        authorization_stage_def authorize_def authorization_request_def posture_audit_facet_def served_stage)
qed

lemma served_commits:
  assumes "vr_request_block (se_verified ex) = served_block" "se_now ex = 150" "se_http_req ex = signed" "rq_body signed = ''{}''"
    "covers_body floor_lib (vr_floor (se_verified ex)) ''{}''"
  obtains s1 p1 s2 p2 where
    "commit_to_answering served_lib (traced served_proxy) ex s p
       = ((s1, p1), Ok (ex\<lparr>se_key := Some served_key\<rparr>, \<lparr>sw_key = served_key, sw_created = 150, sw_expires = 210\<rparr>))"
    "commit_to_dispatch served_lib (traced served_proxy) (ex\<lparr>se_key := Some served_key\<rparr>) az
       \<lparr>sw_key = served_key, sw_created = 150, sw_expires = 210\<rparr> s1 p1 = ((s2, p2), Ok ((), NothingOwed))"
proof -
  from served_stripped obtain stripped where "strip_proxy_owned_meta served_json ''{}'' = Ok stripped" by blast
  then have "forwarded_body_prepare served_lib ''{}'' (se_verified ex) Disabled 150 = Ok (sb_body stripped)"
    by (simp add: forwarded_body_prepare_def served_sel assms trusted_inner_channel_def)
  moreover have "continuation served_block = None" by (simp add: served_block_def)
  ultimately show thesis
    using served_window assms
    by (intro that)
      (simp_all add: commit_to_answering_def continuation_prepare_def replay_admission_stage_def answerable_stage_def
        continuation_retire_def observe_retirement_def was_peeked_def prep_binding_def commit_to_dispatch_def forward_body_stage_def inner_prepare_def
        retention_reserve_def retention_commit_def dispatch_request_with_async_tier_def deployment_tier_admits_def
        admit_replay_tier_def tier_prepare_def prepare_http_dispatch_def served_stage)
qed

text \<open>The exchange reaches the inner server, whose answer is lost: the caller is told with a 504.\<close>

lemma served_run:
  obtains signed s rsp where
    "handle served_lib (traced served_proxy) \<lparr>sq_http = signed, sq_peer = None\<rparr> 150 ((), [])
       = ((fst s, snd s @ [Transmitted () (DispatchedOutcome.Indeterminate ''lost'')]), rsp)"
    "rsp_status rsp = 504"
proof (rule served_full_request)
  fix signed v
  assume v: "full_request floor_lib served_json (\<lambda>_. Some served_block) signed sample_audience (\<lambda>_. None)
       sample_resolver policy_default 150 = Ok v"
    "vr_request_block v = served_block" "rq_body signed = ''{}''"
  have covers: "covers_body floor_lib (vr_floor v) ''{}''"
    using full_request_steps(1) [OF v(1)] v(3) by (auto elim!: floor_request_steps simp: covers_body_def)
  define ex where "ex = \<lparr>se_http_req = signed, se_verified = v, se_actor_id = resolved_actor_id (fl_resolved_actor (vr_floor v)),
    se_now = 150, se_key = None, se_verdicts = \<lparr>av_authorization = None, av_admission = None\<rparr>\<rparr>"
  define win where "win = \<lparr>sw_key = served_key, sw_created = 150, sw_expires = 210\<rparr>"
  have verified: "verify_stage served_lib (traced served_proxy) signed 150 ((), []) progress_new
      = ((((), []), advance SignatureVerified progress_new), Ok v)"
    using v(1) by (simp add: verify_stage_def request_verify_def served_stage)
  obtain admitted az ad p1 where admitted: "admit_request served_lib (traced served_proxy) ex None ((), []) (advance SignatureVerified progress_new)
      = ((((), []), p1), Ok (ex\<lparr>se_verdicts := \<lparr>av_authorization = az, av_admission = ad\<rparr>\<rparr>, admitted))"
    and out: "am_outstanding admitted \<noteq> Notification"
    by (rule served_admit [of ex "((), [])" "advance SignatureVerified progress_new"]) (simp_all add: ex_def v covers)
  let ?ex = "ex\<lparr>se_verdicts := \<lparr>av_authorization = az, av_admission = ad\<rparr>\<rparr>"
  obtain s2 p2 s3 p3 where commits:
    "commit_to_answering served_lib (traced served_proxy) ?ex ((), []) p1 = ((s2, p2), Ok (?ex\<lparr>se_key := Some served_key\<rparr>, win))"
    "commit_to_dispatch served_lib (traced served_proxy) (?ex\<lparr>se_key := Some served_key\<rparr>) (am_authorized admitted) win s2 p2
       = ((s3, p3), Ok ((), NothingOwed))"
    by (rule served_commits [of ?ex signed "((), [])" p1 "am_authorized admitted", folded win_def]) (simp_all add: ex_def v covers)
  let ?s = "((), snd s3 @ [Transmitted () (DispatchedOutcome.Indeterminate ''lost'')])"
  obtain rsp where rsp: "refuse served_lib (traced served_proxy) (?ex\<lparr>se_key := Some served_key\<rparr>)
      (after_admission (taxonomy InnerDispatchIndeterminate) 504) (observe_origin DispatchIndeterminate (advance BackendDispatched p3)) ?s = (?s, rsp)"
    "rsp_status rsp = 504"
    by (rule served_refused [of "?ex\<lparr>se_key := Some served_key\<rparr>" "after_admission (taxonomy InnerDispatchIndeterminate) 504"])
      (simp_all add: ex_def refusal_at_def)
  show thesis
    by (rule that [of signed s3, OF _ rsp(2)])
      (simp add: handle_eq prepare_exchange_def verified ex_def [symmetric] admitted commits out answer_exchange_def
        assemble_reply_def observe_reply_def refusing_retained_def refuse_retained_def retention_complete_def
        record_request_accepted_def record_to_def rsp(1) served_stage)
qed

section \<open>The claims at this exchange\<close>

theorem dispatched_only_after_checks_witness:
  "\<exists>signed pre outcome post rsp v. handle served_lib (traced served_proxy) \<lparr>sq_http = signed, sq_peer = None\<rparr> 150 ((), [])
       = (((), pre @ Transmitted () outcome # post), rsp)
     \<and> cleared served_lib served_proxy \<lparr>sq_http = signed, sq_peer = None\<rparr> 150 v () pre"
proof (rule served_run)
  fix signed and s :: "unit \<times> (unit, unit, unit, unit) serve_event list" and rsp
  assume h: "handle served_lib (traced served_proxy) \<lparr>sq_http = signed, sq_peer = None\<rparr> 150 ((), [])
       = ((fst s, snd s @ [Transmitted () (DispatchedOutcome.Indeterminate ''lost'')]), rsp)"
  from dispatched_only_after_checks [OF h, of "()" "DispatchedOutcome.Indeterminate ''lost''"]
  obtain pre post v where "snd s @ [Transmitted () (DispatchedOutcome.Indeterminate ''lost'')]
      = pre @ Transmitted () (DispatchedOutcome.Indeterminate ''lost'') # post"
    "cleared served_lib served_proxy \<lparr>sq_http = signed, sq_peer = None\<rparr> 150 v () pre"
    by auto
  with h show ?thesis by (metis old.unit.exhaust)
qed

theorem refusal_tells_the_truth_witness:
  "\<exists>signed s rsp. handle served_lib (traced served_proxy) \<lparr>sq_http = signed, sq_peer = None\<rparr> 150 ((), []) = (s, rsp)
     \<and> rsp_status rsp = 504 \<and> claims served_lib rsp = Some (JString ''possibly_executed'')"
proof (rule served_run)
  fix signed and s :: "unit \<times> (unit, unit, unit, unit) serve_event list" and rsp
  assume h: "handle served_lib (traced served_proxy) \<lparr>sq_http = signed, sq_peer = None\<rparr> 150 ((), [])
       = ((fst s, snd s @ [Transmitted () (DispatchedOutcome.Indeterminate ''lost'')]), rsp)" and code: "rsp_status rsp = 504"
  have "claims served_lib rsp = Some (JString ''possibly_executed'')"
    using refusal_tells_the_truth [OF _ h] served_json_roundtrip code by (auto simp: served_sel)
  with h code show ?thesis by blast
qed


end
