(* ===== verification/Client_Trust.thy ===== *)
theory Client_Trust
  imports Delegation Continuation_Store
begin

text \<open>
  What a client trusts: \<open>mcp-re-client-core/src/delegated_trust/\<close> (the set of trusted issuers with its
  rotation, retirement and revocation, revocation lists, the composite authority) and
  \<open>mcp-re-client-core/src/trust_manifest/\<close> (the signed manifest the set is loaded from and the version floor
  that keeps an old manifest out). The serializer of a manifest is a parameter. Maps and sets whose order is
  never observed are functions and sets.
\<close>

section \<open>Trusted issuers\<close>

datatype ManifestValidity = ManifestAbsent | Until int

definition validity_expires_at :: "ManifestValidity \<Rightarrow> int option" where
  "validity_expires_at v = (case v of ManifestAbsent \<Rightarrow> None | Until expires_at \<Rightarrow> Some expires_at)"

definition validity_is_expired :: "ManifestValidity \<Rightarrow> int \<Rightarrow> bool" where
  "validity_is_expired v now = (case v of Until expires_at \<Rightarrow> now > expires_at | ManifestAbsent \<Rightarrow> False)"

record TrustedIssuerSet =
  ti_current :: "string \<rightharpoonup> ResolvedActor"
  ti_retired :: "string \<rightharpoonup> ResolvedActor \<times> int"
  ti_revoked :: "string set"
  ti_manifest :: ManifestValidity

definition issuers_new :: TrustedIssuerSet where
  "issuers_new = \<lparr>ti_current = Map.empty, ti_retired = Map.empty, ti_revoked = {}, ti_manifest = ManifestAbsent\<rparr>"

definition with_current :: "ResolvedActor \<Rightarrow> TrustedIssuerSet \<Rightarrow> TrustedIssuerSet" where
  "with_current root s = s\<lparr>ti_current := (ti_current s)(keyid (identity root) \<mapsto> root)\<rparr>"

definition with_retired :: "ResolvedActor \<Rightarrow> int \<Rightarrow> TrustedIssuerSet \<Rightarrow> TrustedIssuerSet" where
  "with_retired root valid_until s = s\<lparr>ti_retired := (ti_retired s)(keyid (identity root) \<mapsto> (root, valid_until))\<rparr>"

definition issuers_revoke :: "string \<Rightarrow> TrustedIssuerSet \<Rightarrow> TrustedIssuerSet" where
  "issuers_revoke issuer_kid s = s\<lparr>ti_revoked := insert issuer_kid (ti_revoked s)\<rparr>"

definition with_manifest_expiry :: "int \<Rightarrow> TrustedIssuerSet \<Rightarrow> TrustedIssuerSet" where
  "with_manifest_expiry expires_at s = s\<lparr>ti_manifest := Until expires_at\<rparr>"

definition issuers_is_expired :: "TrustedIssuerSet \<Rightarrow> int \<Rightarrow> bool" where
  "issuers_is_expired s now = validity_is_expired (ti_manifest s) now"

definition issuers_is_revoked :: "TrustedIssuerSet \<Rightarrow> string \<Rightarrow> bool" where
  "issuers_is_revoked s identifier \<longleftrightarrow> identifier \<in> ti_revoked s"

definition resolve_root :: "TrustedIssuerSet \<Rightarrow> string \<Rightarrow> int \<Rightarrow> ResolvedActor option" where
  "resolve_root s issuer_kid now =
     (if issuers_is_expired s now then None
      else case ti_retired s issuer_kid of
             Some (actor, valid_until) \<Rightarrow> if now \<le> valid_until then Some actor else None
           | None \<Rightarrow> ti_current s issuer_kid)"

definition issuers_trusts :: "TrustedIssuerSet \<Rightarrow> string \<Rightarrow> int \<Rightarrow> bool" where
  "issuers_trusts s issuer_kid now \<longleftrightarrow> \<not> issuers_is_revoked s issuer_kid \<and> resolve_root s issuer_kid now \<noteq> None"

definition resolve_issuer :: "TrustedIssuerSet \<Rightarrow> string \<Rightarrow> SignerSlot \<Rightarrow> int \<Rightarrow> ResolverOutcome" where
  "resolve_issuer s issuer_kid slot0 now =
     (case slot0 of
        ResponseSlot \<Rightarrow> if \<not> issuers_is_revoked s issuer_kid then outcome_of_option (resolve_root s issuer_kid now) else NotTrusted
      | RequestSlot \<Rightarrow> NotTrusted)"

text \<open>\<open>StaticRevocationList\<close> is the set of its identifiers.\<close>

type_synonym StaticRevocationList = "string set"

definition from_identifiers :: "string list \<Rightarrow> StaticRevocationList" where
  "from_identifiers identifiers = set identifiers"

definition list_is_revoked :: "StaticRevocationList \<Rightarrow> string \<Rightarrow> bool" where
  "list_is_revoked l identifier \<longleftrightarrow> identifier \<in> l"

text \<open>A trust authority: the two questions of \<open>DelegatedResponseTrust\<close>, with the two implementations of it.\<close>

record DelegatedResponseTrust =
  dt_resolve_issuer :: "string \<Rightarrow> SignerSlot \<Rightarrow> int \<Rightarrow> ResolverOutcome"
  dt_is_revoked :: "string \<Rightarrow> bool"

definition issuer_set_trust :: "TrustedIssuerSet \<Rightarrow> DelegatedResponseTrust" where
  "issuer_set_trust s = \<lparr>dt_resolve_issuer = resolve_issuer s, dt_is_revoked = issuers_is_revoked s\<rparr>"

definition composite_trust :: "(string \<Rightarrow> SignerSlot \<Rightarrow> int \<Rightarrow> ResolverOutcome) \<Rightarrow> (string \<Rightarrow> bool) \<Rightarrow> DelegatedResponseTrust" where
  "composite_trust resolver revocation = \<lparr>dt_resolve_issuer = resolver, dt_is_revoked = revocation\<rparr>"

section \<open>The trust-anchor manifest\<close>

record ManifestIssuer =
  mi_issuer_kid :: string
  mi_public_key :: string
  mi_role :: string
  mi_trust_domain :: string
  mi_subject :: string

record RetiringIssuer =
  ri_issuer_kid :: string
  ri_public_key :: string
  ri_role :: string
  ri_trust_domain :: string
  ri_subject :: string
  ri_valid_until :: int

text \<open>The version is a \<open>u64\<close>.\<close>

definition u64_max :: nat where "u64_max = 18446744073709551615"

record TrustAnchorManifest =
  tm_profile :: string
  tm_manifest_version :: nat
  tm_current_issuers :: "ManifestIssuer list"
  tm_retiring_issuers :: "RetiringIssuer list"
  tm_revoked_issuers :: "string list"
  tm_issued_at :: int
  tm_expires_at :: int

record SignedTrustAnchorManifest =
  sm_manifest :: TrustAnchorManifest
  sm_signer_kid :: string
  sm_signature :: string

record LoadedTrustAnchors =
  la_issuer_set :: TrustedIssuerSet
  la_version :: nat

datatype TrustManifestError =
    UntrustedSigner
  | BadSignature
  | ManifestExpired int int
  | Stale nat nat
  | ProfileMismatch
  | ManifestMalformed string
  | FloorUnreadable string
  | FloorNotPersisted string
  | FloorAboveCeiling nat nat

definition MANIFEST_SIGNING_DOMAIN :: bytes where
  "MANIFEST_SIGNING_DOMAIN = ''mcp-re/trust-anchor-manifest/v1''"

definition manifest_signing_preimage ::
  "(TrustAnchorManifest \<Rightarrow> bytes option) \<Rightarrow> TrustAnchorManifest \<Rightarrow> string \<Rightarrow> TrustManifestError + bytes" where
  "manifest_signing_preimage to_bytes manifest signer_kid =
     try_bind (ok_or (to_bytes manifest) (ManifestMalformed ''manifest serialize'')) (\<lambda>body.
     Ok (MANIFEST_SIGNING_DOMAIN @ be_bytes 8 (length signer_kid) @ signer_kid @ body))"

text \<open>The \<open>expect\<close> of the signer is the value \<open>None\<close>.\<close>

definition sign_manifest ::
  "crypto_lib \<Rightarrow> (TrustAnchorManifest \<Rightarrow> bytes option) \<Rightarrow> TrustAnchorManifest \<Rightarrow> SigningKey \<Rightarrow> string
   \<Rightarrow> SignedTrustAnchorManifest option" where
  "sign_manifest L to_bytes manifest org_key signer_kid =
     (case manifest_signing_preimage to_bytes manifest signer_kid of
        Inl _ \<Rightarrow> None
      | Inr b \<Rightarrow> Some \<lparr>sm_manifest = manifest, sm_signer_kid = signer_kid, sm_signature = sign_b64url L org_key b\<rparr>)"

definition actor_of ::
  "crypto_lib \<Rightarrow> string \<Rightarrow> string \<Rightarrow> string \<Rightarrow> string \<Rightarrow> string \<Rightarrow> TrustManifestError + ResolvedActor" where
  "actor_of L issuer_kid public_key_b64url role0 trust_domain0 subject0 =
     try_bind (map_err (\<lambda>_. ManifestMalformed ''issuer public key'') (vk_from_b64url L public_key_b64url)) (\<lambda>key.
     Ok \<lparr>identity = \<lparr>role = role0, trust_domain = trust_domain0, subject = subject0, keyid = issuer_kid\<rparr>,
         verification_key = key, slot = ResponseSlot\<rparr>)"

fun load_current :: "crypto_lib \<Rightarrow> ManifestIssuer list \<Rightarrow> TrustedIssuerSet \<Rightarrow> TrustManifestError + TrustedIssuerSet" where
  "load_current L [] s = Ok s"
| "load_current L (i # is) s =
     try_bind (actor_of L (mi_issuer_kid i) (mi_public_key i) (mi_role i) (mi_trust_domain i) (mi_subject i)) (\<lambda>actor.
     load_current L is (with_current actor s))"

fun load_retiring :: "crypto_lib \<Rightarrow> RetiringIssuer list \<Rightarrow> TrustedIssuerSet \<Rightarrow> TrustManifestError + TrustedIssuerSet" where
  "load_retiring L [] s = Ok s"
| "load_retiring L (r # rs) s =
     try_bind (actor_of L (ri_issuer_kid r) (ri_public_key r) (ri_role r) (ri_trust_domain r) (ri_subject r)) (\<lambda>actor.
     load_retiring L rs (with_retired actor (ri_valid_until r) s))"

definition load_signed_manifest ::
  "crypto_lib \<Rightarrow> (TrustAnchorManifest \<Rightarrow> bytes option) \<Rightarrow> SignedTrustAnchorManifest \<Rightarrow> (string \<Rightarrow> VerificationKey option)
   \<Rightarrow> string \<Rightarrow> nat \<Rightarrow> int \<Rightarrow> TrustManifestError + LoadedTrustAnchors" where
  "load_signed_manifest L to_bytes signed resolve_manifest_signer expected_profile min_version now =
     try_bind (ok_or (resolve_manifest_signer (sm_signer_kid signed)) UntrustedSigner) (\<lambda>org_key.
     try_bind (manifest_signing_preimage to_bytes (sm_manifest signed) (sm_signer_kid signed)) (\<lambda>b.
     try_bind (map_err (\<lambda>_. BadSignature)
                 (verify_ed25519_with L b (sm_signature signed) org_key mcp_re_error.InvalidSignature)) (\<lambda>_.
     let m = sm_manifest signed in
     if tm_profile m \<noteq> expected_profile then Err ProfileMismatch
     else if now > tm_expires_at m then Err (ManifestExpired (tm_expires_at m) now)
     else if tm_manifest_version m < min_version then Err (Stale (tm_manifest_version m) min_version)
     else
       try_bind (load_current L (tm_current_issuers m) issuers_new) (\<lambda>s.
       try_bind (load_retiring L (tm_retiring_issuers m) s) (\<lambda>s.
       Ok \<lparr>la_issuer_set = with_manifest_expiry (tm_expires_at m) (fold issuers_revoke (tm_revoked_issuers m) s),
           la_version = tm_manifest_version m\<rparr>)))))"

text \<open>
  A version floor is its two methods, over a state of its own; the file-backed one also reads and writes a
  directory, so both return the state.
\<close>

definition load_signed_manifest_with_floor ::
  "crypto_lib \<Rightarrow> (TrustAnchorManifest \<Rightarrow> bytes option) \<Rightarrow> ('f \<Rightarrow> 'f \<times> (TrustManifestError + nat))
   \<Rightarrow> ('f \<Rightarrow> nat \<Rightarrow> 'f \<times> (TrustManifestError + unit)) \<Rightarrow> SignedTrustAnchorManifest \<Rightarrow> (string \<Rightarrow> VerificationKey option)
   \<Rightarrow> string \<Rightarrow> 'f \<Rightarrow> int \<Rightarrow> 'f \<times> (TrustManifestError + LoadedTrustAnchors)" where
  "load_signed_manifest_with_floor L to_bytes min_version record_version signed resolve_manifest_signer expected_profile f now =
     (case min_version f of
        (f, Inl e) \<Rightarrow> (f, Err e)
      | (f, Inr lowest) \<Rightarrow>
          (case load_signed_manifest L to_bytes signed resolve_manifest_signer expected_profile lowest now of
             Inl e \<Rightarrow> (f, Err e)
           | Inr loaded \<Rightarrow>
               (case record_version f (la_version loaded) of
                  (f, Inl e) \<Rightarrow> (f, Err e)
                | (f, Inr _) \<Rightarrow> (f, Ok loaded))))"

text \<open>\<open>InMemoryVersionFloor\<close> is its number.\<close>

definition memory_min_version :: "nat \<Rightarrow> nat \<times> (TrustManifestError + nat)" where
  "memory_min_version lowest = (lowest, Ok lowest)"

definition memory_record :: "nat \<Rightarrow> nat \<Rightarrow> nat \<times> (TrustManifestError + unit)" where
  "memory_record lowest version = (max lowest version, Ok ())"

section \<open>What a loaded set trusts\<close>

lemma resolve_issuer_Resolved_iff:
  "resolve_issuer s kid slot0 now = Resolved a \<longleftrightarrow> slot0 = ResponseSlot \<and> kid \<notin> ti_revoked s \<and> resolve_root s kid now = Some a"
  by (auto simp: resolve_issuer_def outcome_of_option_def issuers_is_revoked_def split: SignerSlot.splits option.splits)

lemma actor_of_Ok:
  "actor_of L kid pk r td sub = Ok a \<Longrightarrow> keyid (identity a) = kid \<and> slot a = ResponseSlot \<and> vk_from_b64url L pk = Ok (verification_key a)"
  by (auto simp: actor_of_def try_bind_Ok_iff)

lemma load_current_Ok:
  assumes "load_current L is s = Ok s'"
  shows "ti_retired s' = ti_retired s" "ti_revoked s' = ti_revoked s"
    "ti_current s' kid = Some a \<Longrightarrow> ti_current s kid = Some a
       \<or> (\<exists>i\<in>set is. mi_issuer_kid i = kid \<and> keyid (identity a) = kid \<and> slot a = ResponseSlot
           \<and> vk_from_b64url L (mi_public_key i) = Ok (verification_key a))"
  using assms
proof (induction "is" arbitrary: s)
  case (Cons i "is")
  case 3
  then obtain actor where a: "actor_of L (mi_issuer_kid i) (mi_public_key i) (mi_role i) (mi_trust_domain i) (mi_subject i) = Ok actor"
    and rest: "load_current L is (with_current actor s) = Ok s'" by (auto simp: try_bind_Ok_iff)
  from Cons.IH(3) [OF 3(1) rest] actor_of_Ok [OF a] show ?case
    by (auto simp: with_current_def split: if_splits)
qed (auto simp: try_bind_Ok_iff with_current_def)

lemma load_retiring_Ok:
  assumes "load_retiring L rs s = Ok s'"
  shows "ti_current s' = ti_current s" "ti_revoked s' = ti_revoked s"
    "ti_retired s' kid = Some (a, u) \<Longrightarrow> ti_retired s kid = Some (a, u)
       \<or> (\<exists>r\<in>set rs. ri_issuer_kid r = kid \<and> keyid (identity a) = kid \<and> slot a = ResponseSlot \<and> u = ri_valid_until r
           \<and> vk_from_b64url L (ri_public_key r) = Ok (verification_key a))"
    "ti_retired s' kid = None \<Longrightarrow> ti_retired s kid = None \<and> (\<forall>r\<in>set rs. ri_issuer_kid r \<noteq> kid)"
  using assms
proof (induction rs arbitrary: s)
  case (Cons r rs)
  {
    case 3
    then obtain actor where a: "actor_of L (ri_issuer_kid r) (ri_public_key r) (ri_role r) (ri_trust_domain r) (ri_subject r) = Ok actor"
      and rest: "load_retiring L rs (with_retired actor (ri_valid_until r) s) = Ok s'" by (auto simp: try_bind_Ok_iff)
    from Cons.IH(3) [OF 3(1) rest] actor_of_Ok [OF a] show ?case
      by (auto simp: with_retired_def split: if_splits)
  next
    case 4
    then obtain actor where a: "actor_of L (ri_issuer_kid r) (ri_public_key r) (ri_role r) (ri_trust_domain r) (ri_subject r) = Ok actor"
      and rest: "load_retiring L rs (with_retired actor (ri_valid_until r) s) = Ok s'" by (auto simp: try_bind_Ok_iff)
    from Cons.IH(4) [OF 4(1) rest] actor_of_Ok [OF a] show ?case
      by (auto simp: with_retired_def split: if_splits)
  }
qed (auto simp: try_bind_Ok_iff with_retired_def)

lemma fold_issuers_revoke:
  "ti_current (fold issuers_revoke ks s) = ti_current s" "ti_retired (fold issuers_revoke ks s) = ti_retired s"
  "ti_revoked (fold issuers_revoke ks s) = ti_revoked s \<union> set ks" "ti_manifest (fold issuers_revoke ks s) = ti_manifest s"
  by (induction ks arbitrary: s) (auto simp: issuers_revoke_def)

lemma load_signed_manifest_Ok:
  assumes "load_signed_manifest L to_bytes signed signers prof lowest now = Ok loaded"
  obtains org b s1 s2 where
    "signers (sm_signer_kid signed) = Some org"
    "manifest_signing_preimage to_bytes (sm_manifest signed) (sm_signer_kid signed) = Ok b"
    "verify_ed25519_with L b (sm_signature signed) org mcp_re_error.InvalidSignature = Ok ()"
    "tm_profile (sm_manifest signed) = prof" "now \<le> tm_expires_at (sm_manifest signed)"
    "lowest \<le> tm_manifest_version (sm_manifest signed)" "la_version loaded = tm_manifest_version (sm_manifest signed)"
    "load_current L (tm_current_issuers (sm_manifest signed)) issuers_new = Ok s1"
    "load_retiring L (tm_retiring_issuers (sm_manifest signed)) s1 = Ok s2"
    "la_issuer_set loaded
       = with_manifest_expiry (tm_expires_at (sm_manifest signed)) (fold issuers_revoke (tm_revoked_issuers (sm_manifest signed)) s2)"
  using assms by (auto simp: load_signed_manifest_def try_bind_Ok_iff Let_def split: if_splits option.splits)

lemma loaded_set_resolves:
  assumes "load_current L cur issuers_new = Ok s1" "load_retiring L ret s1 = Ok s2"
    and "resolve_issuer (with_manifest_expiry until (fold issuers_revoke out s2)) kid slot0 t = Resolved a"
  shows "slot0 = ResponseSlot \<and> kid \<notin> set out \<and> t \<le> until \<and> keyid (identity a) = kid \<and> slot a = ResponseSlot
    \<and> ((\<exists>r\<in>set ret. ri_issuer_kid r = kid \<and> t \<le> ri_valid_until r \<and> vk_from_b64url L (ri_public_key r) = Ok (verification_key a))
       \<or> ((\<forall>r\<in>set ret. ri_issuer_kid r \<noteq> kid)
          \<and> (\<exists>i\<in>set cur. mi_issuer_kid i = kid \<and> vk_from_b64url L (mi_public_key i) = Ok (verification_key a))))"
proof -
  have root: "slot0 = ResponseSlot" "kid \<notin> set out" "t \<le> until"
    and found: "(case ti_retired s2 kid of Some (actor, u) \<Rightarrow> if t \<le> u then Some actor else None | None \<Rightarrow> ti_current s2 kid) = Some a"
    using assms(3)
    by (auto simp: resolve_issuer_Resolved_iff resolve_root_def issuers_is_expired_def validity_is_expired_def with_manifest_expiry_def
        fold_issuers_revoke split: if_splits cong: option.case_cong)
  have empty: "ti_current issuers_new = Map.empty" "ti_retired issuers_new = Map.empty" by (simp_all add: issuers_new_def)
  show ?thesis
  proof (cases "ti_retired s2 kid")
    case None
    with found have "ti_current s1 kid = Some a" using load_retiring_Ok(1) [OF assms(2)] by simp
    with load_current_Ok(3) [OF assms(1)] load_retiring_Ok(4) [OF assms(2) None] root empty show ?thesis by fastforce
  next
    case (Some p)
    obtain actor u where p: "p = (actor, u)" by fastforce
    with found Some have "actor = a" "t \<le> u" by (auto split: if_splits)
    moreover have "ti_retired s1 kid = None" using load_current_Ok(1) [OF assms(1)] empty by simp
    ultimately show ?thesis using load_retiring_Ok(3) [OF assms(2), of kid a u] root Some p by auto
  qed
qed

text \<open>
  C13. What a loaded manifest makes a client trust. When a signed manifest is loaded and its issuer set later
  resolves a key id, then: the manifest was signed, under its domain and the signer's id, by a key the client
  resolves for that signer; it is for the expected profile, is not below the version floor and has not
  expired, at loading or now; only the response slot is answered; the issuer is not among the revoked ones;
  and the key is the one the manifest lists, for a retiring issuer only until its own last instant, and for
  a current issuer only if the manifest does not list it as retiring.
\<close>

theorem loaded_anchors_vouched:
  assumes "load_signed_manifest L to_bytes signed signers prof lowest now = Ok loaded"
    and "resolve_issuer (la_issuer_set loaded) kid slot0 t = Resolved a"
  shows "\<exists>org body. signers (sm_signer_kid signed) = Some org \<and> to_bytes (sm_manifest signed) = Some body
    \<and> verify_ed25519_with L (MANIFEST_SIGNING_DOMAIN @ be_bytes 8 (length (sm_signer_kid signed)) @ sm_signer_kid signed @ body)
        (sm_signature signed) org mcp_re_error.InvalidSignature = Ok ()
    \<and> tm_profile (sm_manifest signed) = prof \<and> lowest \<le> tm_manifest_version (sm_manifest signed)
    \<and> now \<le> tm_expires_at (sm_manifest signed) \<and> t \<le> tm_expires_at (sm_manifest signed)
    \<and> slot0 = ResponseSlot \<and> slot a = ResponseSlot \<and> keyid (identity a) = kid
    \<and> kid \<notin> set (tm_revoked_issuers (sm_manifest signed))
    \<and> ((\<exists>r\<in>set (tm_retiring_issuers (sm_manifest signed)). ri_issuer_kid r = kid \<and> t \<le> ri_valid_until r
          \<and> vk_from_b64url L (ri_public_key r) = Ok (verification_key a))
       \<or> ((\<forall>r\<in>set (tm_retiring_issuers (sm_manifest signed)). ri_issuer_kid r \<noteq> kid)
          \<and> (\<exists>i\<in>set (tm_current_issuers (sm_manifest signed)). mi_issuer_kid i = kid
               \<and> vk_from_b64url L (mi_public_key i) = Ok (verification_key a))))"
  using assms(1)
proof (rule load_signed_manifest_Ok)
  fix org b s1 s2
  assume steps: "signers (sm_signer_kid signed) = Some org"
    "manifest_signing_preimage to_bytes (sm_manifest signed) (sm_signer_kid signed) = Ok b"
    "verify_ed25519_with L b (sm_signature signed) org mcp_re_error.InvalidSignature = Ok ()"
    "tm_profile (sm_manifest signed) = prof" "now \<le> tm_expires_at (sm_manifest signed)"
    "lowest \<le> tm_manifest_version (sm_manifest signed)"
    and sets: "load_current L (tm_current_issuers (sm_manifest signed)) issuers_new = Ok s1"
    "load_retiring L (tm_retiring_issuers (sm_manifest signed)) s1 = Ok s2"
    "la_issuer_set loaded
       = with_manifest_expiry (tm_expires_at (sm_manifest signed)) (fold issuers_revoke (tm_revoked_issuers (sm_manifest signed)) s2)"
  from loaded_set_resolves [OF sets(1,2) assms(2) [unfolded sets(3)]] steps show ?thesis
    by (auto simp: manifest_signing_preimage_def try_bind_Ok_iff)
qed

section \<open>The version floor\<close>

text \<open>
  A client loads manifests one after the other through a floor that others may raise between two loads;
  the result is the versions it accepted.
\<close>

datatype 'f floor_op = Load SignedTrustAnchorManifest int | Others "'f \<Rightarrow> 'f"

primrec accepted_versions ::
  "crypto_lib \<Rightarrow> (TrustAnchorManifest \<Rightarrow> bytes option) \<Rightarrow> ('f \<Rightarrow> 'f \<times> (TrustManifestError + nat))
   \<Rightarrow> ('f \<Rightarrow> nat \<Rightarrow> 'f \<times> (TrustManifestError + unit)) \<Rightarrow> (string \<Rightarrow> VerificationKey option) \<Rightarrow> string
   \<Rightarrow> 'f floor_op list \<Rightarrow> 'f \<Rightarrow> nat list" where
  "accepted_versions L to_bytes min_version record_version signers prof [] f = []"
| "accepted_versions L to_bytes min_version record_version signers prof (op # ops) f =
     (case op of
        Load signed now \<Rightarrow>
          (case load_signed_manifest_with_floor L to_bytes min_version record_version signed signers prof f now of
             (f, Inr loaded) \<Rightarrow> la_version loaded # accepted_versions L to_bytes min_version record_version signers prof ops f
           | (f, Inl _) \<Rightarrow> accepted_versions L to_bytes min_version record_version signers prof ops f)
      | Others g \<Rightarrow> accepted_versions L to_bytes min_version record_version signers prof ops (g f))"

text \<open>
  What \<open>ManifestVersionFloor\<close> promises: reading gives no less than the floor, a recorded version is one the
  floor has reached, and no call lowers the floor, whether or not it succeeds.
\<close>

locale version_floor =
  fixes min_version :: "'f \<Rightarrow> 'f \<times> (TrustManifestError + nat)"
    and record_version :: "'f \<Rightarrow> nat \<Rightarrow> 'f \<times> (TrustManifestError + unit)"
    and floor_of :: "'f \<Rightarrow> nat"
  assumes min_keeps: "floor_of f \<le> floor_of (fst (min_version f))"
    and min_reads: "min_version f = (f', Ok m) \<Longrightarrow> floor_of f \<le> m"
    and record_keeps: "v \<le> u64_max \<Longrightarrow> floor_of f \<le> floor_of (fst (record_version f v))"
    and record_raises: "record_version f v = (f', Ok ()) \<Longrightarrow> v \<le> u64_max \<Longrightarrow> v \<le> floor_of f'"
begin

lemma load_raises:
  assumes "load_signed_manifest_with_floor L to_bytes min_version record_version signed signers prof f now = (f', r)"
    and "tm_manifest_version (sm_manifest signed) \<le> u64_max"
  shows "floor_of f \<le> floor_of f'"
    "r = Ok loaded \<Longrightarrow> floor_of f \<le> la_version loaded \<and> la_version loaded \<le> floor_of f'"
proof -
  obtain f1 r1 where min: "min_version f = (f1, r1)" by fastforce
  then have kept: "floor_of f \<le> floor_of f1" using min_keeps [of f] by simp
  have fits: "la_version loaded \<le> u64_max" if "load_signed_manifest L to_bytes signed signers prof m now = Ok loaded" for m loaded
    using that by (rule load_signed_manifest_Ok) (use assms(2) in simp)
  show "floor_of f \<le> floor_of f'"
  proof (cases "\<exists>m loaded. r1 = Ok m \<and> load_signed_manifest L to_bytes signed signers prof m now = Ok loaded")
    case True
    then obtain m loaded where l: "r1 = Ok m" "load_signed_manifest L to_bytes signed signers prof m now = Ok loaded" by blast
    with assms(1) min have "f' = fst (record_version f1 (la_version loaded))"
      by (auto simp: load_signed_manifest_with_floor_def split: sum.splits prod.splits)
    with kept record_keeps [OF fits [OF l(2)], of f1] show ?thesis by simp
  next
    case False
    with assms(1) min kept show ?thesis
      by (auto simp: load_signed_manifest_with_floor_def split: sum.splits)
  qed
  show "floor_of f \<le> la_version loaded \<and> la_version loaded \<le> floor_of f'" if "r = Ok loaded"
  proof -
    from assms(1) min that obtain m where m: "r1 = Ok m" "load_signed_manifest L to_bytes signed signers prof m now = Ok loaded"
      "record_version f1 (la_version loaded) = (f', Ok ())"
      by (auto simp: load_signed_manifest_with_floor_def split: sum.splits prod.splits)
    have "floor_of f \<le> m" using min m(1) by (auto intro: min_reads)
    moreover from m(2) have "m \<le> la_version loaded" by (rule load_signed_manifest_Ok) simp
    ultimately show ?thesis using record_raises [OF m(3) fits [OF m(2)]] by simp
  qed
qed

lemma accepted_versions_sorted:
  assumes "\<forall>g f. Others g \<in> set ops \<longrightarrow> floor_of f \<le> floor_of (g f)"
    and "\<forall>signed now. Load signed now \<in> set ops \<longrightarrow> tm_manifest_version (sm_manifest signed) \<le> u64_max"
  shows "sorted (accepted_versions L to_bytes min_version record_version signers prof ops f)
    \<and> (\<forall>v\<in>set (accepted_versions L to_bytes min_version record_version signers prof ops f). floor_of f \<le> v)"
  using assms
proof (induction ops arbitrary: f)
  case (Cons op ops)
  then have IH: "sorted (accepted_versions L to_bytes min_version record_version signers prof ops f)
    \<and> (\<forall>v\<in>set (accepted_versions L to_bytes min_version record_version signers prof ops f). floor_of f \<le> v)" for f
    by (intro Cons.IH) auto
  show ?case
  proof (cases op)
    case (Load signed now)
    obtain f' r where l: "load_signed_manifest_with_floor L to_bytes min_version record_version signed signers prof f now = (f', r)"
      by fastforce
    note up = load_raises [OF l Cons.prems(2) [rule_format, of signed now]]
    show ?thesis
    proof (cases r)
      case (Inl e)
      with Load l IH [of f'] up(1) show ?thesis by (auto intro: order_trans)
    next
      case (Inr loaded)
      with up(2) Load have "floor_of f \<le> la_version loaded" "la_version loaded \<le> floor_of f'" by simp_all
      with Load l Inr IH [of f'] show ?thesis by (auto intro: order_trans)
    qed
  next
    case (Others g)
    with Cons.prems(1) [rule_format, of g f] IH [of "g f"] show ?thesis by (auto intro: order_trans)
  qed
qed simp

end

interpretation memory_floor: version_floor memory_min_version memory_record id
  by unfold_locales (auto simp: memory_min_version_def memory_record_def)

section \<open>A manifest\<close>

text \<open>What the signer of a manifest signs, a client that resolves the signer's key loads.\<close>

lemma signed_manifest_loads:
  assumes "sign_manifest L to_bytes m org signer_kid = Some signed" "b64_ok L" "ed25519_ok L" "length (sk_inner org) = 32"
    and "signers signer_kid = Some (public_key L org)" "tm_profile m = prof" "now \<le> tm_expires_at m" "lowest \<le> tm_manifest_version m"
    and "load_current L (tm_current_issuers m) issuers_new = Ok s1" "load_retiring L (tm_retiring_issuers m) s1 = Ok s2"
  shows "load_signed_manifest L to_bytes signed signers prof lowest now
    = Ok \<lparr>la_issuer_set = with_manifest_expiry (tm_expires_at m) (fold issuers_revoke (tm_revoked_issuers m) s2),
           la_version = tm_manifest_version m\<rparr>"
proof -
  from assms(1) obtain b where "manifest_signing_preimage to_bytes m signer_kid = Ok b"
    "signed = \<lparr>sm_manifest = m, sm_signer_kid = signer_kid, sm_signature = sign_b64url L org b\<rparr>"
    by (auto simp: sign_manifest_def split: sum.splits)
  with assms(5-10) verify_ed25519_sign [OF assms(2-4), of b] show ?thesis
    by (simp add: load_signed_manifest_def verify_ed25519_def Let_def)
qed

definition sample_manifest :: TrustAnchorManifest where
  "sample_manifest = \<lparr>tm_profile = PROFILE_TAG, tm_manifest_version = 7,
     tm_current_issuers = [\<lparr>mi_issuer_kid = ''root'', mi_public_key = pad32 ''root'', mi_role = ''root'', mi_trust_domain = ''d'', mi_subject = ''s''\<rparr>],
     tm_retiring_issuers = [\<lparr>ri_issuer_kid = ''old'', ri_public_key = pad32 ''old'', ri_role = ''root'', ri_trust_domain = ''d'', ri_subject = ''s'',
       ri_valid_until = 150\<rparr>],
     tm_revoked_issuers = [''gone''], tm_issued_at = 50, tm_expires_at = 200\<rparr>"

definition sample_manifest_key :: SigningKey where "sample_manifest_key = SigningKey (pad32 ''org'')"

definition sample_manifest_signers :: "string \<Rightarrow> VerificationKey option" where
  "sample_manifest_signers kid = (if kid = ''org'' then Some (public_key demo_lib sample_manifest_key) else None)"

lemma sample_manifest_signed:
  obtains signed where "sign_manifest demo_lib (\<lambda>_. Some ''m'') sample_manifest sample_manifest_key ''org'' = Some signed"
    "sm_manifest signed = sample_manifest"
  by (simp add: sign_manifest_def manifest_signing_preimage_def)

lemma sample_manifest_loads:
  assumes "sign_manifest demo_lib (\<lambda>_. Some ''m'') sample_manifest sample_manifest_key ''org'' = Some signed" "lowest \<le> 7"
  obtains s where
    "load_signed_manifest demo_lib (\<lambda>_. Some ''m'') signed sample_manifest_signers PROFILE_TAG lowest 100
       = Ok \<lparr>la_issuer_set = with_manifest_expiry 200 (fold issuers_revoke [''gone''] s), la_version = 7\<rparr>"
    "ti_retired s ''old'' \<noteq> None" "\<forall>a u. ti_retired s ''old'' = Some (a, u) \<longrightarrow> u = 150" "ti_revoked s = {}"
proof -
  obtain s1 s2 where s: "load_current demo_lib (tm_current_issuers sample_manifest) issuers_new = Ok s1"
    "load_retiring demo_lib (tm_retiring_issuers sample_manifest) s1 = Ok s2" "ti_retired s2 ''old'' \<noteq> None"
    "\<forall>a u. ti_retired s2 ''old'' = Some (a, u) \<longrightarrow> u = 150" "ti_revoked s2 = {}"
    by (simp add: sample_manifest_def actor_of_def vk_from_b64url_def vk_from_bytes_def b64url_decode_def demo_lib_def with_retired_def
        with_current_def issuers_new_def)
  note l = signed_manifest_loads [where signers = sample_manifest_signers and prof = PROFILE_TAG and now = 100 and lowest = lowest,
      OF assms(1) demo_lib_ok(1,3) _ _ _ _ _ s(1,2)]
  have "load_signed_manifest demo_lib (\<lambda>_. Some ''m'') signed sample_manifest_signers PROFILE_TAG lowest 100
      = Ok \<lparr>la_issuer_set = with_manifest_expiry 200 (fold issuers_revoke [''gone''] s2), la_version = 7\<rparr>"
    by (subst l) (use assms(2) in \<open>simp_all add: sample_manifest_def sample_manifest_key_def sample_manifest_signers_def\<close>)
  then show thesis using s(3-5) by (rule that)
qed

theorem loaded_anchors_vouched_witness:
  "\<exists>signed loaded a. sign_manifest demo_lib (\<lambda>_. Some ''m'') sample_manifest sample_manifest_key ''org'' = Some signed
     \<and> load_signed_manifest demo_lib (\<lambda>_. Some ''m'') signed sample_manifest_signers PROFILE_TAG 5 100 = Ok loaded
     \<and> resolve_issuer (la_issuer_set loaded) ''old'' ResponseSlot 150 = Resolved a \<and> keyid (identity a) = ''old''
     \<and> ''old'' \<notin> set (tm_revoked_issuers sample_manifest)"
proof (rule sample_manifest_signed)
  fix signed
  assume signed: "sign_manifest demo_lib (\<lambda>_. Some ''m'') sample_manifest sample_manifest_key ''org'' = Some signed"
    and sm: "sm_manifest signed = sample_manifest"
  obtain s where loads: "load_signed_manifest demo_lib (\<lambda>_. Some ''m'') signed sample_manifest_signers PROFILE_TAG 5 100
      = Ok \<lparr>la_issuer_set = with_manifest_expiry 200 (fold issuers_revoke [''gone''] s), la_version = 7\<rparr>"
    and s: "ti_retired s ''old'' \<noteq> None" "\<forall>a u. ti_retired s ''old'' = Some (a, u) \<longrightarrow> u = 150" "ti_revoked s = {}"
    by (rule sample_manifest_loads [OF signed, of 5]) simp_all
  obtain a where a: "resolve_issuer (with_manifest_expiry 200 (fold issuers_revoke [''gone''] s)) ''old'' ResponseSlot 150 = Resolved a"
    using s
    by (auto simp: resolve_issuer_Resolved_iff resolve_root_def issuers_is_expired_def validity_is_expired_def with_manifest_expiry_def
        issuers_revoke_def)
  from loaded_anchors_vouched [OF loads, of "''old''" ResponseSlot 150 a] a
  have "keyid (identity a) = ''old''" "''old'' \<notin> set (tm_revoked_issuers sample_manifest)"
    by (auto simp: sm)
  with signed loads a show ?thesis by auto
qed

end
