(* ===== verification/Manifest_Floor.thy ===== *)
theory Manifest_Floor
  imports Client_Trust
begin

text \<open>
  The durable version floor of a client, \<open>mcp-re-client-proxy/src/manifest_floor.rs\<close>: a directory with one
  marker per accepted version, shared between processes. \<open>record\<close> is written as the machine it is between two
  calls of the file system: a state, the call it makes next, and the state after the reply. It is run alone
  on a directory whose calls may fail, and interleaved with other writers.
\<close>

section \<open>Markers\<close>

text \<open>A name that is not text has a byte that is not a digit, so both refusals of the source are this one.\<close>

definition marker_version :: "string \<Rightarrow> nat option" where
  "marker_version name =
     (if name = [] \<or> \<not> list_all is_ascii_digit name then None
      else if length name > 1 \<and> hd name = CHR ''0'' then None
      else if read_nat name \<le> u64_max then Some (read_nat name) else None)"

text \<open>What reading the directory gives: the names in it, \<open>None\<close> where an entry could not be enumerated.\<close>

datatype dir_listing = Listing "string option list" | DirNotFound | DirUnreadable

fun read_entries :: "nat \<Rightarrow> string option list \<Rightarrow> TrustManifestError + nat" where
  "read_entries acc [] = Ok acc"
| "read_entries acc (None # es) = Err (FloorUnreadable ''read trust-anchor floor entry'')"
| "read_entries acc (Some name # es) =
     read_entries (case marker_version name of Some version \<Rightarrow> max acc version | None \<Rightarrow> acc) es"

definition read_floor :: "dir_listing \<Rightarrow> TrustManifestError + nat" where
  "read_floor l =
     (case l of
        Listing es \<Rightarrow> read_entries 0 es
      | DirNotFound \<Rightarrow> Ok 0
      | DirUnreadable \<Rightarrow> Err (FloorUnreadable ''read trust-anchor floor''))"

section \<open>The floor\<close>

record FileManifestFloor =
  ff_bootstrap :: nat
  ff_ceiling :: "nat option"

definition check_ceiling :: "FileManifestFloor \<Rightarrow> nat \<Rightarrow> TrustManifestError + unit" where
  "check_ceiling fl v =
     (case ff_ceiling fl of
        Some ceiling \<Rightarrow> if v > ceiling then Err (FloorAboveCeiling v ceiling) else Ok ()
      | None \<Rightarrow> Ok ())"

definition floor_min_version :: "FileManifestFloor \<Rightarrow> dir_listing \<Rightarrow> TrustManifestError + nat" where
  "floor_min_version fl l =
     try_bind (read_floor l) (\<lambda>durable.
     try_bind (check_ceiling fl durable) (\<lambda>_.
     Ok (max durable (ff_bootstrap fl))))"

text \<open>The constructor, given whether the directory could be created and what it then holds.\<close>

definition with_bounds :: "nat \<Rightarrow> nat option \<Rightarrow> bool \<Rightarrow> dir_listing \<Rightarrow> TrustManifestError + FileManifestFloor" where
  "with_bounds bootstrap ceiling created l =
     (let fl = \<lparr>ff_bootstrap = bootstrap, ff_ceiling = ceiling\<rparr> in
      try_bind (check_ceiling fl bootstrap) (\<lambda>_.
      try_bind (require created (FloorNotPersisted ''create trust-anchor floor dir'')) (\<lambda>_.
      try_bind (floor_min_version fl l) (\<lambda>_.
      Ok fl))))"

subsection \<open>Recording\<close>

datatype floor_call = ReadDir | CreateNew string | SyncMarker string | SyncDir | RemoveFile string

datatype create_result = Created | AlreadyExists | CreateFailed

datatype floor_reply = Listed dir_listing | CreateReply create_result | Succeeded bool

text \<open>
  Where a call of \<open>record\<close> stands: before the first reading; in \<open>persist\<close>, with whether the version is above
  the floor that was read; in \<open>prune_below\<close>; or done.
\<close>

datatype record_state =
    RecRead nat
  | RecCreate nat bool
  | RecSyncMarker nat bool
  | RecSyncDir nat bool
  | RecPrune nat
  | RecRemove nat "string list"
  | RecDone "TrustManifestError + unit"

definition record_call :: "record_state \<Rightarrow> floor_call option" where
  "record_call st =
     (case st of
        RecRead v \<Rightarrow> Some ReadDir
      | RecCreate v fresh \<Rightarrow> Some (CreateNew (show_nat v))
      | RecSyncMarker v fresh \<Rightarrow> Some (SyncMarker (show_nat v))
      | RecSyncDir v fresh \<Rightarrow> Some SyncDir
      | RecPrune v \<Rightarrow> Some ReadDir
      | RecRemove v ns \<Rightarrow> (case ns of n # _ \<Rightarrow> Some (RemoveFile n) | [] \<Rightarrow> None)
      | RecDone r \<Rightarrow> None)"

definition not_persisted :: "bool \<Rightarrow> TrustManifestError" where
  "not_persisted fresh = FloorNotPersisted (if fresh then ''write trust-anchor floor'' else ''fsync trust-anchor floor'')"

text \<open>\<open>entries.flatten()\<close> skips what could not be enumerated.\<close>

definition superseded :: "nat \<Rightarrow> string option list \<Rightarrow> string list" where
  "superseded keep es =
     filter (\<lambda>n. case marker_version n of Some v \<Rightarrow> v < keep | None \<Rightarrow> False) (List.map_filter id es)"

definition record_decide :: "FileManifestFloor \<Rightarrow> nat \<Rightarrow> dir_listing \<Rightarrow> record_state" where
  "record_decide fl v l =
     (case try_bind (read_floor l) (\<lambda>durable.
           try_bind (check_ceiling fl durable) (\<lambda>_.
           try_bind (check_ceiling fl v) (\<lambda>_.
           if durable > v then Err (FloorNotPersisted ''trust-anchor floor was raised past this version concurrently'')
           else Ok durable))) of
        Inl e \<Rightarrow> RecDone (Err e)
      | Inr durable \<Rightarrow> RecCreate v (durable < v))"

fun record_step :: "FileManifestFloor \<Rightarrow> record_state \<Rightarrow> floor_reply \<Rightarrow> record_state" where
  "record_step fl (RecRead v) (Listed l) = record_decide fl v l"
| "record_step fl (RecCreate v fresh) (CreateReply Created) = RecSyncMarker v fresh"
| "record_step fl (RecCreate v fresh) (CreateReply AlreadyExists) = RecSyncDir v fresh"
| "record_step fl (RecCreate v fresh) (CreateReply CreateFailed) = RecDone (Err (not_persisted fresh))"
| "record_step fl (RecSyncMarker v fresh) (Succeeded ok) = (if ok then RecSyncDir v fresh else RecDone (Err (not_persisted fresh)))"
| "record_step fl (RecSyncDir v fresh) (Succeeded ok) =
     (if \<not> ok then RecDone (Err (not_persisted fresh)) else if fresh then RecPrune v else RecDone (Ok ()))"
| "record_step fl (RecPrune v) (Listed l) = (case l of Listing es \<Rightarrow> RecRemove v (superseded v es) | _ \<Rightarrow> RecDone (Ok ()))"
| "record_step fl (RecRemove v (n # ns)) (Succeeded _) = RecRemove v ns"
| "record_step fl st reply = st"

text \<open>A call of \<open>record\<close> has returned; the last removal leaves nothing to do.\<close>

definition record_result :: "record_state \<Rightarrow> (TrustManifestError + unit) option" where
  "record_result st = (case st of RecDone r \<Rightarrow> Some r | RecRemove v [] \<Rightarrow> Some (Ok ()) | _ \<Rightarrow> None)"

section \<open>Markers and versions\<close>

lemma show_nat_first: "hd (show_nat n) = CHR ''0'' \<Longrightarrow> n = 0"
proof (induction n rule: show_nat.induct)
  case (1 n)
  show ?case
  proof (cases "n < 10")
    case True
    with 1(2) have "digit_char n = CHR ''0''" by (subst (asm) show_nat.simps) simp
    then have "digit_val (digit_char n) = digit_val CHR ''0''" by (rule arg_cong)
    with True show ?thesis by (simp only: digit_char(2)) (simp add: digit_val_def)
  next
    case False
    with 1(2) have "hd (show_nat (n div 10)) = CHR ''0''" by (subst (asm) show_nat.simps) simp
    with 1(1) [OF False] False show ?thesis by simp
  qed
qed

lemma marker_of_version: "v \<le> u64_max \<Longrightarrow> marker_version (show_nat v) = Some v"
proof -
  assume "v \<le> u64_max"
  moreover have "list_all is_ascii_digit (show_nat v)" using show_nat_digits by (auto simp: list_all_iff)
  moreover have "\<not> (length (show_nat v) > 1 \<and> hd (show_nat v) = CHR ''0'')"
    using show_nat_first [of v] by (auto simp: show_nat.simps [of 0])
  ultimately show ?thesis by (simp add: marker_version_def)
qed

text \<open>The floor of a directory is at least a version when a marker says so.\<close>

definition reaches :: "string set \<Rightarrow> nat \<Rightarrow> bool" where
  "reaches D v \<longleftrightarrow> (\<exists>n\<in>D. \<exists>m. marker_version n = Some m \<and> v \<le> m)"

lemma reaches_mono: "reaches D v \<Longrightarrow> D \<subseteq> D' \<Longrightarrow> reaches D' v"
  by (auto simp: reaches_def)

lemma reaches_marker: "show_nat v \<in> D \<Longrightarrow> v \<le> u64_max \<Longrightarrow> reaches D v"
  by (force simp: reaches_def dest: marker_of_version)

lemma reaches_remove:
  assumes "reaches D keep" "\<forall>m. marker_version n = Some m \<longrightarrow> m < keep" "reaches D v"
  shows "reaches (D - {n}) v"
proof -
  from assms(1) obtain k m where k: "k \<in> D" "marker_version k = Some m" "keep \<le> m" by (auto simp: reaches_def)
  from assms(3) obtain j m' where j: "j \<in> D" "marker_version j = Some m'" "v \<le> m'" by (auto simp: reaches_def)
  from k assms(2) have "k \<noteq> n" by force
  then show ?thesis
    using k j assms(2) by (cases "j = n") (force simp: reaches_def)+
qed

lemma superseded_below: "n \<in> set (superseded keep es) \<Longrightarrow> marker_version n = Some m \<Longrightarrow> m < keep"
  by (auto simp: superseded_def split: option.splits)

section \<open>Writers that share a directory\<close>

text \<open>
  What the file system may answer, and what it does to the names in the directory. A reading may answer
  anything at all: the names it lists, and whether it fails, play no part in what follows.
\<close>

inductive dir_io :: "string set \<Rightarrow> floor_call \<Rightarrow> floor_reply \<Rightarrow> string set \<Rightarrow> bool" where
  listed: "dir_io D ReadDir (Listed l) D"
| created: "n \<notin> D \<Longrightarrow> dir_io D (CreateNew n) (CreateReply Created) (insert n D)"
| existing: "n \<in> D \<Longrightarrow> dir_io D (CreateNew n) (CreateReply AlreadyExists) D"
| not_created: "dir_io D (CreateNew n) (CreateReply CreateFailed) D"
| marker_synced: "dir_io D (SyncMarker n) (Succeeded ok) D"
| dir_synced: "dir_io D SyncDir (Succeeded ok) D"
| removed: "dir_io D (RemoveFile n) (Succeeded True) (D - {n})"
| not_removed: "dir_io D (RemoveFile n) (Succeeded False) D"

text \<open>The directory, the version each writer is recording and how far it is, and the versions recorded so far.\<close>

record floor_system =
  fs_names :: "string set"
  fs_writers :: "nat \<rightharpoonup> nat \<times> record_state"
  fs_recorded :: "nat set"

inductive floor_step :: "(nat \<Rightarrow> FileManifestFloor) \<Rightarrow> floor_system \<Rightarrow> floor_system \<Rightarrow> bool" for bounds where
  start: "fs_writers s i = None \<Longrightarrow> v \<le> u64_max
    \<Longrightarrow> floor_step bounds s (s\<lparr>fs_writers := (fs_writers s)(i \<mapsto> (v, RecRead v))\<rparr>)"
| call: "fs_writers s i = Some (v, st) \<Longrightarrow> record_call st = Some c \<Longrightarrow> dir_io (fs_names s) c reply D
    \<Longrightarrow> floor_step bounds s (s\<lparr>fs_names := D, fs_writers := (fs_writers s)(i \<mapsto> (v, record_step (bounds i) st reply))\<rparr>)"
| return: "fs_writers s i = Some (v, st) \<Longrightarrow> record_result st = Some r
    \<Longrightarrow> floor_step bounds s (s\<lparr>fs_writers := (fs_writers s)(i := None),
          fs_recorded := (if r = Ok () then insert v (fs_recorded s) else fs_recorded s)\<rparr>)"
| crash: "fs_writers s i = Some (v, st) \<Longrightarrow> floor_step bounds s (s\<lparr>fs_writers := (fs_writers s)(i := None)\<rparr>)"

text \<open>What a writer knows of the directory from where it stands.\<close>

fun pending :: "string set \<Rightarrow> nat \<Rightarrow> record_state \<Rightarrow> bool" where
  "pending D v (RecRead w) = (w = v)"
| "pending D v (RecCreate w fresh) = (w = v)"
| "pending D v (RecSyncMarker w fresh) = (w = v \<and> reaches D v)"
| "pending D v (RecSyncDir w fresh) = (w = v \<and> reaches D v)"
| "pending D v (RecPrune w) = (w = v \<and> reaches D v)"
| "pending D v (RecRemove w ns) = (w = v \<and> reaches D v \<and> (\<forall>n\<in>set ns. \<forall>m. marker_version n = Some m \<longrightarrow> m < v))"
| "pending D v (RecDone r) = (r = Ok () \<longrightarrow> reaches D v)"

definition floor_inv :: "floor_system \<Rightarrow> bool" where
  "floor_inv s \<longleftrightarrow> (\<forall>i v st. fs_writers s i = Some (v, st) \<longrightarrow> v \<le> u64_max \<and> pending (fs_names s) v st)
     \<and> (\<forall>v\<in>fs_recorded s. reaches (fs_names s) v)"

lemma pending_mono: "pending D v st \<Longrightarrow> (\<And>u. reaches D u \<Longrightarrow> reaches D' u) \<Longrightarrow> pending D' v st"
  by (cases st) auto

lemma call_keeps_floor:
  assumes "dir_io D c reply D'" "record_call st = Some c" "pending D v st" "reaches D u"
  shows "reaches D' u"
  using assms(1)
proof (cases rule: dir_io.cases)
  case (removed n)
  with assms(2) obtain w ns where "st = RecRemove w (n # ns)"
    by (auto simp: record_call_def split: record_state.splits list.splits)
  with assms(3) have "reaches D v" "\<forall>m. marker_version n = Some m \<longrightarrow> m < v" by simp_all
  then show ?thesis using reaches_remove assms(4) removed(3) by blast
qed (use assms(4) in \<open>auto intro: reaches_mono\<close>)

lemma record_decide_pending: "pending D v (record_decide fl v l)"
  by (auto simp: record_decide_def split: sum.splits)

lemma call_keeps_pending:
  assumes "dir_io D c reply D'" "record_call st = Some c" "pending D v st" "v \<le> u64_max"
  shows "pending D' v (record_step fl st reply)"
proof -
  have up: "reaches D u \<Longrightarrow> reaches D' u" for u by (rule call_keeps_floor [OF assms(1-3)])
  from assms(1) show ?thesis
  proof (cases rule: dir_io.cases)
    case (listed l)
    with assms(2,3) show ?thesis
      by (cases st) (auto simp: record_call_def record_decide_pending superseded_below split: list.splits dir_listing.splits)
  next
    case (created n)
    with assms(2-4) show ?thesis
      by (cases st) (auto simp: record_call_def intro!: reaches_marker split: list.splits)
  next
    case (existing n)
    with assms(2-4) show ?thesis
      by (cases st) (auto simp: record_call_def intro!: reaches_marker split: list.splits)
  next
    case (not_created n)
    with assms(2,3) show ?thesis by (cases st) (auto simp: record_call_def split: list.splits)
  next
    case (marker_synced n ok)
    with assms(2,3) show ?thesis by (cases st) (auto simp: record_call_def split: list.splits)
  next
    case (dir_synced ok)
    with assms(2,3) show ?thesis by (cases st) (auto simp: record_call_def split: list.splits)
  next
    case (removed n)
    with assms(2,3) up show ?thesis by (cases st) (auto simp: record_call_def split: list.splits)
  next
    case (not_removed n)
    with assms(2,3) up show ?thesis by (cases st) (auto simp: record_call_def split: list.splits)
  qed
qed

lemma floor_step_keeps:
  assumes "floor_step bounds s s'" "floor_inv s"
  shows "floor_inv s'" "reaches (fs_names s) u \<Longrightarrow> reaches (fs_names s') u" "fs_recorded s \<subseteq> fs_recorded s'"
proof -
  have "floor_inv s' \<and> (reaches (fs_names s) u \<longrightarrow> reaches (fs_names s') u) \<and> fs_recorded s \<subseteq> fs_recorded s'"
    using assms
  proof (induction rule: floor_step.induct)
    case (call s i v st c reply D)
    then have p: "pending (fs_names s) v st" "v \<le> u64_max" by (auto simp: floor_inv_def)
    note up = call_keeps_floor [OF call(3,2) p(1)]
    have "pending D v (record_step (bounds i) st reply)" by (rule call_keeps_pending [OF call(3,2) p])
    moreover have "pending (fs_names s) w t \<Longrightarrow> pending D w t" for w t using pending_mono [of "fs_names s" w t D] up by blast
    ultimately show ?case using call(4) up p(2) by (auto simp: floor_inv_def)
  next
    case (return s i v st r)
    then have "pending (fs_names s) v st" by (simp add: floor_inv_def)
    with return(2) have "r = Ok () \<Longrightarrow> reaches (fs_names s) v"
      by (auto simp: record_result_def split: record_state.splits list.splits)
    with return show ?case by (auto simp: floor_inv_def)
  qed (auto simp: floor_inv_def)
  then show "floor_inv s'" "reaches (fs_names s) u \<Longrightarrow> reaches (fs_names s') u" "fs_recorded s \<subseteq> fs_recorded s'" by simp_all
qed

lemma floor_steps_keep:
  assumes "(floor_step bounds)\<^sup>*\<^sup>* s s'" "floor_inv s"
  shows "floor_inv s'" "reaches (fs_names s) u \<Longrightarrow> reaches (fs_names s') u" "fs_recorded s \<subseteq> fs_recorded s'"
  using assms by (induction rule: rtranclp_induct) (auto dest: floor_step_keeps)

text \<open>
  C15. The floor of a shared directory never falls. Let any number of processes record versions in one
  directory, interleaved at every call of the file system, with calls that fail, processes that die at any
  point, and readings that list anything. Once a marker of some version or above is in the directory there is
  always one, although every writer removes the markers it supersedes; and from the moment a call of \<open>record\<close>
  has returned success, the floor is at least its version.
\<close>

theorem floor_never_falls:
  assumes "(floor_step bounds)\<^sup>*\<^sup>* \<lparr>fs_names = D, fs_writers = Map.empty, fs_recorded = {}\<rparr> s"
    and "(floor_step bounds)\<^sup>*\<^sup>* s s'"
  shows "(reaches (fs_names s) v \<longrightarrow> reaches (fs_names s') v) \<and> (v \<in> fs_recorded s \<longrightarrow> reaches (fs_names s') v)"
proof -
  have "floor_inv \<lparr>fs_names = D, fs_writers = Map.empty, fs_recorded = {}\<rparr>" by (simp add: floor_inv_def)
  from floor_steps_keep(1) [OF assms(1) this] have inv: "floor_inv s" .
  moreover have "floor_inv s'" "fs_recorded s \<subseteq> fs_recorded s'" using floor_steps_keep [OF assms(2) inv] by simp_all
  ultimately show ?thesis using floor_steps_keep(2) [OF assms(2) inv] by (auto simp: floor_inv_def)
qed

section \<open>Reading while others write\<close>

text \<open>
  What an enumeration may list when the directory goes through several states while it lasts: an entry that
  is there throughout is listed, and an entry that was never there is not; whether one that is added or
  removed meanwhile is listed is unspecified.
\<close>

definition may_list :: "string set list \<Rightarrow> string option list \<Rightarrow> bool" where
  "may_list Ds es \<longleftrightarrow> None \<notin> set es \<and> (\<forall>n. (\<forall>D\<in>set Ds. n \<in> D) \<longrightarrow> Some n \<in> set es)
     \<and> (\<forall>n. Some n \<in> set es \<longrightarrow> (\<exists>D\<in>set Ds. n \<in> D))"

lemma read_entries_le:
  "read_entries acc es = Ok k \<Longrightarrow> acc \<le> k \<and> (\<forall>n m. Some n \<in> set es \<longrightarrow> marker_version n = Some m \<longrightarrow> m \<le> k)"
  by (induction acc es rule: read_entries.induct) (auto split: option.splits)

lemma stable_marker_is_read:
  assumes "may_list Ds es" "\<forall>D\<in>set Ds. n \<in> D" "marker_version n = Some m" "floor_min_version fl (Listing es) = Ok k"
  shows "m \<le> k"
  using assms read_entries_le [of 0 es]
  by (fastforce simp: may_list_def floor_min_version_def read_floor_def try_bind_Ok_iff)

lemma two_markers: "marker_version ''5'' = Some 5" "marker_version ''10'' = Some 10" "show_nat 10 = ''10''"
proof -
  show "marker_version ''5'' = Some 5" "marker_version ''10'' = Some 10"
    by (simp_all add: marker_version_def is_ascii_digit_def read_nat_def digit_val_def u64_max_def)
  show "show_nat 10 = ''10''" by (simp add: show_nat.simps digit_char_def) code_simp
qed

text \<open>
  C19. A reading may miss the floor. Two processes share a directory whose floor is 5. While one of them
  records version 10 and removes the superseded marker, the other enumerates the directory: at every moment
  the floor is at least 5, but no single marker is there throughout, the enumeration may list neither of the
  two, and the reader takes the floor to be 0.
\<close>

theorem reading_may_miss_the_floor:
  "\<exists>ss es. successively (floor_step (\<lambda>_. \<lparr>ff_bootstrap = 0, ff_ceiling = None\<rparr>)) ss
     \<and> ss \<noteq> [] \<and> fs_names (hd ss) = {''5''} \<and> fs_recorded (last ss) = {10}
     \<and> list_all (\<lambda>s. reaches (fs_names s) 5) ss \<and> may_list (map fs_names ss) es
     \<and> floor_min_version \<lparr>ff_bootstrap = 0, ff_ceiling = None\<rparr> (Listing es) = Ok 0"
proof -
  let ?fl = "\<lparr>ff_bootstrap = 0, ff_ceiling = None\<rparr>"
  let ?b = "\<lambda>_ :: nat. ?fl"
  define sys where "sys D st = \<lparr>fs_names = D, fs_writers = [0 \<mapsto> (10, st)], fs_recorded = {}\<rparr>" for D st
  let ?s0 = "\<lparr>fs_names = {''5''}, fs_writers = Map.empty, fs_recorded = {}\<rparr>"
  let ?s1 = "\<lparr>fs_names = {''10''}, fs_writers = Map.empty, fs_recorded = {10}\<rparr>"
  let ?ss = "[?s0, sys {''5''} (RecRead 10), sys {''5''} (RecCreate 10 True), sys {''10'', ''5''} (RecSyncMarker 10 True),
    sys {''10'', ''5''} (RecSyncDir 10 True), sys {''10'', ''5''} (RecPrune 10), sys {''10'', ''5''} (RecRemove 10 [''5'']),
    sys {''10''} (RecRemove 10 []), ?s1]"
  have call: "floor_step ?b (sys D st) (sys D' st')"
    if "record_call st = Some c" "dir_io D c reply D'" "record_step ?fl st reply = st'" for D D' c reply st st'
    using floor_step.call [where bounds = ?b and s = "sys D st" and i = 0 and v = 10 and st = st and c = c and reply = reply and D = D'] that
    by (simp add: sys_def)
  have "floor_step ?b ?s0 (sys {''5''} (RecRead 10))"
    using floor_step.start [where bounds = ?b and s = ?s0 and i = 0 and v = 10] by (simp add: sys_def u64_max_def)
  moreover have "floor_step ?b (sys {''5''} (RecRead 10)) (sys {''5''} (RecCreate 10 True))"
    by (rule call [OF _ dir_io.listed [of _ "Listing [Some ''5'']"]])
      (simp_all add: record_call_def record_decide_def read_floor_def two_markers check_ceiling_def)
  moreover have "floor_step ?b (sys {''5''} (RecCreate 10 True)) (sys {''10'', ''5''} (RecSyncMarker 10 True))"
    by (rule call [OF _ dir_io.created [of "''10''"]]) (simp_all add: record_call_def two_markers)
  moreover have "floor_step ?b (sys {''10'', ''5''} (RecSyncMarker 10 True)) (sys {''10'', ''5''} (RecSyncDir 10 True))"
    by (rule call [OF _ dir_io.marker_synced [of _ "''10''" True]]) (simp_all add: record_call_def two_markers)
  moreover have "floor_step ?b (sys {''10'', ''5''} (RecSyncDir 10 True)) (sys {''10'', ''5''} (RecPrune 10))"
    by (rule call [OF _ dir_io.dir_synced [of _ True]]) (simp_all add: record_call_def)
  moreover have "floor_step ?b (sys {''10'', ''5''} (RecPrune 10)) (sys {''10'', ''5''} (RecRemove 10 [''5'']))"
    by (rule call [OF _ dir_io.listed [of _ "Listing [Some ''10'', Some ''5'']"]])
      (simp_all add: record_call_def superseded_def two_markers List.map_filter_def)
  moreover have "floor_step ?b (sys {''10'', ''5''} (RecRemove 10 [''5''])) (sys {''10''} (RecRemove 10 []))"
    by (rule call [of _ "RemoveFile ''5''" _ "Succeeded True"])
      (use dir_io.removed [of "{''10'', ''5''}" "''5''"] in \<open>simp_all add: record_call_def insert_Diff_if\<close>)
  moreover have "floor_step ?b (sys {''10''} (RecRemove 10 [])) ?s1"
    using floor_step.return [where bounds = ?b and s = "sys {''10''} (RecRemove 10 [])" and i = 0 and v = 10 and st = "RecRemove 10 []" and r = "Ok ()"]
    by (simp add: sys_def record_result_def)
  ultimately have "successively (floor_step ?b) ?ss" by simp
  moreover have "list_all (\<lambda>s. reaches (fs_names s) 5) ?ss" by (simp add: sys_def reaches_def two_markers)
  moreover have "may_list (map fs_names ?ss) []" by (auto simp: may_list_def sys_def)
  moreover have "floor_min_version ?fl (Listing []) = Ok 0" by (simp add: floor_min_version_def read_floor_def check_ceiling_def)
  ultimately show ?thesis by (intro exI [of _ ?ss] exI [of _ "[]"]) simp
qed

section \<open>One client after the other\<close>

text \<open>
  The directory as one process finds it, with the calls to come that fail. Each call takes one of them.
\<close>

record file_world =
  fw_names :: "string list"
  fw_faults :: "bool list"

definition file_io :: "floor_call \<Rightarrow> file_world \<Rightarrow> file_world \<times> floor_reply" where
  "file_io c w =
     (let fails = (case fw_faults w of b # _ \<Rightarrow> b | [] \<Rightarrow> False); w = w\<lparr>fw_faults := tl (fw_faults w)\<rparr> in
      case c of
        ReadDir \<Rightarrow> (w, Listed (if fails then DirUnreadable else Listing (map Some (fw_names w))))
      | CreateNew n \<Rightarrow>
          if fails then (w, CreateReply CreateFailed)
          else if n \<in> set (fw_names w) then (w, CreateReply AlreadyExists)
          else (w\<lparr>fw_names := n # fw_names w\<rparr>, CreateReply Created)
      | SyncMarker n \<Rightarrow> (w, Succeeded (\<not> fails))
      | SyncDir \<Rightarrow> (w, Succeeded (\<not> fails))
      | RemoveFile n \<Rightarrow> if fails then (w, Succeeded False) else (w\<lparr>fw_names := filter ((\<noteq>) n) (fw_names w)\<rparr>, Succeeded True))"

lemma file_io_is_dir_io: "file_io c w = (w', reply) \<Longrightarrow> dir_io (set (fw_names w)) c reply (set (fw_names w'))"
  by (cases c) (auto simp: file_io_def Let_def set_diff_eq split: if_splits intro: dir_io.intros dest: sym
      simp: dir_io.simps)

fun record_stage :: "record_state \<Rightarrow> nat" where
  "record_stage (RecRead _) = 6"
| "record_stage (RecCreate _ _) = 5"
| "record_stage (RecSyncMarker _ _) = 4"
| "record_stage (RecSyncDir _ _) = 3"
| "record_stage (RecPrune _) = 2"
| "record_stage (RecRemove _ _) = 1"
| "record_stage (RecDone _) = 0"

fun removals_left :: "record_state \<Rightarrow> nat" where
  "removals_left (RecRemove _ ns) = length ns"
| "removals_left _ = 0"

lemma record_decide_stage: "record_stage (record_decide fl v l) < 6"
  by (auto simp: record_decide_def split: sum.splits)

lemma record_step_progress:
  assumes "record_call st = Some c" "dir_io D c reply D'"
  shows "record_stage (record_step fl st reply) < record_stage st
    \<or> record_stage (record_step fl st reply) = record_stage st \<and> removals_left (record_step fl st reply) < removals_left st"
  using assms(2,1)
  by (cases rule: dir_io.cases; cases st)
    (auto simp: record_call_def record_decide_stage split: list.splits dir_listing.splits)

function file_drive :: "FileManifestFloor \<Rightarrow> record_state \<Rightarrow> file_world \<Rightarrow> file_world \<times> (TrustManifestError + unit)" where
  "file_drive fl st w =
     (case record_call st of
        Some c \<Rightarrow> (case file_io c w of (w', reply) \<Rightarrow> file_drive fl (record_step fl st reply) w')
      | None \<Rightarrow> (w, case record_result st of Some r \<Rightarrow> r | None \<Rightarrow> Ok ()))"
  by pat_completeness auto

termination
  by (relation "measures [\<lambda>(fl, st, w). record_stage st, \<lambda>(fl, st, w). removals_left st]")
    (auto dest!: record_step_progress [OF _ file_io_is_dir_io [OF sym]])

declare file_drive.simps [simp del]

definition file_record :: "FileManifestFloor \<Rightarrow> file_world \<Rightarrow> nat \<Rightarrow> file_world \<times> (TrustManifestError + unit)" where
  "file_record fl w v = file_drive fl (RecRead v) w"

definition file_min_version :: "FileManifestFloor \<Rightarrow> file_world \<Rightarrow> file_world \<times> (TrustManifestError + nat)" where
  "file_min_version fl w =
     (case file_io ReadDir w of
        (w', Listed l) \<Rightarrow> (w', floor_min_version fl l)
      | (w', _) \<Rightarrow> (w', Err (FloorUnreadable ''read trust-anchor floor'')))"

definition names_floor :: "string list \<Rightarrow> nat" where
  "names_floor ns = foldr max (List.map_filter marker_version ns) 0"

definition file_floor_of :: "FileManifestFloor \<Rightarrow> file_world \<Rightarrow> nat" where
  "file_floor_of fl w = max (ff_bootstrap fl) (names_floor (fw_names w))"

lemma names_floor_le: "v \<le> names_floor ns \<longleftrightarrow> v = 0 \<or> reaches (set ns) v"
  by (induction ns) (auto simp: names_floor_def List.map_filter_def reaches_def split: option.splits)

lemma reaches_floor_le:
  assumes "\<And>v. reaches (set ns) v \<Longrightarrow> reaches (set ns') v"
  shows "names_floor ns \<le> names_floor ns'"
  using names_floor_le [of "names_floor ns" ns] names_floor_le [of "names_floor ns" ns'] assms by auto

lemma read_entries_names: "read_entries acc (map Some ns) = Ok (max acc (names_floor ns))"
  by (induction ns arbitrary: acc)
    (auto simp: names_floor_def List.map_filter_def max.assoc split: option.splits)

lemma file_drive_keeps:
  assumes "file_drive fl st w = (w', r)" "pending (set (fw_names w)) v st" "v \<le> u64_max"
  shows "reaches (set (fw_names w)) u \<Longrightarrow> reaches (set (fw_names w')) u" "r = Ok () \<Longrightarrow> reaches (set (fw_names w')) v"
proof -
  have "(reaches (set (fw_names w)) u \<longrightarrow> reaches (set (fw_names w')) u) \<and> (r = Ok () \<longrightarrow> reaches (set (fw_names w')) v)"
    using assms
  proof (induction fl st w rule: file_drive.induct)
    case (1 fl st w)
    show ?case
    proof (cases "record_call st")
      case None
      with 1 show ?thesis
        by (cases st) (auto simp: file_drive.simps [of fl _ w] record_call_def record_result_def split: list.splits)
    next
      case (Some c)
      obtain w1 reply where io: "file_io c w = (w1, reply)" by fastforce
      note d = file_io_is_dir_io [OF io]
      from Some io 1(2) have rest: "file_drive fl (record_step fl st reply) w1 = (w', r)" by (simp add: file_drive.simps [of fl st w])
      from 1(1) [OF Some io [symmetric] rest call_keeps_pending [OF d Some 1(3,4)] 1(4)] call_keeps_floor [OF d Some 1(3)]
      show ?thesis by blast
    qed
  qed
  then show "reaches (set (fw_names w)) u \<Longrightarrow> reaches (set (fw_names w')) u" "r = Ok () \<Longrightarrow> reaches (set (fw_names w')) v"
    by simp_all
qed

interpretation file_floor: version_floor "file_min_version fl" "file_record fl" "file_floor_of fl" for fl
proof unfold_locales
  fix w
  show "file_floor_of fl w \<le> file_floor_of fl (fst (file_min_version fl w))"
    by (simp add: file_min_version_def file_io_def file_floor_of_def Let_def)
  show "file_min_version fl w = (w', Ok m) \<Longrightarrow> file_floor_of fl w \<le> m" for w' m
    by (auto simp: file_min_version_def file_io_def file_floor_of_def Let_def floor_min_version_def read_floor_def
        read_entries_names try_bind_Ok_iff split: if_splits)
next
  fix w v
  obtain w' r where d: "file_drive fl (RecRead v) w = (w', r)" by fastforce
  show "v \<le> u64_max \<Longrightarrow> file_floor_of fl w \<le> file_floor_of fl (fst (file_record fl w v))"
    using file_drive_keeps(1) [OF d, of v] reaches_floor_le [of "fw_names w" "fw_names w'"]
    by (auto simp: file_record_def file_floor_of_def d)
  show "file_record fl w v = (w2, Ok ()) \<Longrightarrow> v \<le> u64_max \<Longrightarrow> v \<le> file_floor_of fl w2" for w2
    using file_drive_keeps(2) [OF d, of v] by (simp add: file_record_def file_floor_of_def d le_max_iff_disj names_floor_le)
qed

text \<open>
  C14. No rollback of the trust anchors. Let a client load signed manifests one after the other through the
  durable floor, with file-system calls that may fail at any point, and let the directory change between two
  loads in any way that does not lower its floor, as the changes of other writers do not. Then the versions it
  accepts never decrease, and none is below the floor it started from or the declared minimum.
\<close>

theorem manifest_no_rollback:
  assumes "\<forall>g w. Others g \<in> set ops \<longrightarrow> file_floor_of fl w \<le> file_floor_of fl (g w)"
    and "\<forall>signed now. Load signed now \<in> set ops \<longrightarrow> tm_manifest_version (sm_manifest signed) \<le> u64_max"
  shows "sorted (accepted_versions L to_bytes (file_min_version fl) (file_record fl) signers prof ops w)
    \<and> (\<forall>v\<in>set (accepted_versions L to_bytes (file_min_version fl) (file_record fl) signers prof ops w).
         ff_bootstrap fl \<le> v \<and> names_floor (fw_names w) \<le> v)"
  using file_floor.accepted_versions_sorted [OF assms] by (auto simp: file_floor_of_def)

theorem floor_never_falls_witness:
  "\<exists>bounds s s'. (floor_step bounds)\<^sup>*\<^sup>* \<lparr>fs_names = {''5''}, fs_writers = Map.empty, fs_recorded = {}\<rparr> s \<and> fs_writers s 0 \<noteq> None
     \<and> (floor_step bounds)\<^sup>*\<^sup>* s s' \<and> fs_writers s' 0 = None \<and> reaches (fs_names s') 5"
proof -
  let ?b = "\<lambda>_ :: nat. \<lparr>ff_bootstrap = 0, ff_ceiling = None\<rparr>"
  let ?init = "\<lparr>fs_names = {''5''}, fs_writers = Map.empty, fs_recorded = {}\<rparr>"
  let ?busy = "\<lparr>fs_names = {''5''}, fs_writers = [0 \<mapsto> (10, RecRead 10)], fs_recorded = {}\<rparr>"
  have start: "(floor_step ?b)\<^sup>*\<^sup>* ?init ?busy"
    using floor_step.start [where bounds = ?b and s = ?init and i = 0 and v = 10] by (simp add: u64_max_def r_into_rtranclp)
  have crash: "(floor_step ?b)\<^sup>*\<^sup>* ?busy ?init"
    using floor_step.crash [where bounds = ?b and s = ?busy and i = 0 and v = 10 and st = "RecRead 10"] by (simp add: r_into_rtranclp)
  have "reaches {''5''} 5" by (simp add: reaches_def two_markers)
  with floor_never_falls [OF start crash, of 5] have "reaches (fs_names ?init) 5" by simp
  with start crash show ?thesis by (intro exI [of _ ?b] exI [of _ ?busy] exI [of _ ?init]) simp
qed

theorem manifest_no_rollback_witness:
  "\<exists>signed. sign_manifest demo_lib (\<lambda>_. Some ''m'') sample_manifest sample_manifest_key ''org'' = Some signed
     \<and> accepted_versions demo_lib (\<lambda>_. Some ''m'') (file_min_version \<lparr>ff_bootstrap = 1, ff_ceiling = None\<rparr>)
         (file_record \<lparr>ff_bootstrap = 1, ff_ceiling = None\<rparr>) sample_manifest_signers PROFILE_TAG [Load signed 100]
         \<lparr>fw_names = [''5''], fw_faults = []\<rparr> = [7]
     \<and> names_floor [''5''] \<le> 7"
proof (rule sample_manifest_signed)
  fix signed
  assume signed: "sign_manifest demo_lib (\<lambda>_. Some ''m'') sample_manifest sample_manifest_key ''org'' = Some signed"
    and sm: "sm_manifest signed = sample_manifest"
  let ?fl = "\<lparr>ff_bootstrap = 1, ff_ceiling = None\<rparr>" and ?w = "\<lparr>fw_names = [''5''], fw_faults = []\<rparr>"
  let ?accepted = "accepted_versions demo_lib (\<lambda>_. Some ''m'') (file_min_version ?fl) (file_record ?fl) sample_manifest_signers PROFILE_TAG
    [Load signed 100] ?w"
  have min: "file_min_version ?fl ?w = (?w, Ok 5)"
    by (simp add: file_min_version_def file_io_def floor_min_version_def read_floor_def two_markers check_ceiling_def)
  have seven: "show_nat 7 = ''7''" by (simp add: show_nat.simps digit_char_def) code_simp
  have rec: "snd (file_record ?fl ?w 7) = Ok ()"
    by (simp add: file_record_def file_drive.simps record_call_def file_io_def record_decide_def read_floor_def two_markers seven
        check_ceiling_def superseded_def List.map_filter_def marker_version_def is_ascii_digit_def read_nat_def digit_val_def u64_max_def
        record_result_def)
  obtain s where "load_signed_manifest demo_lib (\<lambda>_. Some ''m'') signed sample_manifest_signers PROFILE_TAG 5 100
      = Ok \<lparr>la_issuer_set = s, la_version = 7\<rparr>" by (rule sample_manifest_loads [OF signed, of 5]) simp_all
  with min rec have "?accepted = [7]"
    by (simp add: load_signed_manifest_with_floor_def case_prod_beta split: sum.splits)
  moreover have "sorted ?accepted \<and> (\<forall>v\<in>set ?accepted. ff_bootstrap ?fl \<le> v \<and> names_floor (fw_names ?w) \<le> v)"
    by (rule manifest_no_rollback) (simp_all add: sm sample_manifest_def u64_max_def)
  ultimately show ?thesis using signed by auto
qed

end
