(* ===== verification/Client_Request.thy ===== *)
theory Client_Request
  imports Dispatch_Once Delegation_Sample
begin

text \<open>
  The requests a client signs, \<open>mcp-re-client-core/src/\<close>: the credential and the continuation handles
  (\<open>dpop_credential.rs\<close>, \<open>continuation_handles.rs\<close>), the bindings a provider contributes (\<open>binding_spec/\<close>,
  \<open>core_projection.rs\<close>), the signing inputs (\<open>request_signing_inputs.rs\<close>), the builders (\<open>request.rs\<close>) and the
  inputs the language SDK assembles (\<open>sdk/python/src/lib.rs\<close>). The lemmas show that what is built here is
  what the full profile of \<open>Floor\<close> accepts.
\<close>

section \<open>The credential\<close>

datatype DpopCredential = DpopCredential string

datatype EmptyDpopCredential = EmptyDpopCredential

definition dpop_present :: "string \<Rightarrow> EmptyDpopCredential + DpopCredential" where
  "dpop_present token = (if token = [] then Err EmptyDpopCredential else Ok (DpopCredential token))"

fun dpop_binding :: "crypto_lib \<Rightarrow> DpopCredential \<Rightarrow> ArtifactBinding" where
  "dpop_binding L (DpopCredential token) = opaque_digest L OauthDpop token"

fun authorization_header_value :: "DpopCredential \<Rightarrow> string" where
  "authorization_header_value (DpopCredential token) = ''Bearer '' @ token"

section \<open>Continuation handles\<close>

record ContinuationHandles =
  ch_prev :: RequestEvidenceDigest
  ch_irr :: RequestEvidenceDigest
  ch_request_state :: string

datatype PartialContinuation = PartialContinuation nat

definition from_optional ::
  "string option \<Rightarrow> string option \<Rightarrow> string option \<Rightarrow> string option \<Rightarrow> string option
   \<Rightarrow> PartialContinuation + ContinuationHandles option" where
  "from_optional prev_alg prev_value irr_alg irr_value request_state =
     (let supplied = length (filter (\<lambda>present. present)
            [prev_alg \<noteq> None, prev_value \<noteq> None, irr_alg \<noteq> None, irr_value \<noteq> None, request_state \<noteq> None])
      in case (prev_alg, prev_value, irr_alg, irr_value, request_state) of
           (None, None, None, None, None) \<Rightarrow> Ok None
         | (Some pa, Some pv, Some ia, Some iv, Some state) \<Rightarrow>
             Ok (Some \<lparr>ch_prev = \<lparr>red_alg = pa, red_value = pv\<rparr>, ch_irr = \<lparr>red_alg = ia, red_value = iv\<rparr>,
                       ch_request_state = state\<rparr>)
         | _ \<Rightarrow> Err (PartialContinuation supplied))"

definition handles_continuation :: "crypto_lib \<Rightarrow> ContinuationHandles \<Rightarrow> HttpContinuation" where
  "handles_continuation L h = continuation_from_handles L (ch_prev h) (ch_irr h) (ch_request_state h)"

section \<open>What a provider contributes\<close>

datatype BindingSpecRefusal =
    NotSpecJson | MaterialNotBase64Url | OpaqueBindingIsHalfOfADecision | DecisionFormIsNotThisArtifactType | DecisionNotText
  | DecisionCarriesReferenceFields | MoreThanOneDecision | DpopIsNotProviderSupplied | MalformedBinding HttpProfileError

definition binding_refusal_core :: "BindingSpecRefusal \<Rightarrow> mcp_re_error" where
  "binding_refusal_core refusal =
     (case refusal of
        OpaqueBindingIsHalfOfADecision \<Rightarrow> AuthorizationBindingTypeUnsupported
      | DecisionFormIsNotThisArtifactType \<Rightarrow> AuthorizationBindingTypeUnsupported
      | MalformedBinding e \<Rightarrow> core_projection e
      | _ \<Rightarrow> AuthorizationBindingMalformed)"

definition binding_refusal_wire_code :: "BindingSpecRefusal \<Rightarrow> string" where
  "binding_refusal_wire_code refusal = wire_code (binding_refusal_core refusal)"

datatype BindingForm = OpaqueBytes | AuthzSystemReference | AuthorizationDecision

record BindingSpec =
  bs_artifact_type :: ArtifactType
  bs_form :: BindingForm
  bs_material_b64url :: string
  bs_authorization_system_id :: "string option"
  bs_reference_scheme_id :: "string option"
  bs_reference_value :: "string option"

record ProvidedAuthorization =
  pa_bindings :: "ArtifactBinding list"
  pa_decision :: "string option"

definition take_decision ::
  "json_lib \<Rightarrow> ProvidedAuthorization \<Rightarrow> BindingSpec \<Rightarrow> bytes \<Rightarrow> BindingSpecRefusal + ProvidedAuthorization" where
  "take_decision J out spec material =
     (if bs_artifact_type spec \<noteq> PdpDecision then Err DecisionFormIsNotThisArtifactType
      else if bs_authorization_system_id spec \<noteq> None \<or> bs_reference_scheme_id spec \<noteq> None \<or> bs_reference_value spec \<noteq> None
      then Err DecisionCarriesReferenceFields
      else if pa_decision out \<noteq> None then Err MoreThanOneDecision
      else try_bind (ok_or (from_utf8 J material) DecisionNotText) (\<lambda>jws.
           Ok (out\<lparr>pa_decision := Some jws\<rparr>)))"

definition binding_from :: "crypto_lib \<Rightarrow> BindingSpec \<Rightarrow> bytes \<Rightarrow> BindingSpecRefusal + ArtifactBinding" where
  "binding_from L spec material =
     (if bs_form spec = OpaqueBytes \<and> bs_artifact_type spec = PdpDecision then Err OpaqueBindingIsHalfOfADecision
      else let b = opaque_digest L (bs_artifact_type spec) material;
               b = (if bs_form spec = AuthzSystemReference
                    then b\<lparr>binding_type := ReferenceDigest, authorization_system_id := bs_authorization_system_id spec,
                           reference_scheme_id := bs_reference_scheme_id spec, reference_value := bs_reference_value spec\<rparr>
                    else b)
           in try_bind (map_err MalformedBinding (binding_validate L b)) (\<lambda>_. Ok b))"

fun provided_from ::
  "crypto_lib \<Rightarrow> json_lib \<Rightarrow> ProvidedAuthorization \<Rightarrow> BindingSpec list \<Rightarrow> BindingSpecRefusal + ProvidedAuthorization" where
  "provided_from L J out [] = Ok out"
| "provided_from L J out (spec # specs) =
     try_bind (map_err (\<lambda>_. MaterialNotBase64Url) (b64url_decode L (bs_material_b64url spec))) (\<lambda>material.
     if bs_artifact_type spec = OauthDpop then Err DpopIsNotProviderSupplied
     else try_bind (if bs_form spec = AuthorizationDecision then take_decision J out spec material
                    else try_bind (binding_from L spec material) (\<lambda>b. Ok (out\<lparr>pa_bindings := pa_bindings out @ [b]\<rparr>))) (\<lambda>out.
          provided_from L J out specs))"

text \<open>\<open>specs_from_str\<close> is the derived deserializer of a list of specs.\<close>

definition build_authorization ::
  "crypto_lib \<Rightarrow> json_lib \<Rightarrow> (string \<Rightarrow> BindingSpec list option) \<Rightarrow> string \<Rightarrow> BindingSpecRefusal + ProvidedAuthorization" where
  "build_authorization L J specs_from_str bindings_json =
     try_bind (ok_or (specs_from_str bindings_json) NotSpecJson) (\<lambda>specs.
     provided_from L J \<lparr>pa_bindings = [], pa_decision = None\<rparr> specs)"

section \<open>Signing inputs\<close>

record 'adm RequestSigningInputs =
  ri_key_id :: string
  ri_audience :: AudienceTuple
  ri_artifact_bindings :: "ArtifactBinding list"
  ri_nonce :: string
  ri_created :: int
  ri_expires :: int
  ri_continuation :: "HttpContinuation option"
  ri_extra_headers :: headers
  ri_admission :: "('adm \<times> string) option"
  ri_authorization_decision :: "(ArtifactBinding \<times> string) option"

definition inputs_new ::
  "string \<Rightarrow> AudienceTuple \<Rightarrow> ArtifactBinding list \<Rightarrow> string \<Rightarrow> int \<Rightarrow> int \<Rightarrow> 'adm RequestSigningInputs" where
  "inputs_new key_id audience bindings nonce created expires =
     \<lparr>ri_key_id = key_id, ri_audience = audience, ri_artifact_bindings = bindings, ri_nonce = nonce, ri_created = created,
      ri_expires = expires, ri_continuation = None, ri_extra_headers = [], ri_admission = None, ri_authorization_decision = None\<rparr>"

definition with_headers :: "headers \<Rightarrow> 'adm RequestSigningInputs \<Rightarrow> 'adm RequestSigningInputs" where
  "with_headers hs inputs = inputs\<lparr>ri_extra_headers := hs\<rparr>"

definition with_continuation :: "HttpContinuation \<Rightarrow> 'adm RequestSigningInputs \<Rightarrow> 'adm RequestSigningInputs" where
  "with_continuation c inputs = inputs\<lparr>ri_continuation := Some c\<rparr>"

definition with_admission :: "'adm \<Rightarrow> string \<Rightarrow> 'adm RequestSigningInputs \<Rightarrow> 'adm RequestSigningInputs" where
  "with_admission b assertion_jws inputs = inputs\<lparr>ri_admission := Some (b, assertion_jws)\<rparr>"

definition with_authorization_decision :: "crypto_lib \<Rightarrow> string \<Rightarrow> 'adm RequestSigningInputs \<Rightarrow> 'adm RequestSigningInputs" where
  "with_authorization_decision L jws inputs =
     (let b = opaque_digest L PdpDecision jws
      in inputs\<lparr>ri_artifact_bindings := ri_artifact_bindings inputs @ [b], ri_authorization_decision := Some (b, jws)\<rparr>)"

definition evidence_block :: "'adm RequestSigningInputs \<Rightarrow> 'adm HttpRequestEvidenceBlock" where
  "evidence_block inputs =
     \<lparr>block_profile = PROFILE_TAG, block_audience = ri_audience inputs, artifact_bindings = ri_artifact_bindings inputs,
      continuation = ri_continuation inputs, admission = map_option fst (ri_admission inputs),
      admission_assertion = map_option snd (ri_admission inputs),
      authorization_decision = map_option snd (ri_authorization_decision inputs)\<rparr>"

section \<open>Building\<close>

record SignedRequest =
  sr_request :: HttpRequest
  sr_evidence :: RequestEvidence

definition MIN_NONCE_CHARS :: nat where "MIN_NONCE_CHARS = 22"

definition request_envelope :: "json option \<Rightarrow> string \<Rightarrow> (string \<times> json) list \<Rightarrow> json" where
  "request_envelope rpc_id m params =
     JObject ((case rpc_id of Some i \<Rightarrow> [(''id'', i)] | None \<Rightarrow> [])
       @ [(''jsonrpc'', JString ''2.0''), (''method'', JString m), (''params'', JObject params)])"

definition build_signed_request_with ::
  "crypto_lib \<Rightarrow> json_lib \<Rightarrow> json option \<Rightarrow> string \<Rightarrow> (string \<times> json) list \<Rightarrow> string \<Rightarrow> 'adm RequestSigningInputs
   \<Rightarrow> (HttpRequest \<Rightarrow> 'adm HttpRequestEvidenceBlock \<Rightarrow> HttpRequest \<times> (HttpProfileError + RequestEvidence))
   \<Rightarrow> HttpProfileError + SignedRequest" where
  "build_signed_request_with L J rpc_id m params target inputs sign =
     (if target \<noteq> target_uri (ri_audience inputs) then Err AudienceMismatch
      else if length (ri_nonce inputs) < MIN_NONCE_CHARS
      then Err (MalformedEvidence ''nonce is below the 128-bit entropy floor'')
      else if ri_expires inputs \<le> ri_created inputs
      then Err (MalformedEvidence ''signature window expires at or before created'')
      else
        let request = \<lparr>rq_method = ''POST'', rq_target_uri = target,
                       rq_headers = (''content-type'', ''application/json'') # ri_extra_headers inputs,
                       rq_body = to_vec J (request_envelope rpc_id m params)\<rparr>;
            block = evidence_block inputs
        in try_bind (request_block_validate L block PROFILE_TAG) (\<lambda>_.
           case sign request block of
             (request, Inl e) \<Rightarrow> Err e
           | (request, Inr ev) \<Rightarrow> Ok \<lparr>sr_request = request, sr_evidence = ev\<rparr>))"

text \<open>\<open>to_value\<close> is the derived serializer of the request evidence block.\<close>

definition build_signed_request ::
  "crypto_lib \<Rightarrow> json_lib \<Rightarrow> ('adm HttpRequestEvidenceBlock \<Rightarrow> json) \<Rightarrow> json \<Rightarrow> string \<Rightarrow> (string \<times> json) list \<Rightarrow> string
   \<Rightarrow> 'adm RequestSigningInputs \<Rightarrow> SigningKey \<Rightarrow> HttpProfileError + SignedRequest" where
  "build_signed_request L J to_value rpc_id m params target inputs key =
     build_signed_request_with L J (Some rpc_id) m params target inputs (\<lambda>request block.
       sign_request_full L J request (to_value block) key (ri_key_id inputs) (ri_created inputs) (ri_expires inputs) (ri_nonce inputs))"

definition build_signed_request_with_signer ::
  "crypto_lib \<Rightarrow> json_lib \<Rightarrow> ('adm HttpRequestEvidenceBlock \<Rightarrow> json) \<Rightarrow> json \<Rightarrow> string \<Rightarrow> (string \<times> json) list \<Rightarrow> string
   \<Rightarrow> 'adm RequestSigningInputs \<Rightarrow> (bytes \<Rightarrow> HttpProfileError + bytes) \<Rightarrow> HttpProfileError + SignedRequest" where
  "build_signed_request_with_signer L J to_value rpc_id m params target inputs sign_base =
     build_signed_request_with L J (Some rpc_id) m params target inputs (\<lambda>request block.
       sign_request_full_with_signer L J request (to_value block) sign_base (ri_key_id inputs) (ri_created inputs)
         (ri_expires inputs) (ri_nonce inputs))"

definition reject_continuation_on_notification :: "'adm RequestSigningInputs \<Rightarrow> HttpProfileError + unit" where
  "reject_continuation_on_notification inputs =
     (if ri_continuation inputs \<noteq> None then Err (MalformedEvidence ''continuation on a notification'') else Ok ())"

definition build_signed_notification ::
  "crypto_lib \<Rightarrow> json_lib \<Rightarrow> ('adm HttpRequestEvidenceBlock \<Rightarrow> json) \<Rightarrow> string \<Rightarrow> (string \<times> json) list \<Rightarrow> string
   \<Rightarrow> 'adm RequestSigningInputs \<Rightarrow> SigningKey \<Rightarrow> HttpProfileError + SignedRequest" where
  "build_signed_notification L J to_value m params target inputs key =
     try_bind (reject_continuation_on_notification inputs) (\<lambda>_.
     build_signed_request_with L J None m params target inputs (\<lambda>request block.
       sign_request_full L J request (to_value block) key (ri_key_id inputs) (ri_created inputs) (ri_expires inputs) (ri_nonce inputs)))"

definition build_signed_notification_with_signer ::
  "crypto_lib \<Rightarrow> json_lib \<Rightarrow> ('adm HttpRequestEvidenceBlock \<Rightarrow> json) \<Rightarrow> string \<Rightarrow> (string \<times> json) list \<Rightarrow> string
   \<Rightarrow> 'adm RequestSigningInputs \<Rightarrow> (bytes \<Rightarrow> HttpProfileError + bytes) \<Rightarrow> HttpProfileError + SignedRequest" where
  "build_signed_notification_with_signer L J to_value m params target inputs sign_base =
     try_bind (reject_continuation_on_notification inputs) (\<lambda>_.
     build_signed_request_with L J None m params target inputs (\<lambda>request block.
       sign_request_full_with_signer L J request (to_value block) sign_base (ri_key_id inputs) (ri_created inputs)
         (ri_expires inputs) (ri_nonce inputs)))"

definition build_signed_tool_call ::
  "crypto_lib \<Rightarrow> json_lib \<Rightarrow> ('adm HttpRequestEvidenceBlock \<Rightarrow> json) \<Rightarrow> json \<Rightarrow> string \<Rightarrow> json \<Rightarrow> string
   \<Rightarrow> 'adm RequestSigningInputs \<Rightarrow> SigningKey \<Rightarrow> HttpProfileError + SignedRequest" where
  "build_signed_tool_call L J to_value rpc_id tool_name arguments target inputs key =
     build_signed_request L J to_value rpc_id ''tools/call'' [(''name'', JString tool_name), (''arguments'', arguments)] target inputs key"

section \<open>The inputs of the language SDK\<close>

datatype SigningInputsRefusal = CredentialRefused EmptyDpopCredential | ContinuationRefused PartialContinuation

definition provided_authorization ::
  "crypto_lib \<Rightarrow> json_lib \<Rightarrow> (string \<Rightarrow> BindingSpec list option) \<Rightarrow> string option \<Rightarrow> string + ProvidedAuthorization" where
  "provided_authorization L J specs_from_str bindings_json =
     (case bindings_json of
        None \<Rightarrow> Ok \<lparr>pa_bindings = [], pa_decision = None\<rparr>
      | Some json \<Rightarrow> map_err (\<lambda>r. ''mcp-re: '' @ binding_refusal_wire_code r) (build_authorization L J specs_from_str json))"

definition signing_inputs ::
  "crypto_lib \<Rightarrow> string \<Rightarrow> string \<Rightarrow> string \<Rightarrow> string option \<Rightarrow> string \<Rightarrow> string \<Rightarrow> int \<Rightarrow> int
   \<Rightarrow> string option \<Rightarrow> string option \<Rightarrow> string option \<Rightarrow> string option \<Rightarrow> string option \<Rightarrow> ProvidedAuthorization
   \<Rightarrow> SigningInputsRefusal + 'adm RequestSigningInputs" where
  "signing_inputs L key_id aud_id target route_label dpop_token nonce created expires
       prev_alg prev_value irr_alg irr_value request_state provided =
     (let audience = \<lparr>audience_id = aud_id, target_uri = target, route = route_label\<rparr> in
      try_bind (map_err CredentialRefused (dpop_present dpop_token)) (\<lambda>credential.
      let bindings = dpop_binding L credential # pa_bindings provided;
          inputs = with_headers [(''Authorization'', authorization_header_value credential)]
                     (inputs_new key_id audience bindings nonce created expires)
      in try_bind (map_err ContinuationRefused (from_optional prev_alg prev_value irr_alg irr_value request_state)) (\<lambda>handles.
         let inputs = (case handles of Some h \<Rightarrow> with_continuation (handles_continuation L h) inputs | None \<Rightarrow> inputs);
             inputs = (case pa_decision provided of Some jws \<Rightarrow> with_authorization_decision L jws inputs | None \<Rightarrow> inputs)
         in Ok inputs)))"

section \<open>Bindings that validate\<close>

text \<open>The alphabet of base64 for URLs.\<close>

definition url_token :: "crypto_lib \<Rightarrow> bool" where
  "url_token L \<longleftrightarrow> (\<forall>b. b \<noteq> [] \<longrightarrow> is_b64url_no_pad (url_encode L b))"

lemma opaque_digest_valid:
  assumes "b64_ok L" "sha256_ok L" "url_token L"
  shows "binding_validate L (opaque_digest L t credential) = Ok ()"
proof -
  from assms(2) have "length (sha256 L credential) = 32" by (simp add: sha256_ok_def)
  moreover from this have "sha256 L credential \<noteq> []" by auto
  ultimately show ?thesis
    using assms by (simp add: binding_validate_def opaque_digest_def url_token_def) (simp add: b64url_encode_def)
qed

definition provider_binding :: "crypto_lib \<Rightarrow> ArtifactBinding \<Rightarrow> bool" where
  "provider_binding L b \<longleftrightarrow> binding_validate L b = Ok () \<and> artifact_type b \<noteq> OauthDpop
     \<and> \<not> (artifact_type b = PdpDecision \<and> binding_type b = OpaqueDigest)"

lemma binding_from_provider:
  assumes "binding_from L spec material = Ok b" "bs_form spec \<noteq> AuthorizationDecision" "bs_artifact_type spec \<noteq> OauthDpop"
  shows "provider_binding L b"
  using assms
  by (cases "bs_form spec") (auto simp: binding_from_def provider_binding_def opaque_digest_def Let_def try_bind_Ok_iff split: if_splits)

lemma provided_from_provider:
  "provided_from L J out specs = Ok provided \<Longrightarrow> list_all (provider_binding L) (pa_bindings out) \<Longrightarrow>
     list_all (provider_binding L) (pa_bindings provided)"
proof (induction L J out specs rule: provided_from.induct)
  case (2 L J out spec specs)
  from 2(2) obtain material out' where m: "b64url_decode L (bs_material_b64url spec) = Ok material" "bs_artifact_type spec \<noteq> OauthDpop"
    "(if bs_form spec = AuthorizationDecision then take_decision J out spec material
      else try_bind (binding_from L spec material) (\<lambda>b. Ok (out\<lparr>pa_bindings := pa_bindings out @ [b]\<rparr>))) = Ok out'"
    "provided_from L J out' specs = Ok provided"
    by (auto simp: try_bind_Ok_iff split: if_splits)
  from m(3) 2(3) binding_from_provider [of L spec material] m(2) have "list_all (provider_binding L) (pa_bindings out')"
    by (auto simp: take_decision_def try_bind_Ok_iff split: if_splits)
  with 2(1) m show ?case by simp
qed simp

lemma provided_authorization_provider:
  assumes "provided_authorization L J sfs bindings_json = Ok provided"
  shows "list_all (provider_binding L) (pa_bindings provided)"
  using assms provided_from_provider [of L J "\<lparr>pa_bindings = [], pa_decision = None\<rparr>" _ provided]
  by (auto simp: provided_authorization_def build_authorization_def try_bind_Ok_iff split: option.splits)

lemma bindings_validate_iff: "bindings_validate L bs = Ok () \<longleftrightarrow> list_all (\<lambda>b. binding_validate L b = Ok ()) bs"
  by (induction bs) (simp_all add: try_bind_Ok_iff)

lemma signing_inputs_Ok:
  fixes inputs :: "'adm RequestSigningInputs"
  assumes "signing_inputs L key_id aud_id target route_label token nonce created expires pa pv ia iv st provided = Ok inputs"
  obtains handles where "token \<noteq> []" "from_optional pa pv ia iv st = Ok handles"
    "ri_key_id inputs = key_id" "ri_audience inputs = \<lparr>audience_id = aud_id, target_uri = target, route = route_label\<rparr>"
    "ri_nonce inputs = nonce" "ri_created inputs = created" "ri_expires inputs = expires"
    "ri_artifact_bindings inputs = opaque_digest L OauthDpop token # pa_bindings provided
       @ (case pa_decision provided of Some jws \<Rightarrow> [opaque_digest L PdpDecision jws] | None \<Rightarrow> [])"
    "ri_extra_headers inputs = [(''Authorization'', ''Bearer '' @ token)]" "ri_admission inputs = None"
    "map_option snd (ri_authorization_decision inputs) = pa_decision provided"
    "ri_continuation inputs = map_option (handles_continuation L) handles"
  using assms
  by (auto simp: signing_inputs_def dpop_present_def Let_def try_bind_Ok_iff with_headers_def with_continuation_def inputs_new_def
      with_authorization_decision_def split: option.splits if_splits)

lemma from_optional_all:
  "from_optional pa pv ia iv st = Ok handles \<Longrightarrow>
     handles \<noteq> None \<longleftrightarrow> pa \<noteq> None \<and> pv \<noteq> None \<and> ia \<noteq> None \<and> iv \<noteq> None \<and> st \<noteq> None"
  by (cases pa; cases pv; cases ia; cases iv; cases st) (auto simp: from_optional_def)

lemma no_provider_of:
  assumes "list_all (provider_binding L) bs"
  shows "filter (\<lambda>b. artifact_type b = OauthDpop) bs = []"
    "filter (\<lambda>b. artifact_type b = PdpDecision \<and> binding_type b = OpaqueDigest) bs = []"
  using assms by (auto simp: filter_empty_conv list_all_iff provider_binding_def)

lemma sdk_block:
  assumes lib: "b64_ok L" "sha256_ok L" "url_token L" and p: "list_all (provider_binding L) (pa_bindings provided)"
    and i: "ri_artifact_bindings inputs = opaque_digest L OauthDpop token # pa_bindings provided
       @ (case pa_decision provided of Some jws \<Rightarrow> [opaque_digest L PdpDecision jws] | None \<Rightarrow> [])"
      "ri_admission inputs = None" "map_option snd (ri_authorization_decision inputs) = pa_decision provided"
    and short: "\<forall>jws. pa_decision provided = Some jws \<longrightarrow> length jws \<le> MAX_AUTHORIZATION_DECISION_LEN"
  shows "request_block_validate L (evidence_block inputs) PROFILE_TAG = Ok ()"
    "filter (\<lambda>b. artifact_type b = PdpDecision \<and> binding_type b = OpaqueDigest) (ri_artifact_bindings inputs)
       = (case pa_decision provided of Some jws \<Rightarrow> [opaque_digest L PdpDecision jws] | None \<Rightarrow> [])"
proof -
  have "bindings_validate L (ri_artifact_bindings inputs) = Ok ()"
    using p opaque_digest_valid [OF lib]
    by (auto simp: i(1) bindings_validate_iff list_all_iff provider_binding_def split: option.splits)
  moreover show opaque: "filter (\<lambda>b. artifact_type b = PdpDecision \<and> binding_type b = OpaqueDigest) (ri_artifact_bindings inputs)
       = (case pa_decision provided of Some jws \<Rightarrow> [opaque_digest L PdpDecision jws] | None \<Rightarrow> [])"
    using no_provider_of(2) [OF p] by (simp add: i(1) opaque_digest_def split: option.splits)
  moreover have "ri_artifact_bindings inputs \<noteq> []" by (simp add: i(1))
  ultimately show "request_block_validate L (evidence_block inputs) PROFILE_TAG = Ok ()"
    using i(2,3) short
    by (auto simp: request_block_validate_def evidence_block_def validate_authorization_decision_def split: option.splits)
qed


section \<open>Signing succeeds\<close>

definition one_line :: "string \<Rightarrow> bool" where
  "one_line s \<longleftrightarrow> CHR 0x0D \<notin> set s \<and> CHR 0x0A \<notin> set s"

lemma one_line_trim: "one_line s \<Longrightarrow> one_line (trim s)"
  using set_trim by (auto simp: one_line_def)

lemma one_line_component: "resolve_component_value c m = Ok v \<Longrightarrow> one_line v \<Longrightarrow> component_value c m = Ok v"
  by (auto simp: component_value_def one_line_def list_ex_iff)

lemma conditional_components_succeed:
  "(\<And>n. n \<in> set names \<Longrightarrow> length (header_values hs n) \<le> 1) \<Longrightarrow>
     \<exists>cs. conditional_components hs names = Ok cs \<and> (\<forall>c\<in>set cs. \<exists>n\<in>set names. c = cc_new n \<and> length (header_values hs n) = 1)"
proof (induction names)
  case (Cons n names)
  then obtain cs where "conditional_components hs names = Ok cs"
    "\<forall>c\<in>set cs. \<exists>n\<in>set names. c = cc_new n \<and> length (header_values hs n) = 1" by auto
  moreover have "length (header_values hs n) \<le> 1" using Cons.prems [of n] by simp
  then have "header_values hs n = [] \<or> (\<exists>v. header_values hs n = [v])" by (cases "header_values hs n") simp_all
  then have "\<exists>v. single_header hs n = Ok v \<and> (v \<noteq> None \<longrightarrow> length (header_values hs n) = 1)" by (auto simp: single_header_eq)
  ultimately show ?case by fastforce
qed simp

lemma header_component_succeeds:
  assumes "header_values (rq_headers r) n = [v]" "one_line v" "strip_prefix ''@'' n = None"
  shows "\<exists>w. component_value (cc_new n) (Request r) = Ok w"
proof -
  have "resolve_component_value (cc_new n) (Request r) = Ok (trim v)"
    using assms(1,3) by (simp add: resolve_component_value_def component_source_def cc_new_def covered_header_loop_eq)
  with one_line_component one_line_trim [OF assms(2)] show ?thesis by blast
qed

lemma content_digest_one_line: "b64_alphabet L \<Longrightarrow> one_line (content_digest_sha256 L body)"
  using content_digest_plain(2) [of L body] by (auto simp: one_line_def list_ex_iff)

lemma request_signs:
  assumes lib: "b64_alphabet L" and sig: "\<And>base. \<exists>sig. sign_base base = Ok sig \<and> length sig = 64"
    and enc: "reject_content_encoding (rq_headers request) = Ok ()"
    and once: "\<forall>n\<in>set conditionally_covered_request_headers. length (header_values (rq_headers request) n) \<le> 1"
      "length (header_values (rq_headers request) ''content-type'') = 1"
    and lines: "one_line (rq_method request)" "one_line (rq_target_uri request)"
      "\<forall>kv\<in>set (rq_headers request). one_line (snd kv)"
    and strings: "list_all sf_char nonce" "length nonce \<le> MAX_NONCE_CHARS" "list_all sf_char key_id"
  shows "\<exists>signed ev. sign_request_with_signer L request sign_base key_id created expires nonce = (signed, Ok ev)"
proof -
  define r where "r = request\<lparr>rq_headers := set_header (rq_headers request) ''Content-Digest'' (content_digest_sha256 L (rq_body request))\<rparr>"
  define params where "params = \<lparr>sp_created = Some created, sp_expires = Some expires, sp_nonce = Some nonce,
                        sp_keyid = Some key_id, sp_alg = Some ALG_ED25519, sp_tag = Some PROFILE_TAG\<rparr>"
  have vals: "header_values (rq_headers r) n = header_values (rq_headers request) n"
    if "n \<in> set (''content-type'' # conditionally_covered_request_headers)" for n
    using that by (auto simp: r_def header_values_set_header covered_names lowercase_names)
  obtain cond where cond: "conditional_components (rq_headers r) conditionally_covered_request_headers = Ok cond"
    "\<forall>c\<in>set cond. \<exists>n\<in>set conditionally_covered_request_headers. c = cc_new n \<and> length (header_values (rq_headers r) n) = 1"
    using conditional_components_succeed [of conditionally_covered_request_headers "rq_headers r"] vals once(1) by auto
  let ?cs = "map cc_new REQUIRED_REQUEST_COMPONENTS @ cond"
  have comps: "sign_request_components r = Ok ?cs"
    by (simp add: sign_request_components_def conditional_request_components_def cond)
  have header: "\<exists>w. component_value (cc_new n) (Request r) = Ok w"
    if "n \<in> set (''content-type'' # conditionally_covered_request_headers)" "length (header_values (rq_headers r) n) = 1" for n
  proof -
    from that(2) obtain v where v: "header_values (rq_headers r) n = [v]" by (cases "header_values (rq_headers r) n") auto
    then have "v \<in> set (header_values (rq_headers request) n)" using vals [OF that(1)] by simp
    then have "one_line v" using lines(3) by auto
    moreover have "strip_prefix ''@'' n = None" using that(1) by (auto simp: covered_names strip_prefix_def)
    ultimately show ?thesis using v by (intro header_component_succeeds)
  qed
  have ct: "length (header_values (rq_headers r) ''content-type'') = 1" using once(2) vals [of "''content-type''"] by simp
  have "\<exists>w. component_value c (Request r) = Ok w" if "c \<in> set ?cs" for c
  proof -
    from that consider "c = cc_new ''@method''" | "c = cc_new ''@target-uri''" | "c = cc_new ''content-digest''"
      | n where "c = cc_new n" "n \<in> set (''content-type'' # conditionally_covered_request_headers)" "length (header_values (rq_headers r) n) = 1"
      using cond(2) ct by (fastforce simp: REQUIRED_REQUEST_COMPONENTS_def)
    then show ?thesis
    proof cases
      case 3
      have "header_values (rq_headers r) ''content-digest'' = [content_digest_sha256 L (rq_body request)]"
        by (simp add: r_def header_values_set_header lowercase_names)
      with 3 show ?thesis using content_digest_one_line [OF lib] by (auto simp: strip_prefix_def intro!: header_component_succeeds)
    qed (use lines header in \<open>auto simp: r_def resolve_component_value_def component_source_def cc_new_def strip_prefix_def
        intro!: exI one_line_component\<close>)
  qed
  then obtain ls where "base_lines ?cs (Request r) = Ok ls" using base_lines_Ok by blast
  moreover have "strings_ok params"
  proof -
    have "list_all sf_char ALG_ED25519" "list_all sf_char PROFILE_TAG" by code_simp+
    with strings show ?thesis by (simp add: params_def strings_ok_def)
  qed
  then obtain s where s: "serialize_with params ?cs = Ok s" by (simp add: serialize_with_Ok_iff)
  ultimately obtain base where base: "signature_base ?cs params (Request r) = Ok base" by (auto simp: signature_base_def)
  with sig [of base] enc comps s show ?thesis
    by (auto simp: sign_request_with_signer_def Let_def r_def params_def emit_signature_def ED25519_SIGNATURE_LEN_def)
qed

section \<open>What is built is accepted\<close>

lemma build_steps:
  assumes "build_signed_request_with L J rpc_id m params target inputs sign = Ok signed"
  shows "target = target_uri (ri_audience inputs)" "ri_created inputs < ri_expires inputs"
    "request_block_validate L (evidence_block inputs) PROFILE_TAG = Ok ()"
    "sign \<lparr>rq_method = ''POST'', rq_target_uri = target, rq_headers = (''content-type'', ''application/json'') # ri_extra_headers inputs,
       rq_body = to_vec J (request_envelope rpc_id m params)\<rparr> (evidence_block inputs) = (sr_request signed, Ok (sr_evidence signed))"
  using assms by (auto simp: build_signed_request_with_def Let_def try_bind_Ok_iff split: if_splits prod.splits sum.splits)

lemma json_content_type:
  assumes "header_values hs ''content-type'' = []"
  shows "require_json_media_type ((''content-type'', ''application/json'') # hs) what = Ok ()"
proof -
  have "header_named ''content-type'' (''content-type'', v)" for v by (simp add: header_named_def eq_ignore_ascii_case_def)
  with assms have "required_header ((''content-type'', ''application/json'') # hs) ''content-type'' = Ok ''application/json''"
    by (simp add: required_header_def single_header_eq)
  moreover have "eq_ignore_ascii_case (trim (hd (split_on CHR '';'' ''application/json''))) JSON_MEDIA_TYPE" by code_simp
  ultimately show ?thesis by (simp add: require_json_media_type_def)
qed

lemma built_request_verified:
  assumes built: "build_signed_request L J tv rpc_id m params target inputs key = Ok signed"
    and lib: "b64_ok L" "b64_alphabet L" "ed25519_ok L" "length (sk_inner key) = 32"
    and serde: "json_roundtrip J" "from_value (tv (evidence_block inputs)) = Some (evidence_block inputs)"
    and extra: "header_values (ri_extra_headers inputs) ''content-type'' = []" "header_values (ri_extra_headers inputs) MCP_METHOD_HEADER = []"
    and policy: "policy_mcp_transport policy = None" "Ed25519 \<in> set (algorithms policy)"
    and window: "is_i64 (ri_created inputs)" "is_i64 (ri_expires inputs)"
      "window_admits (ri_created inputs) (ri_expires inputs) now (max_clock_skew policy)"
      "saturating_sub (ri_expires inputs) (ri_created inputs) \<le> max_signature_validity policy"
    and actor: "resolve (ri_key_id inputs) RequestSlot = Resolved actor" "slot actor = RequestSlot"
      "verification_key actor = public_key L key"
  obtains v where
    "full_request L J from_value (sr_request signed) (ri_audience inputs) material resolve policy now
       = try_bind (enforce_bindings L (sr_request signed) (evidence_block inputs) material (ri_artifact_bindings inputs)) (\<lambda>_. Ok v)"
    "vr_request_block v = evidence_block inputs" "fl_evidence (vr_floor v) = sr_evidence signed" "fl_resolved_actor (vr_floor v) = actor"
    "fl_nonce (vr_floor v) = ri_nonce inputs" "fl_expires (vr_floor v) = ri_expires inputs"
    "\<And>n. n \<in> set conditionally_covered_request_headers \<Longrightarrow>
       header_values (rq_headers (sr_request signed)) n = header_values (ri_extra_headers inputs) n"
proof -
  let ?request = "\<lparr>rq_method = ''POST'', rq_target_uri = target, rq_headers = (''content-type'', ''application/json'') # ri_extra_headers inputs,
       rq_body = to_vec J (request_envelope (Some rpc_id) m params)\<rparr>"
  let ?block = "evidence_block inputs"
  note b = build_steps [OF built [unfolded build_signed_request_def]]
  from b(4) obtain body where body: "insert_meta_block J (rq_body ?request) REQUEST_EVIDENCE_BLOCK_KEY (tv ?block) = Ok body"
    and sign: "sign_request_with_signer L (?request\<lparr>rq_body := body\<rparr>) (local_sig L key) (ri_key_id inputs) (ri_created inputs)
       (ri_expires inputs) (ri_nonce inputs) = (sr_request signed, Ok (sr_evidence signed))"
    by (auto simp: sign_request_full_def sign_request_def split: sum.splits)
  have other: "\<not> header_named n (''content-type'', v)" if "n \<in> set conditionally_covered_request_headers" for n v
    using that by (auto simp: header_named_def eq_ignore_ascii_case_def covered_names lowercase_names)
  have "header_values (rq_headers (?request\<lparr>rq_body := body\<rparr>)) MCP_METHOD_HEADER = []"
    using extra(2) other [of MCP_METHOD_HEADER] by (simp add: covered_names)
  from signed_request_accepted [where J = J and resolve = resolve and actor = actor, OF sign lib(1,2) _ _ this policy window actor(1,2)]
    local_sig_verifies [OF lib(1,3,4)] json_content_type [OF extra(1)] actor(3)
  obtain fl where fl: "floor_request L J (sr_request signed) resolve policy now = Ok fl" "fl_evidence fl = sr_evidence signed"
    "fl_resolved_actor fl = actor" "fl_nonce fl = ri_nonce inputs" "fl_expires fl = ri_expires inputs" by auto
  from fl(1) have "fl_profile_id fl = PROFILE_TAG" by (rule floor_request_steps)
  moreover have signed: "rq_target_uri (sr_request signed) = target" "rq_body (sr_request signed) = body"
    using sign by (rule sign_request_steps, simp)+
  moreover have "extract_meta_block J from_value body REQUEST_EVIDENCE_BLOCK_KEY ''request evidence block'' = Ok ?block"
    by (simp add: extract_inserted_block [OF body serde(1)] serde(2))
  moreover have "header_values (rq_headers (sr_request signed)) n = header_values (ri_extra_headers inputs) n"
    if "n \<in> set conditionally_covered_request_headers" for n
    using sign by (rule sign_request_steps) (use that other in \<open>auto simp: signed_header_values(5) [OF refl that]\<close>)
  ultimately show thesis
    using fl b(1,3)
    by (intro that [of "\<lparr>vr_floor = fl, vr_audience = block_audience ?block, vr_audience_hash = audience_tuple_hash L (block_audience ?block),
        vr_request_block = ?block\<rparr>"])
      (simp_all add: full_request_def enforce_full_profile_bindings_def evidence_block_def)
qed

subsection \<open>The credential at the verifier\<close>

lemma bearer_read:
  "authorization_bearer_bytes hs = (case header_values hs ''authorization'' of [] \<Rightarrow> None | v # _ \<Rightarrow> bearer_token v)"
proof -
  have "find (\<lambda>(k, _). eq_ignore_ascii_case k ''authorization'') hs =
      (case filter (header_named ''authorization'') hs of [] \<Rightarrow> None | kv # _ \<Rightarrow> Some kv)"
    by (induction hs) (auto simp: header_named_def)
  then show ?thesis by (simp add: authorization_bearer_bytes_def split: list.splits)
qed

lemma bearer_token_of: "bearer_token (''Bearer '' @ token) = (if trim token = [] then None else Some (trim token))"
  using strip_prefix_append [of "''Bearer ''" token] by (simp add: bearer_token_def)

lemma dpop_checked:
  assumes "b64_ok L" "sha256_ok L" "url_token L" "header_values (rq_headers request) ''authorization'' = [''Bearer '' @ token]"
  shows "enforce_bindings L request block material (opaque_digest L OauthDpop token # bs) =
     (if trim token \<noteq> [] \<and> sha256_b64url L (trim token) = sha256_b64url L token
      then enforce_bindings L request block material bs else Err HttpProfileError.ArtifactBindingFailed)"
proof -
  let ?b = "opaque_digest L OauthDpop token"
  have b: "artifact_type ?b = OauthDpop" "binding_type ?b = OpaqueDigest" "ab_digest_value ?b = sha256_b64url L token"
    by (simp_all add: opaque_digest_def sha256_b64url_def)
  have "authorization_bearer_bytes (rq_headers request) = (if trim token = [] then None else Some (trim token))"
    unfolding bearer_read assms(4) list.case by (rule bearer_token_of)
  then show ?thesis
    using b opaque_digest_valid [OF assms(1-3), of OauthDpop token]
    by (simp add: pdp_decision_evidence_def resolve_artifact_credential_def verify_artifact_binding_def verify_typed_def
        expect_type_def compare_digest_def)
qed

text \<open>
  C18. The credential check at the serving side. For a request whose \<open>Authorization\<close> header is the one a
  token gives rise to, the DPoP binding minted from that token passes the artifact check exactly when
  the token is more than white space and its digest is that of the token without the white space around
  it. An empty or blank token is refused there as an artifact that does not bind.
\<close>

theorem dpop_binding_served:
  assumes "b64_ok L" "sha256_ok L" "url_token L"
    and "header_values (rq_headers request) ''authorization'' = [authorization_header_value (DpopCredential token)]"
  shows "enforce_bindings L request block material [dpop_binding L (DpopCredential token)] =
     (if trim token \<noteq> [] \<and> sha256_b64url L (trim token) = sha256_b64url L token then Ok ()
      else Err HttpProfileError.ArtifactBindingFailed)"
  using dpop_checked [OF assms(1-3), of request token block material "[]"] assms(4) by simp

subsection \<open>The SDK's request at the verifier\<close>

lemma decision_checked:
  assumes "b64_ok L" "sha256_ok L" "url_token L" "authorization_decision block = Some jws"
  shows "enforce_bindings L request block material [opaque_digest L PdpDecision jws] = Ok ()"
proof -
  let ?b = "opaque_digest L PdpDecision jws"
  have "artifact_type ?b = PdpDecision" "binding_type ?b = OpaqueDigest" "ab_digest_value ?b = sha256_b64url L jws"
    by (simp_all add: opaque_digest_def sha256_b64url_def)
  then show ?thesis
    using assms(4) opaque_digest_valid [OF assms(1-3), of PdpDecision jws]
    by (simp add: pdp_decision_evidence_def verify_pdp_decision_binding_def sha256_b64url_def)
qed

lemma sdk_request_builds:
  fixes inputs :: "'adm RequestSigningInputs"
  assumes lib: "b64_ok L" "b64_alphabet L" "ed25519_ok L" "length (sk_inner key) = 32"
    and valid: "request_block_validate L (evidence_block inputs) PROFILE_TAG = Ok ()"
    and inputs: "target_uri (ri_audience inputs) = target" "ri_extra_headers inputs = [(''Authorization'', ''Bearer '' @ token)]"
      "ri_created inputs < ri_expires inputs" "MIN_NONCE_CHARS \<le> length (ri_nonce inputs)"
    and strings: "list_all sf_char (ri_nonce inputs)" "length (ri_nonce inputs) \<le> MAX_NONCE_CHARS" "list_all sf_char (ri_key_id inputs)"
      "one_line target" "one_line token"
    and json: "json_roundtrip J" "reject_unrepresentable_json J (to_vec J (request_envelope (Some rpc_id) m params)) = Ok ()"
  shows "\<exists>signed. build_signed_request L J tv rpc_id m params target inputs key = Ok signed"
proof -
  let ?hs = "[(''content-type'', ''application/json''), (''Authorization'', ''Bearer '' @ token)]"
  let ?body = "to_vec J (request_envelope (Some rpc_id) m params)"
  from json obtain body where body: "insert_meta_block J ?body REQUEST_EVIDENCE_BLOCK_KEY (tv (evidence_block inputs)) = Ok body"
    by (simp add: insert_meta_block_def json_roundtrip_def request_envelope_def META_KEY_def)
  define r where "r = \<lparr>rq_method = ''POST'', rq_target_uri = target, rq_headers = ?hs, rq_body = body\<rparr>"
  have lower: "to_ascii_lowercase ''Authorization'' = ''authorization''" by code_simp
  have vals: "header_values (rq_headers r) n = (if n = ''authorization'' then [''Bearer '' @ token] else [])"
    if "n \<in> set conditionally_covered_request_headers" for n
    using that by (auto simp: r_def header_named_def eq_ignore_ascii_case_def lowercase_names lower covered_names)
  have ct: "length (header_values (rq_headers r) ''content-type'') = 1"
    by (simp add: r_def header_named_def eq_ignore_ascii_case_def lowercase_names lower)
  have "\<not> eq_ignore_ascii_case ''content-type'' ''content-encoding''" "\<not> eq_ignore_ascii_case ''Authorization'' ''content-encoding''"
    by code_simp+
  then have enc: "reject_content_encoding (rq_headers r) = Ok ()" by (simp add: r_def)
  have lines: "one_line (rq_method r)" "one_line (rq_target_uri r)" "\<forall>kv\<in>set (rq_headers r). one_line (snd kv)"
    using strings(4,5) by (auto simp: r_def one_line_def)
  have sig: "\<exists>sig. local_sig L key base = Ok sig \<and> length sig = 64" for base
    using lib by (simp add: local_sig_def sign_b64url_def ed25519_ok_def)
  have once: "\<forall>n\<in>set conditionally_covered_request_headers. length (header_values (rq_headers r) n) \<le> 1"
    using vals by simp
  obtain signed ev where "sign_request_with_signer L r (local_sig L key) (ri_key_id inputs) (ri_created inputs) (ri_expires inputs)
      (ri_nonce inputs) = (signed, Ok ev)"
    using request_signs [where sign_base = "local_sig L key" and request = r and created = "ri_created inputs" and expires = "ri_expires inputs",
        OF lib(2) sig enc once ct lines strings(1-3)] by blast
  then show ?thesis
    using valid inputs body
    by (simp add: build_signed_request_def build_signed_request_with_def sign_request_full_def sign_request_def Let_def r_def)
qed

text \<open>
  C16. What the SDK signs, the proxy's verifier accepts. Take a request with a DPoP token that has no white
  space around it and, if given, an authorization decision; a nonce of 22 to 256 printable characters; and a
  window that is open. The request is built, and the full profile accepts it for the audience it was made
  for, resolving the signer's key and reading the very block, nonce and evidence the client
  holds.
\<close>

theorem sdk_request_accepted:
  fixes inputs :: "'adm RequestSigningInputs"
  assumes lib: "b64_ok L" "b64_alphabet L" "sha256_ok L" "url_token L" "ed25519_ok L" "length (sk_inner key) = 32"
    and inputs: "signing_inputs L key_id aud_id target route_label token nonce created expires pa pv ia iv st
        \<lparr>pa_bindings = [], pa_decision = decision\<rparr> = Ok inputs"
    and token: "trim token = token" "one_line token"
      and short: "\<forall>jws. decision = Some jws \<longrightarrow> length jws \<le> MAX_AUTHORIZATION_DECISION_LEN"
    and strings: "MIN_NONCE_CHARS \<le> length nonce" "length nonce \<le> MAX_NONCE_CHARS" "list_all sf_char nonce" "list_all sf_char key_id"
      "one_line target"
    and serde: "json_roundtrip J" "from_value (tv (evidence_block inputs)) = Some (evidence_block inputs)"
      "reject_unrepresentable_json J (to_vec J (request_envelope (Some rpc_id) m params)) = Ok ()"
    and policy: "policy_mcp_transport policy = None" "Ed25519 \<in> set (algorithms policy)"
    and window: "is_i64 created" "is_i64 expires" "window_admits created expires now (max_clock_skew policy)"
      "saturating_sub expires created \<le> max_signature_validity policy"
    and actor: "resolve key_id RequestSlot = Resolved actor" "slot actor = RequestSlot" "verification_key actor = public_key L key"
  shows "\<exists>signed v. build_signed_request L J tv rpc_id m params target inputs key = Ok signed
    \<and> full_request L J from_value (sr_request signed) (ri_audience inputs) material resolve policy now = Ok v
    \<and> vr_request_block v = evidence_block inputs \<and> fl_evidence (vr_floor v) = sr_evidence signed
    \<and> fl_nonce (vr_floor v) = nonce \<and> fl_resolved_actor (vr_floor v) = actor"
  using inputs
proof (rule signing_inputs_Ok)
  assume i: "token \<noteq> []" "ri_key_id inputs = key_id" "ri_audience inputs = \<lparr>audience_id = aud_id, target_uri = target, route = route_label\<rparr>"
    "ri_nonce inputs = nonce" "ri_created inputs = created" "ri_expires inputs = expires"
    "ri_artifact_bindings inputs = opaque_digest L OauthDpop token # pa_bindings \<lparr>pa_bindings = [], pa_decision = decision\<rparr>
       @ (case pa_decision \<lparr>pa_bindings = [], pa_decision = decision\<rparr> of Some jws \<Rightarrow> [opaque_digest L PdpDecision jws] | None \<Rightarrow> [])"
    "ri_extra_headers inputs = [(''Authorization'', ''Bearer '' @ token)]" "ri_admission inputs = None"
    "map_option snd (ri_authorization_decision inputs) = pa_decision \<lparr>pa_bindings = [], pa_decision = decision\<rparr>"
  have valid: "request_block_validate L (evidence_block inputs) PROFILE_TAG = Ok ()"
    by (rule sdk_block(1) [OF lib(1,3,4) _ i(7,9,10)]) (use short in simp_all)
  have "created < expires" using window(3) by (simp add: window_admits_def)
  then obtain signed where built: "build_signed_request L J tv rpc_id m params target inputs key = Ok signed"
    using sdk_request_builds [OF lib(1,2,5,6) valid _ i(8), of target J rpc_id m params tv] i strings token serde by auto
  have lower: "to_ascii_lowercase ''Authorization'' = ''authorization''" by code_simp
  have extra: "header_values (ri_extra_headers inputs) ''content-type'' = []" "header_values (ri_extra_headers inputs) MCP_METHOD_HEADER = []"
    "header_values (ri_extra_headers inputs) ''authorization'' = [''Bearer '' @ token]"
    by (simp_all add: i(8) header_named_def eq_ignore_ascii_case_def lowercase_names lower MCP_METHOD_HEADER_def)
  obtain v where v: "full_request L J from_value (sr_request signed) (ri_audience inputs) material resolve policy now
       = try_bind (enforce_bindings L (sr_request signed) (evidence_block inputs) material (ri_artifact_bindings inputs)) (\<lambda>_. Ok v)"
    "vr_request_block v = evidence_block inputs" "fl_evidence (vr_floor v) = sr_evidence signed" "fl_resolved_actor (vr_floor v) = actor"
    "fl_nonce (vr_floor v) = nonce"
    and hs: "header_values (rq_headers (sr_request signed)) ''authorization'' = [''Bearer '' @ token]"
  proof (rule built_request_verified [where from_value = from_value and resolve = resolve and policy = policy and now = now
        and material = material, OF built lib(1,2,5,6) serde(1,2) extra(1,2) policy window [folded i(5,6)] actor(1) [folded i(2)] actor(2,3)])
    fix v
    assume "full_request L J from_value (sr_request signed) (ri_audience inputs) material resolve policy now
       = try_bind (enforce_bindings L (sr_request signed) (evidence_block inputs) material (ri_artifact_bindings inputs)) (\<lambda>_. Ok v)"
      "vr_request_block v = evidence_block inputs" "fl_evidence (vr_floor v) = sr_evidence signed" "fl_resolved_actor (vr_floor v) = actor"
      "fl_nonce (vr_floor v) = ri_nonce inputs"
      "\<And>n. n \<in> set conditionally_covered_request_headers \<Longrightarrow>
        header_values (rq_headers (sr_request signed)) n = header_values (ri_extra_headers inputs) n"
    then show thesis using extra(3) i(4) by (intro that [of v]) (simp_all add: covered_names)
  qed
  have "enforce_bindings L (sr_request signed) (evidence_block inputs) material (ri_artifact_bindings inputs) = Ok ()"
  proof -
    have "authorization_decision (evidence_block inputs) = decision" using i(10) by (simp add: evidence_block_def)
    then have "enforce_bindings L (sr_request signed) (evidence_block inputs) material
        (case decision of Some jws \<Rightarrow> [opaque_digest L PdpDecision jws] | None \<Rightarrow> []) = Ok ()"
      using decision_checked [OF lib(1,3,4)] by (cases decision) (simp_all del: enforce_bindings.simps(2))
    then show ?thesis using i(1,7) token(1) by (simp add: dpop_checked [OF lib(1,3,4) hs] del: enforce_bindings.simps(2))
  qed
  with built v show ?thesis by auto
qed

section \<open>A request of a client\<close>

definition client_nonce :: string where "client_nonce = ''AAAAAAAAAAAAAAAAAAAAAAA''"

definition client_audience :: AudienceTuple where
  "client_audience = \<lparr>audience_id = ''a'', target_uri = ''https://example.com/mcp'', route = None\<rparr>"

definition client_inputs :: "'adm RequestSigningInputs" where
  "client_inputs = with_authorization_decision letter_lib ''d''
     (with_headers [(''Authorization'', ''Bearer tok'')]
       (inputs_new ''k'' client_audience [opaque_digest letter_lib OauthDpop ''tok''] client_nonce 100 200))"

definition client_actor :: ResolvedActor where
  "client_actor = \<lparr>identity = \<lparr>role = ''client'', trust_domain = ''example.com'', subject = ''a'', keyid = ''k''\<rparr>,
     verification_key = public_key letter_lib sample_key, slot = RequestSlot\<rparr>"

definition client_provider :: "string \<Rightarrow> BindingSpec list option" where
  "client_provider _ = Some
     [\<lparr>bs_artifact_type = OauthMtls, bs_form = OpaqueBytes, bs_material_b64url = url_encode letter_lib ''cert'',
       bs_authorization_system_id = None, bs_reference_scheme_id = None, bs_reference_value = None\<rparr>,
      \<lparr>bs_artifact_type = PdpDecision, bs_form = AuthorizationDecision, bs_material_b64url = url_encode letter_lib ''d'',
       bs_authorization_system_id = None, bs_reference_scheme_id = None, bs_reference_value = None\<rparr>]"

lemma letter_lib_token: "url_token letter_lib"
proof -
  have "is_ascii_alphanumeric x" if "x \<in> set (letters c)" for x c using letters_range [OF that] by (auto simp: is_ascii_alphanumeric_def)
  moreover have "concat (map letters b) = [] \<longleftrightarrow> b = []" for b by (auto simp: letters_def)
  ultimately show ?thesis by (auto simp: url_token_def is_b64url_no_pad_def letter_lib_def list_all_iff)
qed

lemma client_inputs_signing:
  "signing_inputs letter_lib ''k'' ''a'' ''https://example.com/mcp'' None ''tok'' client_nonce 100 200 None None None None None
     \<lparr>pa_bindings = [], pa_decision = Some ''d''\<rparr> = Ok (client_inputs :: 'adm RequestSigningInputs)"
  by (simp add: signing_inputs_def client_inputs_def client_audience_def dpop_present_def from_optional_def)

lemma client_strings:
  "trim ''tok'' = ''tok''" "one_line ''tok''" "MIN_NONCE_CHARS \<le> length client_nonce" "length client_nonce \<le> MAX_NONCE_CHARS"
  "list_all sf_char client_nonce" "list_all sf_char ''k''" "one_line ''https://example.com/mcp''"
  unfolding client_nonce_def by code_simp+

theorem sdk_request_accepted_witness:
  "\<exists>signed v. build_signed_request letter_lib demo_json (\<lambda>_. JNull) JNull ''tools/list'' [] ''https://example.com/mcp''
       (client_inputs :: unit RequestSigningInputs) sample_key = Ok signed
    \<and> full_request letter_lib demo_json (\<lambda>_. Some (evidence_block (client_inputs :: unit RequestSigningInputs))) (sr_request signed)
        client_audience (\<lambda>_. None) (\<lambda>_ _. Resolved client_actor) policy_default 150 = Ok v
    \<and> fl_nonce (vr_floor v) = client_nonce"
proof -
  have "length (sk_inner sample_key) = 32" by (simp add: sample_key_def from_seed_bytes_def)
  moreover have "ri_audience (client_inputs :: unit RequestSigningInputs) = client_audience"
    by (simp add: client_inputs_def with_authorization_decision_def with_headers_def inputs_new_def Let_def)
  ultimately show ?thesis
    using sdk_request_accepted [where from_value = "\<lambda>_. Some (evidence_block (client_inputs :: unit RequestSigningInputs))"
        and tv = "\<lambda>_. JNull" and resolve = "\<lambda>_ _. Resolved client_actor" and policy = policy_default and now = 150
        and material = "\<lambda>_. None" and key = sample_key and J = demo_json and rpc_id = JNull and m = "''tools/list''" and params = "[]",
        OF letter_lib_ok(1,2,5) letter_lib_token letter_lib_ok(3) _ client_inputs_signing client_strings(1,2) _ client_strings(3-7)
          demo_json_roundtrip _ demo_json_representable sample_request_shape(5-8,3,4)]
    by (simp add: client_actor_def MAX_AUTHORIZATION_DECISION_LEN_def) blast
qed


theorem dpop_binding_served_witness:
  "enforce_bindings letter_lib \<lparr>rq_method = ''POST'', rq_target_uri = ''u'', rq_headers = [(''Authorization'', ''Bearer '')], rq_body = []\<rparr>
     (evidence_block (client_inputs :: unit RequestSigningInputs)) (\<lambda>_. None) [dpop_binding letter_lib (DpopCredential [])] = Err HttpProfileError.ArtifactBindingFailed"
proof -
  have "to_ascii_lowercase ''Authorization'' = ''authorization''" "trim [] = []" by code_simp+
  then show ?thesis
    by (subst dpop_binding_served [OF letter_lib_ok(1,5) letter_lib_token])
      (simp_all add: header_named_def eq_ignore_ascii_case_def lowercase_names)
qed

end
