(* ===== verification/Spec2Isabelle.thy ===== *)
theory Spec2Isabelle
  imports Core_Error Core_Time Core_Trust Sf_Spelling Exchange Merkle Admission_State Serve_Sample Manifest_Floor Client_Request
begin

text \<open>
  A verification library for \<open>mcp-re\<close>, which makes the requests and responses of the Model Context
  Protocol verifiable. A client signs every request as an HTTP message signature over the request's own
  components. A proxy in front of an MCP server verifies the signature, the evidence block in the body, the
  freshness of the request, the standing and the authorization of its sender, hands the request to the inner
  server at most once, and signs whatever it answers with a short-lived key that a root key has delegated to
  it. The client verifies the answer down to that root.

  \<^bold>\<open>The crates and how they interact.\<close> \<open>mcp-re-core\<close> holds the vocabulary both sides share: error codes, time
  stamps, encodings, keys, the trust resolver and the replay cache. \<open>mcp-re-http-profile\<close> holds the protocol:
  parsing and building signatures, verification, signing, evidence blocks, delegation credentials and their
  custody, admissions, authorization decisions, rejections, bodyless messages. \<open>mcp-re-proxy\<close> holds the serving
  path, \<open>HttpProfileProxy::handle\<close>, which calls all of these in a fixed order and answers every request.
  \<open>mcp-re-client-core\<close> builds the requests and keeps the roots a client trusts, and \<open>mcp-re-client-proxy\<close> keeps the
  version floor below which a client takes no manifest of roots.

  \<^bold>\<open>Conventions.\<close> A fallible function returns a value of a sum type, \<open>Err\<close> or \<open>Ok\<close>, and \<open>try_bind\<close> is the \<open>?\<close>
  of the source (\<open>Prelude\<close>). An \<open>i64\<close> is an integer with the saturating and checked operations written out; a
  \<open>usize\<close> or \<open>u64\<close> is a natural number, with its saturation where the code relies on it. Strings and byte
  sequences are lists of characters. Maps whose order matters are association lists. A function that mutates
  its argument returns the new value next to its result. Code outside the sources (SHA-256, base64, Ed25519,
  the JSON reader and writer and the derived serializers) is a record of functions that the definitions take
  as an argument (\<open>crypto_lib\<close>, \<open>json_lib\<close>, \<open>jws_lib\<close>, \<open>admission_lib\<close>, \<open>serve_lib\<close>); what a theorem needs of
  them is a named hypothesis (\<open>b64_ok\<close>, \<open>ed25519_ok\<close>, \<open>sha256_ok\<close>, \<open>serde_ok\<close>, \<open>json_roundtrip\<close>), and the sample
  libraries of the witnesses satisfy those hypotheses.

  \<^bold>\<open>Core.\<close> \<open>Core_Error\<close>, \<open>Core_Calendar\<close>, \<open>Core_Time\<close>, \<open>Core_Crypto\<close>, \<open>Core_Trust\<close> and \<open>Replay\<close> model
  \<open>mcp-re-core/src/\<close> and the shared cache of \<open>mcp-re-proxy/src/shared_replay.rs\<close>. Shown: printing and parsing a
  time stamp are inverse; the resolver refines an abstract registry; a cache accepts a nonce once while it is
  retained and never exceeds its ceiling.

  \<^bold>\<open>Signed fields.\<close> \<open>Http_Message\<close> and \<open>Sf_Fields\<close> model messages, digests, the signature base and the parser of
  \<open>Signature-Input\<close>. \<open>Sf_Properties\<close> shows that a serialized value parses back, \<open>Sf_Spelling\<close> that a printable
  accepted value has one spelling, and a second spelling with other white space; \<open>Sf_Base\<close> that equal bases
  come from equal covered values.

  \<^bold>\<open>Bodies and blocks.\<close> \<open>Json_Body\<close>, \<open>Json_Strip\<close> and \<open>Evidence_Block\<close> model the body scanner, the JSON-RPC
  envelopes, the removal of reserved keys and the evidence blocks. Shown: an accepted reply answers the
  outstanding request; no reserved key survives; the context the inner server reads is the proxy's.

  \<^bold>\<open>Verification and signing.\<close> \<open>Floor\<close> models the floor and the full profile, \<open>Sign\<close> the signers. \<open>Floor_Sound\<close>
  shows what an accepted message is known to be; \<open>Sign_Accepted\<close> that what is signed is accepted. \<open>Rejection\<close>
  and \<open>Bodyless\<close> model signed refusals and the signed acknowledgement of a notification.

  \<^bold>\<open>Replay and dispatch.\<close> \<open>Dispatch\<close> and \<open>Dispatch_Once\<close> model the dispatch boundary of the profile and show
  that a verified request is dispatched at most once. \<open>Async_Replay\<close> models the replay tier of the proxy; its
  locale \<open>atomic_store\<close> is the contract of a store, interpreted on the in-memory store and on the fast-reject
  set in front of one. \<open>Continuation_Store\<close> shows that an open leg is answered at most once.

  \<^bold>\<open>Delegation.\<close> \<open>Delegation\<close> models credentials and the delegated verifiers, \<open>Custody\<close> the issuance, rotation and
  pacing of the delegated key over any root; the locale \<open>custody_property\<close> is what every operation of a
  custody keeps. \<open>Delegation_Accepted\<close> shows that what a custody signs a client accepts.

  \<^bold>\<open>Standing.\<close> \<open>Admission\<close> and \<open>Admission_State\<close> model admissions, the authority's records of them, and
  authorization decisions.

  \<^bold>\<open>Serving.\<close> \<open>Exchange\<close> models the state machine of an exchange with its latches and its retry contract.
  \<open>Serve_Stages\<close> and \<open>Serve\<close> model \<open>HttpProfileProxy::handle\<close> with every stage, every refusal and every receipt.
  The stores, the inner server, the evaluator, the admission source, the signer, the retention and the audit
  sink are capabilities of the proxy: functions over a world whose type is a parameter, so that a theorem
  holds for every behaviour of them. \<open>Serve_Trace\<close> records the calls of the capabilities in a log and shows
  that serving is bounded. \<open>Serve_Sound\<close> shows what the log says before the dispatch, \<open>Serve_Refusal\<close> what the
  answers say after it, and \<open>Serve_Sample\<close> is a concrete exchange.

  \<^bold>\<open>Clients.\<close> \<open>Client_Request\<close> models how a client assembles and signs a request, from the SDK's scalars and a provider's
  list to the signed message, and shows that the result is what the full profile accepts. \<open>Client_Trust\<close> models the
  roots of a client and the signed manifest they come from, and shows that a root that resolves is one the manifest
  vouches for; its locale \<open>version_floor\<close> is the contract of a store of the highest version accepted, interpreted on
  the in-memory floor. \<open>Manifest_Floor\<close> models the durable floor, a directory of markers: \<open>record\<close> is a machine
  between two calls of the file system. It is run alone with failing calls, where it interprets the same locale, so
  that no older manifest is accepted; and interleaved with other writers, where no marker that was reached is lost,
  although an enumeration beside a writer may miss it.

  \<^bold>\<open>Transparency.\<close> \<open>Merkle\<close> models inclusion proofs: the proof the log computes is accepted, and an accepted
  proof shows the entry the log holds at that index or exhibits a collision of the hash.

  \<^bold>\<open>Bounds.\<close> No definition uses fuel. The run of \<open>record\<close> on a directory ends because its stage falls and then the
  number of markers to remove. Loops over a list are structural recursions; the recursions that are not
  structural (the JSON scan, the Merkle tree, the removal of repeated prefixes) have termination proofs. The loop that records
  an open leg is bounded by the constant of the source.

  \<^bold>\<open>Not modelled.\<close> The command line and the deployment validation (text and files of the environment); TLS,
  certificates, OCSP and revocation lists, which work on structures of \<open>rustls\<close> and \<open>x509\<close>; cloud and hardware
  key custody and the drivers of Redis and etcd, whose behaviour is that of the remote service; the asynchronous
  runtime, so that the interleaving of two exchanges is visible only through the world of the capabilities; the
  rendering of audit records and operator diagnostics as text; the counters of the metrics; the
  client's choice between the modelled response verifiers and its conversion of a verified answer to a plain one; and the
  conformance vectors and demos, which are test material.
\<close>

end
